(* ===== verification/Prelude.thy ===== *)
theory Prelude
  imports Main "HOL-Library.Sublist" "HOL-Library.List_Lexorder" "HOL-Library.Char_ord"
begin

text \<open>
  Shared ground of the development: the collections of rules the components fill, the generic
  facts on lists that several components use, and the contract of a normalising function.
  Nothing here mentions the program.
\<close>

section \<open>Rule collections\<close>

text \<open>
  \<open>trim_simps\<close> collects the characteristic equations of the trimming functions; \<open>triple_intro\<close> the
  rules by which program fragments leave a function or run on.
\<close>

named_theorems trim_simps "characteristic facts of trimming"
named_theorems triple_intro "triples of the fragments of a component"

section \<open>Trimming a list at both ends\<close>

definition trimBy :: "('a \<Rightarrow> bool) \<Rightarrow> 'a list \<Rightarrow> 'a list" where
  "trimBy P xs = rev (dropWhile P (rev (dropWhile P xs)))"

definition trimRightBy :: "('a \<Rightarrow> bool) \<Rightarrow> 'a list \<Rightarrow> 'a list" where
  "trimRightBy P xs = rev (dropWhile P (rev xs))"

text \<open>A list is tight when trimming has nothing to remove at either end.\<close>

definition tight :: "('a \<Rightarrow> bool) \<Rightarrow> 'a list \<Rightarrow> bool" where
  "tight P xs \<longleftrightarrow> xs = [] \<or> (\<not> P (hd xs) \<and> \<not> P (last xs))"

lemma trimBy_Nil [simp]: "trimBy P [] = []"
  by (simp add: trimBy_def)

lemma trimBy_subset: "set (trimBy P xs) \<subseteq> set xs"
  by (auto simp: trimBy_def dest!: set_dropWhileD)

lemma trimRightBy_subset: "set (trimRightBy P xs) \<subseteq> set xs"
  by (auto simp: trimRightBy_def dest!: set_dropWhileD)

lemma length_trimBy: "length (trimBy P xs) \<le> length xs"
  unfolding trimBy_def by (metis length_dropWhile_le length_rev order_trans)

lemma length_trimRightBy: "length (trimRightBy P xs) \<le> length xs"
  unfolding trimRightBy_def by (metis length_dropWhile_le length_rev)

lemma tight_trimBy_id [trim_simps]: "tight P xs \<Longrightarrow> trimBy P xs = xs"
proof (cases "xs = []")
  case False
  assume "tight P xs"
  with False have "dropWhile P xs = xs" "dropWhile P (rev xs) = rev xs"
    by (auto simp: tight_def hd_rev dropWhile_eq_self_iff)
  then show ?thesis by (simp add: trimBy_def)
qed simp

lemma last_trimRightBy: "trimRightBy P xs \<noteq> [] \<Longrightarrow> \<not> P (last (trimRightBy P xs))"
  by (simp add: trimRightBy_def last_rev hd_dropWhile)

lemma prefix_trimRightBy: "prefix (trimRightBy P xs) xs"
  by (metis trimRightBy_def suffix_dropWhile suffix_to_prefix rev_rev_ident)

lemma hd_trimRightBy: "trimRightBy P xs \<noteq> [] \<Longrightarrow> hd (trimRightBy P xs) = hd xs"
  by (metis prefix_trimRightBy prefixE hd_append2)

lemma trimBy_alt: "trimBy P xs = trimRightBy P (dropWhile P xs)"
  by (simp add: trimBy_def trimRightBy_def)

lemma trimBy_infix: "\<exists>pre suf. xs = pre @ trimBy P xs @ suf"
proof -
  obtain suf where "dropWhile P xs = trimBy P xs @ suf"
    using prefix_trimRightBy [of P "dropWhile P xs"] by (auto simp: trimBy_alt elim: prefixE)
  then have "xs = takeWhile P xs @ trimBy P xs @ suf"
    by (metis takeWhile_dropWhile_id)
  then show ?thesis by blast
qed

lemma tight_trimBy [simp]: "tight P (trimBy P xs)"
proof (cases "trimBy P xs = []")
  case False
  then have ne: "dropWhile P xs \<noteq> []"
    unfolding trimBy_def by (metis dropWhile.simps(1) rev.simps(1))
  with False have "hd (trimBy P xs) = hd (dropWhile P xs)"
    by (simp add: trimBy_alt hd_trimRightBy)
  with ne False show ?thesis
    by (simp add: tight_def hd_dropWhile last_trimRightBy trimBy_alt)
qed (simp add: tight_def)

lemma trimBy_idem [simp]: "trimBy P (trimBy P xs) = trimBy P xs"
  by (simp add: trim_simps)

lemma trimBy_fixed_iff: "trimBy P xs = xs \<longleftrightarrow> tight P xs"
  by (metis tight_trimBy tight_trimBy_id)

lemma trimBy_padded:
  assumes "list_all P l" "list_all P r" "list_all (\<lambda>x. \<not> P x) m" "m \<noteq> []"
  shows "trimBy P (l @ m @ r) = m"
proof -
  have "dropWhile P (l @ m @ r) = m @ r"
    using assms by (cases m) (simp_all add: dropWhile_append2 list_all_iff)
  moreover have "dropWhile P (rev r @ rev m) = rev m"
    using assms dropWhile_append2 [of "rev r" P "rev m"] by (cases m rule: rev_cases) (auto simp: list_all_iff)
  ultimately show ?thesis by (simp add: trimBy_def)
qed

lemma trimBy_eq_Nil_iff: "trimBy P xs = [] \<longleftrightarrow> (\<forall>x \<in> set xs. P x)"
proof
  assume "trimBy P xs = []"
  then have "\<forall>x \<in> set (dropWhile P xs). P x"
    by (simp add: trimBy_def)
  then show "\<forall>x \<in> set xs. P x"
    by (metis dropWhile_eq_Nil_conv hd_dropWhile list.set_sel(1))
next
  assume "\<forall>x \<in> set xs. P x"
  then have "dropWhile P xs = []" by (simp add: dropWhile_eq_Nil_conv)
  then show "trimBy P xs = []"
    unfolding trimBy_def by (metis dropWhile.simps(1) rev.simps(1))
qed

lemma trimBy_neq_Nil: "x \<in> set xs \<Longrightarrow> \<not> P x \<Longrightarrow> trimBy P xs \<noteq> []"
  by (auto simp: trimBy_eq_Nil_iff)

lemma tight_map: "(\<And>x. P (f x) = P x) \<Longrightarrow> tight P (map f xs) = tight P xs"
  by (cases "xs = []") (auto simp: tight_def hd_map last_map)

section \<open>Cutting at the first separator\<close>

lemma takeWhile_sep: "d \<notin> set xs \<Longrightarrow> takeWhile (\<lambda>c. c \<noteq> d) (xs @ d # ys) = xs"
  by (induction xs) auto

lemma dropWhile_sep: "d \<notin> set xs \<Longrightarrow> dropWhile (\<lambda>c. c \<noteq> d) (xs @ d # ys) = d # ys"
  by (induction xs) auto

section \<open>The contract of a normalising function\<close>

text \<open>
  Most of the program's string handling passes values through a normaliser (trim, lower-case,
  clean) before they are compared or stored. What the users of such a function rely on is that a
  second pass changes nothing.
\<close>

locale normalizer =
  fixes norm :: "'a \<Rightarrow> 'a"
  assumes idem [simp]: "norm (norm x) = norm x"
begin

lemma fixed_iff_range: "norm y = y \<longleftrightarrow> (\<exists>x. y = norm x)"
  by (metis idem)

lemma map_fixed: "ys = map norm xs \<Longrightarrow> map norm ys = ys"
  by simp

lemma eq_after_norm: "norm x = y \<Longrightarrow> norm y = y"
  by auto

lemma mem_image_iff: "y \<in> norm ` A \<Longrightarrow> norm y = y"
  by auto

end

section \<open>First-match search\<close>

lemma find_SomeD: "find P xs = Some x \<Longrightarrow> P x \<and> x \<in> set xs"
  by (auto simp: find_Some_iff)

lemma find_None_conv: "find P xs = None \<longleftrightarrow> (\<forall>x \<in> set xs. \<not> P x)"
  by (auto simp: find_None_iff)

text \<open>The first element with a property, by the elements in front of it.\<close>

lemma find_first_iff: "find P xs = Some x \<longleftrightarrow> (\<exists>pre post. xs = pre @ x # post \<and> P x \<and> list_all (\<lambda>y. \<not> P y) pre)"
proof (induction xs)
  case (Cons a xs)
  show ?case
  proof (cases "P a")
    case True
    then show ?thesis by (auto simp: Cons_eq_append_conv intro: exI [of _ "[]"])
  next
    case False
    then have "(\<exists>pre post. a # xs = pre @ x # post \<and> P x \<and> list_all (\<lambda>y. \<not> P y) pre)
      \<longleftrightarrow> (\<exists>pre post. xs = pre @ x # post \<and> P x \<and> list_all (\<lambda>y. \<not> P y) pre)" (is "?L \<longleftrightarrow> ?R")
    proof (intro iffI)
      assume ?R
      then obtain pre post where "xs = pre @ x # post" "P x" "list_all (\<lambda>y. \<not> P y) pre" by blast
      with False show ?L by (intro exI [of _ "a # pre"] exI [of _ post]) simp
    qed (auto simp: Cons_eq_append_conv)
    with False Cons show ?thesis by simp
  qed
qed simp

lemma find_cong_set: "(\<And>x. x \<in> set xs \<Longrightarrow> P x = Q x) \<Longrightarrow> find P xs = find Q xs"
  by (induction xs) auto

end
