(* ===== verification/GoStrings.thy ===== *)
theory GoStrings
  imports Prelude
begin

text \<open>
  What the sources use of Go's packages \<open>strings\<close>, \<open>strconv\<close> and \<open>sort\<close>.

  A Go string is a sequence of bytes and so is an Isabelle string, so indices and lengths agree.
  Case mapping and white space follow Go's ASCII tables; a byte above 127 is neither a space nor a
  letter with a case here (image references, Kubernetes names and platforms are ASCII by their own
  grammars; see the header of the root theory).
\<close>

section \<open>Characters\<close>

definition isSpace :: "char \<Rightarrow> bool" where
  "isSpace c \<longleftrightarrow> (let n = (of_char c :: nat) in n = 32 \<or> (9 \<le> n \<and> n \<le> 13))"

definition isUpper :: "char \<Rightarrow> bool" where
  "isUpper c \<longleftrightarrow> (let n = (of_char c :: nat) in 65 \<le> n \<and> n \<le> 90)"

definition lowerChar :: "char \<Rightarrow> char" where
  "lowerChar c = (if isUpper c then char_of ((of_char c :: nat) + 32) else c)"

definition isDigit :: "char \<Rightarrow> bool" where
  "isDigit c \<longleftrightarrow> (let n = (of_char c :: nat) in 48 \<le> n \<and> n \<le> 57)"

section \<open>Package strings\<close>

definition TrimSpace :: "string \<Rightarrow> string" where
  "TrimSpace s = trimBy isSpace s"

definition ToLower :: "string \<Rightarrow> string" where
  "ToLower s = map lowerChar s"

definition Trim :: "string \<Rightarrow> string \<Rightarrow> string" where
  "Trim s cutset = trimBy (\<lambda>c. c \<in> set cutset) s"

definition TrimRight :: "string \<Rightarrow> string \<Rightarrow> string" where
  "TrimRight s cutset = trimRightBy (\<lambda>c. c \<in> set cutset) s"

definition HasPrefix :: "string \<Rightarrow> string \<Rightarrow> bool" where
  "HasPrefix s p \<longleftrightarrow> prefix p s"

definition TrimPrefix :: "string \<Rightarrow> string \<Rightarrow> string" where
  "TrimPrefix s p = (if prefix p s then drop (length p) s else s)"

definition TrimSuffix :: "string \<Rightarrow> string \<Rightarrow> string" where
  "TrimSuffix s p = (if suffix p s then take (length s - length p) s else s)"

text \<open>The position of the first occurrence; Go's \<open>-1\<close> is \<^term>\<open>None\<close>.\<close>

fun Index :: "string \<Rightarrow> string \<Rightarrow> nat option" where
  "Index [] sub = (if sub = [] then Some 0 else None)"
| "Index (c # s) sub = (if prefix sub (c # s) then Some 0 else map_option Suc (Index s sub))"

definition Contains :: "string \<Rightarrow> string \<Rightarrow> bool" where
  "Contains s sub \<longleftrightarrow> Index s sub \<noteq> None"

definition ContainsAny :: "string \<Rightarrow> string \<Rightarrow> bool" where
  "ContainsAny s chars \<longleftrightarrow> list_ex (\<lambda>c. c \<in> set chars) s"

definition EqualFold :: "string \<Rightarrow> string \<Rightarrow> bool" where
  "EqualFold a b \<longleftrightarrow> ToLower a = ToLower b"

text \<open>\<open>Split\<close> and \<open>SplitN(\<dots>, 2)\<close> for a separator of one byte, the only ones the sources use.\<close>

fun Split :: "string \<Rightarrow> char \<Rightarrow> string list" where
  "Split [] d = [[]]"
| "Split (c # s) d = (if c = d then [] # Split s d
     else (case Split s d of [] \<Rightarrow> [[c]] | w # ws \<Rightarrow> (c # w) # ws))"

definition SplitN2 :: "string \<Rightarrow> char \<Rightarrow> string list" where
  "SplitN2 s d = (case Index s [d] of None \<Rightarrow> [s] | Some i \<Rightarrow> [take i s, drop (Suc i) s])"

fun Join :: "string list \<Rightarrow> string \<Rightarrow> string" where
  "Join [] sep = []"
| "Join [w] sep = w"
| "Join (w # v # ws) sep = w @ sep @ Join (v # ws) sep"

text \<open>
  \<open>strings.NewReplacer(\<dots>).Replace\<close>: at every position of the target string the first pair whose old
  string matches there is applied, and the search goes on after the matched text. Old strings are
  not empty in the sources.
\<close>

function Replace :: "(string \<times> string) list \<Rightarrow> string \<Rightarrow> string" where
  "Replace ps [] = []"
| "Replace ps (c # s) =
     (case find (\<lambda>(old, new). old \<noteq> [] \<and> prefix old (c # s)) ps of
        Some (old, new) \<Rightarrow> new @ Replace ps (drop (length old) (c # s))
      | None \<Rightarrow> c # Replace ps s)"
  by pat_completeness auto
termination
  by (relation "measure (\<lambda>(ps, s). length s)")
    (auto dest!: find_SomeD simp: less_Suc_eq_le neq_Nil_conv)

section \<open>Packages strconv and sort\<close>

definition sortStrings :: "string list \<Rightarrow> string list" where
  "sortStrings xs = sort xs"

definition ParseBool :: "string \<Rightarrow> bool option" where
  "ParseBool s =
     (if s \<in> {''1'', ''t'', ''T'', ''TRUE'', ''true'', ''True''} then Some True
      else if s \<in> {''0'', ''f'', ''F'', ''FALSE'', ''false'', ''False''} then Some False
      else None)"

fun digitsVal :: "int \<Rightarrow> string \<Rightarrow> int option" where
  "digitsVal acc [] = Some acc"
| "digitsVal acc (c # s) =
     (if isDigit c then digitsVal (10 * acc + (int (of_char c) - 48)) s else None)"

text \<open>\<open>strconv.Atoi\<close> on a 64-bit platform: an optional sign, digits, and a range check.\<close>

definition Atoi :: "string \<Rightarrow> int option" where
  "Atoi s =
     (let (neg, ds) = (case s of [] \<Rightarrow> (False, [])
                        | c # t \<Rightarrow> if c = CHR ''-'' then (True, t)
                                   else if c = CHR ''+'' then (False, t) else (False, s))
      in if ds = [] then None
         else (case digitsVal 0 ds of None \<Rightarrow> None
               | Some n \<Rightarrow> let v = (if neg then - n else n)
                           in if - (2 ^ 63) \<le> v \<and> v < 2 ^ 63 then Some v else None))"

section \<open>Facts\<close>

subsection \<open>Case\<close>

lemma of_char_lt: "(of_char c :: nat) < 256"
  by simp

lemma lowerChar_not_upper [simp]: "\<not> isUpper (lowerChar c)"
  using of_char_lt [of c] by (auto simp: lowerChar_def isUpper_def Let_def)

lemma lowerChar_idem [simp]: "lowerChar (lowerChar c) = lowerChar c"
  by (metis lowerChar_def lowerChar_not_upper)

lemma lowerChar_id: "\<not> isUpper c \<Longrightarrow> lowerChar c = c"
  by (simp add: lowerChar_def)

lemma isSpace_lowerChar [simp]: "isSpace (lowerChar c) = isSpace c"
  using of_char_lt [of c] by (auto simp: lowerChar_def isUpper_def isSpace_def Let_def)

text \<open>Lower-casing neither creates nor removes a character that is not a letter.\<close>

definition nonLetter :: "char \<Rightarrow> bool" where
  "nonLetter c \<longleftrightarrow> (let n = (of_char c :: nat) in n < 65 \<or> (90 < n \<and> n < 97) \<or> 122 < n)"

lemma lowerChar_nonLetter: "nonLetter d \<Longrightarrow> lowerChar c = d \<longleftrightarrow> c = d"
proof (cases "isUpper c")
  case True
  then have "65 \<le> (of_char c :: nat)" "(of_char c :: nat) \<le> 90"
    by (auto simp: isUpper_def Let_def)
  moreover assume "nonLetter d"
  ultimately have "of_char (lowerChar c) \<noteq> (of_char d :: nat)" "of_char c \<noteq> (of_char d :: nat)"
    using True by (auto simp: lowerChar_def nonLetter_def Let_def)
  then show ?thesis by auto
qed (simp add: lowerChar_def)

lemma nonLetter_symbols [simp]:
  "nonLetter CHR ''/''" "nonLetter CHR ''.''" "nonLetter CHR '':''" "nonLetter CHR ''@''"
  by (simp_all add: nonLetter_def)

lemma set_ToLower_nonLetter: "nonLetter d \<Longrightarrow> d \<in> set (ToLower s) \<longleftrightarrow> d \<in> set s"
  by (simp add: ToLower_def image_iff eq_commute [of d] lowerChar_nonLetter)

lemma takeWhile_ToLower:
  "nonLetter d \<Longrightarrow> takeWhile (\<lambda>c. c \<noteq> d) (ToLower s) = ToLower (takeWhile (\<lambda>c. c \<noteq> d) s)"
  by (simp add: ToLower_def takeWhile_map comp_def lowerChar_nonLetter)

lemma length_ToLower [simp]: "length (ToLower s) = length s"
  by (simp add: ToLower_def)

lemma ToLower_Nil [simp]: "ToLower [] = []"
  by (simp add: ToLower_def)

lemma ToLower_Nil_iff [simp]: "ToLower s = [] \<longleftrightarrow> s = []"
  by (simp add: ToLower_def)

lemma ToLower_append: "ToLower (s @ t) = ToLower s @ ToLower t"
  by (simp add: ToLower_def)

lemma ToLower_fixed: "(\<And>c. c \<in> set s \<Longrightarrow> \<not> isUpper c) \<Longrightarrow> ToLower s = s"
  by (induction s) (auto simp: ToLower_def lowerChar_def)

lemma set_ToLower_not_upper: "c \<in> set (ToLower s) \<Longrightarrow> \<not> isUpper c"
  by (auto simp: ToLower_def)

lemma EqualFold_refl [simp]: "EqualFold a a"
  by (simp add: EqualFold_def)

lemma EqualFold_sym: "EqualFold a b = EqualFold b a"
  by (auto simp: EqualFold_def)

subsection \<open>White space\<close>

lemma TrimSpace_Nil [simp]: "TrimSpace [] = []"
  by (simp add: TrimSpace_def)

lemma TrimSpace_idem [simp]: "TrimSpace (TrimSpace s) = TrimSpace s"
  by (simp add: TrimSpace_def)

lemma TrimSpace_subset: "c \<in> set (TrimSpace s) \<Longrightarrow> c \<in> set s"
  using trimBy_subset by (force simp: TrimSpace_def)

lemma TrimSpace_eq_Nil_iff: "TrimSpace s = [] \<longleftrightarrow> (\<forall>c \<in> set s. isSpace c)"
  by (simp add: TrimSpace_def trimBy_eq_Nil_iff)

lemma TrimSpace_fixed: "(\<And>c. c \<in> set s \<Longrightarrow> \<not> isSpace c) \<Longrightarrow> TrimSpace s = s"
  by (auto simp: TrimSpace_def tight_def intro!: tight_trimBy_id)

lemma TrimSpace_ToLower: "TrimSpace (ToLower s) = ToLower (TrimSpace s)"
proof -
  have dw: "dropWhile isSpace (map lowerChar xs) = map lowerChar (dropWhile isSpace xs)" for xs
    by (induction xs) auto
  show ?thesis
    by (simp add: TrimSpace_def ToLower_def trimBy_def dw rev_map)
qed

lemma ToLower_idem [simp]: "ToLower (ToLower s) = ToLower s"
  by (simp add: ToLower_def comp_def)

interpretation trim_norm: normalizer TrimSpace
  by unfold_locales simp

interpretation lower_norm: normalizer ToLower
  by unfold_locales simp

interpretation lower_trim_norm: normalizer "\<lambda>s. ToLower (TrimSpace s)"
  by unfold_locales (simp add: TrimSpace_ToLower)

subsection \<open>Searching and splitting\<close>

lemma Index_Some_prefix: "Index s sub = Some i \<Longrightarrow> i \<le> length s \<and> prefix sub (drop i s)"
  by (induction s sub arbitrary: i rule: Index.induct) (auto split: if_splits)

lemma Index_Some_least: "Index s sub = Some i \<Longrightarrow> j < i \<Longrightarrow> \<not> prefix sub (drop j s)"
proof (induction s sub arbitrary: i j rule: Index.induct)
  case (2 c s sub)
  then show ?case by (cases j) (auto split: if_splits)
qed (auto split: if_splits)

lemma Index_None: "Index s sub = None \<Longrightarrow> \<not> prefix sub (drop j s)"
proof (induction s sub arbitrary: j rule: Index.induct)
  case (2 c s sub)
  then show ?case by (cases j) (auto split: if_splits)
qed (auto split: if_splits)

lemma Contains_iff: "Contains s sub \<longleftrightarrow> (\<exists>pre suf. s = pre @ sub @ suf)"
proof
  assume "Contains s sub"
  then obtain i where "Index s sub = Some i" by (auto simp: Contains_def)
  then have "prefix sub (drop i s)" by (simp add: Index_Some_prefix)
  then obtain suf where "drop i s = sub @ suf" by (auto elim: prefixE)
  then have "s = take i s @ sub @ suf" by (metis append_take_drop_id)
  then show "\<exists>pre suf. s = pre @ sub @ suf" by blast
next
  assume "\<exists>pre suf. s = pre @ sub @ suf"
  then obtain pre suf where "s = pre @ sub @ suf" by blast
  then have "prefix sub (drop (length pre) s)" by simp
  then show "Contains s sub" using Index_None by (auto simp: Contains_def)
qed

lemma Contains_infix: "Contains mid sub \<Longrightarrow> Contains (pre @ mid @ suf) sub"
proof -
  assume "Contains mid sub"
  then obtain a b where "mid = a @ sub @ b" by (auto simp: Contains_iff)
  then have "pre @ mid @ suf = (pre @ a) @ sub @ (b @ suf)" by simp
  then show ?thesis unfolding Contains_iff by blast
qed

lemma Contains_TrimSpace: "Contains (TrimSpace s) sub \<Longrightarrow> Contains s sub"
  using trimBy_infix [of s isSpace] Contains_infix unfolding TrimSpace_def by metis

lemma Index_char: "Index s [d] = (if d \<in> set s then Some (length (takeWhile (\<lambda>c. c \<noteq> d) s)) else None)"
  by (induction s) auto

lemma Contains_char [simp]: "Contains s [d] \<longleftrightarrow> d \<in> set s"
  by (simp add: Contains_def Index_char)

lemma SplitN2_eq:
  "SplitN2 s d = (if d \<in> set s
     then [takeWhile (\<lambda>c. c \<noteq> d) s, tl (dropWhile (\<lambda>c. c \<noteq> d) s)] else [s])"
  by (simp add: SplitN2_def Index_char takeWhile_eq_take [symmetric] dropWhile_eq_drop drop_Suc
      drop_tl [symmetric])

lemma ContainsAny_iff: "ContainsAny s chars \<longleftrightarrow> (\<exists>c \<in> set s. c \<in> set chars)"
  by (auto simp: ContainsAny_def list_ex_iff)

lemma Split_neq_Nil [simp]: "Split s d \<noteq> []"
  by (induction s d rule: Split.induct) (auto split: list.splits)

lemma Join_Cons: "ws \<noteq> [] \<Longrightarrow> Join (w # ws) sep = w @ sep @ Join ws sep"
  by (cases ws) auto

lemma Join_Split: "Join (Split s d) [d] = s"
proof (induction s d rule: Split.induct)
  case (2 c s d)
  obtain w ws where *: "Split s d = w # ws" by (meson Split_neq_Nil neq_Nil_conv)
  with 2 show ?case by (cases ws) auto
qed simp

lemma Split_no_sep: "w \<in> set (Split s d) \<Longrightarrow> d \<notin> set w"
proof (induction s d arbitrary: w rule: Split.induct)
  case (2 c s d)
  obtain v vs where *: "Split s d = v # vs" by (meson Split_neq_Nil neq_Nil_conv)
  from 2 * show ?case by (auto split: if_splits)
qed simp

lemma Split_subset: "w \<in> set (Split s d) \<Longrightarrow> set w \<subseteq> set s"
proof (induction s d arbitrary: w rule: Split.induct)
  case (2 c s d)
  obtain v vs where *: "Split s d = v # vs" by (meson Split_neq_Nil neq_Nil_conv)
  from 2 * show ?case by (fastforce split: if_splits)
qed simp

lemma Join_set: "c \<in> set (Join ws sep) \<Longrightarrow> c \<in> set sep \<or> (\<exists>w \<in> set ws. c \<in> set w)"
  by (induction ws sep rule: Join.induct) auto

subsection \<open>Prefixes\<close>

lemma TrimPrefix_subset: "set (TrimPrefix s p) \<subseteq> set s"
  by (auto simp: TrimPrefix_def dest: in_set_dropD)

lemma TrimPrefix_id: "\<not> prefix p s \<Longrightarrow> TrimPrefix s p = s"
  by (simp add: TrimPrefix_def)

lemma Replace_no_match:
  "(\<And>old new. (old, new) \<in> set ps \<Longrightarrow> old \<noteq> [] \<Longrightarrow> hd old \<notin> set s) \<Longrightarrow> Replace ps s = s"
proof (induction ps s rule: Replace.induct)
  case (2 ps c s)
  have "find (\<lambda>(old, new). old \<noteq> [] \<and> prefix old (c # s)) ps = None"
    using 2(3) by (fastforce simp: find_None_conv prefix_Cons)
  with 2 show ?case by auto
qed simp

end
