(* ===== verification/GoErrors.thy ===== *)
theory GoErrors
  imports GoStrings
begin

text \<open>
  Go's error values as far as the program inspects them. An error is a sentinel, a value with the
  fields that \<open>errors.As\<close> extracts, or a wrapper; \<open>errChain\<close> lists what \<open>errors.Is\<close> and \<open>errors.As\<close>
  walk through, in their order.
\<close>

type_synonym time = int
type_synonym duration = int

record diagnostic =
  diag_code :: string
  diag_message :: string

datatype goerror =
    DeadlineExceeded
  | Canceled
  | EOF
  | UnexpectedEOF
  | ErrInCooldown
  | TransportError (statusCode: int) (diagnostics: "diagnostic list") (errMsg: string)
  | NetError (timedOut: bool) (errMsg: string)
  | APIStatus (notFound: bool) (errMsg: string)
  | ErrorString (errMsg: string)
  | Wrapf string goerror string
  | RetryError (retryCause: goerror) (retryAt: time)
  | Joined "goerror list"

section \<open>Inspection\<close>

fun errChain :: "goerror \<Rightarrow> goerror list" where
  "errChain (Wrapf pre e suf) = Wrapf pre e suf # errChain e"
| "errChain (RetryError e t) = RetryError e t # errChain e"
| "errChain (Joined es) = Joined es # concat (map errChain es)"
| "errChain e = [e]"

definition errIs :: "goerror \<Rightarrow> goerror \<Rightarrow> bool" where
  "errIs e target \<longleftrightarrow> target \<in> set (errChain e)"

definition asTransport :: "goerror \<Rightarrow> goerror option" where
  "asTransport e = find is_TransportError (errChain e)"

text \<open>\<open>context.DeadlineExceeded\<close> implements \<open>net.Error\<close> too.\<close>

definition isNetError :: "goerror \<Rightarrow> bool" where
  "isNetError e \<longleftrightarrow> is_NetError e \<or> e = DeadlineExceeded"

definition netTimeout :: "goerror \<Rightarrow> bool" where
  "netTimeout e \<longleftrightarrow> (case e of NetError t _ \<Rightarrow> t | _ \<Rightarrow> True)"

definition asRetry :: "goerror \<Rightarrow> goerror option" where
  "asRetry e = find is_RetryError (errChain e)"

text \<open>The method \<open>Error()\<close>.\<close>

fun errText :: "goerror \<Rightarrow> string" where
  "errText DeadlineExceeded = ''context deadline exceeded''"
| "errText Canceled = ''context canceled''"
| "errText EOF = ''EOF''"
| "errText UnexpectedEOF = ''unexpected EOF''"
| "errText ErrInCooldown = ''mirror: target is in failure cooldown''"
| "errText (TransportError c ds t) = t"
| "errText (NetError b t) = t"
| "errText (APIStatus b t) = t"
| "errText (ErrorString t) = t"
| "errText (Wrapf pre e suf) = pre @ errText e @ suf"
| "errText (RetryError e t) = errText e"
| "errText (Joined es) = Join (map errText es) [CHR 0x0A]"

section \<open>Facts\<close>

lemma self_in_errChain [simp]: "e \<in> set (errChain e)"
  by (cases e) auto

lemma errIs_refl [simp]: "errIs e e"
  by (simp add: errIs_def)

lemma errIs_Wrapf [simp]: "errIs (Wrapf pre e suf) t \<longleftrightarrow> t = Wrapf pre e suf \<or> errIs e t"
  by (auto simp: errIs_def)

lemma asRetry_RetryError [simp]: "asRetry (RetryError e t) = Some (RetryError e t)"
  by (simp add: asRetry_def)

lemma asRetry_SomeD: "asRetry e = Some r \<Longrightarrow> is_RetryError r"
  by (auto simp: asRetry_def dest: find_SomeD)

end
