(* ===== verification/Flow.thy ===== *)
theory Flow
  imports GoErrors
begin

text \<open>
  Straight-line Go code with early returns: a fragment either runs on with a value, returns an error
  (possibly nil) from the enclosing function, or panics, and threads a state. Fragments are composed
  with \<open>bindF\<close>. Their correctness is stated as triples with a separate condition for the exits.
\<close>

section \<open>Fragments\<close>

datatype 'a flow = Continue 'a | Return "goerror option" | Panic

type_synonym ('s, 'a) prog = "'s \<Rightarrow> 'a flow \<times> 's"

definition bindF :: "('s, 'a) prog \<Rightarrow> ('a \<Rightarrow> ('s, 'b) prog) \<Rightarrow> ('s, 'b) prog" where
  "bindF m k s = (case m s of
      (Continue x, s') \<Rightarrow> k x s'
    | (Return e, s') \<Rightarrow> (Return e, s')
    | (Panic, s') \<Rightarrow> (Panic, s'))"

definition pureF :: "'a \<Rightarrow> ('s, 'a) prog" where
  "pureF x s = (Continue x, s)"

definition returnF :: "goerror option \<Rightarrow> ('s, 'a) prog" where
  "returnF e s = (Return e, s)"

definition panicF :: "('s, 'a) prog" where
  "panicF s = (Panic, s)"

definition modifyF :: "('s \<Rightarrow> 's) \<Rightarrow> ('s, unit) prog" where
  "modifyF g s = (Continue (), g s)"

definition thenF :: "('s, 'a) prog \<Rightarrow> ('s, 'b) prog \<Rightarrow> ('s, 'b) prog" where
  "thenF m k = bindF m (\<lambda>_. k)"

lemmas flow_defs = bindF_def pureF_def returnF_def panicF_def modifyF_def thenF_def

section \<open>Triples\<close>

text \<open>
  \<open>triple E P m Q\<close>: from a state that satisfies \<open>P\<close> the fragment \<open>m\<close> ends in a state that satisfies \<open>Q\<close>
  when it runs on, and \<open>E\<close> when it leaves the function; the argument of \<open>E\<close> is \<^term>\<open>None\<close> for a panic
  and the returned error otherwise.
\<close>

definition triple ::
  "(goerror option option \<Rightarrow> 's \<Rightarrow> bool) \<Rightarrow> ('s \<Rightarrow> bool) \<Rightarrow> ('s, 'a) prog \<Rightarrow> ('a \<Rightarrow> 's \<Rightarrow> bool) \<Rightarrow> bool" where
  "triple E P m Q \<longleftrightarrow> (\<forall>s. P s \<longrightarrow> (case m s of
      (Continue x, s') \<Rightarrow> Q x s'
    | (Return e, s') \<Rightarrow> E (Some e) s'
    | (Panic, s') \<Rightarrow> E None s'))"

lemma triple_bind:
  "triple E P m R \<Longrightarrow> (\<And>x. triple E (R x) (k x) Q) \<Longrightarrow> triple E P (bindF m k) Q"
  unfolding triple_def bindF_def by (fastforce split: prod.splits flow.splits)

lemma triple_then:
  "triple E P m (\<lambda>_. R) \<Longrightarrow> triple E R k Q \<Longrightarrow> triple E P (thenF m k) Q"
  unfolding thenF_def by (rule triple_bind)

lemma triple_pure: "(\<And>s. P s \<Longrightarrow> Q x s) \<Longrightarrow> triple E P (pureF x) Q"
  by (simp add: triple_def pureF_def)

lemma triple_return: "(\<And>s. P s \<Longrightarrow> E (Some e) s) \<Longrightarrow> triple E P (returnF e) Q"
  by (simp add: triple_def returnF_def)

lemma triple_panic: "(\<And>s. P s \<Longrightarrow> E None s) \<Longrightarrow> triple E P panicF Q"
  by (simp add: triple_def panicF_def)

lemma triple_modify: "(\<And>s. P s \<Longrightarrow> Q () (g s)) \<Longrightarrow> triple E P (modifyF g) Q"
  by (simp add: triple_def modifyF_def)

lemma triple_if:
  "(b \<Longrightarrow> triple E P m Q) \<Longrightarrow> (\<not> b \<Longrightarrow> triple E P m' Q) \<Longrightarrow> triple E P (if b then m else m') Q"
  by simp

lemma triple_weaken:
  "triple E P m Q \<Longrightarrow> (\<And>s. P' s \<Longrightarrow> P s) \<Longrightarrow> (\<And>x s. Q x s \<Longrightarrow> Q' x s) \<Longrightarrow> triple E P' m Q'"
  unfolding triple_def by (fastforce split: prod.splits flow.splits)

lemma triple_returned: "triple E P m Q \<Longrightarrow> P s \<Longrightarrow> m s = (Return e, s') \<Longrightarrow> E (Some e) s'"
  unfolding triple_def by fastforce

lemma triple_panicked: "triple E P m Q \<Longrightarrow> P s \<Longrightarrow> m s = (Panic, s') \<Longrightarrow> E None s'"
  unfolding triple_def by fastforce

lemma triple_continued: "triple E P m Q \<Longrightarrow> P s \<Longrightarrow> m s = (Continue x, s') \<Longrightarrow> Q x s'"
  unfolding triple_def by fastforce

end
