(* ===== verification/Ledger.thy ===== *)
theory Ledger
  imports GoErrors "HOL-Library.Finite_Map"
begin

text \<open>
  \<open>internal/mirror/pusher.go\<close>, the pusher's mutable state: the set of targets in flight (\<open>pushed\<close>) and
  the failure times (\<open>failed\<close>), with the five operations that hold the mutex. Each operation is one
  atomic function from state to state; the clock reading it makes is an argument, and so is the
  configured cooldown. Times and durations are in nanoseconds.
\<close>

section \<open>Definitions\<close>

record ledger =
  pushed :: "string fset"
  failed :: "(string, time) fmap"

definition emptyLedger :: ledger where
  "emptyLedger = \<lparr>pushed = {||}, failed = fmempty\<rparr>"

text \<open>\<^term>\<open>Inl\<close> is the error, \<^term>\<open>Inr\<close> the flag \<open>skip\<close>.\<close>

definition beginProcessing :: "duration \<Rightarrow> time \<Rightarrow> string \<Rightarrow> ledger \<Rightarrow> (goerror + bool) \<times> ledger" where
  "beginProcessing cooldown now target l =
     (let proceed = (\<lambda>l.
            if target |\<in>| pushed l then (Inr True, l)
            else (Inr False, l\<lparr>pushed := finsert target (pushed l)\<rparr>))
      in if cooldown > 0
         then (case fmlookup (failed l) target of
                 Some lastFailure \<Rightarrow>
                   (let at = lastFailure + cooldown
                    in if now < at then (Inl (RetryError ErrInCooldown at), l)
                       else proceed (l\<lparr>failed := fmdrop target (failed l)\<rparr>))
               | None \<Rightarrow> proceed l)
         else proceed l)"

definition finishProcessing :: "string \<Rightarrow> ledger \<Rightarrow> ledger" where
  "finishProcessing target l =
     (if TrimSpace target = [] then l else l\<lparr>pushed := pushed l |-| {|target|}\<rparr>)"

text \<open>The tail of \<open>reassignProcessing\<close>, after the cooldown checks.\<close>

definition movePushed :: "string \<Rightarrow> string \<Rightarrow> ledger \<Rightarrow> (goerror + bool) \<times> ledger" where
  "movePushed oldTarget newTarget l =
     (if newTarget |\<in>| pushed l then (Inr True, l\<lparr>pushed := pushed l |-| {|oldTarget|}\<rparr>)
      else if oldTarget |\<in>| pushed l
      then (Inr False, l\<lparr>pushed := finsert newTarget (pushed l |-| {|oldTarget|})\<rparr>)
      else (Inr False, l))"

text \<open>The failure time of the old target, if any, moves to the new one.\<close>

definition moveFailed :: "string \<Rightarrow> string \<Rightarrow> ledger \<Rightarrow> ledger" where
  "moveFailed oldTarget newTarget l =
     (case fmlookup (failed l) oldTarget of
        Some lastFailure \<Rightarrow> l\<lparr>failed := fmdrop oldTarget (fmupd newTarget lastFailure (failed l))\<rparr>
      | None \<Rightarrow> l)"

definition reassignProcessing ::
  "duration \<Rightarrow> time \<Rightarrow> string \<Rightarrow> string \<Rightarrow> ledger \<Rightarrow> (goerror + bool) \<times> ledger" where
  "reassignProcessing cooldown now oldTarget newTarget l =
     (if oldTarget = newTarget then (Inr False, l)
      else if cooldown > 0
      then (case fmlookup (failed l) newTarget of
              Some lastFailure \<Rightarrow>
                (let at = lastFailure + cooldown
                 in if now < at
                    then (Inl (RetryError ErrInCooldown at), l\<lparr>pushed := pushed l |-| {|oldTarget|}\<rparr>)
                    else movePushed oldTarget newTarget
                           (moveFailed oldTarget newTarget (l\<lparr>failed := fmdrop newTarget (failed l)\<rparr>)))
            | None \<Rightarrow> movePushed oldTarget newTarget (moveFailed oldTarget newTarget l))
      else movePushed oldTarget newTarget l)"

definition failureResult :: "duration \<Rightarrow> time \<Rightarrow> string \<Rightarrow> goerror \<Rightarrow> ledger \<Rightarrow> goerror \<times> ledger" where
  "failureResult cooldown now target cause l =
     (let at = now + cooldown;
          l = l\<lparr>pushed := pushed l |-| {|target|}\<rparr>
      in if cooldown > 0 then (RetryError cause at, l\<lparr>failed := fmupd target now (failed l)\<rparr>)
         else (cause, l))"

text \<open>The number of cleared entries and whether the cooldown is enabled.\<close>

definition ResetCooldown :: "duration \<Rightarrow> ledger \<Rightarrow> (nat \<times> bool) \<times> ledger" where
  "ResetCooldown cooldown l =
     (if cooldown \<le> 0 then ((0, False), l)
      else (let cleared = fcard (fmdom (failed l))
            in if cleared = 0 then ((0, True), l)
               else ((cleared, True), l\<lparr>failed := fmempty\<rparr>)))"

section \<open>The contract of the ledger\<close>

text \<open>
  What the mirroring code relies on: the set of targets that are in flight, and, for each target, the
  time before which it may not be tried again.
\<close>

locale processing_ledger =
  fixes begin_op :: "time \<Rightarrow> string \<Rightarrow> 'l \<Rightarrow> (goerror + bool) \<times> 'l"
    and finish_op :: "string \<Rightarrow> 'l \<Rightarrow> 'l"
    and reassign_op :: "time \<Rightarrow> string \<Rightarrow> string \<Rightarrow> 'l \<Rightarrow> (goerror + bool) \<times> 'l"
    and fail_op :: "time \<Rightarrow> string \<Rightarrow> goerror \<Rightarrow> 'l \<Rightarrow> goerror \<times> 'l"
    and busy :: "'l \<Rightarrow> string set"
    and blocked :: "'l \<Rightarrow> string \<Rightarrow> time option"
  assumes begin_refused:
      "blocked l t = Some r \<Longrightarrow> now < r \<Longrightarrow> begin_op now t l = (Inl (RetryError ErrInCooldown r), l)"
    and begin_error: "begin_op now t l = (Inl e, l') \<Longrightarrow>
      l' = l \<and> (\<exists>r. blocked l t = Some r \<and> now < r \<and> e = RetryError ErrInCooldown r)"
    and begin_skip: "begin_op now t l = (Inr True, l') \<Longrightarrow> t \<in> busy l \<and> busy l' = busy l"
    and begin_go: "begin_op now t l = (Inr False, l') \<Longrightarrow>
      t \<notin> busy l \<and> busy l' = insert t (busy l) \<and> blocked l' t = None"
    and finish_busy: "TrimSpace t \<noteq> [] \<Longrightarrow> busy (finish_op t l) = busy l - {t}"
    and finish_blocked: "blocked (finish_op t l) = blocked l"
    and fail_busy: "busy (snd (fail_op now t e l)) = busy l - {t}"
    and reassign_error: "reassign_op now old new l = (Inl e, l') \<Longrightarrow>
      old \<noteq> new \<and> busy l' = busy l - {old} \<and> (\<exists>r. now < r \<and> e = RetryError ErrInCooldown r)"
    and reassign_skip: "reassign_op now old new l = (Inr True, l') \<Longrightarrow>
      old \<noteq> new \<and> new \<in> busy l \<and> busy l' = busy l - {old}"
    and reassign_go: "reassign_op now old new l = (Inr False, l') \<Longrightarrow>
      old = new \<and> l' = l \<or> old \<noteq> new \<and> new \<notin> busy l \<and>
        busy l' = (if old \<in> busy l then insert new (busy l - {old}) else busy l)"
begin

lemma begin_then_finish:
  "begin_op now t l = (Inr False, l') \<Longrightarrow> TrimSpace t \<noteq> [] \<Longrightarrow> busy (finish_op t l') = busy l"
  using begin_go finish_busy by force

lemma begin_then_fail:
  "begin_op now t l = (Inr False, l') \<Longrightarrow> busy (snd (fail_op now' t e l')) = busy l"
  using begin_go fail_busy by force

lemma reassign_then_finish:
  assumes "reassign_op now old new l = (Inr False, l')" "old \<in> busy l"
    "TrimSpace new \<noteq> []"
  shows "busy (finish_op new l') = busy l - {old}"
proof -
  from assms(1) consider "old = new" "l' = l" |
    "old \<noteq> new" "new \<notin> busy l" "busy l' = insert new (busy l - {old})"
    using reassign_go assms(2) by (metis (full_types))
  then show ?thesis using finish_busy [OF assms(3)] by cases auto
qed

lemma finish_twice: "TrimSpace t \<noteq> [] \<Longrightarrow> busy (finish_op t (finish_op t l)) = busy (finish_op t l)"
  by (simp add: finish_busy)

end

section \<open>The code meets the contract\<close>

definition busyOf :: "ledger \<Rightarrow> string set" where
  "busyOf l = fset (pushed l)"

definition blockedOf :: "duration \<Rightarrow> ledger \<Rightarrow> string \<Rightarrow> time option" where
  "blockedOf cooldown l t =
     (if cooldown > 0 then map_option (\<lambda>f. f + cooldown) (fmlookup (failed l) t) else None)"

lemmas ledger_defs = beginProcessing_def finishProcessing_def movePushed_def moveFailed_def
  reassignProcessing_def failureResult_def busyOf_def blockedOf_def Let_def

lemma busyOf_moveFailed [simp]: "busyOf (moveFailed old new l) = busyOf l"
  by (simp add: moveFailed_def busyOf_def split: option.split)

lemma busyOf_failed_update [simp]: "busyOf (l\<lparr>failed := f\<rparr>) = busyOf l"
  by (simp add: busyOf_def)

lemma movePushed_skip: "movePushed old new l = (Inr True, l') \<Longrightarrow>
    new \<in> busyOf l \<and> busyOf l' = busyOf l - {old}"
  by (auto simp: movePushed_def busyOf_def split: if_splits)

lemma movePushed_go: "movePushed old new l = (Inr False, l') \<Longrightarrow>
    new \<notin> busyOf l \<and> busyOf l' = (if old \<in> busyOf l then insert new (busyOf l - {old}) else busyOf l)"
  by (auto simp: movePushed_def busyOf_def split: if_splits)

lemma movePushed_no_error: "movePushed old new l \<noteq> (Inl e, l')"
  by (auto simp: movePushed_def)

text \<open>Up to the failure times, a reassignment is a refusal or a move of the marker.\<close>

lemma reassignProcessing_cases:
  assumes "old \<noteq> new"
  obtains (refused) at where "now < at" "reassignProcessing cd now old new l =
      (Inl (RetryError ErrInCooldown at), l\<lparr>pushed := pushed l |-| {|old|}\<rparr>)"
  | (moved) l0 where "busyOf l0 = busyOf l" "reassignProcessing cd now old new l = movePushed old new l0"
proof (cases "cd > 0 \<and> (\<exists>f. fmlookup (failed l) new = Some f \<and> now < f + cd)")
  case True
  with assms show ?thesis by (auto simp: reassignProcessing_def intro!: refused)
next
  case False
  define l0 where "l0 = (if cd > 0 then moveFailed old new
    (if fmlookup (failed l) new = None then l else l\<lparr>failed := fmdrop new (failed l)\<rparr>) else l)"
  show ?thesis
  proof (rule moved)
    show "busyOf l0 = busyOf l" by (simp add: l0_def)
    show "reassignProcessing cd now old new l = movePushed old new l0"
      using assms False by (auto simp: reassignProcessing_def l0_def split: option.split)
  qed
qed

interpretation lg: processing_ledger "beginProcessing cd" finishProcessing "reassignProcessing cd"
  "failureResult cd" busyOf "blockedOf cd" for cd
proof (unfold_locales, goal_cases)
  case (1 l t r now)
  then show ?case by (auto simp: ledger_defs split: if_splits)
next
  case (2 now t l e l')
  then show ?case by (auto simp: ledger_defs split: if_splits option.splits)
next
  case (3 now t l l')
  then show ?case by (auto simp: ledger_defs split: if_splits option.splits)
next
  case (4 now t l l')
  then show ?case by (auto simp: ledger_defs split: if_splits option.splits)
next
  case (5 t l)
  then show ?case by (simp add: ledger_defs)
next
  case (6 t l)
  then show ?case by (auto simp: ledger_defs fun_eq_iff)
next
  case (7 now t e l)
  then show ?case by (simp add: ledger_defs)
next
  case (8 now old new l e l')
  then have ne: "old \<noteq> new" by (auto simp: reassignProcessing_def)
  with 8 show ?case
    by (cases rule: reassignProcessing_cases [OF ne, of now cd l])
      (auto simp: movePushed_no_error busyOf_def)
next
  case (9 now old new l l')
  then have ne: "old \<noteq> new" by (auto simp: reassignProcessing_def)
  with 9 show ?case
    by (cases rule: reassignProcessing_cases [OF ne, of now cd l]) (auto dest: movePushed_skip)
next
  case (10 now old new l l')
  show ?case
  proof (cases "old = new")
    case True
    with 10 show ?thesis by (simp add: reassignProcessing_def)
  next
    case False
    then show ?thesis
    proof (cases rule: reassignProcessing_cases [of old new now cd l])
      case (moved l0)
      with 10 have "movePushed old new l0 = (Inr False, l')" by simp
      from movePushed_go [OF this] moved(1) False show ?thesis by simp
    qed (use 10 in simp)
  qed
qed

section \<open>Facts on failures and resets\<close>

lemma failureResult_blocked:
  "cd > 0 \<Longrightarrow> blockedOf cd (snd (failureResult cd now t e l)) t = Some (now + cd)"
  by (simp add: ledger_defs)

lemma failureResult_error: "cd > 0 \<Longrightarrow> fst (failureResult cd now t e l) = RetryError e (now + cd)"
  by (simp add: ledger_defs)

lemma failureResult_frame:
  "t' \<noteq> t \<Longrightarrow> blockedOf cd (snd (failureResult cd now t e l)) t' = blockedOf cd l t'"
  by (simp add: ledger_defs)

lemma ResetCooldown_failed: "cd > 0 \<Longrightarrow> failed (snd (ResetCooldown cd l)) = fmempty"
proof (cases "failed l = fmempty")
  case False
  then have "fmdom (failed l) \<noteq> {||}" by (metis fmrestrict_fset_dom fmrestrict_fset_null)
  moreover assume "cd > 0"
  ultimately show ?thesis by (simp add: ResetCooldown_def Let_def)
qed (simp add: ResetCooldown_def Let_def)

lemma ResetCooldown_pushed [simp]: "pushed (snd (ResetCooldown cd l)) = pushed l"
  by (simp add: ResetCooldown_def Let_def)

section \<open>Properties\<close>

text \<open>
  A failed target rests for the whole cooldown: after a failure at time \<open>now\<close> every
  attempt to begin it before \<open>now + cooldown\<close> is refused with the retry time and changes nothing,
  and the first attempt at or after that time goes ahead (unless the target is in flight) and clears
  the failure.
\<close>

lemma cooldown_refuses_until:
  assumes "cd > 0" and "l' = snd (failureResult cd now t e l)"
  shows "beginProcessing cd later t l' =
    (if later < now + cd then (Inl (RetryError ErrInCooldown (now + cd)), l')
     else (Inr False, l'\<lparr>failed := fmdrop t (failed l'), pushed := finsert t (pushed l')\<rparr>))"
  using assms by (auto simp: ledger_defs)

text \<open>
  A reset lifts every cooldown and nothing else: with the cooldown enabled it reports the
  number of targets that were waiting, no target is blocked afterwards, and the targets in flight
  stay in flight; with the cooldown disabled it reports zero and changes nothing.
\<close>

lemma ResetCooldown_spec:
  "(case ResetCooldown cd l of ((cleared, enabled), l') \<Rightarrow>
      enabled = (cd > 0)
      \<and> cleared = (if cd > 0 then card (fmdom' (failed l)) else 0)
      \<and> (\<forall>t. blockedOf cd l' t = None) \<and> busyOf l' = busyOf l
      \<and> (if cd > 0 then True else l' = l))"
proof (cases "cd > 0")
  case True
  then have "blockedOf cd (snd (ResetCooldown cd l)) t = None" for t
    by (simp add: blockedOf_def ResetCooldown_failed)
  moreover have "fst (ResetCooldown cd l) = (card (fmdom' (failed l)), True)"
    using True by (auto simp: ResetCooldown_def Let_def fmdom'_alt_def fcard.rep_eq)
  ultimately show ?thesis
    using True by (simp add: busyOf_def split: prod.split) (metis ResetCooldown_pushed prod.sel)
next
  case False
  then show ?thesis by (simp add: ResetCooldown_def blockedOf_def)
qed

end
