(* ===== verification/Exclusion.thy ===== *)
theory Exclusion
  imports GoStrings
begin

text \<open>
  \<open>internal/mirror/pusher.go\<close>, the registry exclusions: normalisation of the configured prefixes and of
  image references, and the boundary-aware prefix test that decides whether an image is skipped.
\<close>

section \<open>Definitions\<close>

definition normalizeRegistryPrefix :: "string \<Rightarrow> string" where
  "normalizeRegistryPrefix val =
     (let t = TrimSpace val
      in if t = [] then []
         else (let t = ToLower t;
                   t = TrimPrefix t ''https://'';
                   t = TrimPrefix t ''http://'';
                   t = TrimSuffix t ''/''
               in if t = ''index.docker.io'' \<or> HasPrefix t ''index.docker.io/''
                  then ''docker.io'' @ drop (length ''index.docker.io'') t
                  else t))"

text \<open>
  The map of unique values is read back in an arbitrary order and then sorted, which is the sorted
  list of the distinct values.
\<close>

definition normalizeExcludedRegistries :: "string list \<Rightarrow> string list" where
  "normalizeExcludedRegistries provided =
     (let unique = remdups (filter (\<lambda>v. v \<noteq> []) (map normalizeRegistryPrefix provided))
      in if unique = [] then [] else sortStrings unique)"

definition normalizeImageReference :: "string \<Rightarrow> string" where
  "normalizeImageReference val =
     (let t = TrimSpace val
      in if t = [] then []
         else (let t = ToLower t;
                   t = TrimPrefix t ''https://'';
                   t = TrimPrefix t ''http://'';
                   t = (if HasPrefix t ''index.docker.io/''
                        then ''docker.io/'' @ drop (length ''index.docker.io/'') t else t)
               in (case Index t ''/'' of
                     None \<Rightarrow> ''docker.io/library/'' @ t
                   | Some i \<Rightarrow> if \<not> ContainsAny (take i t) ''.:'' then ''docker.io/'' @ t else t)))"

definition hasBoundaryPrefix :: "string \<Rightarrow> string \<Rightarrow> bool" where
  "hasBoundaryPrefix s pre \<longleftrightarrow>
     (if pre = [] then False
      else if \<not> HasPrefix s pre then False
      else if length s = length pre then True
      else (let nxt = s ! length pre
            in nxt = CHR ''/'' \<or> nxt = CHR '':'' \<or> nxt = CHR ''@''))"

definition matchExcludedRegistry :: "string list \<Rightarrow> string \<Rightarrow> string option" where
  "matchExcludedRegistry excluded src =
     (if excluded = [] then None
      else (let normalized = normalizeImageReference src
            in if normalized = [] then None
               else find (hasBoundaryPrefix normalized) excluded))"

section \<open>Facts\<close>

lemma hasBoundaryPrefix_iff:
  "hasBoundaryPrefix s pre \<longleftrightarrow>
     pre \<noteq> [] \<and> (s = pre \<or> (\<exists>c r. s = pre @ c # r \<and> c \<in> set ''/:@''))"
proof (cases "prefix pre s")
  case True
  then obtain r where "s = pre @ r" by (auto elim: prefixE)
  then show ?thesis by (cases r) (auto simp: hasBoundaryPrefix_def HasPrefix_def Let_def)
next
  case False
  then show ?thesis by (auto simp: hasBoundaryPrefix_def HasPrefix_def)
qed

lemma matchExcludedRegistry_eq:
  "matchExcludedRegistry excluded src = find (hasBoundaryPrefix (normalizeImageReference src)) excluded"
proof (cases "normalizeImageReference src = []")
  case True
  have "\<not> hasBoundaryPrefix [] pre" for pre by (auto simp: hasBoundaryPrefix_iff)
  with True have "find (hasBoundaryPrefix (normalizeImageReference src)) excluded = None"
    by (simp add: find_None_conv)
  with True show ?thesis by (simp add: matchExcludedRegistry_def Let_def)
qed (simp add: matchExcludedRegistry_def Let_def)

lemma set_normalizeExcludedRegistries:
  "set (normalizeExcludedRegistries xs) = normalizeRegistryPrefix ` set xs - {[]}"
  by (auto simp: normalizeExcludedRegistries_def sortStrings_def Let_def filter_empty_conv)

lemma normalizeExcludedRegistries_sorted:
  "sorted (normalizeExcludedRegistries xs)" "distinct (normalizeExcludedRegistries xs)"
  by (simp_all add: normalizeExcludedRegistries_def sortStrings_def Let_def)

text \<open>The first path component of a reference, up to the first slash.\<close>

abbreviation firstComponent :: "string \<Rightarrow> string" where
  "firstComponent s \<equiv> takeWhile (\<lambda>c. c \<noteq> CHR ''/'') s"

lemma take_Index_slash: "Index t ''/'' = Some i \<Longrightarrow> take i t = firstComponent t"
  by (auto simp: Index_char takeWhile_eq_take [symmetric] split: if_splits)

lemma firstComponent_ToLower: "firstComponent (ToLower s) = ToLower (firstComponent s)"
  by (simp add: takeWhile_ToLower)

lemma ContainsAny_ToLower: "ContainsAny (ToLower w) ''.:'' = ContainsAny w ''.:''"
proof -
  have "ContainsAny v ''.:'' \<longleftrightarrow> CHR ''.'' \<in> set v \<or> CHR '':'' \<in> set v" for v
    by (auto simp: ContainsAny_iff)
  then show ?thesis by (simp add: set_ToLower_nonLetter)
qed

text \<open>A reference whose first component has neither a dot nor a colon names no registry.\<close>

lemma not_prefix_dotted:
  assumes "\<not> ContainsAny (firstComponent t) ''.:''" and "CHR ''/'' \<in> set t"
    and "CHR ''/'' \<in> set p" and "ContainsAny (firstComponent p) ''.:''"
  shows "\<not> prefix p t"
proof
  assume "prefix p t"
  then obtain r where "t = p @ r" by (auto elim: prefixE)
  with assms(3) have "firstComponent t = firstComponent p"
    by (auto simp: takeWhile_append1 [of "CHR ''/''"])
  with assms(1,4) show False by simp
qed

lemma not_prefix_slash: "CHR ''/'' \<notin> set t \<Longrightarrow> CHR ''/'' \<in> set p \<Longrightarrow> \<not> prefix p t"
  by (auto elim!: prefixE)

section \<open>Properties\<close>

text \<open>
  The exclusion test reports a prefix exactly when some configured prefix covers the
  normalised reference: it is the whole reference or ends where a path, tag or digest begins, and
  the reported prefix is the first such one.
\<close>

lemma matchExcludedRegistry_spec:
  "matchExcludedRegistry excluded src =
     find (\<lambda>pre. pre \<noteq> [] \<and> (normalizeImageReference src = pre \<or>
              (\<exists>c r. normalizeImageReference src = pre @ c # r \<and> c \<in> set ''/:@''))) excluded"
  unfolding matchExcludedRegistry_eq by (rule find_cong_set) (rule hasBoundaryPrefix_iff)

text \<open>
  Excluding \<open>docker.io\<close> covers Docker Hub images however they are written: every non-blank
  reference without a slash, and every reference whose first component has neither a dot nor a
  colon, is skipped.
\<close>

lemma docker_hub_excluded:
  assumes "''docker.io'' \<in> set excluded" and "TrimSpace src \<noteq> []"
    and "CHR ''/'' \<notin> set (TrimSpace src) \<or> \<not> ContainsAny (firstComponent (TrimSpace src)) ''.:''"
  shows "matchExcludedRegistry excluded src \<noteq> None"
proof -
  let ?t = "ToLower (TrimSpace src)"
  have cases: "CHR ''/'' \<notin> set ?t \<or>
    (CHR ''/'' \<in> set ?t \<and> \<not> ContainsAny (firstComponent ?t) ''.:'')"
    using assms(3) by (auto simp: firstComponent_ToLower ContainsAny_ToLower set_ToLower_nonLetter)
  have np: "\<not> prefix p ?t" if "p \<in> {''https://'', ''http://'', ''index.docker.io/''}" for p
  proof -
    from that have "CHR ''/'' \<in> set p" "ContainsAny (firstComponent p) ''.:''"
      by (auto simp: ContainsAny_def)
    with cases show ?thesis using not_prefix_slash not_prefix_dotted by blast
  qed
  then have eq: "normalizeImageReference src =
    (case Index ?t ''/'' of None \<Rightarrow> ''docker.io/library/'' @ ?t
     | Some i \<Rightarrow> if \<not> ContainsAny (take i ?t) ''.:'' then ''docker.io/'' @ ?t else ?t)"
    using assms(2) by (simp add: normalizeImageReference_def TrimPrefix_def HasPrefix_def Let_def)
  have "\<exists>r. normalizeImageReference src = ''docker.io'' @ CHR ''/'' # r"
    unfolding eq using cases by (cases "Index ?t ''/''") (auto simp: take_Index_slash Index_char)
  then have "hasBoundaryPrefix (normalizeImageReference src) ''docker.io''"
    by (auto simp: hasBoundaryPrefix_iff)
  with assms(1) show ?thesis
    unfolding matchExcludedRegistry_eq by (auto simp: find_None_conv)
qed

text \<open>
  The configured exclusions are used as a set: the normalised list is sorted, without
  duplicates or blanks, and does not depend on the order or multiplicity of the configured values.
\<close>

lemma normalizeExcludedRegistries_canonical:
  "sorted (normalizeExcludedRegistries xs) \<and> distinct (normalizeExcludedRegistries xs)
   \<and> [] \<notin> set (normalizeExcludedRegistries xs)
   \<and> normalizeExcludedRegistries xs =
       sorted_list_of_set (normalizeRegistryPrefix ` set xs - {[]})"
  using normalizeExcludedRegistries_sorted [of xs] set_normalizeExcludedRegistries [of xs]
  by (auto intro!: sorted_distinct_set_unique)

section \<open>What an exclusion covers\<close>

text \<open>
  The meaning of exclusions, said without the normalisation of the code. A text spells a name when it is the
  name in any mixture of upper and lower case, with blanks around it and perhaps a scheme in front.
\<close>

definition spells :: "string \<Rightarrow> string \<Rightarrow> bool" where
  "spells written name \<longleftrightarrow> (\<exists>l scheme body r. written = l @ scheme @ body @ r
     \<and> list_all isSpace l \<and> list_all isSpace r \<and> ToLower scheme \<in> {[], ''https://'', ''http://''}
     \<and> ToLower body = name \<and> list_all (\<lambda>c. \<not> isSpace c) body)"

text \<open>A registry host, with a port perhaps; it has a dot or a colon, which tells it from a path.\<close>

definition hostName :: "string \<Rightarrow> bool" where
  "hostName h \<longleftrightarrow> ContainsAny h ''.:'' \<and> CHR ''/'' \<notin> set h \<and> h \<notin> {''https:'', ''http:''}"

text \<open>The two names of Docker Hub.\<close>

definition canonicalHost :: "string \<Rightarrow> string" where
  "canonicalHost h = (if h = ''index.docker.io'' then ''docker.io'' else h)"

text \<open>
  \<open>refersTo src host path\<close>: the image reference \<open>src\<close> is about \<open>path\<close> (from its first slash on, with tag and digest)
  at the registry \<open>host\<close>. A reference without a registry is one of Docker Hub, in \<open>library\<close> when it
  has no slash either.
\<close>

inductive refersTo :: "string \<Rightarrow> string \<Rightarrow> string \<Rightarrow> bool" where
  full: "spells src (h @ ''/'' @ repo) \<Longrightarrow> hostName h \<Longrightarrow> refersTo src (canonicalHost h) (''/'' @ repo)"
| short: "spells src name \<Longrightarrow> CHR ''/'' \<in> set name \<Longrightarrow> \<not> ContainsAny (takeWhile (\<lambda>c. c \<noteq> CHR ''/'') name) ''.:''
    \<Longrightarrow> refersTo src ''docker.io'' (''/'' @ name)"
| official: "spells src name \<Longrightarrow> name \<noteq> [] \<Longrightarrow> CHR ''/'' \<notin> set name \<Longrightarrow> refersTo src ''docker.io'' (''/library/'' @ name)"

text \<open>\<open>excludes entry host path\<close>: a configured exclusion names a registry, or a path in it, with or without a slash at the end.\<close>

inductive excludes :: "string \<Rightarrow> string \<Rightarrow> string \<Rightarrow> bool" where
  registry: "spells entry (h @ slash) \<Longrightarrow> hostName h \<Longrightarrow> slash \<in> {[], ''/''} \<Longrightarrow> excludes entry (canonicalHost h) []"
| path: "spells entry (h @ ''/'' @ repo @ slash) \<Longrightarrow> hostName h \<Longrightarrow> repo \<noteq> [] \<Longrightarrow> last repo \<noteq> CHR ''/'' \<Longrightarrow>
    slash \<in> {[], ''/''} \<Longrightarrow> excludes entry (canonicalHost h) (''/'' @ repo)"

definition covers :: "string \<Rightarrow> string \<Rightarrow> bool" where
  "covers entry src \<longleftrightarrow> (\<exists>host p q. excludes entry host p \<and> refersTo src host (p @ q) \<and> (q = [] \<or> hd q \<in> set ''/:@''))"

lemma spells_TrimSpace:
  assumes "spells written name" "name \<noteq> []"
  obtains scheme where "ToLower (TrimSpace written) = scheme @ name" "scheme \<in> {[], ''https://'', ''http://''}"
proof -
  obtain l scheme body r where padded: "written = l @ scheme @ body @ r" "list_all isSpace l" "list_all isSpace r"
    and name: "ToLower scheme \<in> {[], ''https://'', ''http://''}" "ToLower body = name" "list_all (\<lambda>c. \<not> isSpace c) body"
    using assms(1) unfolding spells_def by blast
  have "list_all (\<lambda>c. \<not> isSpace c) ''https://''" "list_all (\<lambda>c. \<not> isSpace c) ''http://''" by code_simp+
  with name(1) have "list_all (\<lambda>c. \<not> isSpace c) (ToLower scheme)" by auto
  then have "list_all (\<lambda>c. \<not> isSpace c) (scheme @ body)" using name(3) by (auto simp: ToLower_def list_all_iff)
  moreover have "scheme @ body \<noteq> []" using name(2) assms(2) by auto
  ultimately have "TrimSpace written = scheme @ body"
    unfolding padded(1) TrimSpace_def using padded(2,3) trimBy_padded [of isSpace l r "scheme @ body"] by simp
  with name that show thesis by (simp add: ToLower_append)
qed

lemma prefix_scheme:
  "prefix ''https://'' s \<Longrightarrow> firstComponent s = ''https:''" "prefix ''http://'' s \<Longrightarrow> firstComponent s = ''http:''"
  by (auto elim!: prefixE)

lemma strip_scheme:
  assumes "spells written name" "name \<noteq> []" "\<not> prefix ''https://'' name" "\<not> prefix ''http://'' name"
  shows "TrimPrefix (TrimPrefix (ToLower (TrimSpace written)) ''https://'') ''http://'' = name" "TrimSpace written \<noteq> []"
proof -
  obtain scheme where s: "ToLower (TrimSpace written) = scheme @ name" "scheme \<in> {[], ''https://'', ''http://''}"
    using spells_TrimSpace [OF assms(1,2)] by blast
  from s assms(3,4) show "TrimPrefix (TrimPrefix (ToLower (TrimSpace written)) ''https://'') ''http://'' = name"
    by (auto simp: TrimPrefix_def)
  from s(1) assms(2) show "TrimSpace written \<noteq> []" by (auto simp: ToLower_def)
qed

lemma firstComponent_host: "CHR ''/'' \<notin> set h \<Longrightarrow> firstComponent (h @ CHR ''/'' # r) = h" "CHR ''/'' \<notin> set h \<Longrightarrow> firstComponent h = h"
  by (induction h) auto

lemma hostNameD: "hostName h \<Longrightarrow> h \<noteq> [] \<and> CHR ''/'' \<notin> set h \<and> h \<notin> {''https:'', ''http:''}"
  by (auto simp: hostName_def ContainsAny_def)

lemma hostName_canonical: "hostName h \<Longrightarrow> ContainsAny (canonicalHost h) ''.:'' \<and> CHR ''/'' \<notin> set (canonicalHost h)"
  by (simp add: hostName_def canonicalHost_def ContainsAny_def)

text \<open>The alias of Docker Hub is recognised in front of a path.\<close>

lemma prefix_host_slash:
  assumes "CHR ''/'' \<notin> set h" "CHR ''/'' \<notin> set g"
  shows "prefix (g @ ''/'') (h @ ''/'' @ r) \<longleftrightarrow> h = g"
proof
  assume "prefix (g @ ''/'') (h @ ''/'' @ r)"
  then obtain u where "h @ CHR ''/'' # r = g @ CHR ''/'' # u" by (auto elim: prefixE)
  then have "firstComponent (h @ CHR ''/'' # r) = firstComponent (g @ CHR ''/'' # u)" by simp
  then show "h = g" by (simp only: firstComponent_host [OF assms(1)] firstComponent_host [OF assms(2)])
qed simp

lemma normalizeRegistryPrefix_spelled:
  assumes "spells entry (h @ tail @ slash)" "hostName h" "tail = [] \<or> hd tail = CHR ''/'' \<and> last tail \<noteq> CHR ''/''" "slash \<in> {[], ''/''}"
  shows "normalizeRegistryPrefix entry = canonicalHost h @ tail"
proof -
  have h: "h \<noteq> []" "CHR ''/'' \<notin> set h" "h \<notin> {''https:'', ''http:''}" using hostNameD [OF assms(2)] by auto
  have "tail @ slash = [] \<or> (\<exists>r. tail @ slash = CHR ''/'' # r)" using assms(3,4) by (cases tail) auto
  then have first: "firstComponent (h @ tail @ slash) = h"
    using firstComponent_host [OF h(2)] by (elim disjE exE) simp_all
  then have no_scheme: "\<not> prefix ''https://'' (h @ tail @ slash)" "\<not> prefix ''http://'' (h @ tail @ slash)"
    using h(3) by (auto dest!: prefix_scheme)
  have strip: "TrimPrefix (TrimPrefix (ToLower (TrimSpace entry)) ''https://'') ''http://'' = h @ tail @ slash" "TrimSpace entry \<noteq> []"
    using strip_scheme [OF assms(1)] h(1,3) first no_scheme by simp_all
  have "last h \<noteq> CHR ''/''" using h(1,2) last_in_set [of h] by metis
  then have "last (h @ tail) \<noteq> CHR ''/''" using assms(3) by (cases "tail = []") simp_all
  then have suffix: "TrimSuffix (h @ tail @ slash) ''/'' = h @ tail"
    using assms(4) h(1) by (auto simp: TrimSuffix_def suffix_def)
  have hub: "h @ tail = ''index.docker.io'' \<or> HasPrefix (h @ tail) ''index.docker.io/'' \<longleftrightarrow> h = ''index.docker.io''"
  proof (cases tail)
    case Nil
    have "CHR ''/'' \<in> set ''index.docker.io/''" by simp
    with Nil h(2) not_prefix_slash show ?thesis by (auto simp: HasPrefix_def)
  next
    case (Cons c r)
    then have "tail = ''/'' @ r" using assms(3) by simp
    moreover have "h @ ''/'' @ r \<noteq> ''index.docker.io''"
      by (rule notI, drule arg_cong [where f = "\<lambda>s. CHR ''/'' \<in> set s"]) simp
    ultimately show ?thesis using prefix_host_slash [OF h(2), of "''index.docker.io''" r] by (simp add: HasPrefix_def)
  qed
  have "normalizeRegistryPrefix entry = (if h = ''index.docker.io'' then ''docker.io'' @ drop (length ''index.docker.io'') (h @ tail) else h @ tail)"
    using strip(2) unfolding normalizeRegistryPrefix_def Let_def strip(1) suffix hub by simp
  then show ?thesis by (auto simp: canonicalHost_def)
qed

lemma normalizeImageReference_named:
  assumes "spells src name" "name \<noteq> []" "\<not> prefix ''https://'' name" "\<not> prefix ''http://'' name"
  shows "normalizeImageReference src =
    (let t = (if HasPrefix name ''index.docker.io/'' then ''docker.io/'' @ drop (length ''index.docker.io/'') name else name)
     in if CHR ''/'' \<notin> set t then ''docker.io/library/'' @ t
        else if \<not> ContainsAny (firstComponent t) ''.:'' then ''docker.io/'' @ t else t)"
  using strip_scheme [OF assms]
  by (auto simp: normalizeImageReference_def Let_def Index_char take_Index_slash takeWhile_eq_take [symmetric] split: option.splits)

lemma normalizeImageReference_refersTo:
  assumes "refersTo src host p"
  shows "normalizeImageReference src = host @ p"
  using assms
proof cases
  case (full h repo)
  then have h: "CHR ''/'' \<notin> set h" "h \<notin> {''https:'', ''http:''}" using hostNameD by auto
  have no_scheme: "\<not> prefix ''https://'' (h @ ''/'' @ repo)" "\<not> prefix ''http://'' (h @ ''/'' @ repo)"
    using firstComponent_host(1) [OF h(1), of repo] h(2) by (auto dest!: prefix_scheme)
  have eq: "normalizeImageReference src = (let t = canonicalHost h @ ''/'' @ repo
     in if CHR ''/'' \<notin> set t then ''docker.io/library/'' @ t
        else if \<not> ContainsAny (firstComponent t) ''.:'' then ''docker.io/'' @ t else t)"
    using normalizeImageReference_named [OF full(3)] no_scheme
      prefix_host_slash [OF h(1), of "''index.docker.io''" repo]
    by (auto simp: HasPrefix_def canonicalHost_def)
  show ?thesis
    using hostName_canonical [OF full(4)] firstComponent_host(1) [of "canonicalHost h" repo]
    unfolding eq full(1,2) by simp
next
  case (short name)
  have "\<not> prefix ''index.docker.io/'' name"
    using not_prefix_dotted [OF short(5,4)] by (auto simp: ContainsAny_def)
  moreover have "\<not> prefix ''https://'' name" "\<not> prefix ''http://'' name"
    using short(5) by (auto dest!: prefix_scheme simp: ContainsAny_def)
  moreover have "name \<noteq> []" using short(4) by auto
  ultimately show ?thesis
    using normalizeImageReference_named [OF short(3)] short by (simp add: HasPrefix_def Let_def)
next
  case (official name)
  have "\<not> prefix ''index.docker.io/'' name" "\<not> prefix ''https://'' name" "\<not> prefix ''http://'' name"
    using not_prefix_slash [OF official(5)] by simp_all
  then show ?thesis
    using normalizeImageReference_named [OF official(3,4)] official by (simp add: HasPrefix_def Let_def)
qed

text \<open>The code finds an exclusion for every image that the configured exclusions cover.\<close>

lemma covers_matched:
  assumes "covers entry src" "entry \<in> set excluded"
  shows "matchExcludedRegistry (normalizeExcludedRegistries excluded) src \<noteq> None"
proof -
  obtain host p q where e: "excludes entry host p" and r: "refersTo src host (p @ q)" and q: "q = [] \<or> hd q \<in> set ''/:@''"
    using assms(1) unfolding covers_def by blast
  from e have n: "normalizeRegistryPrefix entry = host @ p \<and> host \<noteq> []"
  proof cases
    case (registry h slash)
    with normalizeRegistryPrefix_spelled [of entry h "[]" slash] hostNameD [of h] show ?thesis
      by (auto simp: canonicalHost_def)
  next
    case (path h repo slash)
    with normalizeRegistryPrefix_spelled [of entry h "''/'' @ repo" slash] hostNameD [of h] show ?thesis
      by (auto simp: canonicalHost_def)
  qed
  then have "host @ p \<in> set (normalizeExcludedRegistries excluded)"
    using assms(2) by (auto simp: set_normalizeExcludedRegistries intro: rev_image_eqI)
  moreover have "hasBoundaryPrefix (normalizeImageReference src) (host @ p)"
    using n q unfolding normalizeImageReference_refersTo [OF r] hasBoundaryPrefix_iff by (cases q) auto
  ultimately show ?thesis
    unfolding matchExcludedRegistry_eq by (auto simp: find_None_conv)
qed

text \<open>
  Two spellings of one image that the code tells apart: an image of \<open>library\<close> whose registry is written out
  but whose namespace is not. An exclusion of \<open>docker.io/library\<close> covers \<open>nginx\<close> and not \<open>docker.io/nginx\<close>.
\<close>

lemma library_not_covered:
  "matchExcludedRegistry (normalizeExcludedRegistries [''docker.io/library'']) ''nginx'' = Some ''docker.io/library''"
  "matchExcludedRegistry (normalizeExcludedRegistries [''docker.io/library'']) ''docker.io/nginx'' = None"
  by code_simp+

end
