(* ===== verification/Metrics.thy ===== *)
theory Metrics
  imports Exclusion
begin

text \<open>
  \<open>pkg/metrics/metrics.go\<close>: four counters, each a family indexed by the registry label of an image.
  Registration with Prometheus is not modelled.
\<close>

section \<open>Definitions\<close>

type_synonym counterVec = "string \<Rightarrow> nat"

record metrics =
  pullSuccess :: counterVec
  pullError :: counterVec
  pushSuccess :: counterVec
  pushError :: counterVec

definition registryLabel :: "string \<Rightarrow> string" where
  "registryLabel img =
     (let t = ToLower (TrimSpace img)
      in if t = [] then []
         else (let t = TrimPrefix t ''https://'';
                   t = TrimPrefix t ''http://''
               in (case Index t ''/'' of
                     None \<Rightarrow> ''docker.io''
                   | Some idx \<Rightarrow>
                       (let first = TrimSpace (take idx t)
                        in if first = [] then []
                           else if Contains first ''.'' \<or> Contains first '':'' \<or> first = ''localhost''
                           then first
                           else ''docker.io''))))"

definition recordMetric :: "counterVec \<Rightarrow> string \<Rightarrow> counterVec" where
  "recordMetric counter img =
     (let registry = registryLabel img
      in if registry = [] then counter else counter(registry := Suc (counter registry)))"

definition RecordPullSuccess :: "string \<Rightarrow> metrics \<Rightarrow> metrics" where
  "RecordPullSuccess img m = m\<lparr>pullSuccess := recordMetric (pullSuccess m) img\<rparr>"

definition RecordPullError :: "string \<Rightarrow> metrics \<Rightarrow> metrics" where
  "RecordPullError img m = m\<lparr>pullError := recordMetric (pullError m) img\<rparr>"

definition RecordPushSuccess :: "string \<Rightarrow> metrics \<Rightarrow> metrics" where
  "RecordPushSuccess img m = m\<lparr>pushSuccess := recordMetric (pushSuccess m) img\<rparr>"

definition RecordPushError :: "string \<Rightarrow> metrics \<Rightarrow> metrics" where
  "RecordPushError img m = m\<lparr>pushError := recordMetric (pushError m) img\<rparr>"

text \<open>The accessors read the counters; the Prometheus object they hand out is the counter.\<close>

definition PullSuccessCounter :: "metrics \<Rightarrow> counterVec" where
  "PullSuccessCounter m = pullSuccess m"

definition PullErrorCounter :: "metrics \<Rightarrow> counterVec" where
  "PullErrorCounter m = pullError m"

definition PushSuccessCounter :: "metrics \<Rightarrow> counterVec" where
  "PushSuccessCounter m = pushSuccess m"

definition PushErrorCounter :: "metrics \<Rightarrow> counterVec" where
  "PushErrorCounter m = pushError m"

definition ResetMetrics :: metrics where
  "ResetMetrics = \<lparr>pullSuccess = (\<lambda>_. 0), pullError = (\<lambda>_. 0), pushSuccess = (\<lambda>_. 0), pushError = (\<lambda>_. 0)\<rparr>"

section \<open>Facts\<close>

lemma recordMetric_mono: "counter r \<le> recordMetric counter img r"
  by (simp add: recordMetric_def Let_def)

lemma recordMetric_bounded: "recordMetric counter img r \<le> Suc (counter r)"
  by (simp add: recordMetric_def Let_def)

section \<open>Properties\<close>

text \<open>
  Metric labels stay few: the label of an image is empty (nothing is recorded), the Docker
  Hub name, or a registry host taken from the reference; it never contains a path.
\<close>

lemma registryLabel_is_host:
  "registryLabel img = [] \<or> registryLabel img = ''docker.io'' \<or>
   (CHR ''/'' \<notin> set (registryLabel img) \<and> TrimSpace (registryLabel img) = registryLabel img \<and>
    (CHR ''.'' \<in> set (registryLabel img) \<or> CHR '':'' \<in> set (registryLabel img)
     \<or> registryLabel img = ''localhost''))"
proof -
  define t where "t = TrimPrefix (TrimPrefix (ToLower (TrimSpace img)) ''https://'') ''http://''"
  show ?thesis
  proof (cases "Index t ''/''")
    case None
    then show ?thesis by (simp add: registryLabel_def t_def [symmetric] Let_def)
  next
    case (Some i)
    define f where "f = TrimSpace (take i t)"
    have "CHR ''/'' \<notin> set f"
      unfolding f_def using take_Index_slash [OF Some] TrimSpace_subset set_takeWhileD by metis
    moreover have "TrimSpace f = f" by (simp add: f_def)
    moreover have "registryLabel img = [] \<or> registryLabel img = ''docker.io'' \<or>
      registryLabel img = f \<and> (CHR ''.'' \<in> set f \<or> CHR '':'' \<in> set f \<or> f = ''localhost'')"
      by (simp add: registryLabel_def t_def [symmetric] Some f_def [symmetric] Let_def)
    ultimately show ?thesis by auto
  qed
qed

end
