(* ===== verification/Retry.thy ===== *)
theory Retry
  imports GoErrors
begin

text \<open>
  \<open>internal/mirror/pusher.go\<close>, classification of registry errors and the retry loop. The operation that
  is retried and the wait between two attempts act on a state of any type; the wait yields the
  context's error when the context ends before the timer fires.
\<close>

section \<open>Definitions\<close>

definition isRegistryAuthStatus :: "int \<Rightarrow> bool" where
  "isRegistryAuthStatus status \<longleftrightarrow> status = 401 \<or> status = 403"

definition hasRegistryAuthDiagnostic :: "diagnostic list \<Rightarrow> bool" where
  "hasRegistryAuthDiagnostic diags \<longleftrightarrow>
     list_ex (\<lambda>d. diag_code d = ''UNAUTHORIZED'' \<or> diag_code d = ''DENIED'') diags"

text \<open>The pair of status code and diagnostics the log entry carries; \<^term>\<open>None\<close> when it is not an auth error.\<close>

definition detectRegistryAuthError :: "goerror \<Rightarrow> (int \<times> diagnostic list) option" where
  "detectRegistryAuthError e =
     (case asTransport e of
        Some (TransportError c ds t) \<Rightarrow>
          if \<not> isRegistryAuthStatus c \<and> \<not> hasRegistryAuthDiagnostic ds then None else Some (c, ds)
      | _ \<Rightarrow> None)"

definition isRetryableRegistryError :: "goerror option \<Rightarrow> bool" where
  "isRetryableRegistryError err =
     (case err of None \<Rightarrow> False
      | Some e \<Rightarrow>
          if errIs e DeadlineExceeded then True
          else if errIs e Canceled then False
          else if errIs e UnexpectedEOF \<or> errIs e EOF then True
          else (case asTransport e of
                  Some te \<Rightarrow> statusCode te \<in> {408, 429, 500, 502, 503, 504}
                | None \<Rightarrow>
                    (case find isNetError (errChain e) of
                       Some ne \<Rightarrow> netTimeout ne
                     | None \<Rightarrow>
                         (let msg = ToLower (errText e)
                          in Contains msg ''connection reset'' \<or> Contains msg ''broken pipe''
                             \<or> Contains msg ''use of closed network connection''
                             \<or> Contains msg ''server closed idle connection''))))"

record retryConfig =
  Attempts :: int
  Backoff :: duration

type_synonym 's step = "'s \<Rightarrow> goerror option \<times> 's"

text \<open>The loop; the first argument counts the attempts that are left.\<close>

fun retryLoop :: "nat \<Rightarrow> duration \<Rightarrow> (duration \<Rightarrow> 's step) \<Rightarrow> 's step \<Rightarrow> 's step" where
  "retryLoop 0 backoff wait fn s = (None, s)"
| "retryLoop (Suc n) backoff wait fn s =
     (case fn s of
        (None, s1) \<Rightarrow> (None, s1)
      | (Some e, s1) \<Rightarrow>
          if n = 0 \<or> \<not> isRetryableRegistryError (Some e) then (Some e, s1)
          else if backoff \<le> 0 then retryLoop n backoff wait fn s1
          else (case wait backoff s1 of
                  (Some ctxErr, s2) \<Rightarrow> (Some ctxErr, s2)
                | (None, s2) \<Rightarrow> retryLoop n backoff wait fn s2))"

definition withRetry :: "retryConfig \<Rightarrow> (duration \<Rightarrow> 's step) \<Rightarrow> 's step \<Rightarrow> 's step" where
  "withRetry cfg wait fn s =
     (let attempts = (if Attempts cfg \<le> 0 then 1 else Attempts cfg);
          backoff = (if Backoff cfg < 0 then 0 else Backoff cfg)
      in retryLoop (nat attempts) backoff wait fn s)"

section \<open>Facts\<close>

text \<open>The number of attempts the loop starts from is never zero.\<close>

definition attemptBudget :: "retryConfig \<Rightarrow> nat" where
  "attemptBudget cfg = nat (max 1 (Attempts cfg))"

lemma attemptBudget_pos [simp]: "0 < attemptBudget cfg"
  by (simp add: attemptBudget_def)

lemma withRetry_eq: "withRetry cfg wait fn s = retryLoop (attemptBudget cfg) (max 0 (Backoff cfg)) wait fn s"
  by (auto simp: withRetry_def attemptBudget_def Let_def max_def)

text \<open>An operation instrumented with a count of its calls.\<close>

definition counted :: "'s step \<Rightarrow> ('s \<times> nat) step" where
  "counted fn = (\<lambda>(s, k). let (r, s') = fn s in (r, (s', Suc k)))"

definition uncounted :: "(duration \<Rightarrow> 's step) \<Rightarrow> duration \<Rightarrow> ('s \<times> nat) step" where
  "uncounted wait d = (\<lambda>(s, k). let (r, s') = wait d s in (r, (s', k)))"

lemma retryLoop_counted_le:
  "snd (snd (retryLoop n b (uncounted wait) (counted fn) (s, k))) \<le> k + n"
proof (induction n arbitrary: s k)
  case (Suc n)
  obtain r s1 where fn: "fn s = (r, s1)" by fastforce
  obtain w s2 where wt: "wait b s1 = (w, s2)" by fastforce
  from Suc.IH [of s1 "Suc k"] Suc.IH [of s2 "Suc k"] show ?case
    by (auto simp: counted_def [of fn] uncounted_def [of wait] fn wt split: option.splits)
qed simp

lemma retryLoop_counted_ge:
  "0 < n \<Longrightarrow> k < snd (snd (retryLoop n b (uncounted wait) (counted fn) (s, k)))"
proof (induction n arbitrary: s k)
  case (Suc n)
  obtain r s1 where fn: "fn s = (r, s1)" by fastforce
  obtain w s2 where wt: "wait b s1 = (w, s2)" by fastforce
  from Suc.IH [of "Suc k" s1] Suc.IH [of "Suc k" s2] show ?case
    by (auto simp: counted_def [of fn] uncounted_def [of wait] fn wt split: option.splits)
qed simp

text \<open>What an attempt that ends the loop looks like: success or an error that is not worth a retry.\<close>

abbreviation finalOutcome :: "goerror option \<Rightarrow> bool" where
  "finalOutcome r \<equiv> \<not> isRetryableRegistryError r"

lemma isRetryable_None [simp]: "\<not> isRetryableRegistryError None"
  by (simp add: isRetryableRegistryError_def)

text \<open>
  An operation and pauses that follow a script: \<open>outcomes k\<close> is what attempt \<open>k\<close> returns, counted from 0, and
  \<open>pauses d k\<close> what the pause of length \<open>d\<close> after attempt \<open>k\<close> returns, \<^term>\<open>None\<close> when it runs its course and
  the error of the context when it is cancelled. The state is the number of attempts made so far.
\<close>

definition scriptedCall :: "(nat \<Rightarrow> goerror option) \<Rightarrow> nat step" where
  "scriptedCall outcomes k = (outcomes k, Suc k)"

definition scriptedPause :: "(duration \<Rightarrow> nat \<Rightarrow> goerror option) \<Rightarrow> duration \<Rightarrow> nat step" where
  "scriptedPause pauses d k = (pauses d (k - 1), k)"

text \<open>The answer that attempt \<open>k\<close> or the pause after it gives, with \<^term>\<open>None\<close> when another attempt follows.\<close>

definition answerAfter ::
  "nat \<Rightarrow> duration \<Rightarrow> (duration \<Rightarrow> nat \<Rightarrow> goerror option) \<Rightarrow> (nat \<Rightarrow> goerror option) \<Rightarrow> nat \<Rightarrow> goerror option option" where
  "answerAfter budget backoff pauses outcomes k =
     (if finalOutcome (outcomes k) \<or> Suc k = budget then Some (outcomes k)
      else if 0 < backoff \<and> pauses backoff k \<noteq> None then Some (pauses backoff k)
      else None)"

lemma retryLoop_scripted:
  "retryLoop (Suc n) b (scriptedPause pauses) (scriptedCall outcomes) i =
     (let k = the (find (\<lambda>k. answerAfter (i + Suc n) b pauses outcomes k \<noteq> None) [i..<i + Suc n])
      in (the (answerAfter (i + Suc n) b pauses outcomes k), Suc k))"
proof (induction n arbitrary: i)
  case 0
  then show ?case by (cases "outcomes i") (auto simp: scriptedCall_def answerAfter_def)
next
  case (Suc n)
  have upt: "[i..<i + Suc (Suc n)] = i # [Suc i..<Suc i + Suc n]"
    by (simp add: upt_conv_Cons)
  show ?case
  proof (cases "answerAfter (i + Suc (Suc n)) b pauses outcomes i")
    case None
    then obtain e where e: "outcomes i = Some e" "isRetryableRegistryError (Some e)"
      by (cases "outcomes i") (auto simp: answerAfter_def split: if_splits)
    with None have "retryLoop (Suc (Suc n)) b (scriptedPause pauses) (scriptedCall outcomes) i =
        retryLoop (Suc n) b (scriptedPause pauses) (scriptedCall outcomes) (Suc i)"
      by (subst retryLoop.simps(2))
        (auto simp: scriptedCall_def scriptedPause_def answerAfter_def simp del: retryLoop.simps split: if_splits)
    with Suc.IH [of "Suc i"] None show ?thesis unfolding upt by (simp del: upt_Suc retryLoop.simps)
  next
    case (Some r)
    then show ?thesis unfolding upt
      by (cases "outcomes i"; cases "pauses b i") (auto simp: scriptedCall_def scriptedPause_def answerAfter_def split: if_splits)
  qed
qed

section \<open>Properties\<close>

text \<open>
  Property C23. The retry loop ends and is bounded: whatever the operation and the context do, the
  operation runs at least once and at most the configured number of attempts (at least one).
\<close>

theorem withRetry_attempts_bounded:
  "0 < snd (snd (withRetry cfg (uncounted wait) (counted fn) (s, 0)))
   \<and> snd (snd (withRetry cfg (uncounted wait) (counted fn) (s, 0))) \<le> attemptBudget cfg"
  unfolding withRetry_eq
  using retryLoop_counted_ge [OF attemptBudget_pos] retryLoop_counted_le [where k = 0] by force

text \<open>
  Property C24. What the loop answers, for every operation and every behaviour of the context. It stops after the
  first attempt that succeeds, fails with an error not worth a retry, is the last one allowed, or is
  followed by a pause that is cancelled. In the first three cases the answer is the outcome of that
  attempt, in the last the error of the context; the number of attempts is exact. There are pauses only
  when a positive backoff is configured, and each has that length.
\<close>

theorem withRetry_first_final:
  "withRetry cfg (scriptedPause pauses) (scriptedCall outcomes) 0 =
     (let budget = nat (max 1 (Attempts cfg));
          again = (\<lambda>k. isRetryableRegistryError (outcomes k) \<and> Suc k < budget);
          cancelled = (\<lambda>k. 0 < Backoff cfg \<and> pauses (Backoff cfg) k \<noteq> None);
          k = the (find (\<lambda>k. if again k then cancelled k else True) [0..<budget])
      in (if again k then pauses (Backoff cfg) k else outcomes k, Suc k))"
proof -
  obtain n where n: "attemptBudget cfg = Suc n"
    using attemptBudget_pos gr0_conv_Suc by blast
  let ?ans = "answerAfter (Suc n) (max 0 (Backoff cfg)) pauses outcomes"
  let ?again = "\<lambda>k. isRetryableRegistryError (outcomes k) \<and> Suc k < Suc n"
  let ?stops = "\<lambda>k. if ?again k then 0 < Backoff cfg \<and> pauses (Backoff cfg) k \<noteq> None else True"
  have stops: "find (\<lambda>k. ?ans k \<noteq> None) [0..<Suc n] = find ?stops [0..<Suc n]"
    by (rule find_cong_set) (auto simp: answerAfter_def max_def)
  have "?stops n" by simp
  then obtain k where k: "find ?stops [0..<Suc n] = Some k"
    by (cases "find ?stops [0..<Suc n]") (auto simp: find_None_conv)
  from find_SomeD [OF k] have "?stops k" "k < Suc n" unfolding set_upt atLeastLessThan_iff by blast+
  then have "the (?ans k) = (if ?again k then pauses (Backoff cfg) k else outcomes k)"
    by (auto simp: answerAfter_def max_def split: if_splits)
  with k show ?thesis
    unfolding withRetry_eq attemptBudget_def [symmetric] n retryLoop_scripted Let_def add_0 stops by simp
qed

text \<open>
  Authentication failures are never retried: a transport error with status 401 or 403
  that is not a deadline, cancellation or end of file stops the loop at the first attempt.
\<close>

lemma auth_error_not_retried:
  assumes "fn s = (Some (TransportError c ds t), s')" and "isRegistryAuthStatus c"
  shows "withRetry cfg wait fn s = (Some (TransportError c ds t), s')"
proof -
  have "\<not> isRetryableRegistryError (Some (TransportError c ds t))"
    using assms(2)
    by (auto simp: isRetryableRegistryError_def isRegistryAuthStatus_def errIs_def asTransport_def)
  moreover obtain n where "attemptBudget cfg = Suc n"
    using attemptBudget_pos gr0_conv_Suc by blast
  ultimately show ?thesis unfolding withRetry_eq by (simp add: assms(1))
qed

end
