(* ===== verification/Sha1.thy ===== *)
theory Sha1
  imports GoStrings "HOL-Library.Word"
begin

text \<open>
  Package \<open>crypto/sha1\<close> and \<open>encoding/hex\<close> as far as \<open>ShortDigest\<close> uses them: SHA-1 (FIPS 180-4)
  over byte strings, executable, and the lower-case hexadecimal rendering of its five words.
\<close>

unbundle bit_operations_syntax

type_synonym u32 = "32 word"
type_synonym sha1_state = "u32 \<times> u32 \<times> u32 \<times> u32 \<times> u32"

section \<open>Padding and message schedule\<close>

definition be_bytes :: "nat \<Rightarrow> nat \<Rightarrow> nat list" where
  "be_bytes k n = map (\<lambda>i. (n div 256 ^ (k - 1 - i)) mod 256) [0..<k]"

definition sha1_pad :: "nat list \<Rightarrow> nat list" where
  "sha1_pad msg =
     msg @ [128] @ replicate ((119 - length msg mod 64) mod 64) 0
         @ be_bytes 8 ((8 * length msg) mod 2 ^ 64)"

fun be_words :: "nat list \<Rightarrow> u32 list" where
  "be_words (a # b # c # d # r) = of_nat (((a * 256 + b) * 256 + c) * 256 + d) # be_words r"
| "be_words _ = []"

text \<open>The schedule grows the sixteen words of a block to eighty; \<open>n\<close> counts the missing ones.\<close>

fun sha1_schedule :: "nat \<Rightarrow> u32 list \<Rightarrow> u32 list" where
  "sha1_schedule 0 ws = ws"
| "sha1_schedule (Suc n) ws =
     (let t = length ws
      in sha1_schedule n
           (ws @ [word_rotl 1 ((ws ! (t - 3)) XOR (ws ! (t - 8)) XOR (ws ! (t - 14)) XOR (ws ! (t - 16)))]))"

section \<open>Compression\<close>

definition sha1_f :: "nat \<Rightarrow> u32 \<Rightarrow> u32 \<Rightarrow> u32 \<Rightarrow> u32" where
  "sha1_f t b c d =
     (if t < 20 then (b AND c) OR (NOT b AND d)
      else if t < 40 then b XOR c XOR d
      else if t < 60 then (b AND c) OR (b AND d) OR (c AND d)
      else b XOR c XOR d)"

definition sha1_k :: "nat \<Rightarrow> u32" where
  "sha1_k t = (if t < 20 then 0x5A827999 else if t < 40 then 0x6ED9EBA1
               else if t < 60 then 0x8F1BBCDC else 0xCA62C1D6)"

fun sha1_rounds :: "nat \<Rightarrow> u32 list \<Rightarrow> sha1_state \<Rightarrow> sha1_state" where
  "sha1_rounds t [] st = st"
| "sha1_rounds t (w # ws) (a, b, c, d, e) =
     sha1_rounds (Suc t) ws
       (word_rotl 5 a + sha1_f t b c d + e + sha1_k t + w, a, word_rotl 30 b, c, d)"

definition sha1_block :: "sha1_state \<Rightarrow> u32 list \<Rightarrow> sha1_state" where
  "sha1_block st block =
     (let (h0, h1, h2, h3, h4) = st;
          (a, b, c, d, e) = sha1_rounds 0 (sha1_schedule 64 block) st
      in (h0 + a, h1 + b, h2 + c, h3 + d, h4 + e))"

fun sha1_blocks :: "nat \<Rightarrow> u32 list \<Rightarrow> sha1_state \<Rightarrow> sha1_state" where
  "sha1_blocks 0 ws st = st"
| "sha1_blocks (Suc n) ws st = sha1_blocks n (drop 16 ws) (sha1_block st (take 16 ws))"

definition sha1_init :: sha1_state where
  "sha1_init = (0x67452301, 0xEFCDAB89, 0x98BADCFE, 0x10325476, 0xC3D2E1F0)"

definition sha1 :: "string \<Rightarrow> sha1_state" where
  "sha1 s = (let ws = be_words (sha1_pad (map of_char s))
             in sha1_blocks (length ws div 16) ws sha1_init)"

section \<open>Hexadecimal\<close>

definition hexdigits :: string where
  "hexdigits = ''0123456789abcdef''"

definition hexChar :: "nat \<Rightarrow> char" where
  "hexChar n = hexdigits ! (n mod 16)"

definition hexWord :: "u32 \<Rightarrow> string" where
  "hexWord w = map (\<lambda>i. hexChar (unat w div 16 ^ (7 - i))) [0..<8]"

definition sha1_hex :: "string \<Rightarrow> string" where
  "sha1_hex s = (let (a, b, c, d, e) = sha1 s
                 in hexWord a @ hexWord b @ hexWord c @ hexWord d @ hexWord e)"

lemma length_hexWord [simp]: "length (hexWord w) = 8"
  by (simp add: hexWord_def)

lemma length_sha1_hex [simp]: "length (sha1_hex s) = 40"
  by (simp add: sha1_hex_def split: prod.splits)

lemma hexChar_digit: "hexChar n \<in> set hexdigits"
  by (simp add: hexChar_def hexdigits_def nth_mem del: set_simps list.set)

lemma set_sha1_hex: "set (sha1_hex s) \<subseteq> set hexdigits"
  using hexChar_digit by (auto simp: sha1_hex_def hexWord_def split: prod.splits)

end
