(* ===== verification/Images.thy ===== *)
theory Images
  imports Sha1
begin

text \<open>
  \<open>pkg/util/images.go\<close>: the images a pod or pod template names, the image IDs the kubelet reports for
  them, and the cleaning of repository names. The Kubernetes types are records with the fields the
  program reads.
\<close>

section \<open>Kubernetes objects\<close>

record container =
  c_name :: string
  c_image :: string

record containerStatus =
  st_name :: string
  st_imageID :: string

record ownerReference =
  owner_kind :: string
  owner_name :: string

record podSpec =
  initContainers :: "container list"
  containers :: "container list"
  ephemeralContainers :: "container list"
  nodeName :: string

record podStatus =
  phase :: string
  initContainerStatuses :: "containerStatus list"
  containerStatuses :: "containerStatus list"
  ephemeralContainerStatuses :: "containerStatus list"

record pod =
  pod_namespace :: string
  pod_name :: string
  pod_owners :: "ownerReference list"
  pod_spec :: podSpec
  pod_status :: podStatus

section \<open>Images of a pod\<close>

record podImage =
  Image :: string
  ContainerName :: string
  ImageID :: string

text \<open>The closure \<open>add\<close>: one container, appended unless its image is blank.\<close>

definition addImage :: "podImage list \<Rightarrow> container \<Rightarrow> podImage list" where
  "addImage out c =
     (let img = TrimSpace (c_image c); name = TrimSpace (c_name c)
      in if img = [] then out
         else out @ [\<lparr>Image = img, ContainerName = name, ImageID = []\<rparr>])"

definition ImagesFromPodSpec :: "podSpec option \<Rightarrow> podImage list" where
  "ImagesFromPodSpec spec =
     (case spec of None \<Rightarrow> []
      | Some sp \<Rightarrow>
          (let out = foldl addImage [] (initContainers sp);
               out = foldl addImage out (containers sp)
           in foldl addImage out (ephemeralContainers sp)))"

definition normalizeImageID :: "string \<Rightarrow> string" where
  "normalizeImageID ident =
     (let ident = TrimSpace ident
      in if ident = [] then []
         else (let ident = (case Index ident ''://'' of None \<Rightarrow> ident | Some i \<Rightarrow> drop (i + 3) ident)
               in TrimSpace ident))"

text \<open>The closure \<open>collect\<close>: a later status with the same name replaces an earlier one.\<close>

definition collectStatus :: "(string \<rightharpoonup> string) \<Rightarrow> containerStatus \<Rightarrow> (string \<rightharpoonup> string)" where
  "collectStatus m st =
     (let name = TrimSpace (st_name st)
      in if name = [] then m
         else (let ident = normalizeImageID (st_imageID st)
               in if ident = [] then m else m(name \<mapsto> ident)))"

definition annotateImage :: "(string \<rightharpoonup> string) \<Rightarrow> podImage \<Rightarrow> podImage" where
  "annotateImage m img =
     (case m (ContainerName img) of None \<Rightarrow> img | Some ident \<Rightarrow> img\<lparr>ImageID := ident\<rparr>)"

definition ImagesFromPod :: "pod option \<Rightarrow> podImage list" where
  "ImagesFromPod p =
     (case p of None \<Rightarrow> []
      | Some pd \<Rightarrow>
          (let images = ImagesFromPodSpec (Some (pod_spec pd))
           in if images = [] then []
              else (let m = foldl collectStatus Map.empty (initContainerStatuses (pod_status pd));
                        m = foldl collectStatus m (containerStatuses (pod_status pd));
                        m = foldl collectStatus m (ephemeralContainerStatuses (pod_status pd))
                    in map (annotateImage m) images)))"

section \<open>Repository names\<close>

definition maxRepoNameLength :: nat where
  "maxRepoNameLength = 256"

text \<open>The characters the class \<open>[^a-z0-9_/.-]\<close> of \<open>repoAllowed\<close> leaves out.\<close>

definition repoAllowed :: "char \<Rightarrow> bool" where
  "repoAllowed c \<longleftrightarrow>
     (let n = (of_char c :: nat) in (97 \<le> n \<and> n \<le> 122) \<or> (48 \<le> n \<and> n \<le> 57))
     \<or> c \<in> set ''_/.-''"

definition ShortDigest :: "string \<Rightarrow> string" where
  "ShortDigest d = take 12 (sha1_hex d)"

abbreviation repoCut :: string where
  "repoCut \<equiv> ''-/.''"

definition shortenRepoName :: "string \<Rightarrow> string" where
  "shortenRepoName p =
     (let hash = ShortDigest p;
          keep = int maxRepoNameLength - int (length hash) - 1;
          keep = (if keep < 0 then 0 else keep);
          keep = (if keep > int (length p) then int (length p) else keep);
          trimmed = TrimRight (take (nat keep) p) repoCut;
          q = (if trimmed = [] then hash else trimmed @ ''-'' @ hash);
          q = Trim q repoCut
      in if length q > maxRepoNameLength
         then (if length hash \<ge> maxRepoNameLength
               then Trim (take maxRepoNameLength hash) repoCut
               else Trim (take maxRepoNameLength q) repoCut)
         else q)"

definition CleanRepoName :: "string \<Rightarrow> string" where
  "CleanRepoName path =
     (let p = ToLower (TrimPrefix path ''/'');
          p = map (\<lambda>c. if repoAllowed c then c else CHR ''-'') p;
          p = Trim p repoCut;
          p = (if length p > maxRepoNameLength then shortenRepoName p else p)
      in if p = [] then ''library/unknown'' else p)"

text \<open>
  The specification of a clean repository name. It does not rule out empty path components: two
  slashes in a row pass the cleaning.
\<close>

definition wfRepoName :: "string \<Rightarrow> bool" where
  "wfRepoName p \<longleftrightarrow>
     p \<noteq> [] \<and> length p \<le> maxRepoNameLength \<and> list_all repoAllowed p
     \<and> tight (\<lambda>c. c \<in> set repoCut) p"

section \<open>Facts on the images of a pod\<close>

text \<open>The reference definition: keep the containers with an image, in order.\<close>

definition imagesOf :: "container list \<Rightarrow> podImage list" where
  "imagesOf cs =
     map (\<lambda>c. \<lparr>Image = TrimSpace (c_image c), ContainerName = TrimSpace (c_name c), ImageID = []\<rparr>)
       (filter (\<lambda>c. TrimSpace (c_image c) \<noteq> []) cs)"

lemma foldl_addImage: "foldl addImage out cs = out @ imagesOf cs"
  by (induction cs arbitrary: out) (auto simp: addImage_def imagesOf_def Let_def)

lemma ImagesFromPodSpec_eq:
  "ImagesFromPodSpec (Some sp) =
     imagesOf (initContainers sp @ containers sp @ ephemeralContainers sp)"
  by (simp add: ImagesFromPodSpec_def foldl_addImage) (simp add: imagesOf_def)

lemma ImagesFromPodSpec_nonblank:
  "img \<in> set (ImagesFromPodSpec spec) \<Longrightarrow> TrimSpace (Image img) = Image img \<and> Image img \<noteq> []"
  by (cases spec) (auto simp: ImagesFromPodSpec_def foldl_addImage imagesOf_def)

lemma annotateImage_simps [simp]:
  "Image (annotateImage m i) = Image i" "ContainerName (annotateImage m i) = ContainerName i"
  by (simp_all add: annotateImage_def split: option.splits)

text \<open>The statuses of a pod in the order they are collected.\<close>

definition statusesOf :: "pod \<Rightarrow> containerStatus list" where
  "statusesOf pd = initContainerStatuses (pod_status pd) @ containerStatuses (pod_status pd)
     @ ephemeralContainerStatuses (pod_status pd)"

lemma ImagesFromPod_eq:
  "ImagesFromPod (Some pd) =
     map (annotateImage (foldl collectStatus Map.empty (statusesOf pd)))
       (ImagesFromPodSpec (Some (pod_spec pd)))"
  by (simp add: ImagesFromPod_def statusesOf_def Let_def)

text \<open>What the status map holds: the last usable status of that name.\<close>

definition usableStatus :: "string \<Rightarrow> containerStatus \<Rightarrow> bool" where
  "usableStatus n st \<longleftrightarrow>
     n \<noteq> [] \<and> TrimSpace (st_name st) = n \<and> normalizeImageID (st_imageID st) \<noteq> []"

lemma foldl_collectStatus:
  "foldl collectStatus m sts n =
     (case filter (usableStatus n) sts of
        [] \<Rightarrow> m n | us \<Rightarrow> Some (normalizeImageID (st_imageID (last us))))"
  by (induction sts arbitrary: m)
    (auto simp: collectStatus_def usableStatus_def Let_def split: list.splits)

section \<open>Facts on image IDs\<close>

lemma normalizeImageID_tight: "TrimSpace (normalizeImageID s) = normalizeImageID s"
  by (simp add: normalizeImageID_def Let_def)

lemma normalizeImageID_plain: "\<not> Contains s ''://'' \<Longrightarrow> normalizeImageID s = TrimSpace s"
proof -
  assume "\<not> Contains s ''://''"
  then have "\<not> Contains (TrimSpace s) ''://''"
    using Contains_TrimSpace by blast
  then show ?thesis
    by (simp add: normalizeImageID_def Contains_def Let_def)
qed

section \<open>Facts on repository names\<close>

lemma length_ShortDigest [simp]: "length (ShortDigest d) = 12"
  by (simp add: ShortDigest_def)

lemma set_ShortDigest: "set (ShortDigest d) \<subseteq> set hexdigits"
  unfolding ShortDigest_def by (meson set_sha1_hex set_take_subset subset_trans)

lemma hexdigits_allowed: "c \<in> set hexdigits \<Longrightarrow> repoAllowed c \<and> c \<notin> set repoCut"
proof -
  have "list_all (\<lambda>c. repoAllowed c \<and> c \<notin> set repoCut) hexdigits"
    by code_simp
  then show "c \<in> set hexdigits \<Longrightarrow> ?thesis" by (auto simp only: list_all_iff)
qed

lemma ShortDigest_allowed: "c \<in> set (ShortDigest d) \<Longrightarrow> repoAllowed c \<and> c \<notin> set repoCut"
  using set_ShortDigest hexdigits_allowed by blast

lemma repoAllowed_not_upper: "repoAllowed c \<Longrightarrow> \<not> isUpper c"
  by (auto simp: repoAllowed_def isUpper_def Let_def)

lemma repoAllowed_not_space: "repoAllowed c \<Longrightarrow> \<not> isSpace c"
  by (auto simp: repoAllowed_def isSpace_def Let_def)

lemma tight_ShortDigest [simp]: "tight (\<lambda>c. c \<in> set repoCut) (ShortDigest d)"
  using ShortDigest_allowed by (metis hd_in_set last_in_set tight_def)

text \<open>
  The two shapes of a shortened name. The second length check of the source never fires: the kept
  part, the dash and the hash fit.
\<close>

lemma shortenRepoName_eq:
  assumes long: "length p > maxRepoNameLength" and tight: "tight (\<lambda>c. c \<in> set repoCut) p"
  shows "shortenRepoName p =
    TrimRight (take 243 p) repoCut @ ''-'' @ ShortDigest p \<and> TrimRight (take 243 p) repoCut \<noteq> []"
proof -
  let ?t = "TrimRight (take 243 p) repoCut"
  from long have ne: "p \<noteq> []" and take_ne: "take 243 p \<noteq> []"
    by (auto simp: maxRepoNameLength_def)
  have hd: "hd (take 243 p) \<notin> set repoCut"
    using tight ne by (cases p) (auto simp: tight_def)
  then have tne: "?t \<noteq> []"
    unfolding TrimRight_def trimRightBy_def using take_ne
    by (metis dropWhile_eq_Nil_conv hd_in_set rev_is_Nil_conv set_rev)
  have lent: "length ?t \<le> 243"
    unfolding TrimRight_def by (rule order_trans [OF length_trimRightBy]) simp
  have hdt: "hd ?t \<notin> set repoCut"
    using hd tne hd_trimRightBy unfolding TrimRight_def by metis
  have "ShortDigest p \<noteq> []" by (metis length_ShortDigest list.size(3) zero_neq_numeral)
  moreover from this have "last (ShortDigest p) \<notin> set repoCut"
    using ShortDigest_allowed by (metis last_in_set)
  ultimately have "Trim (?t @ ''-'' @ ShortDigest p) repoCut = ?t @ ''-'' @ ShortDigest p"
    unfolding Trim_def using tne hdt
    by (simp add: trim_simps tight_def)
  then show ?thesis
    using long lent tne
    by (simp add: shortenRepoName_def maxRepoNameLength_def Let_def del: set_simps list.set)
qed

lemma shortenRepoName_wf:
  assumes "length p > maxRepoNameLength" "tight (\<lambda>c. c \<in> set repoCut) p" "list_all repoAllowed p"
  shows "wfRepoName (shortenRepoName p)"
proof -
  let ?t = "TrimRight (take 243 p) repoCut"
  have eq: "shortenRepoName p = ?t @ ''-'' @ ShortDigest p" and tne: "?t \<noteq> []"
    using shortenRepoName_eq [OF assms(1,2)] by auto
  have lent: "length ?t \<le> 243"
    unfolding TrimRight_def by (rule order_trans [OF length_trimRightBy]) simp
  have "set ?t \<subseteq> set p"
    unfolding TrimRight_def by (meson set_take_subset subset_trans trimRightBy_subset)
  with assms(3) have "list_all repoAllowed ?t" by (auto simp: list_all_iff)
  moreover have "list_all repoAllowed (ShortDigest p)"
    using ShortDigest_allowed by (auto simp: list_all_iff)
  moreover have "repoAllowed CHR ''-''" by (simp add: repoAllowed_def)
  moreover have "p \<noteq> []" using assms(1) by auto
  then have "hd ?t \<notin> set repoCut"
    using tne assms(2) hd_trimRightBy [of _ "take 243 p"] unfolding TrimRight_def tight_def
    by (metis hd_take zero_less_numeral)
  moreover have ne: "ShortDigest p \<noteq> []"
    by (metis length_ShortDigest list.size(3) zero_neq_numeral)
  moreover have "last (ShortDigest p) \<notin> set repoCut"
    using ne ShortDigest_allowed by (metis last_in_set)
  ultimately show ?thesis
    unfolding wfRepoName_def eq using lent tne
    by (auto simp: tight_def maxRepoNameLength_def)
qed

lemma wf_unknown: "wfRepoName ''library/unknown''"
  by code_simp

lemma CleanRepoName_yields_wf: "wfRepoName (CleanRepoName s)"
proof -
  let ?p = "Trim (map (\<lambda>c. if repoAllowed c then c else CHR ''-'') (ToLower (TrimPrefix s ''/''))) repoCut"
  have allowed: "list_all repoAllowed ?p"
    using trimBy_subset unfolding Trim_def
    by (force simp: list_all_iff repoAllowed_def [of "CHR ''-''"])
  have tight: "tight (\<lambda>c. c \<in> set repoCut) ?p"
    unfolding Trim_def by (rule tight_trimBy)
  show ?thesis
  proof (cases "length ?p > maxRepoNameLength")
    case True
    then have "wfRepoName (shortenRepoName ?p)"
      using shortenRepoName_wf tight allowed by blast
    then show ?thesis
      using True by (simp add: CleanRepoName_def Let_def wfRepoName_def)
  next
    case False
    then show ?thesis
      using allowed tight wf_unknown
      by (auto simp: CleanRepoName_def Let_def wfRepoName_def)
  qed
qed

lemma wfRepoName_CleanRepoName: "wfRepoName s \<Longrightarrow> CleanRepoName s = s"
proof -
  assume wf: "wfRepoName s"
  then have ne: "s \<noteq> []" and allowed: "\<And>c. c \<in> set s \<Longrightarrow> repoAllowed c"
    and tight: "tight (\<lambda>c. c \<in> set repoCut) s" and len: "length s \<le> maxRepoNameLength"
    by (auto simp: wfRepoName_def list_all_iff)
  have "TrimPrefix s ''/'' = s"
    using tight ne by (cases s) (auto simp: TrimPrefix_def tight_def)
  moreover have "ToLower s = s"
    using allowed repoAllowed_not_upper by (intro ToLower_fixed) blast
  moreover have "map (\<lambda>c. if repoAllowed c then c else CHR ''-'') s = s"
    using allowed by (simp add: map_idI)
  moreover have "Trim s repoCut = s"
    unfolding Trim_def by (rule tight_trimBy_id [OF tight])
  ultimately show ?thesis
    using len ne by (simp add: CleanRepoName_def Let_def del: set_simps list.set)
qed

interpretation clean: normalizer CleanRepoName
  by unfold_locales (rule wfRepoName_CleanRepoName [OF CleanRepoName_yields_wf])

section \<open>Properties\<close>

text \<open>
  Property C15. Cleaning is total and exact: every input becomes a clean name (not empty, at most 256
  bytes, only allowed characters, no separator at either end), and a name is left alone exactly when
  it is already clean.
\<close>

theorem CleanRepoName_wf: "wfRepoName (CleanRepoName s) \<and> (CleanRepoName s = s \<longleftrightarrow> wfRepoName s)"
  using CleanRepoName_yields_wf wfRepoName_CleanRepoName by metis

text \<open>
  An over-long but otherwise clean path is cut to its first 243 bytes (less trailing
  separators) followed by a dash and the first twelve hexadecimal digits of the SHA-1 of the whole
  path, so the result always fits and still depends on the part that was cut.
\<close>

lemma CleanRepoName_long:
  assumes "length p > maxRepoNameLength" and "list_all repoAllowed p"
    and "tight (\<lambda>c. c \<in> set repoCut) p"
  shows "CleanRepoName p = TrimRight (take 243 p) repoCut @ ''-'' @ take 12 (sha1_hex p)
    \<and> length (CleanRepoName p) \<le> maxRepoNameLength"
proof -
  have ne: "p \<noteq> []" using assms(1) by auto
  have "TrimPrefix p ''/'' = p"
    using assms(3) ne by (cases p) (auto simp: TrimPrefix_def tight_def)
  moreover have "ToLower p = p"
    using assms(2) repoAllowed_not_upper by (intro ToLower_fixed) (auto simp: list_all_iff)
  moreover have "map (\<lambda>c. if repoAllowed c then c else CHR ''-'') p = p"
    using assms(2) by (simp add: map_idI list_all_iff)
  moreover have "Trim p repoCut = p"
    unfolding Trim_def by (rule tight_trimBy_id [OF assms(3)])
  ultimately have "CleanRepoName p = shortenRepoName p"
    using assms(1) shortenRepoName_eq [OF assms(1,3)]
    by (simp add: CleanRepoName_def Let_def del: set_simps list.set)
  then show ?thesis
    using shortenRepoName_eq [OF assms(1,3)] shortenRepoName_wf [OF assms(1,3,2)]
    by (simp add: ShortDigest_def wfRepoName_def)
qed

text \<open>
  Property C30. The images of a pod are its init, regular and ephemeral containers in that order, those
  with a blank image left out, each carrying the normalised image ID of the last usable status
  reported under its name, and none when there is no such status.
\<close>

theorem ImagesFromPod_spec:
  "ImagesFromPod (Some pd) =
     map (\<lambda>i. i\<lparr>ImageID := (case filter (usableStatus (ContainerName i)) (statusesOf pd) of
               [] \<Rightarrow> [] | us \<Rightarrow> normalizeImageID (st_imageID (last us)))\<rparr>)
       (imagesOf (initContainers (pod_spec pd) @ containers (pod_spec pd)
                  @ ephemeralContainers (pod_spec pd)))"
  unfolding ImagesFromPod_eq ImagesFromPodSpec_eq
  by (rule map_cong [OF refl])
    (auto simp: annotateImage_def foldl_collectStatus imagesOf_def split: list.splits)

end
