(* ===== verification/PathMap.thy ===== *)
theory PathMap
  imports Images
begin

text \<open>
  \<open>pkg/util/path.go\<close>: the configured rewriting of repository paths. Package \<open>regexp\<close> is an argument of
  the definitions, as the three functions the code calls, so everything below holds for any engine.
\<close>

section \<open>Rules\<close>

record 're regexpPkg =
  Compile :: "string \<Rightarrow> 're option"
  MatchString :: "'re \<Rightarrow> string \<Rightarrow> bool"
  ReplaceAllString :: "'re \<Rightarrow> string \<Rightarrow> string \<Rightarrow> string"

record pathMapping =
  From :: string
  To :: string
  Regex :: bool

record 're compiledMapping =
  mapping :: pathMapping
  re :: "'re option"

text \<open>A rule whose pattern does not compile is dropped.\<close>

definition compileMapping :: "'re regexpPkg \<Rightarrow> pathMapping \<Rightarrow> 're compiledMapping option" where
  "compileMapping rx m =
     (if Regex m
      then (case Compile rx (From m) of
              Some r \<Rightarrow> Some \<lparr>mapping = m, re = Some r\<rparr> | None \<Rightarrow> None)
      else Some \<lparr>mapping = m, re = None\<rparr>)"

definition compileMappings :: "'re regexpPkg \<Rightarrow> pathMapping list \<Rightarrow> 're compiledMapping list" where
  "compileMappings rx ms = List.map_filter (compileMapping rx) ms"

text \<open>The loop over the compiled rules: the first rule that matches rewrites the path and ends it.\<close>

fun applyMappings :: "'re regexpPkg \<Rightarrow> 're compiledMapping list \<Rightarrow> string \<Rightarrow> string" where
  "applyMappings rx [] p = p"
| "applyMappings rx (m # ms) p =
     (if Regex (mapping m)
      then (case re m of
              Some r \<Rightarrow> if MatchString rx r p then ReplaceAllString rx r p (To (mapping m))
                        else applyMappings rx ms p
            | None \<Rightarrow> applyMappings rx ms p)
      else if HasPrefix p (From (mapping m))
      then (let q = TrimPrefix p (From (mapping m))
            in if To (mapping m) \<noteq> [] then TrimSuffix (To (mapping m)) ''/'' @ ''/'' @ q else q)
      else applyMappings rx ms p)"

definition NewRepoPathTransformer :: "'re regexpPkg \<Rightarrow> pathMapping list \<Rightarrow> string \<Rightarrow> string" where
  "NewRepoPathTransformer rx ms p = CleanRepoName (applyMappings rx (compileMappings rx ms) p)"

section \<open>Facts\<close>

text \<open>When a rule applies to a path, and what it makes of it.\<close>

definition ruleMatches :: "'re regexpPkg \<Rightarrow> pathMapping \<Rightarrow> string \<Rightarrow> bool" where
  "ruleMatches rx m p \<longleftrightarrow>
     (if Regex m then (case Compile rx (From m) of None \<Rightarrow> False | Some r \<Rightarrow> MatchString rx r p)
      else HasPrefix p (From m))"

definition ruleResult :: "'re regexpPkg \<Rightarrow> pathMapping \<Rightarrow> string \<Rightarrow> string" where
  "ruleResult rx m p =
     (if Regex m
      then (case Compile rx (From m) of None \<Rightarrow> p | Some r \<Rightarrow> ReplaceAllString rx r p (To m))
      else if To m = [] then drop (length (From m)) p
      else TrimSuffix (To m) ''/'' @ ''/'' @ drop (length (From m)) p)"

lemma compileMappings_simps [simp]:
  "compileMappings rx [] = []"
  "compileMappings rx (m # ms) =
     (case compileMapping rx m of None \<Rightarrow> compileMappings rx ms | Some c \<Rightarrow> c # compileMappings rx ms)"
  by (simp_all add: compileMappings_def map_filter_simps split: option.splits)

lemma applyMappings_Cons:
  "applyMappings rx (compileMappings rx (m # ms)) p =
     (if ruleMatches rx m p then ruleResult rx m p else applyMappings rx (compileMappings rx ms) p)"
  by (simp add: compileMapping_def ruleMatches_def ruleResult_def HasPrefix_def TrimPrefix_def
      split: option.splits)

lemma applyMappings_find:
  "applyMappings rx (compileMappings rx ms) p =
     (case find (\<lambda>m. ruleMatches rx m p) ms of None \<Rightarrow> p | Some m \<Rightarrow> ruleResult rx m p)"
proof (induction ms)
  case (Cons m ms)
  then show ?case by (simp only: applyMappings_Cons find.simps) simp
qed simp

section \<open>Properties\<close>

text \<open>
  First match wins: the transformer rewrites the path by the first configured rule that
  applies to it (a regular expression that does not compile never applies), leaves it alone when no
  rule applies, and cleans the outcome.
\<close>

lemma NewRepoPathTransformer_first_match:
  "NewRepoPathTransformer rx ms p =
     CleanRepoName (case find (\<lambda>m. ruleMatches rx m p) ms of None \<Rightarrow> p | Some m \<Rightarrow> ruleResult rx m p)"
  by (simp add: NewRepoPathTransformer_def applyMappings_find)

text \<open>
  A prefix rule written without a trailing slash, as in the configuration example of the
  README, produces an empty path component: with the rule from \<open>group/project\<close> to \<open>prod/project\<close> the
  path \<open>group/project/app\<close> becomes \<open>prod/project//app\<close>, because the replacement adds a slash in front
  of a remainder that starts with one and cleaning keeps both.
\<close>

lemma prefix_rule_double_slash:
  "NewRepoPathTransformer rx [\<lparr>From = ''group/project'', To = ''prod/project'', Regex = False\<rparr>]
     ''group/project/app'' = ''prod/project//app''"
proof -
  have "wfRepoName ''prod/project//app''" by code_simp
  then show ?thesis
    by (simp add: NewRepoPathTransformer_def compileMapping_def HasPrefix_def TrimPrefix_def
        TrimSuffix_def suffix_def wfRepoName_CleanRepoName)
qed

end
