(* ===== verification/RepoPath.thy ===== *)
theory RepoPath
  imports PathMap
begin

text \<open>
  \<open>internal/mirror/pusher.go\<close>, the naming half: expansion of the templated repository prefix
  (\<open>expandRepoPrefix\<close>) and the repository path of the target (\<open>resolveRepoPath\<close>).
\<close>

section \<open>Definitions\<close>

record metadata =
  Namespace :: string
  PodName :: string
  MContainerName :: string
  Architecture :: string
  OS :: string
  MImageID :: string
  Registry :: string

definition prefixPairs :: "metadata \<Rightarrow> (string \<times> string) list" where
  "prefixPairs meta =
     [(''$namespace'', Namespace meta), (''$podname'', PodName meta),
      (''$container_name'', MContainerName meta), (''$arch'', Architecture meta),
      (''$registry'', Registry meta)]"

definition expandRepoPrefix :: "string \<Rightarrow> metadata \<Rightarrow> string" where
  "expandRepoPrefix pre meta =
     (let pre = TrimSpace pre
      in if pre = [] then []
         else (let expanded = TrimSpace (Replace (prefixPairs meta) pre)
               in if expanded = [] then []
                  else (let segments = Split expanded CHR ''/'';
                            parts = filter (\<lambda>seg. seg \<noteq> []) (map TrimSpace segments)
                        in Join parts ''/'')))"

definition resolveRepoPath :: "(string \<Rightarrow> string) \<Rightarrow> string \<Rightarrow> string \<Rightarrow> metadata \<Rightarrow> string" where
  "resolveRepoPath transform repoPrefix srcRepo meta =
     (let cleaned = transform srcRepo;
          pre = expandRepoPrefix repoPrefix meta
      in if pre = [] then cleaned
         else if cleaned = [] then CleanRepoName pre
         else CleanRepoName (TrimSuffix pre ''/'' @ ''/'' @ cleaned))"

section \<open>Facts\<close>

lemma Split_Cons_sep: "d \<notin> set w \<Longrightarrow> Split (w @ d # s) d = w # Split s d"
  by (induction w) auto

lemma Split_no_sep_single: "d \<notin> set w \<Longrightarrow> Split w d = [w]"
  by (induction w) auto

lemma Split_Join:
  "ws \<noteq> [] \<Longrightarrow> (\<And>w. w \<in> set ws \<Longrightarrow> d \<notin> set w) \<Longrightarrow> Split (Join ws [d]) d = ws"
proof (induction ws "[d]" rule: Join.induct)
  case (3 w v ws)
  then show ?case by (simp add: Split_Cons_sep)
qed (auto simp: Split_no_sep_single)

lemma expandRepoPrefix_parts:
  "\<exists>parts. expandRepoPrefix pre meta = Join parts ''/''
     \<and> (\<forall>w \<in> set parts. w \<noteq> [] \<and> TrimSpace w = w \<and> CHR ''/'' \<notin> set w)"
proof (cases "TrimSpace pre = [] \<or> TrimSpace (Replace (prefixPairs meta) (TrimSpace pre)) = []")
  case True
  then show ?thesis by (intro exI [of _ "[]"]) (auto simp: expandRepoPrefix_def Let_def)
next
  case False
  let ?e = "TrimSpace (Replace (prefixPairs meta) (TrimSpace pre))"
  let ?ps = "filter (\<lambda>seg. seg \<noteq> []) (map TrimSpace (Split ?e CHR ''/''))"
  have "CHR ''/'' \<notin> set w" if "w \<in> set ?ps" for w
    using that by (auto dest: TrimSpace_subset Split_no_sep)
  moreover have "expandRepoPrefix pre meta = Join ?ps ''/''"
    using False by (simp add: expandRepoPrefix_def Let_def)
  ultimately show ?thesis by (intro exI [of _ ?ps]) auto
qed

lemma prefixPairs_dollar: "(old, new) \<in> set (prefixPairs meta) \<Longrightarrow> old \<noteq> [] \<and> hd old = CHR ''$''"
  by (auto simp: prefixPairs_def)

lemma expandRepoPrefix_static:
  "CHR ''$'' \<notin> set pre \<Longrightarrow> expandRepoPrefix pre meta = expandRepoPrefix pre meta'"
proof -
  assume "CHR ''$'' \<notin> set pre"
  then have "CHR ''$'' \<notin> set (TrimSpace pre)" by (auto dest: TrimSpace_subset)
  then have "Replace (prefixPairs m) (TrimSpace pre) = TrimSpace pre" for m
    by (intro Replace_no_match) (auto dest: prefixPairs_dollar)
  then show ?thesis by (simp add: expandRepoPrefix_def Let_def)
qed

subsection \<open>Prefixes and results\<close>

text \<open>
  The expanded prefix never contributes an empty or padded path segment: placeholders that
  expand to nothing disappear together with their slash, so splitting a non-empty result at slashes
  gives back segments that are not blank and carry no surrounding white space.
\<close>

lemma expandRepoPrefix_segments:
  "expandRepoPrefix pre meta = [] \<or>
   list_all (\<lambda>w. w \<noteq> [] \<and> TrimSpace w = w) (Split (expandRepoPrefix pre meta) CHR ''/'')"
proof -
  obtain parts where eq: "expandRepoPrefix pre meta = Join parts ''/''"
    and parts: "\<forall>w \<in> set parts. w \<noteq> [] \<and> TrimSpace w = w \<and> CHR ''/'' \<notin> set w"
    using expandRepoPrefix_parts by blast
  show ?thesis
  proof (cases "parts = []")
    case False
    with parts have "Split (expandRepoPrefix pre meta) CHR ''/'' = parts"
      unfolding eq by (intro Split_Join) auto
    with parts show ?thesis by (simp add: list_all_iff)
  qed (simp add: eq)
qed

text \<open>Whatever is configured, the repository is a clean name.\<close>

lemma resolveRepoPath_wf:
  "wfRepoName (resolveRepoPath (NewRepoPathTransformer rx ms) pre srcRepo meta)"
  by (simp add: resolveRepoPath_def NewRepoPathTransformer_def CleanRepoName_yields_wf Let_def)

text \<open>
  A prefix without placeholders makes the target repository a function of the source
  repository alone: pod, container, namespace, architecture and registry do not influence it.
\<close>

lemma resolveRepoPath_static_prefix:
  assumes "CHR ''$'' \<notin> set pre"
  shows "resolveRepoPath transform pre srcRepo meta = resolveRepoPath transform pre srcRepo meta'"
  by (simp add: resolveRepoPath_def expandRepoPrefix_static [OF assms, of meta meta'])

subsection \<open>Templates\<close>

text \<open>
  A repository prefix as its author means it: path segments, each made of literal text and placeholders. A
  template has a text, which is what is configured, and a meaning for the metadata of an image.
\<close>

datatype placeholder = ANamespace | APodName | AContainerName | AnArch | ARegistry

datatype piece = Literal string | Placeholder placeholder

type_synonym segment = "piece list"

primrec placeholderText :: "placeholder \<Rightarrow> string" where
  "placeholderText ANamespace = ''$namespace''"
| "placeholderText APodName = ''$podname''"
| "placeholderText AContainerName = ''$container_name''"
| "placeholderText AnArch = ''$arch''"
| "placeholderText ARegistry = ''$registry''"

primrec placeholderValue :: "metadata \<Rightarrow> placeholder \<Rightarrow> string" where
  "placeholderValue meta ANamespace = Namespace meta"
| "placeholderValue meta APodName = PodName meta"
| "placeholderValue meta AContainerName = MContainerName meta"
| "placeholderValue meta AnArch = Architecture meta"
| "placeholderValue meta ARegistry = Registry meta"

primrec pieceText :: "piece \<Rightarrow> string" where
  "pieceText (Literal w) = w"
| "pieceText (Placeholder v) = placeholderText v"

primrec pieceValue :: "metadata \<Rightarrow> piece \<Rightarrow> string" where
  "pieceValue meta (Literal w) = w"
| "pieceValue meta (Placeholder v) = placeholderValue meta v"

definition templateText :: "segment list \<Rightarrow> string" where
  "templateText segs = Join (map (\<lambda>seg. concat (map pieceText seg)) segs) ''/''"

text \<open>The segments that are not empty for the given metadata.\<close>

definition templateValue :: "metadata \<Rightarrow> segment list \<Rightarrow> string list" where
  "templateValue meta segs = filter (\<lambda>w. w \<noteq> []) (map (\<lambda>seg. concat (map (pieceValue meta) seg)) segs)"

text \<open>Text without slashes and white space, and without dollar signs where it is literal.\<close>

definition plainText :: "string \<Rightarrow> bool" where
  "plainText w \<longleftrightarrow> list_all (\<lambda>c. c \<noteq> CHR ''/'' \<and> \<not> isSpace c) w"

primrec plainPiece :: "metadata \<Rightarrow> piece \<Rightarrow> bool" where
  "plainPiece meta (Literal w) = (plainText w \<and> CHR ''$'' \<notin> set w)"
| "plainPiece meta (Placeholder v) = plainText (placeholderValue meta v)"

lemma plainText_append [simp]: "plainText (v @ w) \<longleftrightarrow> plainText v \<and> plainText w"
  by (auto simp: plainText_def)

lemma plainText_concat: "plainText (concat ws) \<longleftrightarrow> list_all plainText ws"
  by (induction ws) (auto simp: plainText_def)

lemma plainText_no_slash: "plainText w \<Longrightarrow> CHR ''/'' \<notin> set w"
  by (auto simp: plainText_def list_all_iff)

lemma TrimSpace_plain: "plainText w \<Longrightarrow> TrimSpace w = w"
  by (rule TrimSpace_fixed) (auto simp: plainText_def list_all_iff)

lemma plainText_placeholderText [simp]: "plainText (placeholderText v)"
  by (cases v) (simp_all add: plainText_def isSpace_def)

text \<open>The replacer leaves text without dollar signs alone and puts values in place of placeholders.\<close>

lemma Replace_literal: "CHR ''$'' \<notin> set w \<Longrightarrow> Replace (prefixPairs meta) (w @ s) = w @ Replace (prefixPairs meta) s"
proof (induction w)
  case (Cons c w)
  have "find (\<lambda>(old, new). old \<noteq> [] \<and> prefix old ((c # w) @ s)) (prefixPairs meta) = None"
    using Cons.prems by (auto simp: find_None_conv prefixPairs_def)
  with Cons show ?case by simp
qed simp

lemma Replace_placeholder:
  "Replace (prefixPairs meta) (placeholderText v @ s) = placeholderValue meta v @ Replace (prefixPairs meta) s"
  by (cases v) (simp_all add: prefixPairs_def)

lemma Replace_pieces:
  "list_all (plainPiece meta) seg \<Longrightarrow>
     Replace (prefixPairs meta) (concat (map pieceText seg) @ s) = concat (map (pieceValue meta) seg) @ Replace (prefixPairs meta) s"
proof (induction seg)
  case (Cons x seg)
  then show ?case by (cases x) (auto simp: Replace_literal Replace_placeholder)
qed simp

lemma Replace_template:
  "list_all (list_all (plainPiece meta)) segs \<Longrightarrow>
     Replace (prefixPairs meta) (templateText segs) = Join (map (\<lambda>seg. concat (map (pieceValue meta) seg)) segs) ''/''"
proof (induction segs)
  case (Cons seg segs)
  show ?case
  proof (cases "segs = []")
    case True
    with Cons.prems Replace_pieces [of meta seg "[]"] show ?thesis by (simp add: templateText_def)
  next
    case False
    then have "templateText (seg # segs) = concat (map pieceText seg) @ ''/'' @ templateText segs"
      by (simp add: templateText_def Join_Cons)
    with False Cons Replace_literal [of "''/''" meta "templateText segs"] show ?thesis
      by (simp add: Join_Cons Replace_pieces del: Replace.simps)
  qed
qed (simp add: templateText_def)

lemma plain_segment:
  "list_all (plainPiece meta) seg \<Longrightarrow>
     plainText (concat (map pieceText seg)) \<and> plainText (concat (map (pieceValue meta) seg))"
proof (induction seg)
  case (Cons x seg)
  then show ?case by (cases x) auto
qed (simp add: plainText_def)

text \<open>A join of plain words has no white space.\<close>

lemma TrimSpace_Join_plain:
  assumes "list_all plainText ws"
  shows "TrimSpace (Join ws ''/'') = Join ws ''/''"
proof (rule TrimSpace_fixed)
  fix c assume "c \<in> set (Join ws ''/'')"
  then have "c \<in> set ''/'' \<or> (\<exists>w \<in> set ws. c \<in> set w)" by (rule Join_set)
  moreover have "\<not> isSpace CHR ''/''" by code_simp
  ultimately show "\<not> isSpace c" using assms by (force simp: plainText_def list_all_iff)
qed

lemma Join_eq_Nil: "Join ws ''/'' = [] \<longleftrightarrow> ws = [] \<or> ws = [[]]"
proof (cases ws)
  case (Cons w vs)
  then show ?thesis by (cases vs) auto
qed simp

lemma expandRepoPrefix_template:
  assumes "list_all (list_all (plainPiece meta)) segs"
  shows "expandRepoPrefix (templateText segs) meta = Join (templateValue meta segs) ''/''"
proof -
  define vals where "vals = map (\<lambda>seg. concat (map (pieceValue meta) seg)) segs"
  have plain: "list_all plainText (map (\<lambda>seg. concat (map pieceText seg)) segs)" "list_all plainText vals"
    using assms plain_segment by (auto simp: list_all_iff vals_def)
  then have trim: "TrimSpace (templateText segs) = templateText segs" "TrimSpace (Join vals ''/'') = Join vals ''/''"
    unfolding templateText_def by (simp_all only: TrimSpace_Join_plain)
  have expanded: "Replace (prefixPairs meta) (templateText segs) = Join vals ''/''"
    unfolding vals_def by (rule Replace_template [OF assms])
  have result: "templateValue meta segs = filter (\<lambda>w. w \<noteq> []) vals" by (simp add: templateValue_def vals_def)
  show ?thesis
  proof (cases "templateText segs = [] \<or> Join vals ''/'' = []")
    case True
    then have "Join vals ''/'' = []" using expanded by auto
    then have "filter (\<lambda>w. w \<noteq> []) vals = []" by (auto simp: Join_eq_Nil)
    with True show ?thesis by (auto simp: expandRepoPrefix_def trim expanded result Let_def)
  next
    case False
    then have "Split (Join vals ''/'') CHR ''/'' = vals"
      using plain(2) by (intro Split_Join) (auto simp: list_all_iff plainText_no_slash)
    moreover have "map TrimSpace vals = vals"
      using plain(2) by (intro map_idI TrimSpace_plain) (auto simp: list_all_iff)
    ultimately show ?thesis
      using False by (simp add: expandRepoPrefix_def trim expanded result Let_def)
  qed
qed

lemma Join_snoc: "ws \<noteq> [] \<Longrightarrow> Join (ws @ [w]) sep = Join ws sep @ sep @ w"
proof (induction ws)
  case (Cons v ws)
  then show ?case by (cases "ws = []") (simp_all add: Join_Cons)
qed simp

lemma last_Join: "w \<noteq> [] \<Longrightarrow> last (Join (ws @ [w]) sep) = last w"
  by (cases "ws = []") (simp_all add: Join_snoc)

text \<open>The join of the segments of a template ends in no slash.\<close>

lemma TrimSuffix_Join:
  assumes "list_all plainText ws" "[] \<notin> set ws" "ws \<noteq> []"
  shows "TrimSuffix (Join ws ''/'') ''/'' = Join ws ''/''"
proof -
  obtain vs w where ws: "ws = vs @ [w]" using assms(3) by (cases ws rule: rev_cases) auto
  with assms have "w \<noteq> []" "CHR ''/'' \<notin> set w" by (auto simp: plainText_no_slash)
  then have "last (Join ws ''/'') \<noteq> CHR ''/''" unfolding ws last_Join [OF \<open>w \<noteq> []\<close>] using last_in_set by metis
  then show ?thesis by (auto simp: TrimSuffix_def suffix_def)
qed

lemma templateValue_plain:
  assumes "list_all (list_all (plainPiece meta)) segs"
  shows "list_all plainText (templateValue meta segs)" "[] \<notin> set (templateValue meta segs)"
  using assms plain_segment by (auto simp: templateValue_def list_all_iff)

section \<open>Properties\<close>

text \<open>
  Property C28. The repository an image is pushed to: the segments of the prefix template with the
  values of the metadata in place of the placeholders, without the segments that are empty, and after them
  the cleaned outcome of the first rule that applies to the repository of the source. If that is a clean
  name it is the result as it stands, otherwise the result is what cleaning makes of it.
\<close>

theorem resolveRepoPath_spec:
  assumes "list_all (list_all (plainPiece meta)) segs"
  shows "resolveRepoPath (NewRepoPathTransformer rx ms) (templateText segs) srcRepo meta =
    (let repo = CleanRepoName (case find (\<lambda>m. ruleMatches rx m srcRepo) ms of None \<Rightarrow> srcRepo | Some m \<Rightarrow> ruleResult rx m srcRepo);
         path = Join (templateValue meta segs @ [repo]) ''/''
     in if wfRepoName path then path else CleanRepoName path)"
proof -
  let ?ws = "templateValue meta segs"
  let ?repo = "NewRepoPathTransformer rx ms srcRepo"
  have repo: "wfRepoName ?repo" "?repo \<noteq> []"
    using CleanRepoName_yields_wf by (auto simp: NewRepoPathTransformer_def wfRepoName_def)
  have clean: "(if wfRepoName path then path else CleanRepoName path) = CleanRepoName path" for path
    by (simp add: wfRepoName_CleanRepoName)
  have "resolveRepoPath (NewRepoPathTransformer rx ms) (templateText segs) srcRepo meta = CleanRepoName (Join (?ws @ [?repo]) ''/'')"
  proof (cases "?ws = []")
    case True
    with repo show ?thesis by (simp add: resolveRepoPath_def expandRepoPrefix_template [OF assms] wfRepoName_CleanRepoName)
  next
    case False
    with templateValue_plain [OF assms] have "Join ?ws ''/'' \<noteq> []" by (auto simp: Join_eq_Nil)
    with False repo show ?thesis
      by (simp add: resolveRepoPath_def expandRepoPrefix_template [OF assms] TrimSuffix_Join templateValue_plain [OF assms] Join_snoc Let_def)
  qed
  then show ?thesis by (simp add: NewRepoPathTransformer_first_match clean Let_def)
qed

theorem resolveRepoPath_spec_witness:
  "resolveRepoPath (NewRepoPathTransformer \<lparr>Compile = (\<lambda>_. None :: unit option), MatchString = (\<lambda>_ _. False), ReplaceAllString = (\<lambda>_ p _. p)\<rparr>
       [\<lparr>From = ''library/'', To = ''hub'', Regex = False\<rparr>])
     ''$namespace/$podname/mirror-$arch'' ''library/nginx''
     \<lparr>Namespace = ''prod'', PodName = [], MContainerName = ''web'', Architecture = ''amd64'', OS = ''linux'', MImageID = [], Registry = ''docker.io''\<rparr>
   = ''prod/mirror-amd64/hub/nginx''"
proof -
  let ?segs = "[[Placeholder ANamespace], [Placeholder APodName], [Literal ''mirror-'', Placeholder AnArch]]"
  let ?meta = "\<lparr>Namespace = ''prod'', PodName = [], MContainerName = ''web'', Architecture = ''amd64'', OS = ''linux'', MImageID = [], Registry = ''docker.io''\<rparr>"
  have written: "templateText ?segs = ''$namespace/$podname/mirror-$arch''" by code_simp
  have vals: "templateValue ?meta ?segs = [''prod'', ''mirror-amd64'']" by code_simp
  have plain: "list_all (list_all (plainPiece ?meta)) ?segs" by code_simp
  have clean: "CleanRepoName ''hub/nginx'' = ''hub/nginx''" "wfRepoName ''prod/mirror-amd64/hub/nginx''" by code_simp+
  show ?thesis
    using resolveRepoPath_spec [OF plain, of "\<lparr>Compile = (\<lambda>_. None :: unit option), MatchString = (\<lambda>_ _. False), ReplaceAllString = (\<lambda>_ p _. p)\<rparr>"
        "[\<lparr>From = ''library/'', To = ''hub'', Regex = False\<rparr>]" "''library/nginx''"] clean
    unfolding written vals by (simp add: ruleMatches_def ruleResult_def HasPrefix_def TrimSuffix_def suffix_def)
qed

end
