(* ===== verification/Platforms.thy ===== *)
theory Platforms
  imports RepoPath GoErrors
begin

text \<open>
  \<open>internal/mirror/pusher.go\<close>, platforms and manifests: parsing and comparing platform specifications,
  the platforms wanted for an image, and the choice of a manifest from a multi-architecture index.

  Images, indexes and descriptors come from \<open>go-containerregistry\<close>. They are records of what the program
  reads off them: the digest, the configuration, the list of manifests and whether a media type is an
  index. A call that can fail yields a sum, a pointer that can be nil an option.
\<close>

section \<open>Registry objects\<close>

record hash =
  h_alg :: string
  h_hex :: string

definition zeroHash :: hash where
  "zeroHash = \<lparr>h_alg = [], h_hex = []\<rparr>"

definition hashString :: "hash \<Rightarrow> string" where
  "hashString h = h_alg h @ '':'' @ h_hex h"

record platform =
  pl_arch :: string
  pl_os :: string

record descriptor =
  d_isIndex :: bool
  d_digest :: hash
  d_platform :: "platform option"
  d_annotations :: "string \<rightharpoonup> string"

type_synonym indexManifest = "descriptor list"

record configFile =
  cfg_arch :: string
  cfg_os :: string

record v1image =
  img_digest :: "goerror + hash"
  img_config :: "goerror + configFile option"

datatype imageIndex = ImageIndex
  (idx_manifest: "goerror + indexManifest option")
  (idx_digest: "goerror + hash")
  (idx_image: "hash \<Rightarrow> goerror + v1image")
  (idx_index: "hash \<Rightarrow> goerror + imageIndex")

section \<open>Platform specifications\<close>

record platformSpec =
  ps_arch :: string
  ps_os :: string

definition specKey :: "platformSpec \<Rightarrow> string" where
  "specKey p =
     (let arch = ToLower (TrimSpace (ps_arch p)); os = ToLower (TrimSpace (ps_os p))
      in os @ ''/'' @ arch)"

definition toPlatform :: "platformSpec \<Rightarrow> platform option" where
  "toPlatform p =
     (let arch = TrimSpace (ps_arch p); os = TrimSpace (ps_os p)
      in if arch = [] then None
         else Some \<lparr>pl_arch = arch, pl_os = (if os = [] then ''linux'' else os)\<rparr>)"

definition specString :: "platformSpec \<Rightarrow> string" where
  "specString p =
     (let arch = TrimSpace (ps_arch p); os = TrimSpace (ps_os p)
      in if os = [] then arch else if arch = [] then os else os @ ''/'' @ arch)"

definition specMatches :: "platformSpec \<Rightarrow> descriptor option \<Rightarrow> bool" where
  "specMatches p desc =
     (case desc of None \<Rightarrow> False
      | Some d \<Rightarrow>
          (case d_platform d of None \<Rightarrow> False
           | Some pl \<Rightarrow>
               (let arch = TrimSpace (pl_arch pl); os = TrimSpace (pl_os pl);
                    desiredArch = TrimSpace (ps_arch p); desiredOS = TrimSpace (ps_os p)
                in if arch = [] \<or> os = [] then False
                   else if desiredArch \<noteq> [] \<and> \<not> EqualFold desiredArch arch then False
                   else if desiredOS \<noteq> [] \<and> \<not> EqualFold desiredOS os then False
                   else True)))"

definition parsePlatformSpec :: "string \<Rightarrow> goerror + platformSpec" where
  "parsePlatformSpec val =
     (let trimmed = TrimSpace val
      in if trimmed = [] then Inl (ErrorString ''empty platform'')
         else (let spec =
                 (if Contains trimmed ''/''
                  then (let parts = SplitN2 trimmed CHR ''/''
                        in \<lparr>ps_arch = TrimSpace (parts ! 1), ps_os = TrimSpace (parts ! 0)\<rparr>)
                  else \<lparr>ps_arch = trimmed, ps_os = ''linux''\<rparr>)
               in if ps_arch spec = []
                  then Inl (ErrorString (''missing architecture in platform '' @ [CHR 0x22] @ val @ [CHR 0x22]))
                  else Inr (if ps_os spec = [] then spec\<lparr>ps_os := ''linux''\<rparr> else spec)))"

text \<open>The loop of \<open>parseMirrorPlatforms\<close>: parsed specifications in order and the keys seen so far.\<close>

fun parsePlatformLoop :: "string list \<Rightarrow> platformSpec list \<Rightarrow> string set \<Rightarrow> platformSpec list \<times> string set" where
  "parsePlatformLoop [] parsed seen = (parsed, seen)"
| "parsePlatformLoop (raw # vals) parsed seen =
     (case parsePlatformSpec raw of
        Inl _ \<Rightarrow> parsePlatformLoop vals parsed seen
      | Inr spec \<Rightarrow>
          if specKey spec \<in> seen then parsePlatformLoop vals parsed seen
          else parsePlatformLoop vals (parsed @ [spec]) (insert (specKey spec) seen))"

definition parseMirrorPlatforms :: "string list \<Rightarrow> platformSpec list \<times> string set" where
  "parseMirrorPlatforms vals =
     (if vals = [] then ([], {})
      else (let (parsed, seen) = parsePlatformLoop vals [] {}
            in if parsed = [] then ([], {}) else (parsed, seen)))"

section \<open>Platforms wanted for an image\<close>

definition platformFromMetadata :: "metadata \<Rightarrow> platform option" where
  "platformFromMetadata meta =
     (let arch = TrimSpace (Architecture meta); os = TrimSpace (OS meta)
      in if arch = [] \<and> os = [] then None
         else if arch = [] then None
         else Some \<lparr>pl_arch = arch, pl_os = (if os = [] then ''linux'' else os)\<rparr>)"

definition specFromPlatform :: "platform option \<Rightarrow> platformSpec option" where
  "specFromPlatform pl =
     (case pl of None \<Rightarrow> None
      | Some p \<Rightarrow>
          (let arch = TrimSpace (pl_arch p); os = TrimSpace (pl_os p)
           in if arch = [] then None
              else Some \<lparr>ps_arch = arch, ps_os = (if os = [] then ''linux'' else os)\<rparr>))"

fun addSpecs :: "platformSpec list \<Rightarrow> string set \<Rightarrow> platformSpec list \<Rightarrow> platformSpec list" where
  "addSpecs desired seen [] = desired"
| "addSpecs desired seen (spec # specs) =
     (if specKey spec \<in> seen then addSpecs desired seen specs
      else addSpecs (desired @ [spec]) (insert (specKey spec) seen) specs)"

definition desiredPlatforms :: "platformSpec list \<Rightarrow> platform option \<Rightarrow> platformSpec list" where
  "desiredPlatforms mirrorPlatforms metaPlatform =
     (case specFromPlatform metaPlatform of
        Some spec \<Rightarrow> addSpecs [spec] {specKey spec} mirrorPlatforms
      | None \<Rightarrow> addSpecs [] {} mirrorPlatforms)"

section \<open>Manifests of an index\<close>

definition descriptorIsRunnable :: "descriptor \<Rightarrow> bool" where
  "descriptorIsRunnable d =
     (if (case d_annotations d ''vnd.docker.reference.type'' of
            Some typ \<Rightarrow> EqualFold (TrimSpace typ) ''attestation-manifest'' | None \<Rightarrow> False) then False
      else (case d_platform d of None \<Rightarrow> False
            | Some pl \<Rightarrow>
                (let arch = TrimSpace (pl_arch pl); os = TrimSpace (pl_os pl)
                 in if arch = [] \<or> EqualFold arch ''unknown'' then False
                    else if os = [] \<or> EqualFold os ''unknown'' then False
                    else True)))"

text \<open>The test of the selection loop. A runnable descriptor has a platform.\<close>

definition candidateFits :: "platform \<Rightarrow> descriptor \<Rightarrow> bool" where
  "candidateFits want d =
     (case d_platform d of None \<Rightarrow> False
      | Some pl \<Rightarrow>
          (let desiredArch = TrimSpace (pl_arch want); desiredOS = TrimSpace (pl_os want);
               arch = TrimSpace (pl_arch pl); os = TrimSpace (pl_os pl)
           in \<not> (desiredArch \<noteq> [] \<and> \<not> EqualFold arch desiredArch)
              \<and> \<not> (desiredOS \<noteq> [] \<and> \<not> EqualFold os desiredOS)))"

definition selectImageDescriptor :: "indexManifest option \<Rightarrow> platform option \<Rightarrow> goerror + descriptor" where
  "selectImageDescriptor manifest want =
     (case manifest of
        None \<Rightarrow> Inl (ErrorString ''image index has no manifests'')
      | Some ds \<Rightarrow>
          if ds = [] then Inl (ErrorString ''image index has no manifests'')
          else (let runnable = filter descriptorIsRunnable ds
                in (case runnable of
                      [] \<Rightarrow> Inl (ErrorString ''image index has no runnable manifests'')
                    | first # _ \<Rightarrow>
                        (case want of
                           None \<Rightarrow> Inr first
                         | Some w \<Rightarrow>
                             (case find (candidateFits w) runnable of
                                Some candidate \<Rightarrow> Inr candidate
                              | None \<Rightarrow> Inr first)))))"

definition imageFromIndex :: "imageIndex option \<Rightarrow> platform option \<Rightarrow> goerror + v1image" where
  "imageFromIndex idx want =
     (case idx of
        None \<Rightarrow> Inl (ErrorString ''image index is nil'')
      | Some ix \<Rightarrow>
          (case idx_manifest ix of
             Inl e \<Rightarrow> Inl e
           | Inr manifest \<Rightarrow>
               (case selectImageDescriptor manifest want of
                  Inl e \<Rightarrow> Inl e
                | Inr selected \<Rightarrow> idx_image ix (d_digest selected))))"

definition findDescriptorForSpec :: "indexManifest option \<Rightarrow> platformSpec \<Rightarrow> descriptor option" where
  "findDescriptorForSpec manifest spec =
     (case manifest of None \<Rightarrow> None
      | Some ds \<Rightarrow> find (\<lambda>d. descriptorIsRunnable d \<and> specMatches spec (Some d)) ds)"

definition specsToStrings :: "platformSpec list \<Rightarrow> string list" where
  "specsToStrings specs = map specString specs"

definition shouldMirrorEntireIndex :: "bool \<Rightarrow> bool \<Rightarrow> platform option \<Rightarrow> bool" where
  "shouldMirrorEntireIndex isIndex pullByDigest pl =
     (if \<not> isIndex then False else if \<not> pullByDigest then True else pl = None)"

text \<open>
  \<open>resolveArchitecture\<close>. The index branch reads the manifests through the pointer without a nil check;
  \<^term>\<open>None\<close> is the nil dereference.
\<close>

definition indexArchitectures :: "indexManifest \<Rightarrow> string list" where
  "indexArchitectures ds =
     remdups (filter (\<lambda>arch. arch \<noteq> [] \<and> \<not> EqualFold arch ''unknown'')
       (map (\<lambda>pl. TrimSpace (pl_arch pl)) (List.map_filter d_platform ds)))"

definition resolveArchitecture :: "bool \<Rightarrow> imageIndex option \<Rightarrow> v1image option \<Rightarrow> string option" where
  "resolveArchitecture useIndex idx img =
     (if useIndex
      then (case idx of None \<Rightarrow> Some ''multiarch''
            | Some ix \<Rightarrow>
                (case idx_manifest ix of
                   Inl _ \<Rightarrow> Some ''multiarch''
                 | Inr None \<Rightarrow> None
                 | Inr (Some ds) \<Rightarrow>
                     (let vals = indexArchitectures ds
                      in if vals \<noteq> [] then Some (Join (sortStrings vals) ''-'') else Some ''multiarch'')))
      else (case img of None \<Rightarrow> Some []
            | Some im \<Rightarrow>
                (case img_config im of
                   Inr (Some cfg) \<Rightarrow> Some (TrimSpace (cfg_arch cfg))
                 | _ \<Rightarrow> Some [])))"

section \<open>Facts\<close>

lemma parsePlatformSpec_parts:
  assumes "parsePlatformSpec v = Inr spec"
  shows "TrimSpace (ps_arch spec) = ps_arch spec \<and> ps_arch spec \<noteq> [] \<and>
    TrimSpace (ps_os spec) = ps_os spec \<and> ps_os spec \<noteq> [] \<and> CHR ''/'' \<notin> set (ps_os spec)"
proof -
  have linux: "TrimSpace ''linux'' = ''linux''" by (rule TrimSpace_fixed) (auto simp: isSpace_def)
  show ?thesis
  proof (cases "CHR ''/'' \<in> set (TrimSpace v)")
    case True
    let ?os = "TrimSpace (takeWhile (\<lambda>c. c \<noteq> CHR ''/'') (TrimSpace v))"
    have "CHR ''/'' \<notin> set ?os"
      using TrimSpace_subset set_takeWhileD by fast
    with True assms linux show ?thesis
      by (auto simp: parsePlatformSpec_def SplitN2_eq Let_def split: if_splits)
  next
    case False
    with assms linux show ?thesis
      by (auto simp: parsePlatformSpec_def Let_def split: if_splits)
  qed
qed

lemma TrimSpace_join:
  assumes "TrimSpace a = a" "a \<noteq> []" "TrimSpace b = b" "b \<noteq> []"
  shows "TrimSpace (a @ x @ b) = a @ x @ b"
  using assms unfolding TrimSpace_def trimBy_fixed_iff by (auto simp: tight_def)

lemma parsePlatformSpec_print:
  assumes "TrimSpace (ps_arch s) = ps_arch s" "ps_arch s \<noteq> []"
    and "TrimSpace (ps_os s) = ps_os s" "ps_os s \<noteq> []" "CHR ''/'' \<notin> set (ps_os s)"
  shows "parsePlatformSpec (specString s) = Inr s"
proof -
  have str: "specString s = ps_os s @ ''/'' @ ps_arch s"
    using assms by (simp add: specString_def)
  have "takeWhile (\<lambda>c. c \<noteq> CHR ''/'') (ps_os s @ ''/'' @ ps_arch s) = ps_os s"
    "dropWhile (\<lambda>c. c \<noteq> CHR ''/'') (ps_os s @ ''/'' @ ps_arch s) = CHR ''/'' # ps_arch s"
    using assms(5) by (simp_all add: takeWhile_sep dropWhile_sep)
  then show ?thesis
    unfolding str using assms TrimSpace_join [of "ps_os s" "ps_arch s" "''/''"]
    by (simp add: parsePlatformSpec_def SplitN2_eq Let_def)
qed

subsection \<open>Lists of specifications without repeated keys\<close>

lemma addSpecs_eq:
  assumes "distinct (map specKey desired)" "seen = specKey ` set desired"
  shows "distinct (map specKey (addSpecs desired seen specs)) \<and>
    prefix desired (addSpecs desired seen specs) \<and>
    specKey ` set (addSpecs desired seen specs) = seen \<union> specKey ` set specs \<and>
    set (addSpecs desired seen specs) \<subseteq> set desired \<union> set specs"
  using assms
proof (induction desired seen specs rule: addSpecs.induct)
  case (2 desired seen spec specs)
  show ?case
  proof (cases "specKey spec \<in> seen")
    case True
    with 2 show ?thesis by auto
  next
    case False
    with 2(3,4) have "distinct (map specKey (desired @ [spec]))"
      "insert (specKey spec) seen = specKey ` set (desired @ [spec])" by auto
    from 2(2) [OF False this] False show ?thesis by (auto dest: append_prefixD)
  qed
qed auto

text \<open>The values that parse, in order; the parsing loop adds them one by one.\<close>

definition goodSpecs :: "string list \<Rightarrow> platformSpec list" where
  "goodSpecs vals = List.map_filter (\<lambda>v. case parsePlatformSpec v of Inl _ \<Rightarrow> None | Inr s \<Rightarrow> Some s) vals"

lemma goodSpecs_simps [simp]:
  "goodSpecs [] = []"
  "goodSpecs (v # vals) = (case parsePlatformSpec v of Inl _ \<Rightarrow> goodSpecs vals | Inr s \<Rightarrow> s # goodSpecs vals)"
  by (simp_all add: goodSpecs_def map_filter_simps split: sum.split)

lemma set_goodSpecs: "set (goodSpecs vals) = {s. \<exists>v \<in> set vals. parsePlatformSpec v = Inr s}"
  by (induction vals) (auto split: sum.split)

lemma parsePlatformLoop_addSpecs:
  "parsePlatformLoop vals parsed seen =
     (addSpecs parsed seen (goodSpecs vals), seen \<union> specKey ` set (goodSpecs vals))"
  by (induction vals parsed seen rule: parsePlatformLoop.induct) (auto split: sum.split)

subsection \<open>Selection\<close>

lemma runnable_platform: "descriptorIsRunnable d \<Longrightarrow> d_platform d \<noteq> None"
  by (auto simp: descriptorIsRunnable_def split: option.splits if_splits)

lemma selectImageDescriptor_Inr:
  "selectImageDescriptor (Some ds) want = Inr d \<Longrightarrow> d \<in> set ds \<and> descriptorIsRunnable d"
proof -
  assume *: "selectImageDescriptor (Some ds) want = Inr d"
  have "d \<in> set (filter descriptorIsRunnable ds)"
    using * by (auto simp: selectImageDescriptor_def Let_def simp del: filter_set set_filter
        dest: find_SomeD split: if_splits list.splits option.splits)
  then show ?thesis by auto
qed

section \<open>Properties\<close>

text \<open>
  Property C29. Printing and parsing platforms agree: whatever text was accepted as a platform, the
  printed form of the parsed specification is accepted again and yields the same specification.
\<close>

theorem parsePlatformSpec_roundtrip:
  assumes "parsePlatformSpec v = Inr spec"
  shows "parsePlatformSpec (specString spec) = Inr spec"
  using parsePlatformSpec_parts [OF assms] by (intro parsePlatformSpec_print) auto

theorem parsePlatformSpec_roundtrip_witness:
  "parsePlatformSpec (specString \<lparr>ps_arch = ''amd64'', ps_os = ''linux''\<rparr>) =
   Inr \<lparr>ps_arch = ''amd64'', ps_os = ''linux''\<rparr>"
proof (rule parsePlatformSpec_roundtrip)
  show "parsePlatformSpec '' amd64 '' = Inr \<lparr>ps_arch = ''amd64'', ps_os = ''linux''\<rparr>" by code_simp
qed

text \<open>
  The configured mirror platforms are kept in order without repetitions: no two parsed
  specifications share a key, and the key set handed to the pusher is exactly the set of keys of the
  values that parse.
\<close>

lemma parseMirrorPlatforms_keys:
  "distinct (map specKey (fst (parseMirrorPlatforms vals)))
   \<and> snd (parseMirrorPlatforms vals) = specKey ` set (fst (parseMirrorPlatforms vals))
   \<and> snd (parseMirrorPlatforms vals) = specKey ` {s. \<exists>v \<in> set vals. parsePlatformSpec v = Inr s}"
proof -
  have "parsePlatformLoop vals [] {} = (addSpecs [] {} (goodSpecs vals), specKey ` set (goodSpecs vals))"
    by (simp add: parsePlatformLoop_addSpecs)
  with addSpecs_eq [of "[]" "{}" "goodSpecs vals"] show ?thesis
    by (auto simp: parseMirrorPlatforms_def set_goodSpecs [symmetric] Let_def)
qed

text \<open>
  The platforms wanted for an image start with the node's platform when it is known, cover
  every configured mirror platform, contain nothing else, and no platform twice.
\<close>

lemma desiredPlatforms_spec:
  "distinct (map specKey (desiredPlatforms mps pl))
   \<and> (case specFromPlatform pl of
        Some spec \<Rightarrow> (\<exists>rest. desiredPlatforms mps pl = spec # rest \<and> set rest \<subseteq> insert spec (set mps))
      | None \<Rightarrow> set (desiredPlatforms mps pl) \<subseteq> set mps)
   \<and> specKey ` set (desiredPlatforms mps pl) =
       specKey ` (set_option (specFromPlatform pl) \<union> set mps)"
proof (cases "specFromPlatform pl")
  case None
  then show ?thesis using addSpecs_eq [of "[]" "{}" mps] by (auto simp: desiredPlatforms_def)
next
  case (Some spec)
  from addSpecs_eq [of "[spec]" "{specKey spec}" mps]
  have facts: "distinct (map specKey (addSpecs [spec] {specKey spec} mps))"
    "prefix [spec] (addSpecs [spec] {specKey spec} mps)"
    "specKey ` set (addSpecs [spec] {specKey spec} mps) = {specKey spec} \<union> specKey ` set mps"
    "set (addSpecs [spec] {specKey spec} mps) \<subseteq> insert spec (set mps)" by auto
  then obtain rest where rest: "addSpecs [spec] {specKey spec} mps = spec # rest"
    by (auto elim: prefixE)
  then have "set rest \<subseteq> insert spec (set mps)" using facts(4) by auto
  with facts Some rest show ?thesis by (simp add: desiredPlatforms_def)
qed

subsection \<open>Choosing a manifest\<close>

text \<open>
  What the entries of an index are, said without the code: an entry can run when its architecture and its operating
  system are known and it is not annotated as an attestation; it suits a wish when it agrees with
  it wherever the wish says something. Blanks around names and their case never matter.
\<close>

definition knownName :: "string \<Rightarrow> bool" where
  "knownName s \<longleftrightarrow> ToLower (TrimSpace s) \<notin> {[], ''unknown''}"

definition canRun :: "descriptor \<Rightarrow> bool" where
  "canRun d \<longleftrightarrow> (\<exists>pl. d_platform d = Some pl \<and> knownName (pl_arch pl) \<and> knownName (pl_os pl))
     \<and> map_option (\<lambda>t. ToLower (TrimSpace t)) (d_annotations d ''vnd.docker.reference.type'') \<noteq> Some ''attestation-manifest''"

definition agrees :: "string \<Rightarrow> string \<Rightarrow> bool" where
  "agrees wish name \<longleftrightarrow> ToLower (TrimSpace wish) \<in> {[], ToLower (TrimSpace name)}"

definition suits :: "platform \<Rightarrow> descriptor \<Rightarrow> bool" where
  "suits wish d \<longleftrightarrow> (\<exists>pl. d_platform d = Some pl \<and> agrees (pl_arch wish) (pl_arch pl) \<and> agrees (pl_os wish) (pl_os pl))"

lemma ToLower_attestation: "ToLower ''attestation-manifest'' = ''attestation-manifest''" "ToLower ''unknown'' = ''unknown''"
  by code_simp+

lemma descriptorIsRunnable_iff: "descriptorIsRunnable d \<longleftrightarrow> canRun d"
  by (auto simp: descriptorIsRunnable_def canRun_def knownName_def EqualFold_def ToLower_attestation Let_def split: option.splits)

lemma candidateFits_iff: "candidateFits wish d \<longleftrightarrow> suits wish d"
  by (auto simp: candidateFits_def suits_def agrees_def EqualFold_def Let_def split: option.splits)

lemma selectImageDescriptor_find:
  "selectImageDescriptor (Some ds) want =
     (case find (\<lambda>d. descriptorIsRunnable d \<and> (case want of None \<Rightarrow> False | Some w \<Rightarrow> candidateFits w d)) ds of
        Some d \<Rightarrow> Inr d
      | None \<Rightarrow>
          (case find descriptorIsRunnable ds of
             Some d \<Rightarrow> Inr d
           | None \<Rightarrow> Inl (ErrorString (if ds = [] then ''image index has no manifests''
                                         else ''image index has no runnable manifests''))))"
proof -
  have hd: "find descriptorIsRunnable ds = (case filter descriptorIsRunnable ds of [] \<Rightarrow> None | d # _ \<Rightarrow> Some d)"
    by (induction ds) auto
  have fits: "find (candidateFits w) (filter descriptorIsRunnable ds) =
    find (\<lambda>d. descriptorIsRunnable d \<and> candidateFits w d) ds" for w
    by (induction ds) auto
  have none: "filter descriptorIsRunnable ds = [] \<Longrightarrow>
    find (\<lambda>d. descriptorIsRunnable d \<and> P d) ds = None" for P
    by (auto simp: find_None_conv filter_empty_conv)
  have ff: "find (\<lambda>d. False) ds = None" by (simp add: find_None_conv)
  show ?thesis
    by (cases want; cases "filter descriptorIsRunnable ds")
      (auto simp: selectImageDescriptor_def Let_def hd fits [symmetric] none ff split: option.splits)
qed

text \<open>
  Property C26. Choosing a manifest from an index never yields an attestation or an entry for an unknown
  platform. With entries that can run and suit the wanted platform, the choice is the first of them; with none of
  those, or without a wanted platform, it is the first entry that can run; and it fails exactly when no entry
  can run.
\<close>

theorem selectImageDescriptor_spec:
  "(selectImageDescriptor (Some ds) want = Inr d \<longleftrightarrow>
      (let chosen = (\<lambda>e. canRun e \<and> (case want of None \<Rightarrow> False | Some wish \<Rightarrow> suits wish e));
           good = (if list_ex chosen ds then chosen else canRun)
       in \<exists>pre post. ds = pre @ d # post \<and> good d \<and> list_all (\<lambda>e. \<not> good e) pre))
   \<and> (isl (selectImageDescriptor (Some ds) want) \<longleftrightarrow> \<not> list_ex canRun ds)"
proof -
  let ?chosen = "\<lambda>e. canRun e \<and> (case want of None \<Rightarrow> False | Some wish \<Rightarrow> suits wish e)"
  have ex: "list_ex P ds \<longleftrightarrow> find P ds \<noteq> None" for P :: "descriptor \<Rightarrow> bool"
    by (auto simp: find_None_conv list_ex_iff)
  have "find ?chosen ds = Some e \<Longrightarrow> find canRun ds \<noteq> None" for e
    by (auto simp: find_Some_iff find_None_conv)
  then show ?thesis
    unfolding selectImageDescriptor_find descriptorIsRunnable_iff candidateFits_iff Let_def find_first_iff [symmetric] ex
    by (cases "find ?chosen ds"; cases "find canRun ds") auto
qed

end
