(* ===== verification/Glob.thy ===== *)
theory Glob
  imports GoStrings
begin

text \<open>
  Go's \<open>path.Match\<close>, which on the platforms the program runs on is also \<open>filepath.Match\<close>: the algorithm of
  the standard library on bytes, \<^term>\<open>None\<close> for \<open>ErrBadPattern\<close>. Namespaces and registry hosts are matched
  with it. For patterns of literals, \<open>?\<close> and \<open>*\<close> the greedy search is shown to decide the plain meaning
  of wildcards.
\<close>

section \<open>Definitions\<close>

text \<open>\<open>getEsc\<close>: a possibly escaped character of a class, and the rest of the pattern, which is not empty.\<close>

definition getEsc :: "string \<Rightarrow> (char \<times> string) option" where
  "getEsc chunk =
     (case chunk of [] \<Rightarrow> None
      | c # cs \<Rightarrow>
          if c = CHR ''-'' \<or> c = CHR '']'' then None
          else (let chunk = (if c = CHR 0x5C then cs else c # cs)
                in (case chunk of [] \<Rightarrow> None
                    | d # ds \<Rightarrow> if ds = [] then None else Some (d, ds))))"

lemma getEsc_length: "getEsc s = Some (c, t) \<Longrightarrow> length t < length s"
  by (auto simp: getEsc_def Let_def split: list.splits if_splits)

text \<open>The ranges of a class: whether one contains \<open>r\<close>, and what follows the closing bracket.\<close>

function classRanges :: "nat \<Rightarrow> bool \<Rightarrow> nat \<Rightarrow> string \<Rightarrow> (bool \<times> string) option" where
  "classRanges r mt nrange chunk =
     (if chunk \<noteq> [] \<and> hd chunk = CHR '']'' \<and> nrange > 0 then Some (mt, tl chunk)
      else (case getEsc chunk of
              None \<Rightarrow> None
            | Some (lo, c1) \<Rightarrow>
                if hd c1 = CHR ''-''
                then (case getEsc (tl c1) of
                        None \<Rightarrow> None
                      | Some (hi, c2) \<Rightarrow>
                          classRanges r (mt \<or> of_char lo \<le> r \<and> r \<le> of_char hi) (Suc nrange) c2)
                else classRanges r (mt \<or> of_char lo \<le> r \<and> r \<le> of_char lo) (Suc nrange) c1))"
  by pat_completeness auto
termination
  by (relation "measure (\<lambda>(r, mt, n, chunk). length chunk)") (auto dest!: getEsc_length)

declare classRanges.simps [simp del]

lemma classRanges_length: "classRanges r mt n s = Some (b, t) \<Longrightarrow> length t < length s"
proof (induction r mt n s rule: classRanges.induct)
  case (1 r mt n s)
  show ?case
  proof (cases "s \<noteq> [] \<and> hd s = CHR '']'' \<and> n > 0")
    case True
    with 1(3) show ?thesis by (auto simp: classRanges.simps [of r mt n s])
  next
    case False
    with 1(3) obtain lo c1 where g: "getEsc s = Some (lo, c1)"
      by (auto simp: classRanges.simps [of r mt n s] split: option.splits)
    have "length t < length c1"
    proof (cases "hd c1 = CHR ''-''")
      case True
      with 1(3) False g obtain hi c2 where h: "getEsc (tl c1) = Some (hi, c2)"
        by (auto simp: classRanges.simps [of r mt n s] split: option.splits)
      with 1(1) [OF False g refl True h refl] 1(3) False g True have "length t < length c2"
        by (simp add: classRanges.simps [of r mt n s])
      with getEsc_length [OF h] show ?thesis by simp
    next
      case no: False
      with 1(2) [OF False g refl no] 1(3) False g show ?thesis
        by (simp add: classRanges.simps [of r mt n s])
    qed
    with getEsc_length [OF g] show ?thesis by simp
  qed
qed

text \<open>
  One chunk without a star against the start of \<open>s\<close>. After a mismatch the rest of the chunk is still
  checked for well-formedness. The result is what follows the match.
\<close>

function matchChunk :: "string \<Rightarrow> string \<Rightarrow> bool \<Rightarrow> string option option" where
  "matchChunk [] s miss = Some (if miss then None else Some s)"
| "matchChunk (c # cs) s miss0 =
     (let miss = (miss0 \<or> s = [])
      in if c = CHR ''[''
         then (let r = (if miss then 0 else of_char (hd s));
                   s' = (if miss then s else tl s);
                   negated = (cs \<noteq> [] \<and> hd cs = CHR ''^'');
                   cs' = (if negated then tl cs else cs)
               in (case classRanges r False 0 cs' of
                     None \<Rightarrow> None
                   | Some (mt, rest) \<Rightarrow> matchChunk rest s' (miss \<or> mt = negated)))
         else if c = CHR ''?''
         then (if miss then matchChunk cs s True else matchChunk cs (tl s) (hd s = CHR ''/''))
         else if c = CHR 0x5C
         then (if cs = [] then None
               else if miss then matchChunk (tl cs) s True else matchChunk (tl cs) (tl s) (hd cs \<noteq> hd s))
         else if miss then matchChunk cs s True else matchChunk cs (tl s) (c \<noteq> hd s))"
  by pat_completeness auto
termination
  by (relation "measure (\<lambda>(chunk, s, miss). length chunk)")
    (auto dest!: classRanges_length split: if_splits)

text \<open>\<open>scanChunk\<close>: a leading run of stars, the text up to the next star outside a class, and the rest.\<close>

fun scanBody :: "bool \<Rightarrow> string \<Rightarrow> string \<times> string" where
  "scanBody inrange [] = ([], [])"
| "scanBody inrange (c # cs) =
     (if c = CHR 0x5C
      then (case cs of [] \<Rightarrow> ([c], [])
            | d # ds \<Rightarrow> (let (a, b) = scanBody inrange ds in (c # d # a, b)))
      else if c = CHR ''*'' \<and> \<not> inrange then ([], c # cs)
      else (let (a, b) = scanBody (if c = CHR ''['' then True else if c = CHR '']'' then False else inrange) cs
            in (c # a, b)))"

definition scanChunk :: "string \<Rightarrow> bool \<times> string \<times> string" where
  "scanChunk pattern =
     (pattern \<noteq> [] \<and> hd pattern = CHR ''*'', scanBody False (dropWhile (\<lambda>c. c = CHR ''*'') pattern))"

lemma scanBody_length: "scanBody b s = (a, r) \<Longrightarrow> length r \<le> length s"
proof (induction b s arbitrary: a r rule: scanBody.induct)
  case (2 b c cs)
  then show ?case by (fastforce split: if_splits list.splits prod.splits)
qed simp

lemma scanChunk_length:
  assumes "pattern \<noteq> []" "scanChunk pattern = (star, chunk, rest)"
  shows "length rest < length pattern"
proof (cases "hd pattern = CHR ''*''")
  case True
  then have "length (dropWhile (\<lambda>c. c = CHR ''*'') pattern) < length pattern"
    using assms(1) by (cases pattern) (auto simp: le_imp_less_Suc length_dropWhile_le)
  with scanBody_length [of False "dropWhile (\<lambda>c. c = CHR ''*'') pattern" chunk rest] assms(2)
  show ?thesis by (simp add: scanChunk_def)
next
  case False
  then obtain c cs where p: "pattern = c # cs" "c \<noteq> CHR ''*''" using assms(1) by (cases pattern) auto
  with assms(2) have "scanBody False (c # cs) = (chunk, rest)" by (simp add: scanChunk_def)
  with p show ?thesis
    by (auto dest: scanBody_length split: if_splits list.splits prod.splits)
qed

text \<open>The search of a starred chunk at later positions; \<open>lastChunk\<close> demands that it reaches the end.\<close>

fun starTry :: "string \<Rightarrow> bool \<Rightarrow> string \<Rightarrow> string option option" where
  "starTry chunk lastChunk [] = Some None"
| "starTry chunk lastChunk (c # cs) =
     (if c = CHR ''/'' then Some None
      else (case matchChunk chunk cs False of
              None \<Rightarrow> None
            | Some (Some t) \<Rightarrow> if lastChunk \<and> t \<noteq> [] then starTry chunk lastChunk cs else Some (Some t)
            | Some None \<Rightarrow> starTry chunk lastChunk cs))"

text \<open>After a mismatch the remaining chunks are only checked for syntax.\<close>

function tailCheck :: "string \<Rightarrow> bool option" where
  "tailCheck pattern =
     (if pattern = [] then Some False
      else (let (star, chunk, rest) = scanChunk pattern
            in (case matchChunk chunk [] False of None \<Rightarrow> None | Some _ \<Rightarrow> tailCheck rest)))"
  by pat_completeness auto
termination
  by (relation "measure length") (auto dest: scanChunk_length [OF _ sym])

function Match :: "string \<Rightarrow> string \<Rightarrow> bool option" where
  "Match pattern name =
     (if pattern = [] then Some (name = [])
      else (let (star, chunk, rest) = scanChunk pattern
            in if star \<and> chunk = [] then Some (CHR ''/'' \<notin> set name)
               else (case matchChunk chunk name False of
                       None \<Rightarrow> None
                     | Some r \<Rightarrow>
                         (case (case r of Some t \<Rightarrow> if t = [] \<or> rest \<noteq> [] then Some t else None | None \<Rightarrow> None) of
                            Some t \<Rightarrow> Match rest t
                          | None \<Rightarrow>
                              if star
                              then (case starTry chunk (rest = []) name of
                                      None \<Rightarrow> None
                                    | Some (Some t) \<Rightarrow> Match rest t
                                    | Some None \<Rightarrow> tailCheck rest)
                              else tailCheck rest))))"
  by pat_completeness auto
termination
  by (relation "measure (\<lambda>(pattern, name). length pattern)") (auto dest: scanChunk_length [OF _ sym])

declare Match.simps [simp del] tailCheck.simps [simp del]

section \<open>The meaning of wildcards\<close>

text \<open>
  The reference: a star stands for any text, a question mark for one character. It is compared on names
  without a slash, which Kubernetes names and registry hosts are.
\<close>

fun wild :: "string \<Rightarrow> string \<Rightarrow> bool" where
  "wild [] s \<longleftrightarrow> s = []"
| "wild (c # p) s \<longleftrightarrow>
     (if c = CHR ''*'' then list_ex (\<lambda>k. wild p (drop k s)) [0..<Suc (length s)]
      else s \<noteq> [] \<and> (c = CHR ''?'' \<or> c = hd s) \<and> wild p (tl s))"

definition plainPattern :: "string \<Rightarrow> bool" where
  "plainPattern p \<longleftrightarrow> CHR ''['' \<notin> set p \<and> CHR 0x5C \<notin> set p"

text \<open>A chunk fits at the start of a text.\<close>

fun fits :: "string \<Rightarrow> string \<Rightarrow> bool" where
  "fits [] s \<longleftrightarrow> True"
| "fits (c # p) s \<longleftrightarrow> s \<noteq> [] \<and> (c = CHR ''?'' \<or> c = hd s) \<and> fits p (tl s)"

lemma wild_star: "wild (CHR ''*'' # p) s \<longleftrightarrow> (\<exists>k. wild p (drop k s))"
proof -
  have "wild p (drop k s) \<Longrightarrow> \<exists>j < Suc (length s). wild p (drop j s)" for k
    by (cases "k \<le> length s") (auto intro: exI [of _ "length s"] simp: less_Suc_eq_le)
  then have "(\<exists>k. wild p (drop k s)) \<longleftrightarrow> (\<exists>j \<in> {0..<Suc (length s)}. wild p (drop j s))"
    by (metis atLeastLessThan_iff le0)
  then show ?thesis by (simp add: list_ex_iff del: upt_Suc)
qed

lemma wild_stars: "wild (CHR ''*'' # p) s \<longleftrightarrow> (\<exists>k. wild (dropWhile (\<lambda>c. c = CHR ''*'') p) (drop k s))"
proof (induction p arbitrary: s)
  case (Cons c p)
  show ?case
  proof (cases "c = CHR ''*''")
    case True
    then have "wild (CHR ''*'' # c # p) s \<longleftrightarrow> (\<exists>k. wild (CHR ''*'' # p) (drop k s))" by (simp only: wild_star)
    also have "\<dots> \<longleftrightarrow> (\<exists>k j. wild (dropWhile (\<lambda>c. c = CHR ''*'') p) (drop (j + k) s))"
      by (simp only: Cons.IH drop_drop)
    also have "\<dots> \<longleftrightarrow> (\<exists>k. wild (dropWhile (\<lambda>c. c = CHR ''*'') p) (drop k s))"
      by (metis add_0)
    finally show ?thesis using True by simp
  qed (simp add: wild_star del: wild.simps)
qed (simp add: wild_star del: wild.simps)

lemma wild_append:
  "CHR ''*'' \<notin> set chunk \<Longrightarrow> wild (chunk @ rest) s \<longleftrightarrow> fits chunk s \<and> wild rest (drop (length chunk) s)"
  by (induction chunk arbitrary: s) (auto simp: drop_Suc)

lemma wild_later: "wild (CHR ''*'' # p) (drop j s) \<Longrightarrow> i \<le> j \<Longrightarrow> wild (CHR ''*'' # p) (drop i s)"
proof -
  assume "wild (CHR ''*'' # p) (drop j s)" "i \<le> j"
  then obtain k where "wild p (drop (k + (j - i)) (drop i s))" by (auto simp: wild_star simp del: wild.simps)
  then show ?thesis unfolding wild_star by blast
qed

section \<open>The search decides it\<close>

lemma scanBody_plain:
  "plainPattern p \<Longrightarrow> scanBody False p = (takeWhile (\<lambda>c. c \<noteq> CHR ''*'') p, dropWhile (\<lambda>c. c \<noteq> CHR ''*'') p)"
  by (induction p) (auto simp: plainPattern_def)

lemma matchChunk_plain:
  assumes "plainPattern chunk" "CHR ''/'' \<notin> set s"
  shows "matchChunk chunk s False = Some (if fits chunk s then Some (drop (length chunk) s) else None)"
    and "matchChunk chunk u True = Some None"
proof -
  have missed: "plainPattern chunk \<Longrightarrow> matchChunk chunk u True = Some None" for chunk u
    by (induction chunk arbitrary: u) (auto simp: plainPattern_def Let_def)
  from assms(1) show "matchChunk chunk u True = Some None" by (rule missed)
  from assms show "matchChunk chunk s False = Some (if fits chunk s then Some (drop (length chunk) s) else None)"
  proof (induction chunk arbitrary: s)
    case (Cons c chunk)
    then have pl: "plainPattern chunk" "c \<noteq> CHR ''[''" "c \<noteq> CHR 0x5C" by (auto simp: plainPattern_def)
    show ?case
    proof (cases s)
      case Nil
      with pl missed show ?thesis by (simp add: Let_def)
    next
      case (Cons d ds)
      with Cons.prems have d: "d \<noteq> CHR ''/''" "CHR ''/'' \<notin> set ds" by auto
      with Cons pl missed Cons.IH [OF pl(1) d(2)] show ?thesis by (auto simp: Let_def)
    qed
  qed simp
qed

text \<open>The chunk fits at a position, and reaches the end when it has to.\<close>

definition okAt :: "string \<Rightarrow> bool \<Rightarrow> string \<Rightarrow> nat \<Rightarrow> bool" where
  "okAt chunk lastChunk s k \<longleftrightarrow> fits chunk (drop k s) \<and> (lastChunk \<longrightarrow> drop (k + length chunk) s = [])"

lemma starTry_plain:
  assumes "plainPattern chunk" "CHR ''/'' \<notin> set s"
  shows "(\<exists>k. 0 < k \<and> k \<le> length s \<and> okAt chunk lastChunk s k \<and> (\<forall>j. 0 < j \<and> j < k \<longrightarrow> \<not> okAt chunk lastChunk s j) \<and>
            starTry chunk lastChunk s = Some (Some (drop (k + length chunk) s)))
       \<or> (\<forall>k. 0 < k \<and> k \<le> length s \<longrightarrow> \<not> okAt chunk lastChunk s k) \<and> starTry chunk lastChunk s = Some None"
  using assms(2) unfolding okAt_def
proof (induction s)
  case (Cons c s)
  then have s: "c \<noteq> CHR ''/''" "CHR ''/'' \<notin> set s" by auto
  let ?ok = "\<lambda>s k. fits chunk (drop k s) \<and> (lastChunk \<longrightarrow> drop (k + length chunk) s = [])"
  note m = matchChunk_plain(1) [OF assms(1) s(2)]
  show ?case
  proof (cases "?ok s 0")
    case True
    with s m have "starTry chunk lastChunk (c # s) = Some (Some (drop (1 + length chunk) (c # s)))" by auto
    with True show ?thesis by (intro disjI1 exI [of _ 1]) auto
  next
    case False
    with s m have step: "starTry chunk lastChunk (c # s) = starTry chunk lastChunk s" by auto
    from Cons.IH [OF s(2)] show ?thesis
    proof (elim disjE exE conjE, goal_cases)
      case (1 k)
      have "\<not> ?ok (c # s) j" if "0 < j" "j < Suc k" for j
        using 1(5) that False by (cases "j = 1") (auto simp: gr0_conv_Suc)
      with 1 step show ?thesis by (intro disjI1 exI [of _ "Suc k"]) auto
    next
      case 2
      have "\<not> ?ok (c # s) j" if "0 < j" "j \<le> length (c # s)" for j
        using 2(1) that False by (cases "j = 1") (auto simp: gr0_conv_Suc)
      with 2 step show ?thesis by auto
    qed
  qed
qed simp

text \<open>Taking the first position where a chunk fits loses nothing: the next star makes up for it.\<close>

lemma greedy_choice:
  assumes "rest = [] \<or> hd rest = CHR ''*''" and "okAt chunk (rest = []) s k0" and "\<And>j. j < k0 \<Longrightarrow> \<not> okAt chunk (rest = []) s j"
  shows "(\<exists>k. fits chunk (drop k s) \<and> wild rest (drop (k + length chunk) s)) \<longleftrightarrow> wild rest (drop (k0 + length chunk) s)"
proof
  assume "\<exists>k. fits chunk (drop k s) \<and> wild rest (drop (k + length chunk) s)"
  then obtain k where k: "fits chunk (drop k s)" "wild rest (drop (k + length chunk) s)" by blast
  show "wild rest (drop (k0 + length chunk) s)"
  proof (cases "rest = []")
    case True
    with assms(2) show ?thesis by (simp add: okAt_def)
  next
    case False
    with assms(1) obtain p where p: "rest = CHR ''*'' # p" by (cases rest) auto
    from k False assms(3) [of k] have "k0 \<le> k" by (auto simp: okAt_def not_less [symmetric])
    with k(2) wild_later [of p "k + length chunk" s "k0 + length chunk"] show ?thesis by (simp only: p)
  qed
qed (use assms(2) in \<open>auto simp: okAt_def\<close>)

lemma no_choice:
  assumes "rest = [] \<or> hd rest = CHR ''*''" "chunk \<noteq> []"
    and "\<And>k. k \<le> length s \<Longrightarrow> \<not> okAt chunk (rest = []) s k"
  shows "\<not> (fits chunk (drop k s) \<and> wild rest (drop (k + length chunk) s))"
proof
  assume k: "fits chunk (drop k s) \<and> wild rest (drop (k + length chunk) s)"
  with assms(2) have "k \<le> length s" by (cases chunk) auto
  with k assms(3) [of k] show False by (auto simp: okAt_def)
qed

lemma tailCheck_plain: "plainPattern p \<Longrightarrow> tailCheck p = Some False"
proof (induction p rule: tailCheck.induct)
  case (1 p)
  show ?case
  proof (cases "p = []")
    case False
    obtain star chunk rest where sc: "scanChunk p = (star, chunk, rest)" by (metis prod.collapse)
    have "plainPattern (dropWhile (\<lambda>c. c = CHR ''*'') p)"
      using "1.prems" by (auto simp: plainPattern_def dest: set_dropWhileD)
    with sc have "plainPattern chunk" "plainPattern rest"
      by (auto simp: scanChunk_def scanBody_plain plainPattern_def dest: set_dropWhileD set_takeWhileD)
    with "1.IH" [OF False sc [symmetric] refl] matchChunk_plain(1) [of chunk "[]"] False sc show ?thesis
      by (simp add: tailCheck.simps [of p])
  qed (simp add: tailCheck.simps)
qed

text \<open>How a plain pattern splits into stars, a chunk and the rest, and what that means for matching.\<close>

lemma scan_plain:
  assumes "plainPattern p" "p \<noteq> []"
  obtains star chunk rest where "scanChunk p = (star, chunk, rest)" "plainPattern chunk" "plainPattern rest"
    "rest = [] \<or> hd rest = CHR ''*''" "chunk = [] \<Longrightarrow> star \<and> rest = []"
    "\<And>s. wild p s \<longleftrightarrow> (if star then \<exists>k. fits chunk (drop k s) \<and> wild rest (drop (k + length chunk) s)
        else fits chunk s \<and> wild rest (drop (length chunk) s))"
proof -
  define ps where "ps = dropWhile (\<lambda>c. c = CHR ''*'') p"
  define star where "star \<longleftrightarrow> hd p = CHR ''*''"
  define chunk where "chunk = takeWhile (\<lambda>c. c \<noteq> CHR ''*'') ps"
  define rest where "rest = dropWhile (\<lambda>c. c \<noteq> CHR ''*'') ps"
  have plain: "plainPattern ps" "plainPattern chunk" "plainPattern rest"
    using assms(1) unfolding ps_def chunk_def rest_def plainPattern_def
    by (auto dest!: set_dropWhileD set_takeWhileD)
  have sc: "scanChunk p = (star, chunk, rest)"
    using assms(2) plain(1) by (simp add: scanChunk_def star_def scanBody_plain ps_def [symmetric] chunk_def rest_def)
  have ps: "ps = chunk @ rest" by (simp add: chunk_def rest_def)
  have rest: "rest = [] \<or> hd rest = CHR ''*''"
    unfolding rest_def using hd_dropWhile [of "\<lambda>c. c \<noteq> CHR ''*''" ps] by auto
  have tail: "ps \<noteq> [] \<Longrightarrow> hd ps \<noteq> CHR ''*''" using hd_dropWhile [of "\<lambda>c. c = CHR ''*''" p] by (auto simp: ps_def)
  have nostar: "\<not> star \<Longrightarrow> p = ps" using assms(2) by (cases p) (simp_all add: ps_def star_def)
  have empty: "star \<and> rest = []" if "chunk = []"
  proof -
    from that ps rest tail have "ps = []" by auto
    with nostar assms(2) ps show ?thesis by auto
  qed
  have cstar: "CHR ''*'' \<notin> set chunk" unfolding chunk_def by (auto dest: set_takeWhileD)
  have "wild p s \<longleftrightarrow> (if star then \<exists>k. fits chunk (drop k s) \<and> wild rest (drop (k + length chunk) s)
      else fits chunk s \<and> wild rest (drop (length chunk) s))" for s
  proof (cases star)
    case True
    with assms(2) obtain p' where p': "p = CHR ''*'' # p'" by (cases p) (auto simp: star_def)
    then have "dropWhile (\<lambda>c. c = CHR ''*'') p' = ps" by (simp add: ps_def)
    with True p' wild_stars [of p' s] wild_append [OF cstar, of rest] show ?thesis
      by (simp add: ps add.commute del: wild.simps)
  next
    case False
    with nostar wild_append [OF cstar, of rest s] show ?thesis by (simp add: ps)
  qed
  then show ?thesis using that sc plain(2,3) rest empty by blast
qed

lemma Match_plain:
  "plainPattern p \<Longrightarrow> CHR ''/'' \<notin> set s \<Longrightarrow> Match p s = Some (wild p s)"
proof (induction "length p" arbitrary: p s rule: less_induct)
  case less
  show ?case
  proof (cases "p = []")
    case False
    obtain star chunk rest where sc: "scanChunk p = (star, chunk, rest)" and plain: "plainPattern chunk" "plainPattern rest"
      and rest: "rest = [] \<or> hd rest = CHR ''*''" and empty: "chunk = [] \<Longrightarrow> star \<and> rest = []"
      and wild_p: "wild p s \<longleftrightarrow> (if star then \<exists>k. fits chunk (drop k s) \<and> wild rest (drop (k + length chunk) s)
        else fits chunk s \<and> wild rest (drop (length chunk) s))"
      using scan_plain [OF less.prems(1) False] by metis
    have IH: "Match rest (drop k s) = Some (wild rest (drop k s))" for k
      using less.hyps [OF scanChunk_length [OF False sc] plain(2)] less.prems(2) by (meson in_set_dropD)
    note step = Match.simps [of p s] matchChunk_plain(1) [OF plain(1) less.prems(2)]
    consider (any) "chunk = []" | (here) "chunk \<noteq> []" "okAt chunk (rest = []) s 0"
      | (later) "chunk \<noteq> []" "\<not> okAt chunk (rest = []) s 0" by blast
    then show ?thesis
    proof cases
      case any
      with empty wild_p have "wild p s" by (auto intro: exI [of _ "length s"])
      with any empty False sc less.prems(2) show ?thesis by (simp add: step)
    next
      case here
      then have "Match p s = Match rest (drop (length chunk) s)"
        using False sc by (auto simp: step okAt_def)
      moreover have "wild p s \<longleftrightarrow> wild rest (drop (length chunk) s)"
        using wild_p greedy_choice [OF rest here(2)] here(2) by (auto simp: okAt_def)
      ultimately show ?thesis using IH by simp
    next
      case later
      then have m: "Match p s = (if star then (case starTry chunk (rest = []) s of None \<Rightarrow> None
          | Some (Some t) \<Rightarrow> Match rest t | Some None \<Rightarrow> Some False) else Some False)"
        using False sc tailCheck_plain [OF plain(2)] by (auto simp: step okAt_def split: option.splits)
      show ?thesis
      proof (cases star)
        case no: False
        with m later(2) wild_p show ?thesis by (cases "rest = []") (auto simp: okAt_def)
      next
        case True
        from starTry_plain [OF plain(1) less.prems(2), of "rest = []"] show ?thesis
        proof (elim disjE exE conjE, goal_cases)
          case (1 k)
          then have "\<not> okAt chunk (rest = []) s j" if "j < k" for j using later(2) that by (cases "j = 0") auto
          from greedy_choice [OF rest 1(3) this] 1 m True wild_p IH show ?thesis by simp
        next
          case 2
          then have "\<not> okAt chunk (rest = []) s k" if "k \<le> length s" for k using later(2) that by (cases "k = 0") auto
          from no_choice [OF rest later(1) this] 2 m True wild_p show ?thesis by auto
        qed
      qed
    qed
  qed (simp add: Match.simps)
qed

end
