(* ===== verification/Keychain.thy ===== *)
theory Keychain
  imports Glob
begin

text \<open>
  \<open>internal/mirror/keychain.go\<close>: credentials by registry host. The argument of \<open>NewStaticKeychain\<close> is a Go
  map, given as the list of its entries in the order in which one run of \<open>range\<close> visits them; that
  order is not determined, so nothing may depend on it.
\<close>

section \<open>Definitions\<close>

datatype authenticator = Anonymous | Basic string string | RegistryToken string

record staticKeychain =
  kc_creds :: "string \<rightharpoonup> authenticator"
  kc_wildcards :: "(string \<times> authenticator) list"

fun keychainLoop ::
  "(string \<times> authenticator option) list \<Rightarrow> staticKeychain \<Rightarrow> staticKeychain" where
  "keychainLoop [] kc = kc"
| "keychainLoop ((registry, auth) # creds) kc =
     (case auth of
        None \<Rightarrow> keychainLoop creds kc
      | Some a \<Rightarrow>
          (let trimmed = TrimSpace registry
           in if trimmed = [] then keychainLoop creds kc
              else (let lower = ToLower trimmed
                    in if ContainsAny lower ''*?[''
                       then keychainLoop creds (kc\<lparr>kc_wildcards := kc_wildcards kc @ [(lower, a)]\<rparr>)
                       else keychainLoop creds (kc\<lparr>kc_creds := (kc_creds kc)(lower \<mapsto> a)\<rparr>))))"

definition emptyKeychain :: staticKeychain where
  "emptyKeychain = \<lparr>kc_creds = Map.empty, kc_wildcards = []\<rparr>"

definition NewStaticKeychain :: "(string \<times> authenticator option) list \<Rightarrow> staticKeychain" where
  "NewStaticKeychain creds = (if creds = [] then emptyKeychain else keychainLoop creds emptyKeychain)"

definition Resolve :: "staticKeychain option \<Rightarrow> string \<Rightarrow> authenticator" where
  "Resolve kc host =
     (case kc of None \<Rightarrow> Anonymous
      | Some k \<Rightarrow>
          (let registry = ToLower (TrimSpace host)
           in (case kc_creds k registry of
                 Some auth \<Rightarrow> auth
               | None \<Rightarrow>
                   (case find (\<lambda>(pattern, auth). Match pattern registry = Some True) (kc_wildcards k) of
                      Some (pattern, auth) \<Rightarrow> auth
                    | None \<Rightarrow> Anonymous))))"

section \<open>Facts\<close>

definition hostKey :: "string \<Rightarrow> string" where
  "hostKey r = ToLower (TrimSpace r)"

text \<open>The usable entries, split into exact hosts and patterns.\<close>

definition exactEntry :: "string \<times> authenticator option \<Rightarrow> (string \<times> authenticator) option" where
  "exactEntry e = (case snd e of None \<Rightarrow> None
     | Some a \<Rightarrow> if TrimSpace (fst e) = [] \<or> ContainsAny (hostKey (fst e)) ''*?['' then None else Some (hostKey (fst e), a))"

definition patternEntry :: "string \<times> authenticator option \<Rightarrow> (string \<times> authenticator) option" where
  "patternEntry e = (case snd e of None \<Rightarrow> None
     | Some a \<Rightarrow> if TrimSpace (fst e) = [] \<or> \<not> ContainsAny (hostKey (fst e)) ''*?['' then None else Some (hostKey (fst e), a))"

lemma keychainLoop_eq:
  "keychainLoop creds kc =
     \<lparr>kc_creds = kc_creds kc ++ map_of (rev (List.map_filter exactEntry creds)),
      kc_wildcards = kc_wildcards kc @ List.map_filter patternEntry creds\<rparr>"
proof (induction creds kc rule: keychainLoop.induct)
  case (2 registry auth creds kc)
  show ?case
  proof (cases auth)
    case None
    then have "exactEntry (registry, auth) = None" "patternEntry (registry, auth) = None"
      by (simp_all add: exactEntry_def patternEntry_def)
    with None 2 show ?thesis by (simp add: map_filter_simps)
  next
    case (Some a)
    then have "exactEntry (registry, auth) = (if TrimSpace registry = [] \<or> ContainsAny (ToLower (TrimSpace registry)) ''*?[''
        then None else Some (ToLower (TrimSpace registry), a))"
      "patternEntry (registry, auth) = (if TrimSpace registry = [] \<or> \<not> ContainsAny (ToLower (TrimSpace registry)) ''*?[''
        then None else Some (ToLower (TrimSpace registry), a))"
      by (simp_all add: exactEntry_def patternEntry_def hostKey_def)
    moreover have upd: "(\<lambda>b. if b = k then Some a else m b) = m(k \<mapsto> a)" for k and m :: "string \<rightharpoonup> authenticator"
      by (simp add: fun_upd_def)
    ultimately show ?thesis
      using Some 2 by (cases "TrimSpace registry = []"; cases "ContainsAny (ToLower (TrimSpace registry)) ''*?[''")
        (simp_all add: map_filter_simps Let_def upd)
  qed
qed (simp add: map_filter_simps)

lemma NewStaticKeychain_eq:
  "NewStaticKeychain creds =
     \<lparr>kc_creds = map_of (rev (List.map_filter exactEntry creds)),
      kc_wildcards = List.map_filter patternEntry creds\<rparr>"
  by (simp add: NewStaticKeychain_def keychainLoop_eq emptyKeychain_def map_filter_simps)

lemma set_map_filter_option: "set (List.map_filter f xs) = {y. \<exists>x \<in> set xs. f x = Some y}"
  by (force simp: List.map_filter_def)

text \<open>A lookup whose candidates all agree does not depend on their order.\<close>

lemma map_of_agree:
  assumes "\<And>v. (k, v) \<in> set xs \<Longrightarrow> v = w" "\<exists>v. (k, v) \<in> set xs"
  shows "map_of xs k = Some w"
  using assms by (metis map_of_SomeD map_of_eq_None_iff not_None_eq fst_conv imageI)

text \<open>The entries that can decide for a host.\<close>

definition exactFor :: "(string \<times> authenticator option) list \<Rightarrow> string \<Rightarrow> authenticator set" where
  "exactFor creds host = {a. \<exists>e \<in> set creds. exactEntry e = Some (hostKey host, a)}"

definition patternsFor :: "(string \<times> authenticator option) list \<Rightarrow> string \<Rightarrow> authenticator set" where
  "patternsFor creds host = {a. \<exists>e \<in> set creds. \<exists>p. patternEntry e = Some (p, a) \<and> Match p (hostKey host) = Some True}"

lemma Resolve_eq:
  assumes "\<And>a b. a \<in> exactFor creds host \<Longrightarrow> b \<in> exactFor creds host \<Longrightarrow> a = b"
    and "\<And>a b. a \<in> patternsFor creds host \<Longrightarrow> b \<in> patternsFor creds host \<Longrightarrow> a = b"
  shows "Resolve (Some (NewStaticKeychain creds)) host =
    (if exactFor creds host \<noteq> {} then the_elem (exactFor creds host)
     else if patternsFor creds host \<noteq> {} then the_elem (patternsFor creds host) else Anonymous)"
proof -
  let ?X = "List.map_filter exactEntry creds" and ?W = "List.map_filter patternEntry creds"
  have X: "(hostKey host, a) \<in> set (rev ?X) \<longleftrightarrow> a \<in> exactFor creds host" for a
    by (simp add: exactFor_def set_map_filter_option)
  have W: "(p, a) \<in> set ?W \<and> Match p (hostKey host) = Some True \<Longrightarrow> a \<in> patternsFor creds host" for p a
    by (auto simp: patternsFor_def set_map_filter_option)
  have W': "a \<in> patternsFor creds host \<Longrightarrow> \<exists>p. (p, a) \<in> set ?W \<and> Match p (hostKey host) = Some True" for a
    by (auto simp: patternsFor_def set_map_filter_option)
  let ?f = "find (\<lambda>(p, a). Match p (hostKey host) = Some True) ?W"
  have R: "Resolve (Some (NewStaticKeychain creds)) host = (case map_of (rev ?X) (hostKey host) of
      Some a \<Rightarrow> a | None \<Rightarrow> (case ?f of Some (p, a) \<Rightarrow> a | None \<Rightarrow> Anonymous))"
    by (simp only: Resolve_def NewStaticKeychain_eq hostKey_def Let_def option.case staticKeychain.select_convs)
  show ?thesis
  proof (cases "exactFor creds host = {}")
    case True
    then have none: "map_of (rev ?X) (hostKey host) = None" using X by (force simp: map_of_eq_None_iff)
    show ?thesis
    proof (cases ?f)
      case None
      then have "patternsFor creds host = {}" using W' by (fastforce simp: find_None_conv)
      with None none True show ?thesis by (simp add: R)
    next
      case (Some e)
      then have "snd e \<in> patternsFor creds host" using W [of "fst e" "snd e"] by (auto dest!: find_SomeD)
      with assms(2) have "patternsFor creds host = {snd e}" by blast
      with Some none True show ?thesis by (simp add: R split: prod.split)
    qed
  next
    case False
    then obtain a where a: "a \<in> exactFor creds host" by blast
    with assms(1) have "exactFor creds host = {a}" by blast
    with map_of_agree [of "hostKey host" "rev ?X" a] X show ?thesis by (simp add: R)
  qed
qed

section \<open>Properties\<close>

text \<open>
  Credentials resolve the same way in every iteration order of the configuration map, provided
  that the exact entries for the host agree and the matching patterns agree: an exact entry for the
  host, whatever its case and surrounding blanks, wins over every pattern.
\<close>

lemma Resolve_order_independent:
  assumes "set creds' = set creds"
    and "\<And>a b. a \<in> exactFor creds host \<Longrightarrow> b \<in> exactFor creds host \<Longrightarrow> a = b"
    and "\<And>a b. a \<in> patternsFor creds host \<Longrightarrow> b \<in> patternsFor creds host \<Longrightarrow> a = b"
  shows "Resolve (Some (NewStaticKeychain creds')) host = Resolve (Some (NewStaticKeychain creds)) host
    \<and> (\<forall>a \<in> exactFor creds host. Resolve (Some (NewStaticKeychain creds)) host = a)"
proof -
  have "exactFor creds' host = exactFor creds host" "patternsFor creds' host = patternsFor creds host"
    by (simp_all add: exactFor_def patternsFor_def assms(1))
  then have "Resolve (Some (NewStaticKeychain creds')) host = Resolve (Some (NewStaticKeychain creds)) host"
    using Resolve_eq [of creds host] Resolve_eq [of creds' host] assms(2,3) by simp
  moreover have "Resolve (Some (NewStaticKeychain creds)) host = a" if "a \<in> exactFor creds host" for a
  proof -
    from that assms(2) have "exactFor creds host = {a}" by blast
    moreover have "Resolve (Some (NewStaticKeychain creds)) host = the_elem (exactFor creds host)"
      using Resolve_eq [of creds host] assms(2,3) that by (metis empty_iff)
    ultimately show ?thesis by simp
  qed
  ultimately show ?thesis by blast
qed

end
