(* ===== verification/Pusher.thy ===== *)
theory Pusher
  imports Flow Ledger Metrics Retry Platforms Keychain
begin

text \<open>
  \<open>internal/mirror/pusher.go\<close>: \<open>NewPusher\<close> and the whole of \<open>Mirror\<close>, split into the stages of its text.

  Code outside the repository is a parameter: \<open>remote\<close> holds the functions of \<open>go-containerregistry\<close> that
  parse references and read from registries, and the clock; \<open>writer\<close> holds the two that write to the
  target; \<open>target\<close> is the interface \<open>registry.Target\<close>. They act on a world of any type, and every call
  may change it, so nothing is assumed about what registries do between two calls.
\<close>

section \<open>The world outside\<close>

record repository =
  rp_registry :: string
  rp_repository :: string
  rp_name :: string

definition zeroRepository :: repository where
  "zeroRepository = \<lparr>rp_registry = [], rp_repository = [], rp_name = []\<rparr>"

datatype reference = Tag (refContext: repository) string | Digest (refContext: repository) string

text \<open>\<open>remote.Descriptor\<close>: the outcome of \<open>Image()\<close> and \<open>ImageIndex()\<close> belongs to the descriptor.\<close>

record remoteDescriptor =
  rd_isIndex :: bool
  rd_digest :: hash
  rd_image :: "goerror + v1image"
  rd_index :: "goerror + imageIndex"

datatype appendable = AppendImage v1image | AppendIndex imageIndex

text \<open>\<open>http.Transport\<close>: the settings of \<open>newTransport\<close>, with those of its dialer and its TLS configuration.\<close>

record httpTransport =
  proxyFromEnvironment :: bool
  dialTimeout :: duration
  dialKeepAlive :: duration
  MaxIdleConns :: nat
  IdleConnTimeout :: duration
  TLSHandshakeTimeout :: duration
  ExpectContinueTimeout :: duration
  tlsMinVersion :: "nat \<times> nat"
  InsecureSkipVerify :: bool

definition newTransport :: "bool \<Rightarrow> httpTransport" where
  "newTransport insecure =
     \<lparr>proxyFromEnvironment = True, dialTimeout = 10 * 1000000000, dialKeepAlive = 30 * 1000000000,
      MaxIdleConns = 100, IdleConnTimeout = 90 * 1000000000, TLSHandshakeTimeout = 10 * 1000000000,
      ExpectContinueTimeout = 1000000000, tlsMinVersion = (1, 2), InsecureSkipVerify = insecure\<rparr>"

text \<open>The options of a call: its deadline, explicit credentials or the keychain, the transport, the platform.\<close>

datatype callAuth = WithAuth "string \<times> string" | WithAuthFromKeychain staticKeychain

record callOpts =
  co_deadline :: "duration option"
  co_auth :: callAuth
  co_transport :: httpTransport
  co_platform :: "platform option"

record 'w remote =
  now :: "'w \<Rightarrow> time"
  ParseReference :: "string \<Rightarrow> goerror + reference"
  NewTag :: "bool \<Rightarrow> string \<Rightarrow> goerror + (repository \<times> string)"
  NewDigest :: "bool \<Rightarrow> string \<Rightarrow> goerror + (repository \<times> string)"
  NewHash :: "string \<Rightarrow> goerror + hash"
  AppendManifests :: "(appendable \<times> descriptor) list \<Rightarrow> imageIndex"
  remoteHead :: "callOpts \<Rightarrow> reference \<Rightarrow> 'w \<Rightarrow> (goerror + hash option) \<times> 'w"
  remoteGet :: "callOpts \<Rightarrow> reference \<Rightarrow> 'w \<Rightarrow> (goerror + remoteDescriptor) \<times> 'w"
  remoteImage :: "callOpts \<Rightarrow> reference \<Rightarrow> 'w \<Rightarrow> (goerror + v1image) \<times> 'w"
  remoteIndex :: "callOpts \<Rightarrow> reference \<Rightarrow> 'w \<Rightarrow> (goerror + imageIndex) \<times> 'w"
  sleep :: "duration \<Rightarrow> 'w \<Rightarrow> goerror option \<times> 'w"

record 'w writer =
  remoteWrite :: "callOpts \<Rightarrow> reference \<Rightarrow> v1image \<Rightarrow> 'w \<Rightarrow> goerror option \<times> 'w"
  remoteWriteIndex :: "callOpts \<Rightarrow> reference \<Rightarrow> imageIndex \<Rightarrow> 'w \<Rightarrow> goerror option \<times> 'w"

record 'w target =
  t_Registry :: string
  t_RepoPrefix :: string
  t_Insecure :: bool
  t_EnsureRepository :: "string \<Rightarrow> 'w \<Rightarrow> goerror option \<times> 'w"
  t_BasicAuth :: "'w \<Rightarrow> (goerror + (string \<times> string)) \<times> 'w"

section \<open>The pusher\<close>

record 'w pusher =
  p_target :: "'w target"
  dryRun :: bool
  dryPull :: bool
  transform :: "string \<Rightarrow> string"
  pullByDigest :: bool
  digestPullIgnoredTags :: "string set"
  allowDifferentDigestRepush :: bool
  mirrorPlatforms :: "platformSpec list"
  mirrorPlatformSet :: "string set"
  sourceTransport :: httpTransport
  targetTransport :: httpTransport
  p_keychain :: staticKeychain
  requestTimeout :: duration
  registryRetry :: retryConfig
  failureCooldown :: duration
  excludedRegistries :: "string list"

definition DefaultFailureCooldown :: duration where
  "DefaultFailureCooldown = 3600 * 1000000000"

definition DefaultRegistryRetryAttempts :: int where
  "DefaultRegistryRetryAttempts = 3"

definition DefaultRegistryRetryBackoff :: duration where
  "DefaultRegistryRetryBackoff = 10 * 1000000000"

declare DefaultRegistryRetryAttempts_def [simp] DefaultRegistryRetryBackoff_def [simp]

definition normalizeTagSet :: "string list \<Rightarrow> string set" where
  "normalizeTagSet tags = set (filter (\<lambda>t. t \<noteq> []) (map (\<lambda>t. ToLower (TrimSpace t)) tags))"

text \<open>
  \<open>NewPusher\<close> with its defaults; \<open>transform = None\<close> is the nil function, \<open>kc = None\<close> the nil keychain and
  \<open>retry = None\<close> an absent variadic argument. The logger and the log filter \<open>ignoreMissingPlatforms\<close> are left out.
\<close>

definition NewPusher ::
  "'w target \<Rightarrow> bool \<Rightarrow> bool \<Rightarrow> (string \<Rightarrow> string) option \<Rightarrow> staticKeychain option \<Rightarrow> duration \<Rightarrow> duration \<Rightarrow> bool \<Rightarrow> string list
   \<Rightarrow> bool \<Rightarrow> string list \<Rightarrow> string list \<Rightarrow> retryConfig option \<Rightarrow> 'w pusher" where
  "NewPusher t dry dryp tr kc reqTimeout cooldown byDigest ignoredTags allowRepush excluded mirrorPls retry =
     (let reqTimeout = (if reqTimeout < 0 then 0 else reqTimeout);
          cooldown = (if cooldown < 0 then DefaultFailureCooldown else cooldown);
          rc = (case retry of None \<Rightarrow> \<lparr>Attempts = DefaultRegistryRetryAttempts, Backoff = DefaultRegistryRetryBackoff\<rparr> | Some c \<Rightarrow> c);
          rc = (if Attempts rc \<le> 0 then rc\<lparr>Attempts := 1\<rparr> else rc);
          rc = (if Backoff rc < 0 then rc\<lparr>Backoff := 0\<rparr> else rc);
          (parsed, keys) = parseMirrorPlatforms mirrorPls
      in \<lparr>p_target = t, dryRun = dry, dryPull = dryp,
          transform = (case tr of None \<Rightarrow> CleanRepoName | Some f \<Rightarrow> f),
          pullByDigest = byDigest, digestPullIgnoredTags = normalizeTagSet ignoredTags,
          allowDifferentDigestRepush = allowRepush, mirrorPlatforms = parsed, mirrorPlatformSet = keys,
          sourceTransport = newTransport False, targetTransport = newTransport (t_Insecure t),
          p_keychain = (case kc of None \<Rightarrow> NewStaticKeychain [] | Some k \<Rightarrow> k),
          requestTimeout = reqTimeout, registryRetry = rc, failureCooldown = cooldown,
          excludedRegistries = normalizeExcludedRegistries excluded\<rparr>)"

definition DryRun :: "'w pusher \<Rightarrow> bool" where
  "DryRun p = dryRun p"

definition DryPull :: "'w pusher \<Rightarrow> bool" where
  "DryPull p = dryPull p"

definition operationContext :: "'w pusher \<Rightarrow> duration option" where
  "operationContext p = (if requestTimeout p \<le> 0 then None else Some (requestTimeout p))"

definition targetOpts :: "'w pusher \<Rightarrow> string \<times> string \<Rightarrow> callOpts" where
  "targetOpts p auth =
     \<lparr>co_deadline = operationContext p, co_auth = WithAuth auth, co_transport = targetTransport p, co_platform = None\<rparr>"

definition sourceOpts :: "'w pusher \<Rightarrow> platform option \<Rightarrow> callOpts" where
  "sourceOpts p pl =
     \<lparr>co_deadline = operationContext p, co_auth = WithAuthFromKeychain (p_keychain p), co_transport = sourceTransport p, co_platform = pl\<rparr>"

text \<open>The type assertion \<open>err.(*transport.Error)\<close> together with the status 404.\<close>

definition isNotFoundError :: "goerror \<Rightarrow> bool" where
  "isNotFoundError e \<longleftrightarrow> (case e of TransportError c _ _ \<Rightarrow> c = 404 | _ \<Rightarrow> False)"

section \<open>References\<close>

text \<open>The package's own copy of \<open>normalizeImageID\<close>.\<close>

definition pusher_normalizeImageID :: "string \<Rightarrow> string" where
  "pusher_normalizeImageID imageID =
     (let trimmed = TrimSpace imageID
      in if trimmed = [] then []
         else (let trimmed = (case Index trimmed ''://'' of
                                Some i \<Rightarrow> drop (i + 3) trimmed | None \<Rightarrow> trimmed)
               in TrimSpace trimmed))"

definition digestReferenceFromImageID :: "'w remote \<Rightarrow> string \<Rightarrow> reference \<Rightarrow> goerror + (string \<times> reference)" where
  "digestReferenceFromImageID rem imageID src =
     (let normalized = pusher_normalizeImageID imageID
      in if normalized = [] then Inl (ErrorString ''empty imageID'')
         else if Contains normalized ''@''
         then (case NewDigest rem False normalized of
                 Inl e \<Rightarrow> Inl e | Inr (ctx, ds) \<Rightarrow> Inr (ds, Digest ctx ds))
         else (case NewHash rem normalized of
                 Inl e \<Rightarrow> Inl e
               | Inr _ \<Rightarrow>
                   (case NewDigest rem False (rp_name (refContext src) @ ''@'' @ normalized) of
                      Inl e \<Rightarrow> Inl e | Inr (ctx, ds) \<Rightarrow> Inr (normalized, Digest ctx ds))))"

text \<open>The reference to pull, the digest, whether the pod's digest is used, and the error.\<close>

definition pullReferenceFromMetadata ::
  "'w remote \<Rightarrow> bool \<Rightarrow> string \<Rightarrow> reference \<Rightarrow> reference \<times> string \<times> bool \<times> goerror option" where
  "pullReferenceFromMetadata rem byDigest normalizedImageID src =
     (if \<not> byDigest then (src, [], False, None)
      else if normalizedImageID = [] then (src, [], False, None)
      else (case digestReferenceFromImageID rem normalizedImageID src of
              Inl e \<Rightarrow> (src, [], False, Some e)
            | Inr (ds, ref) \<Rightarrow> (ref, ds, True, None)))"

definition buildTarget ::
  "'w remote \<Rightarrow> 'w pusher \<Rightarrow> string \<Rightarrow> reference \<Rightarrow> string \<Rightarrow> goerror + (string \<times> reference)" where
  "buildTarget rem p src srcRef repo =
     (let ins = t_Insecure (p_target p);
          mkTag = (\<lambda>t. let ref = t_Registry (p_target p) @ ''/'' @ repo @ '':'' @ t
                        in map_sum id (\<lambda>(ctx, u). (ref, Tag ctx u)) (NewTag rem ins ref))
      in case srcRef of
           Tag _ t \<Rightarrow> mkTag t
         | Digest _ d \<Rightarrow>
             (let stripped = (case Index src ''@'' of
                                Some i \<Rightarrow> if i > 0 then take i src else src | None \<Rightarrow> src)
              in case NewTag rem False stripped of
                   Inr (_, t) \<Rightarrow> mkTag t
                 | Inl _ \<Rightarrow>
                     (let ref = t_Registry (p_target p) @ ''/'' @ repo @ ''@'' @ d
                      in map_sum id (\<lambda>(ctx, u). (ref, Digest ctx u)) (NewDigest rem ins ref))))"

section \<open>Mirror: up to the critical section\<close>

record mirrorPlan =
  mp_srcRef :: reference
  mp_srcRepo :: string
  mp_meta :: metadata
  mp_repo :: string
  mp_target :: string
  mp_targetRef :: reference
  mp_pullRef :: reference
  mp_podDigest :: string
  mp_havePodDigest :: bool
  mp_usePodDigest :: bool

text \<open>The registry of the source, for the prefix template; Docker Hub goes by its short name.\<close>

definition fillRegistry :: "reference \<Rightarrow> metadata \<Rightarrow> metadata" where
  "fillRegistry srcRef meta =
     (if Registry meta = []
      then (let reg = rp_registry (refContext srcRef);
                reg = (if reg = ''index.docker.io'' then ''docker.io'' else reg)
            in meta\<lparr>Registry := reg\<rparr>)
      else meta)"

definition usesPodDigest :: "'w pusher \<Rightarrow> reference \<Rightarrow> bool" where
  "usesPodDigest p srcRef =
     (if pullByDigest p
      then (case srcRef of
              Tag _ t \<Rightarrow> ToLower (TrimSpace t) \<notin> digestPullIgnoredTags p
            | Digest _ _ \<Rightarrow> True)
      else False)"

text \<open>\<^term>\<open>Inl\<close> is an early return of \<open>Mirror\<close>.\<close>

definition mirrorPrepare ::
  "'w remote \<Rightarrow> 'w pusher \<Rightarrow> string \<Rightarrow> metadata \<Rightarrow> goerror option + mirrorPlan" where
  "mirrorPrepare rem p src meta =
     (case matchExcludedRegistry (excludedRegistries p) src of
        Some _ \<Rightarrow> Inl None
      | None \<Rightarrow>
          (case ParseReference rem src of
             Inl e \<Rightarrow> Inl (Some (Wrapf ''parse source: '' e []))
           | Inr srcRef \<Rightarrow>
               (let meta = fillRegistry srcRef meta;
                    srcRepo = rp_repository (refContext srcRef);
                    repo = resolveRepoPath (transform p) (t_RepoPrefix (p_target p)) srcRepo meta
                in case buildTarget rem p src srcRef repo of
                     Inl e \<Rightarrow> Inl (Some (Wrapf ''parse target: '' e []))
                   | Inr (target, targetRef) \<Rightarrow>
                       (let sourceIsDigest = (case srcRef of Digest _ _ \<Rightarrow> True | Tag _ _ \<Rightarrow> False);
                            normalizedID = pusher_normalizeImageID (MImageID meta);
                            usePodDigest = usesPodDigest p srcRef;
                            (pullRef, podDigest, havePodDigest, _) =
                              pullReferenceFromMetadata rem usePodDigest normalizedID srcRef
                        in if usePodDigest \<and> \<not> havePodDigest \<and> \<not> sourceIsDigest then Inl None
                           else Inr \<lparr>mp_srcRef = srcRef, mp_srcRepo = srcRepo, mp_meta = meta,
                                     mp_repo = repo, mp_target = target, mp_targetRef = targetRef,
                                     mp_pullRef = pullRef, mp_podDigest = podDigest,
                                     mp_havePodDigest = havePodDigest, mp_usePodDigest = usePodDigest\<rparr>))))"

section \<open>Mirror: state and small steps\<close>

text \<open>\<open>current\<close> is the local variable \<open>currentTarget\<close> that the deferred call captures.\<close>

record 'w pst =
  st_ledger :: ledger
  st_metrics :: metrics
  st_world :: 'w
  st_current :: string

definition call :: "('w \<Rightarrow> 'a \<times> 'w) \<Rightarrow> ('w pst, 'a) prog" where
  "call f s = (let (r, w) = f (st_world s) in (Continue r, s\<lparr>st_world := w\<rparr>))"

definition recordMet :: "(metrics \<Rightarrow> metrics) \<Rightarrow> ('w pst, unit) prog" where
  "recordMet f = modifyF (\<lambda>s. s\<lparr>st_metrics := f (st_metrics s)\<rparr>)"

text \<open>\<open>return p.failureResult(target, cause)\<close>\<close>

definition failWith :: "'w remote \<Rightarrow> 'w pusher \<Rightarrow> string \<Rightarrow> goerror \<Rightarrow> ('w pst, 'a) prog" where
  "failWith rem p target cause s =
     (let (e, l) = failureResult (failureCooldown p) (now rem (st_world s)) target cause (st_ledger s)
      in (Return (Some e), s\<lparr>st_ledger := l\<rparr>))"

text \<open>A pull error: counted for the source and turned into the result of the failure.\<close>

definition pullFailed ::
  "'w remote \<Rightarrow> 'w pusher \<Rightarrow> string \<Rightarrow> string \<Rightarrow> goerror \<Rightarrow> ('w pst, 'a) prog" where
  "pullFailed rem p src target e = thenF (recordMet (RecordPullError src)) (failWith rem p target e)"

definition pushFailed :: "'w remote \<Rightarrow> 'w pusher \<Rightarrow> string \<Rightarrow> goerror \<Rightarrow> ('w pst, 'a) prog" where
  "pushFailed rem p target e = thenF (recordMet (RecordPushError target)) (failWith rem p target e)"

section \<open>Mirror: before the pull\<close>

definition mirrorAuth :: "'w remote \<Rightarrow> 'w pusher \<Rightarrow> string \<Rightarrow> ('w pst, string \<times> string) prog" where
  "mirrorAuth rem p target =
     bindF (call (t_BasicAuth (p_target p))) (\<lambda>r.
       case r of
         Inl e \<Rightarrow> pushFailed rem p target (Wrapf ''auth: '' e [])
       | Inr auth \<Rightarrow> pureF auth)"

text \<open>Lines 524 to 534: the wanted platforms, the primary one and the one sent with requests.\<close>

definition platformChoice :: "'w pusher \<Rightarrow> metadata \<Rightarrow> platformSpec list \<times> platform option \<times> platform option" where
  "platformChoice p meta =
     (let metaPlatform = platformFromMetadata meta;
          desired = desiredPlatforms (mirrorPlatforms p) metaPlatform;
          primary = (case desired of [] \<Rightarrow> metaPlatform | d # _ \<Rightarrow> toPlatform d);
          request = (if length desired > 1 then None else primary)
      in (desired, primary, request))"

text \<open>Lines 536 to 564: stop when the target already has the digest the pod runs.\<close>

definition mirrorPodDigestCheck ::
  "'w remote \<Rightarrow> 'w pusher \<Rightarrow> mirrorPlan \<Rightarrow> string \<times> string \<Rightarrow> ('w pst, unit) prog" where
  "mirrorPodDigestCheck rem p pl auth =
     (if mp_usePodDigest pl \<and> mp_havePodDigest pl
      then (let digestRef =
              (case mp_targetRef pl of
                 Digest ctx d \<Rightarrow>
                   if EqualFold d (mp_podDigest pl) then Some (Digest ctx d)
                   else (case NewDigest rem (t_Insecure (p_target p))
                                (rp_name ctx @ ''@'' @ mp_podDigest pl) of
                           Inr (c, u) \<Rightarrow> Some (Digest c u) | Inl _ \<Rightarrow> None)
               | Tag ctx _ \<Rightarrow>
                   (case NewDigest rem (t_Insecure (p_target p))
                           (rp_name ctx @ ''@'' @ mp_podDigest pl) of
                      Inr (c, u) \<Rightarrow> Some (Digest c u) | Inl _ \<Rightarrow> None))
            in case digestRef of
                 None \<Rightarrow> pureF ()
               | Some ref \<Rightarrow>
                   bindF (call (remoteHead rem (targetOpts p auth) ref)) (\<lambda>r.
                     case r of Inr _ \<Rightarrow> returnF None | Inl _ \<Rightarrow> pureF ()))
      else pureF ())"

text \<open>Lines 589 to 633: compare target and source by HEAD before a pull by digest reference.\<close>

definition mirrorPreflight ::
  "'w remote \<Rightarrow> 'w pusher \<Rightarrow> mirrorPlan \<Rightarrow> string \<times> string \<Rightarrow> platform option \<Rightarrow> ('w pst, unit) prog" where
  "mirrorPreflight rem p pl auth requestPlatform =
     (if mp_usePodDigest pl \<and> \<not> mp_havePodDigest pl \<and> mirrorPlatforms p = []
      then bindF (call (remoteHead rem (targetOpts p auth) (mp_targetRef pl))) (\<lambda>r.
             case r of
               Inl _ \<Rightarrow> pureF ()
             | Inr None \<Rightarrow> pureF ()
             | Inr (Some targetDigest) \<Rightarrow>
                 if targetDigest = zeroHash then pureF ()
                 else bindF (call (remoteHead rem (sourceOpts p requestPlatform) (mp_pullRef pl))) (\<lambda>q.
                        case q of
                          Inr (Some sourceDigest) \<Rightarrow>
                            if targetDigest = sourceDigest then returnF None else pureF ()
                        | _ \<Rightarrow> pureF ()))
      else pureF ())"

text \<open>Lines 645 to 653.\<close>

definition mirrorDescribe ::
  "'w remote \<Rightarrow> 'w pusher \<Rightarrow> string \<Rightarrow> mirrorPlan \<Rightarrow> platform option \<Rightarrow> ('w pst, remoteDescriptor) prog" where
  "mirrorDescribe rem p src pl requestPlatform =
     bindF (call (remoteGet rem (sourceOpts p requestPlatform) (mp_pullRef pl))) (\<lambda>r.
       case r of
         Inr desc \<Rightarrow> pureF desc
       | Inl e \<Rightarrow>
           if mp_usePodDigest pl \<and> mp_havePodDigest pl \<and> Contains (errText e) ''MANIFEST_UNKNOWN''
           then pullFailed rem p src (mp_target pl) (Wrapf (''describe '' @ src @ '': '') e
                  '' (looks like the original image was overwritten and pod imageID digest is no longer available at source)'')
           else pullFailed rem p src (mp_target pl) (Wrapf (''describe '' @ src @ '': '') e []))"

section \<open>Mirror: choosing what to push\<close>

definition appendableForDescriptor :: "imageIndex \<Rightarrow> descriptor option \<Rightarrow> goerror + appendable" where
  "appendableForDescriptor idx desc =
     (case desc of
        None \<Rightarrow> Inl (ErrorString ''descriptor is nil'')
      | Some d \<Rightarrow>
          if d_isIndex d then map_sum id AppendIndex (idx_index idx (d_digest d))
          else map_sum id AppendImage (idx_image idx (d_digest d)))"

text \<open>The manifest of one platform, from the target when it is there already, otherwise from the source.\<close>

definition appendableForFilteredDescriptor ::
  "'w remote \<Rightarrow> 'w pusher \<Rightarrow> imageIndex \<Rightarrow> descriptor option \<Rightarrow> platformSpec \<Rightarrow> repository
   \<Rightarrow> string \<times> string \<Rightarrow> 'w \<Rightarrow> (goerror + appendable) \<times> 'w" where
  "appendableForFilteredDescriptor rem p idx desc spec targetRepo auth w =
     (case desc of
        None \<Rightarrow> (Inl (ErrorString ''descriptor is nil''), w)
      | Some d \<Rightarrow>
          if targetRepo \<noteq> zeroRepository
          then (case NewDigest rem (t_Insecure (p_target p))
                       (rp_name targetRepo @ ''@'' @ hashString (d_digest d)) of
                  Inl e \<Rightarrow> (Inl e, w)
                | Inr (ctx, ds) \<Rightarrow>
                    (case remoteHead rem (targetOpts p auth) (Digest ctx ds) w of
                       (Inr _, w1) \<Rightarrow>
                         (case (if d_isIndex d
                                then (let (r, w2) = remoteIndex rem (targetOpts p auth) (Digest ctx ds) w1
                                      in (map_sum id AppendIndex r, w2))
                                else (let (r, w2) = remoteImage rem (targetOpts p auth) (Digest ctx ds) w1
                                      in (map_sum id AppendImage r, w2))) of
                            (Inr a, w2) \<Rightarrow> (Inr a, w2)
                          | (Inl _, w2) \<Rightarrow> (appendableForDescriptor idx desc, w2))
                     | (Inl headErr, w1) \<Rightarrow>
                         if isNotFoundError headErr then (appendableForDescriptor idx desc, w1)
                         else (Inl (Wrapf (''check platform '' @ specString spec @ '': '') headErr []), w1)))
          else (appendableForDescriptor idx desc, w))"

text \<open>The loop over the wanted platforms: what to add, which specifications matched and which are missing.\<close>

fun filterLoop ::
  "'w remote \<Rightarrow> 'w pusher \<Rightarrow> imageIndex \<Rightarrow> indexManifest \<Rightarrow> repository \<Rightarrow> string \<times> string
   \<Rightarrow> platformSpec list \<Rightarrow> (appendable \<times> descriptor) list \<Rightarrow> platformSpec list \<Rightarrow> platformSpec list
   \<Rightarrow> 'w \<Rightarrow> (goerror + (appendable \<times> descriptor) list \<times> platformSpec list \<times> platformSpec list) \<times> 'w" where
  "filterLoop rem p idx ds targetRepo auth [] adds matched missing w = (Inr (adds, matched, missing), w)"
| "filterLoop rem p idx ds targetRepo auth (spec # specs) adds matched missing w =
     (case findDescriptorForSpec (Some ds) spec of
        None \<Rightarrow> filterLoop rem p idx ds targetRepo auth specs adds matched (missing @ [spec]) w
      | Some d \<Rightarrow>
          (case appendableForFilteredDescriptor rem p idx (Some d) spec targetRepo auth w of
             (Inl e, w1) \<Rightarrow> (Inl e, w1)
           | (Inr a, w1) \<Rightarrow>
               filterLoop rem p idx ds targetRepo auth specs (adds @ [(a, d)]) (matched @ [spec]) missing w1))"

definition filterIndexByPlatforms ::
  "'w remote \<Rightarrow> 'w pusher \<Rightarrow> imageIndex \<Rightarrow> platformSpec list \<Rightarrow> repository \<Rightarrow> string \<times> string
   \<Rightarrow> 'w \<Rightarrow> (goerror + imageIndex \<times> platformSpec list \<times> platformSpec list) \<times> 'w" where
  "filterIndexByPlatforms rem p idx desired targetRepo auth w =
     (case idx_manifest idx of
        Inl e \<Rightarrow> (Inl e, w)
      | Inr None \<Rightarrow> (Inl (ErrorString ''image index has no manifests''), w)
      | Inr (Some ds) \<Rightarrow>
          (case filterLoop rem p idx ds targetRepo auth desired [] [] [] w of
             (Inl e, w1) \<Rightarrow> (Inl e, w1)
           | (Inr (adds, matched, missing), w1) \<Rightarrow>
               if adds = [] then (Inr (idx, matched, missing), w1)
               else (Inr (AppendManifests rem adds, matched, missing), w1)))"

text \<open>
  What is pushed: \<open>pushIndex\<close> together with the one of the variables \<open>idx\<close> and \<open>img\<close> that it selects. The
  flag \<open>selectedFromIndex\<close> only decides on log entries and is left out.
\<close>

datatype content = ContentIndex imageIndex | ContentImage v1image

text \<open>Lines 682 to 755.\<close>

definition mirrorSelect ::
  "'w remote \<Rightarrow> 'w pusher \<Rightarrow> string \<Rightarrow> mirrorPlan \<Rightarrow> string \<times> string \<Rightarrow> remoteDescriptor
   \<Rightarrow> platformSpec list \<Rightarrow> platform option \<Rightarrow> ('w pst, content) prog" where
  "mirrorSelect rem p src pl auth desc desired primary =
     (let failed = pullFailed rem p src (mp_target pl)
      in if rd_isIndex desc \<and> pullByDigest p \<and> length desired > 1
         then (case rd_index desc of
                 Inl e \<Rightarrow> failed (Wrapf (''load index '' @ src @ '': '') e [])
               | Inr idx \<Rightarrow>
                   bindF (call (filterIndexByPlatforms rem p idx desired (refContext (mp_targetRef pl)) auth)) (\<lambda>r.
                     case r of
                       Inl e \<Rightarrow> failed (Wrapf (''filter index '' @ src @ '': '') e [])
                     | Inr (filtered, matched, missing) \<Rightarrow>
                         pureF (ContentIndex (if matched = [] then idx else filtered))))
         else if shouldMirrorEntireIndex (rd_isIndex desc) (pullByDigest p) primary
         then (case rd_index desc of
                 Inl e \<Rightarrow> failed (Wrapf (''load index '' @ src @ '': '') e [])
               | Inr idx \<Rightarrow> pureF (ContentIndex idx))
         else (case rd_image desc of
                 Inr img \<Rightarrow> pureF (ContentImage img)
               | Inl e \<Rightarrow>
                   if rd_isIndex desc
                   then (case rd_index desc of
                           Inl ie \<Rightarrow> failed (Wrapf (''load index '' @ src @ '': '') ie [])
                         | Inr idx \<Rightarrow>
                             (case imageFromIndex (Some idx) primary of
                                Inl se \<Rightarrow> failed (Wrapf (''resolve platform image '' @ src @ '': '') se [])
                              | Inr img \<Rightarrow> pureF (ContentImage img)))
                   else failed (Wrapf (''pull '' @ src @ '': '') e [])))"

section \<open>Mirror: the final target\<close>

record destination =
  de_repo :: string
  de_target :: string
  de_targetRef :: reference

definition planned :: "mirrorPlan \<Rightarrow> destination" where
  "planned pl = \<lparr>de_repo = mp_repo pl, de_target = mp_target pl, de_targetRef = mp_targetRef pl\<rparr>"

definition contentArchitecture :: "content \<Rightarrow> string option" where
  "contentArchitecture c =
     (case c of ContentIndex idx \<Rightarrow> resolveArchitecture True (Some idx) None
      | ContentImage img \<Rightarrow> resolveArchitecture False None (Some img))"

definition contentDigest :: "content \<Rightarrow> goerror + hash" where
  "contentDigest c = (case c of ContentIndex idx \<Rightarrow> idx_digest idx | ContentImage img \<Rightarrow> img_digest img)"

definition reassign :: "'w remote \<Rightarrow> 'w pusher \<Rightarrow> string \<Rightarrow> string \<Rightarrow> ('w pst, goerror + bool) prog" where
  "reassign rem p oldTarget newTarget s =
     (let (r, l) = reassignProcessing (failureCooldown p) (now rem (st_world s)) oldTarget newTarget (st_ledger s)
      in (Continue r, s\<lparr>st_ledger := l\<rparr>))"

text \<open>Lines 778 to 803: the architecture of the content may move the target.\<close>

definition mirrorArch ::
  "'w remote \<Rightarrow> 'w pusher \<Rightarrow> string \<Rightarrow> mirrorPlan \<Rightarrow> content \<Rightarrow> ('w pst, destination) prog" where
  "mirrorArch rem p src pl c =
     (case contentArchitecture c of
        None \<Rightarrow> panicF
      | Some arch \<Rightarrow>
          if arch = [] then pureF (planned pl)
          else (let meta = (mp_meta pl)\<lparr>Architecture := arch\<rparr>;
                    newRepo = resolveRepoPath (transform p) (t_RepoPrefix (p_target p)) (mp_srcRepo pl) meta
                in if newRepo = mp_repo pl then pureF (planned pl)
                   else (case buildTarget rem p src (mp_srcRef pl) newRepo of
                           Inl e \<Rightarrow> pullFailed rem p src (mp_target pl)
                                     (Wrapf (''parse target '' @ newRepo @ '': '') e [])
                         | Inr (newTarget, newTargetRef) \<Rightarrow>
                             bindF (reassign rem p (mp_target pl) newTarget) (\<lambda>r.
                               case r of
                                 Inl e \<Rightarrow> returnF (Some e)
                               | Inr True \<Rightarrow> returnF None
                               | Inr False \<Rightarrow>
                                   thenF (modifyF (\<lambda>s. s\<lparr>st_current := newTarget\<rparr>))
                                     (pureF \<lparr>de_repo = newRepo, de_target = newTarget,
                                             de_targetRef = newTargetRef\<rparr>)))))"

text \<open>Lines 805 to 814.\<close>

definition mirrorDigest ::
  "'w remote \<Rightarrow> 'w pusher \<Rightarrow> string \<Rightarrow> destination \<Rightarrow> content \<Rightarrow> ('w pst, hash) prog" where
  "mirrorDigest rem p src de c =
     (case contentDigest c of
        Inl e \<Rightarrow> pullFailed rem p src (de_target de) (Wrapf (''digest '' @ src @ '': '') e [])
      | Inr h \<Rightarrow> pureF h)"

section \<open>Mirror: the push\<close>

definition refuseOverwrite :: "string \<Rightarrow> hash \<Rightarrow> hash \<Rightarrow> goerror" where
  "refuseOverwrite target present srcDigest =
     ErrorString (''target image '' @ target @ '' exists with digest '' @ hashString present
       @ '', refusing to overwrite with source digest '' @ hashString srcDigest)"

text \<open>Lines 824 to 860; a successful HEAD without a descriptor is a nil dereference.\<close>

definition mirrorHeadCheck ::
  "'w remote \<Rightarrow> 'w pusher \<Rightarrow> string \<times> string \<Rightarrow> destination \<Rightarrow> hash \<Rightarrow> ('w pst, unit) prog" where
  "mirrorHeadCheck rem p auth de srcDigest =
     bindF (call (remoteHead rem (targetOpts p auth) (de_targetRef de))) (\<lambda>r.
       case r of
         Inr None \<Rightarrow> panicF
       | Inr (Some present) \<Rightarrow>
           if present = srcDigest then returnF None
           else (case de_targetRef de of
                   Tag _ t \<Rightarrow>
                     if EqualFold t ''latest'' then pureF ()
                     else if \<not> allowDifferentDigestRepush p
                     then pushFailed rem p (de_target de) (refuseOverwrite (de_target de) present srcDigest)
                     else pureF ()
                 | Digest _ _ \<Rightarrow> pureF ())
       | Inl e \<Rightarrow>
           if isNotFoundError e then pureF ()
           else pushFailed rem p (de_target de) (Wrapf (''check '' @ de_target de @ '': '') e []))"

text \<open>Lines 862 to 870: the repository is created before a dry run stops.\<close>

definition mirrorEnsure :: "'w remote \<Rightarrow> 'w pusher \<Rightarrow> destination \<Rightarrow> ('w pst, unit) prog" where
  "mirrorEnsure rem p de =
     bindF (call (t_EnsureRepository (p_target p) (de_repo de))) (\<lambda>r.
       case r of
         Some e \<Rightarrow> pushFailed rem p (de_target de) (Wrapf (''ensure repo '' @ de_repo de @ '': '') e [])
       | None \<Rightarrow> if dryRun p then returnF None else pureF ())"

definition pushOnce ::
  "'w writer \<Rightarrow> 'w pusher \<Rightarrow> string \<times> string \<Rightarrow> destination \<Rightarrow> content \<Rightarrow> 'w step" where
  "pushOnce wr p auth de c =
     (case c of
        ContentIndex idx \<Rightarrow> remoteWriteIndex wr (targetOpts p auth) (de_targetRef de) idx
      | ContentImage img \<Rightarrow> remoteWrite wr (targetOpts p auth) (de_targetRef de) img)"

text \<open>Lines 874 to 913.\<close>

definition mirrorPush ::
  "'w remote \<Rightarrow> 'w writer \<Rightarrow> 'w pusher \<Rightarrow> string \<times> string \<Rightarrow> destination \<Rightarrow> content \<Rightarrow> ('w pst, unit) prog" where
  "mirrorPush rem wr p auth de c =
     bindF (call (withRetry (registryRetry p) (sleep rem) (pushOnce wr p auth de c))) (\<lambda>r.
       case r of
         None \<Rightarrow> pureF ()
       | Some e \<Rightarrow> pushFailed rem p (de_target de) (Wrapf (''push '' @ de_target de @ '': '') e []))"

text \<open>Lines 915 to 945: the digest at the target is only logged; a nil descriptor is dereferenced.\<close>

definition mirrorVerify :: "'w remote \<Rightarrow> 'w pusher \<Rightarrow> string \<times> string \<Rightarrow> destination \<Rightarrow> ('w pst, unit) prog" where
  "mirrorVerify rem p auth de =
     bindF (call (remoteHead rem (targetOpts p auth) (de_targetRef de))) (\<lambda>r.
       case r of
         Inr None \<Rightarrow> panicF
       | _ \<Rightarrow> thenF (recordMet (RecordPushSuccess (de_target de))) (returnF None))"

section \<open>Mirror\<close>

text \<open>Everything from the content on; the writer is used nowhere else.\<close>

definition mirrorDeliver ::
  "'w remote \<Rightarrow> 'w writer \<Rightarrow> 'w pusher \<Rightarrow> string \<Rightarrow> mirrorPlan \<Rightarrow> string \<times> string \<Rightarrow> content
   \<Rightarrow> ('w pst, unit) prog" where
  "mirrorDeliver rem wr p src pl auth c =
     thenF (recordMet (RecordPullSuccess src))
      (bindF (mirrorArch rem p src pl c) (\<lambda>de.
       bindF (mirrorDigest rem p src de c) (\<lambda>srcDigest.
       thenF (mirrorHeadCheck rem p auth de srcDigest)
      (thenF (mirrorEnsure rem p de)
      (thenF (mirrorPush rem wr p auth de c)
             (mirrorVerify rem p auth de))))))"

definition mirrorBody ::
  "'w remote \<Rightarrow> 'w writer \<Rightarrow> 'w pusher \<Rightarrow> string \<Rightarrow> mirrorPlan \<Rightarrow> ('w pst, unit) prog" where
  "mirrorBody rem wr p src pl =
     bindF (mirrorAuth rem p (mp_target pl)) (\<lambda>auth.
       let (desired, primary, request) = platformChoice p (mp_meta pl)
       in thenF (mirrorPodDigestCheck rem p pl auth)
         (thenF (mirrorPreflight rem p pl auth request)
         (bindF (mirrorDescribe rem p src pl request) (\<lambda>desc.
          if dryPull p then returnF None
          else bindF (mirrorSelect rem p src pl auth desc desired primary) (\<lambda>c.
               mirrorDeliver rem wr p src pl auth c)))))"

text \<open>The deferred \<open>finishProcessing\<close> runs on every way out of the critical section, panics included.\<close>

definition Mirror ::
  "'w remote \<Rightarrow> 'w writer \<Rightarrow> 'w pusher \<Rightarrow> string \<Rightarrow> metadata \<Rightarrow> ('w pst, unit) prog" where
  "Mirror rem wr p src meta s =
     (case mirrorPrepare rem p src meta of
        Inl r \<Rightarrow> (Return r, s)
      | Inr pl \<Rightarrow>
          (case beginProcessing (failureCooldown p) (now rem (st_world s)) (mp_target pl) (st_ledger s) of
             (Inl e, l) \<Rightarrow> (Return (Some e), s\<lparr>st_ledger := l\<rparr>)
           | (Inr True, l) \<Rightarrow> (Return None, s\<lparr>st_ledger := l\<rparr>)
           | (Inr False, l) \<Rightarrow>
               (let (r, s1) = mirrorBody rem wr p src pl
                                (s\<lparr>st_ledger := l, st_current := mp_target pl\<rparr>)
                in (r, s1\<lparr>st_ledger := finishProcessing (st_current s1) (st_ledger s1)\<rparr>))))"

end
