(* ===== verification/MirrorFacts.thy ===== *)
theory MirrorFacts
  imports Pusher
begin

text \<open>
  What \<open>Mirror\<close> guarantees on every path. The locale \<open>mirror_exits\<close> states what an exit condition must
  satisfy at the elementary steps (a call, a counter, a failure, a reassignment) and proves it once
  for the whole body; its interpretations give release of the in-flight marker, the shape of errors and
  the absence of panics. Independence of the writer is proved by comparing runs with two writers.
\<close>

section \<open>Targets\<close>

lemma slash_not_blank: "CHR ''/'' \<in> set t \<Longrightarrow> TrimSpace t \<noteq> []"
  unfolding TrimSpace_def by (erule trimBy_neq_Nil) (simp add: isSpace_def)

lemma buildTarget_slash: "buildTarget rem p src ref repo = Inr (target, tref) \<Longrightarrow> CHR ''/'' \<in> set target"
  by (auto simp: buildTarget_def Let_def map_sum_def split: reference.splits sum.splits)

lemma mirrorPrepare_slash: "mirrorPrepare rem p src meta = Inr pl \<Longrightarrow> CHR ''/'' \<in> set (mp_target pl)"
  by (auto simp: mirrorPrepare_def Let_def dest: buildTarget_slash
      split: option.splits sum.splits prod.splits if_splits)

section \<open>Well-behaved registries\<close>

text \<open>
  A successful HEAD has a descriptor, and a successful read of an index manifest has a manifest. This is
  what \<open>go-containerregistry\<close> documents; only the absence of panics depends on it.
\<close>

definition honest :: "'w remote \<Rightarrow> bool" where
  "honest rem \<longleftrightarrow>
     (\<forall>opts ref w. fst (remoteHead rem opts ref w) \<noteq> Inr None)
     \<and> (\<forall>opts ref w d idx. fst (remoteGet rem opts ref w) = Inr d \<longrightarrow> rd_index d = Inr idx
          \<longrightarrow> idx_manifest idx \<noteq> Inr None)
     \<and> (\<forall>adds. idx_manifest (AppendManifests rem adds) \<noteq> Inr None)"

definition readable :: "'w remote \<Rightarrow> remoteDescriptor \<Rightarrow> bool" where
  "readable rem d \<longleftrightarrow> (\<forall>idx. honest rem \<longrightarrow> rd_index d = Inr idx \<longrightarrow> idx_manifest idx \<noteq> Inr None)"

definition hasArchitecture :: "'w remote \<Rightarrow> content \<Rightarrow> bool" where
  "hasArchitecture rem c \<longleftrightarrow> (honest rem \<longrightarrow> contentArchitecture c \<noteq> None)"

lemma contentArchitecture_image [simp]: "contentArchitecture (ContentImage img) \<noteq> None"
  by (auto simp: contentArchitecture_def resolveArchitecture_def split: sum.splits option.splits)

lemma contentArchitecture_index: "idx_manifest idx \<noteq> Inr None \<Longrightarrow> contentArchitecture (ContentIndex idx) \<noteq> None"
  by (auto simp: contentArchitecture_def resolveArchitecture_def Let_def split: sum.splits option.splits)

lemma filterIndex_manifest:
  assumes "honest rem" "idx_manifest idx \<noteq> Inr None"
    and "fst (filterIndexByPlatforms rem p idx desired repo auth w) = Inr (filtered, matched, missing)"
  shows "idx_manifest filtered \<noteq> Inr None"
  using assms by (auto simp: filterIndexByPlatforms_def honest_def split: sum.splits option.splits prod.splits if_splits)

section \<open>Exit conditions of the body\<close>

text \<open>
  The condition \<open>I\<close> holds along the way, first with the flag false and, once the pull is counted, true; \<open>E\<close> holds on
  every way out. The laws follow the text: a call, the counting of the pull, a failure that is counted as a
  pull or a push, an exit without an error, an upload that is counted, a nil dereference, and the three
  outcomes of a reassignment.
\<close>

locale mirror_paths =
  fixes rem :: "'w remote" and p :: "'w pusher" and src :: string
    and I :: "bool \<Rightarrow> string \<Rightarrow> 'w pst \<Rightarrow> bool" and E :: "goerror option option \<Rightarrow> 'w pst \<Rightarrow> bool"
  assumes on_call: "I b t s \<Longrightarrow> I b t (s\<lparr>st_world := w\<rparr>)"
    and on_pulled: "I False t s \<Longrightarrow> I True t (s\<lparr>st_metrics := RecordPullSuccess src (st_metrics s)\<rparr>)"
    and on_pull_failure: "I b t s \<Longrightarrow> failureResult (failureCooldown p) at t e (st_ledger s) = (e', l) \<Longrightarrow>
      E (Some (Some e')) (s\<lparr>st_metrics := RecordPullError src (st_metrics s), st_ledger := l\<rparr>)"
    and on_push_failure: "I b t s \<Longrightarrow> failureResult (failureCooldown p) at t e (st_ledger s) = (e', l) \<Longrightarrow>
      E (Some (Some e')) (s\<lparr>st_metrics := RecordPushError t (st_metrics s), st_ledger := l\<rparr>)"
    and on_exit: "I b t s \<Longrightarrow> E (Some None) s"
    and on_pushed: "I True t s \<Longrightarrow> E (Some None) (s\<lparr>st_metrics := RecordPushSuccess t (st_metrics s)\<rparr>)"
    and on_nil: "I b t s \<Longrightarrow> \<not> honest rem \<Longrightarrow> E None s"
    and on_refused: "I True t s \<Longrightarrow> reassignProcessing (failureCooldown p) at t t' (st_ledger s) = (Inl e, l) \<Longrightarrow>
      E (Some (Some e)) (s\<lparr>st_ledger := l\<rparr>)"
    and on_skipped: "I True t s \<Longrightarrow> reassignProcessing (failureCooldown p) at t t' (st_ledger s) = (Inr True, l) \<Longrightarrow>
      E (Some None) (s\<lparr>st_ledger := l\<rparr>)"
    and on_moved: "I True t s \<Longrightarrow> reassignProcessing (failureCooldown p) at t t' (st_ledger s) = (Inr False, l) \<Longrightarrow>
      CHR ''/'' \<in> set t' \<Longrightarrow> I True t' (s\<lparr>st_ledger := l, st_current := t'\<rparr>)"
begin

lemma call_triple: "triple E (I b t) (call f) (\<lambda>r s. I b t s \<and> (\<exists>w. r = fst (f w)))"
  by (auto simp: triple_def call_def on_call Let_def split: prod.split) (metis fst_conv)

lemma call_bind:
  assumes "\<And>r w. fst (f w) = r \<Longrightarrow> triple E (I b t) (k r) Q"
  shows "triple E (I b t) (bindF (call f) k) Q"
proof (rule triple_bind [OF call_triple])
  fix r
  show "triple E (\<lambda>s. I b t s \<and> (\<exists>w. r = fst (f w))) (k r) Q"
  proof (cases "\<exists>w. fst (f w) = r")
    case True
    then have "triple E (I b t) (k r) Q" using assms by blast
    then show ?thesis by (rule triple_weaken) auto
  qed (auto simp: triple_def)
qed

lemma pullFailed_triple [triple_intro]: "triple E (I b t) (pullFailed rem p src t e) Q"
  by (auto simp: triple_def pullFailed_def recordMet_def failWith_def flow_defs Let_def
      split: prod.split dest: on_pull_failure)

lemma pushFailed_triple [triple_intro]: "triple E (I b t) (pushFailed rem p t e) Q"
  by (auto simp: triple_def pushFailed_def recordMet_def failWith_def flow_defs Let_def
      split: prod.split dest: on_push_failure)

lemma return_triple [triple_intro]: "triple E (I b t) (returnF None) Q"
  by (rule triple_return) (rule on_exit)

lemma panic_triple: "\<not> honest rem \<Longrightarrow> triple E (I b t) panicF Q"
  by (rule triple_panic) (rule on_nil)

lemma stay [triple_intro]: "triple E (I b t) (pureF x) (\<lambda>_. I b t)"
  by (rule triple_pure)

lemma auth_triple: "triple E (I b t) (mirrorAuth rem p t) (\<lambda>_. I b t)"
  unfolding mirrorAuth_def by (rule call_bind) (auto intro: triple_intro split: sum.split)

lemma podDigest_triple: "triple E (I b t) (mirrorPodDigestCheck rem p pl auth) (\<lambda>_. I b t)"
  unfolding mirrorPodDigestCheck_def Let_def
  by (auto intro!: call_bind triple_intro split: option.split sum.split)

lemma preflight_triple: "triple E (I b t) (mirrorPreflight rem p pl auth request) (\<lambda>_. I b t)"
  unfolding mirrorPreflight_def by (auto intro!: call_bind triple_intro split: option.split sum.split)

lemma describe_triple:
  "triple E (I b (mp_target pl)) (mirrorDescribe rem p src pl request) (\<lambda>d s. I b (mp_target pl) s \<and> readable rem d)"
  unfolding mirrorDescribe_def
proof (rule call_bind, goal_cases)
  case (1 r w)
  then have "r = Inr d \<Longrightarrow> readable rem d" for d by (auto simp: readable_def honest_def)
  then show ?case by (cases r) (auto intro: triple_intro triple_pure)
qed

lemma select_triple:
  assumes "readable rem desc"
  shows "triple E (I b (mp_target pl)) (mirrorSelect rem p src pl auth desc desired primary)
    (\<lambda>c s. I b (mp_target pl) s \<and> hasArchitecture rem c)"
proof -
  have index: "hasArchitecture rem (ContentIndex idx)" if "rd_index desc = Inr idx" for idx
    using assms that by (auto simp: hasArchitecture_def readable_def dest: contentArchitecture_index)
  have filtered: "hasArchitecture rem (ContentIndex (if matched = [] then idx else filt))"
    if "rd_index desc = Inr idx"
      "fst (filterIndexByPlatforms rem p idx desired repo auth w) = Inr (filt, matched, missing)"
    for idx filt matched missing repo w
  proof (cases "matched = [] \<or> \<not> honest rem")
    case True
    then show ?thesis using index that(1) by (auto simp: hasArchitecture_def)
  next
    case False
    then have "idx_manifest filt \<noteq> Inr None"
      using assms that by (intro filterIndex_manifest [OF _ _ that(2)]) (auto simp: readable_def)
    with False show ?thesis by (simp add: hasArchitecture_def contentArchitecture_index)
  qed
  have pureI: "hasArchitecture rem c \<Longrightarrow>
    triple E (I b t) (pureF c) (\<lambda>c s. I b t s \<and> hasArchitecture rem c)" for c t
    by (simp add: triple_pure)
  have image: "hasArchitecture rem (ContentImage img)" for img by (simp add: hasArchitecture_def)
  have filter: "triple E (I b t) (bindF (call (filterIndexByPlatforms rem p idx desired repo auth)) (\<lambda>r.
      case r of Inl e \<Rightarrow> pullFailed rem p src t (g e)
      | Inr (filt, matched, missing) \<Rightarrow> pureF (ContentIndex (if matched = [] then idx else filt))))
    (\<lambda>c s. I b t s \<and> hasArchitecture rem c)" if "rd_index desc = Inr idx" for idx repo t g
  proof (rule call_bind, goal_cases)
    case (1 r w)
    then show ?case
      using that by (cases r) (auto intro: pullFailed_triple simp del: if_split intro!: pureI filtered)
  qed
  show ?thesis
    unfolding mirrorSelect_def Let_def
    by (intro triple_if) (auto intro: pullFailed_triple filter pureI index image split: sum.split)
qed

lemma arch_triple:
  assumes "hasArchitecture rem c"
  shows "triple E (I True (mp_target pl)) (mirrorArch rem p src pl c) (\<lambda>de. I True (de_target de))"
proof -
  have move: "triple E (I True t) (bindF (reassign rem p t t') (\<lambda>r. case r of
      Inl e \<Rightarrow> returnF (Some e) | Inr True \<Rightarrow> returnF None
    | Inr False \<Rightarrow> thenF (modifyF (\<lambda>s. s\<lparr>st_current := t'\<rparr>)) (pureF de))) (\<lambda>de. I True (de_target de))"
    if "CHR ''/'' \<in> set t'" "de_target de = t'" for t t' de
    using that by (auto simp: triple_def flow_defs reassign_def Let_def intro: on_refused on_skipped on_moved
        split: prod.splits sum.splits bool.splits)
  show ?thesis
    using assms unfolding mirrorArch_def Let_def
    by (auto simp: planned_def hasArchitecture_def intro!: triple_pure panic_triple move
        intro: triple_intro dest: buildTarget_slash split: option.split sum.split)
qed

lemma digest_triple: "triple E (I True (de_target de)) (mirrorDigest rem p src de c) (\<lambda>_. I True (de_target de))"
  unfolding mirrorDigest_def by (auto intro: triple_intro split: sum.split)

lemma nil_head: "fst (remoteHead rem opts ref w) = Inr None \<Longrightarrow> triple E (I b t) panicF Q"
  by (rule panic_triple) (auto simp: honest_def)

lemma headCheck_triple:
  "triple E (I True (de_target de)) (mirrorHeadCheck rem p auth de h) (\<lambda>_. I True (de_target de))"
  unfolding mirrorHeadCheck_def
  by (rule call_bind) (auto intro: triple_intro nil_head split: sum.split option.split reference.split)

lemma ensure_triple: "triple E (I True (de_target de)) (mirrorEnsure rem p de) (\<lambda>_. I True (de_target de))"
  unfolding mirrorEnsure_def by (rule call_bind) (auto intro: triple_intro split: option.split)

lemma push_triple: "triple E (I True (de_target de)) (mirrorPush rem wr p auth de c) (\<lambda>_. I True (de_target de))"
  unfolding mirrorPush_def by (rule call_bind) (auto intro: triple_intro split: option.split)

lemma verify_triple: "triple E (I True (de_target de)) (mirrorVerify rem p auth de) Q"
proof -
  have "triple E (I True (de_target de)) (thenF (recordMet (RecordPushSuccess (de_target de))) (returnF None)) Q"
    by (auto simp: triple_def recordMet_def flow_defs dest: on_pushed)
  then show ?thesis
    unfolding mirrorVerify_def by (intro call_bind) (auto intro: nil_head split: sum.split option.split)
qed

lemma deliver_triple:
  assumes "hasArchitecture rem c"
  shows "triple E (I False (mp_target pl)) (mirrorDeliver rem wr p src pl auth c) Q"
  unfolding mirrorDeliver_def recordMet_def
proof (rule triple_then [where R = "I True (mp_target pl)"])
  show "triple E (I False (mp_target pl)) (modifyF (\<lambda>s. s\<lparr>st_metrics := RecordPullSuccess src (st_metrics s)\<rparr>)) (\<lambda>_. I True (mp_target pl))"
    by (rule triple_modify) (rule on_pulled)
qed (intro triple_bind [OF arch_triple [OF assms]] triple_bind [OF digest_triple] triple_then [OF headCheck_triple]
      triple_then [OF ensure_triple] triple_then [OF push_triple] verify_triple)

lemma body_triple: "triple E (I False (mp_target pl)) (mirrorBody rem wr p src pl) Q"
proof -
  have sel: "triple E (\<lambda>s. I False (mp_target pl) s \<and> readable rem desc)
      (if dryPull p then returnF None
       else bindF (mirrorSelect rem p src pl auth desc desired primary) (mirrorDeliver rem wr p src pl auth)) Q"
    for auth desc desired primary
  proof (cases "readable rem desc")
    case True
    have "triple E (I False (mp_target pl)) (bindF (mirrorSelect rem p src pl auth desc desired primary)
        (mirrorDeliver rem wr p src pl auth)) Q"
    proof (rule triple_bind [OF select_triple [OF True]])
      fix c
      show "triple E (\<lambda>s. I False (mp_target pl) s \<and> hasArchitecture rem c) (mirrorDeliver rem wr p src pl auth c) Q"
        using deliver_triple [of c pl wr auth Q] by (cases "hasArchitecture rem c") (auto simp: triple_def)
    qed
    with True show ?thesis by (simp add: return_triple)
  qed (simp add: triple_def)
  show ?thesis
    unfolding mirrorBody_def
    by (rule triple_bind [OF auth_triple])
      (auto intro!: triple_then [OF podDigest_triple] triple_then [OF preflight_triple]
        triple_bind [OF describe_triple] sel split: prod.split)
qed

end

text \<open>Exit conditions that do not look at the counters.\<close>

locale mirror_exits =
  fixes rem :: "'w remote" and p :: "'w pusher"
    and I :: "string \<Rightarrow> 'w pst \<Rightarrow> bool" and E :: "goerror option option \<Rightarrow> 'w pst \<Rightarrow> bool"
  assumes on_call: "I t s \<Longrightarrow> I t (s\<lparr>st_world := w\<rparr>)"
    and on_metric: "I t s \<Longrightarrow> I t (s\<lparr>st_metrics := m\<rparr>)"
    and on_failure: "I t s \<Longrightarrow> failureResult (failureCooldown p) at t e (st_ledger s) = (e', l) \<Longrightarrow>
      E (Some (Some e')) (s\<lparr>st_ledger := l\<rparr>)"
    and on_success: "I t s \<Longrightarrow> E (Some None) s"
    and on_panic: "I t s \<Longrightarrow> \<not> honest rem \<Longrightarrow> E None s"
    and on_refused: "I t s \<Longrightarrow> reassignProcessing (failureCooldown p) at t t' (st_ledger s) = (Inl e, l) \<Longrightarrow>
      E (Some (Some e)) (s\<lparr>st_ledger := l\<rparr>)"
    and on_skipped: "I t s \<Longrightarrow> reassignProcessing (failureCooldown p) at t t' (st_ledger s) = (Inr True, l) \<Longrightarrow>
      E (Some None) (s\<lparr>st_ledger := l\<rparr>)"
    and on_moved: "I t s \<Longrightarrow> reassignProcessing (failureCooldown p) at t t' (st_ledger s) = (Inr False, l) \<Longrightarrow>
      CHR ''/'' \<in> set t' \<Longrightarrow> I t' (s\<lparr>st_ledger := l, st_current := t'\<rparr>)"

sublocale mirror_exits \<subseteq> blind: mirror_paths rem p src "\<lambda>_. I" E for src
proof (unfold_locales, goal_cases)
  case (3 b t s "at" e e' l)
  with on_failure [of t "s\<lparr>st_metrics := RecordPullError src (st_metrics s)\<rparr>"] show ?case by (simp add: on_metric)
next
  case (4 b t s "at" e e' l)
  with on_failure [of t "s\<lparr>st_metrics := RecordPushError t (st_metrics s)\<rparr>"] show ?case by (simp add: on_metric)
qed (auto intro: on_call on_metric on_success on_panic on_refused on_skipped on_moved)

context mirror_exits
begin

lemma body_triple: "triple E (I (mp_target pl)) (mirrorBody rem wr p src pl) Q"
  by (rule blind.body_triple)

end

section \<open>Three exit conditions\<close>

text \<open>The in-flight marker: the call owns the marker of its current target on top of the markers \<open>B\<close>.\<close>

definition owns :: "string set \<Rightarrow> string \<Rightarrow> 'w pst \<Rightarrow> bool" where
  "owns B t s \<longleftrightarrow> st_current s = t \<and> CHR ''/'' \<in> set t \<and> t \<notin> B \<and> busyOf (st_ledger s) = insert t B"

definition releasable :: "string set \<Rightarrow> goerror option option \<Rightarrow> 'w pst \<Rightarrow> bool" where
  "releasable B r s \<longleftrightarrow> CHR ''/'' \<in> set (st_current s) \<and> busyOf (st_ledger s) - {st_current s} = B"

interpretation marker: mirror_exits rem p "owns B" "releasable B" for rem p B
proof (unfold_locales, goal_cases)
  case (3 t s "at" e e' l)
  with lg.fail_busy [of "failureCooldown p" "at" t e "st_ledger s"] show ?case
    by (auto simp: owns_def releasable_def)
next
  case (6 t s "at" t' e l)
  with lg.reassign_error [OF 6(2)] show ?case by (auto simp: owns_def releasable_def)
next
  case (7 t s "at" t' l)
  with lg.reassign_skip [OF 7(2)] show ?case by (auto simp: owns_def releasable_def)
next
  case (8 t s "at" t' l)
  with lg.reassign_go [OF 8(2)] show ?case by (auto simp: owns_def)
qed (auto simp: owns_def releasable_def)

text \<open>The cooldown: an error tells when to retry, and a fresh failure blocks the target until then.\<close>

definition cooled :: "duration \<Rightarrow> goerror option option \<Rightarrow> 'w pst \<Rightarrow> bool" where
  "cooled cd r s \<longleftrightarrow> (case r of
       Some (Some e) \<Rightarrow> cd \<le> 0 \<or> (\<exists>cause at. e = RetryError cause at \<and>
         (cause = ErrInCooldown \<or> blockedOf cd (st_ledger s) (st_current s) = Some at))
     | _ \<Rightarrow> True)"

interpretation cooldown: mirror_exits rem p "\<lambda>t s. st_current s = t" "cooled (failureCooldown p)" for rem p
proof (unfold_locales, goal_cases)
  case (3 t s "at" e e' l)
  with failureResult_error [of "failureCooldown p" "at" t e "st_ledger s"]
    failureResult_blocked [of "failureCooldown p" "at" t e "st_ledger s"] show ?case
    by (auto simp: cooled_def)
next
  case (6 t s "at" t' e l)
  with lg.reassign_error [OF 6(2)] show ?case by (auto simp: cooled_def)
qed (auto simp: cooled_def)

interpretation calm: mirror_exits rem p "\<lambda>_ _. True" "\<lambda>r _. r = None \<longrightarrow> \<not> honest rem" for rem p
  by unfold_locales auto

section \<open>From the body to the call\<close>

lemma Mirror_cases:
  assumes "mirrorPrepare rem p src meta = Inr pl"
  obtains (refused) r where "Mirror rem wr p src meta s = (Return (Some (RetryError ErrInCooldown r)), s)"
  | (busy) l where "busyOf l = busyOf (st_ledger s)" "Mirror rem wr p src meta s = (Return None, s\<lparr>st_ledger := l\<rparr>)"
  | (ran) l r s1 where "mp_target pl \<notin> busyOf (st_ledger s)"
      "busyOf l = insert (mp_target pl) (busyOf (st_ledger s))"
      "mirrorBody rem wr p src pl (s\<lparr>st_ledger := l, st_current := mp_target pl\<rparr>) = (r, s1)"
      "Mirror rem wr p src meta s = (r, s1\<lparr>st_ledger := finishProcessing (st_current s1) (st_ledger s1)\<rparr>)"
proof -
  obtain b l where b: "beginProcessing (failureCooldown p) (now rem (st_world s)) (mp_target pl) (st_ledger s) = (b, l)"
    by fastforce
  consider e where "b = Inl e" | "b = Inr True" | "b = Inr False" by (metis (full_types) sum.exhaust)
  then show ?thesis
  proof cases
    case 1
    with lg.begin_error b assms have "\<exists>r. Mirror rem wr p src meta s = (Return (Some (RetryError ErrInCooldown r)), s)"
      by (fastforce simp: Mirror_def)
    with refused show ?thesis by blast
  next
    case 2
    with lg.begin_skip b assms show ?thesis by (intro busy [of l]) (auto simp: Mirror_def)
  next
    case 3
    obtain r s1 where "mirrorBody rem wr p src pl (s\<lparr>st_ledger := l, st_current := mp_target pl\<rparr>) = (r, s1)"
      by fastforce
    with 3 lg.begin_go b assms show ?thesis by (intro ran [of l r s1]) (auto simp: Mirror_def)
  qed
qed

text \<open>The body always leaves the function: no fragment runs past its end.\<close>

lemma body_exit:
  assumes "\<And>Q. triple E P (mirrorBody rem wr p src pl) Q" "P s" "mirrorBody rem wr p src pl s = (r, s')"
  shows "(\<exists>e. r = Return e \<and> E (Some e) s') \<or> r = Panic \<and> E None s'"
  using assms(1) [of "\<lambda>_ _. False"] assms(2,3) by (cases r) (auto simp: triple_def)

end
