(* ===== verification/MirrorProps.thy ===== *)
theory MirrorProps
  imports MirrorFacts
begin

text \<open>
  The properties of \<open>Mirror\<close>: what holds on every path, which modes and registry states keep it from
  writing, and what a successful run does. The witnesses use a small registry with a log of the calls.
\<close>

section \<open>Runs that do not reach the writer\<close>

lemma thenF_exits: "(\<And>s x s'. m s \<noteq> (Continue x, s')) \<Longrightarrow> thenF m k = thenF m k'"
  by (rule ext) (auto simp: thenF_def bindF_def split: prod.splits flow.splits)

lemma failed_exits [simp]:
  "pushFailed rem p t e s \<noteq> (Continue x, s')" "pullFailed rem p src t e s \<noteq> (Continue x, s')"
  by (auto simp: pushFailed_def pullFailed_def recordMet_def failWith_def flow_defs split: prod.splits)

lemma mirrorEnsure_dryRun_exits: "dryRun p \<Longrightarrow> mirrorEnsure rem p de s \<noteq> (Continue x, s')"
  by (auto simp: mirrorEnsure_def bindF_def call_def returnF_def split: option.splits prod.splits flow.splits)

lemma mirrorDeliver_dryRun: "dryRun p \<Longrightarrow> mirrorDeliver rem wr p = mirrorDeliver rem wr' p"
proof -
  assume dry: "dryRun p"
  have eq: "thenF (mirrorEnsure rem p de) (thenF (mirrorPush rem wr p auth de c) k) =
    thenF (mirrorEnsure rem p de) (thenF (mirrorPush rem wr' p auth de c) k)" for auth de c k
    by (rule thenF_exits) (rule mirrorEnsure_dryRun_exits [OF dry])
  show ?thesis by (intro ext) (simp only: mirrorDeliver_def eq)
qed

text \<open>A reference is protected when every HEAD finds it and its tag is not \<open>latest\<close>.\<close>

definition protectedRef :: "'w remote \<Rightarrow> reference \<Rightarrow> bool" where
  "protectedRef rem ref \<longleftrightarrow>
     (case ref of Tag _ t \<Rightarrow> \<not> EqualFold t ''latest'' | Digest _ _ \<Rightarrow> False)
     \<and> (\<forall>opts w. \<exists>h. fst (remoteHead rem opts ref w) = Inr (Some h))"

lemma mirrorHeadCheck_protected:
  assumes "protectedRef rem (de_targetRef de)" "\<not> allowDifferentDigestRepush p"
  shows "mirrorHeadCheck rem p auth de h s \<noteq> (Continue x, s')"
proof -
  obtain g where "fst (remoteHead rem (targetOpts p auth) (de_targetRef de) (st_world s)) = Inr (Some g)"
    using assms(1) unfolding protectedRef_def by blast
  with assms show ?thesis
    by (auto simp: mirrorHeadCheck_def bindF_def call_def returnF_def protectedRef_def
        split: reference.splits prod.splits flow.splits if_splits)
qed

lemma mirrorPush_agree:
  assumes "\<And>opts img. remoteWrite wr opts (de_targetRef de) img = remoteWrite wr' opts (de_targetRef de) img"
    and "\<And>opts idx. remoteWriteIndex wr opts (de_targetRef de) idx = remoteWriteIndex wr' opts (de_targetRef de) idx"
  shows "mirrorPush rem wr p auth de c = mirrorPush rem wr' p auth de c"
  using assms by (simp add: mirrorPush_def pushOnce_def split: content.split)

lemma mirrorDeliver_protected:
  assumes "\<not> allowDifferentDigestRepush p"
    and "\<And>opts ref img. protectedRef rem ref \<or> remoteWrite wr opts ref img = remoteWrite wr' opts ref img"
    and "\<And>opts ref idx. protectedRef rem ref \<or> remoteWriteIndex wr opts ref idx = remoteWriteIndex wr' opts ref idx"
  shows "mirrorDeliver rem wr p = mirrorDeliver rem wr' p"
proof -
  have eq: "thenF (mirrorHeadCheck rem p auth de h) (thenF (mirrorEnsure rem p de) (thenF (mirrorPush rem wr p auth de c) k)) =
        thenF (mirrorHeadCheck rem p auth de h) (thenF (mirrorEnsure rem p de) (thenF (mirrorPush rem wr' p auth de c) k))"
    for auth de h c k
  proof (cases "protectedRef rem (de_targetRef de)")
    case True
    with assms(1) show ?thesis by (intro thenF_exits) (rule mirrorHeadCheck_protected)
  next
    case False
    with assms(2,3) have "mirrorPush rem wr p auth de c = mirrorPush rem wr' p auth de c"
      by (intro mirrorPush_agree) metis+
    then show ?thesis by simp
  qed
  show ?thesis by (intro ext) (simp only: mirrorDeliver_def eq)
qed

lemma Mirror_cong_deliver:
  assumes "mirrorDeliver rem wr p = mirrorDeliver rem wr' p"
  shows "Mirror rem wr p = Mirror rem wr' p"
proof -
  have "mirrorBody rem wr p = mirrorBody rem wr' p" by (intro ext) (simp only: mirrorBody_def assms)
  then show ?thesis by (intro ext) (simp only: Mirror_def)
qed

section \<open>Runs that stop after the manifest request\<close>

definition withEnsure :: "(string \<Rightarrow> 'w \<Rightarrow> goerror option \<times> 'w) \<Rightarrow> 'w pusher \<Rightarrow> 'w pusher" where
  "withEnsure f p = p\<lparr>p_target := (p_target p)\<lparr>t_EnsureRepository := f\<rparr>\<rparr>"

lemma withEnsure_simps [simp]:
  "dryPull (withEnsure f p) = dryPull p" "dryRun (withEnsure f p) = dryRun p"
  "transform (withEnsure f p) = transform p" "pullByDigest (withEnsure f p) = pullByDigest p"
  "digestPullIgnoredTags (withEnsure f p) = digestPullIgnoredTags p"
  "mirrorPlatforms (withEnsure f p) = mirrorPlatforms p" "requestTimeout (withEnsure f p) = requestTimeout p"
  "failureCooldown (withEnsure f p) = failureCooldown p"
  "excludedRegistries (withEnsure f p) = excludedRegistries p"
  "t_Registry (p_target (withEnsure f p)) = t_Registry (p_target p)"
  "t_RepoPrefix (p_target (withEnsure f p)) = t_RepoPrefix (p_target p)"
  "t_Insecure (p_target (withEnsure f p)) = t_Insecure (p_target p)"
  "t_BasicAuth (p_target (withEnsure f p)) = t_BasicAuth (p_target p)"
  "sourceTransport (withEnsure f p) = sourceTransport p" "targetTransport (withEnsure f p) = targetTransport p"
  "p_keychain (withEnsure f p) = p_keychain p"
  by (simp_all add: withEnsure_def)

lemma withEnsure_opts [simp]:
  "targetOpts (withEnsure f p) = targetOpts p" "sourceOpts (withEnsure f p) = sourceOpts p"
  by (intro ext; simp add: targetOpts_def sourceOpts_def operationContext_def)+

lemma withEnsure_fail [simp]:
  "failWith rem (withEnsure f p) = failWith rem p" "pullFailed rem (withEnsure f p) = pullFailed rem p"
  "pushFailed rem (withEnsure f p) = pushFailed rem p"
proof -
  show *: "failWith rem (withEnsure f p) = failWith rem p" by (intro ext) (simp add: failWith_def)
  show "pullFailed rem (withEnsure f p) = pullFailed rem p" "pushFailed rem (withEnsure f p) = pushFailed rem p"
    by (intro ext; simp only: pullFailed_def pushFailed_def *)+
qed

lemma withEnsure_stages [simp]:
  "mirrorPrepare rem (withEnsure f p) = mirrorPrepare rem p"
  "mirrorAuth rem (withEnsure f p) = mirrorAuth rem p"
  "platformChoice (withEnsure f p) = platformChoice p"
  "mirrorPodDigestCheck rem (withEnsure f p) = mirrorPodDigestCheck rem p"
  "mirrorPreflight rem (withEnsure f p) = mirrorPreflight rem p"
  "mirrorDescribe rem (withEnsure f p) = mirrorDescribe rem p"
proof -
  have uses: "usesPodDigest (withEnsure f p) = usesPodDigest p"
    by (rule ext) (simp only: usesPodDigest_def withEnsure_simps)
  have target: "buildTarget rem (withEnsure f p) = buildTarget rem p"
    by (intro ext) (simp only: buildTarget_def withEnsure_simps)
  show "mirrorPrepare rem (withEnsure f p) = mirrorPrepare rem p"
    by (intro ext) (simp only: mirrorPrepare_def withEnsure_simps uses target)
  show "mirrorAuth rem (withEnsure f p) = mirrorAuth rem p"
    by (intro ext) (simp only: mirrorAuth_def withEnsure_simps withEnsure_fail)
  show "platformChoice (withEnsure f p) = platformChoice p"
    by (intro ext) (simp only: platformChoice_def withEnsure_simps)
  show "mirrorPodDigestCheck rem (withEnsure f p) = mirrorPodDigestCheck rem p"
    by (intro ext) (simp only: mirrorPodDigestCheck_def withEnsure_simps withEnsure_opts)
  show "mirrorPreflight rem (withEnsure f p) = mirrorPreflight rem p"
    by (intro ext) (simp only: mirrorPreflight_def withEnsure_simps withEnsure_opts)
  show "mirrorDescribe rem (withEnsure f p) = mirrorDescribe rem p"
    by (intro ext) (simp only: mirrorDescribe_def withEnsure_simps withEnsure_opts withEnsure_fail)
qed

lemma mirrorBody_dryPull:
  "dryPull p \<Longrightarrow> mirrorBody rem wr p src pl = mirrorBody rem wr' (withEnsure f p) src pl"
  by (simp add: mirrorBody_def)

section \<open>A run step by step\<close>

lemma mirrorBody_start:
  assumes "\<not> mp_usePodDigest pl" and "t_BasicAuth (p_target p) (st_world s) = (Inr auth, w1)"
    and "platformChoice p (mp_meta pl) = (desired, primary, request)"
  shows "mirrorBody rem wr p src pl s = bindF (mirrorDescribe rem p src pl request) (\<lambda>desc.
      if dryPull p then returnF None
      else bindF (mirrorSelect rem p src pl auth desc desired primary) (\<lambda>c.
           mirrorDeliver rem wr p src pl auth c)) (s\<lparr>st_world := w1\<rparr>)"
  using assms by (simp add: mirrorBody_def mirrorAuth_def mirrorPodDigestCheck_def mirrorPreflight_def
      call_def flow_defs)

text \<open>The target stays when the architecture does not occur in the repository path.\<close>

definition sameTarget :: "'w pusher \<Rightarrow> mirrorPlan \<Rightarrow> content \<Rightarrow> bool" where
  "sameTarget p pl c \<longleftrightarrow> (case contentArchitecture c of None \<Rightarrow> False
     | Some arch \<Rightarrow> arch = [] \<or> resolveRepoPath (transform p) (t_RepoPrefix (p_target p)) (mp_srcRepo pl)
         ((mp_meta pl)\<lparr>Architecture := arch\<rparr>) = mp_repo pl)"

lemma mirrorArch_same: "sameTarget p pl c \<Longrightarrow> mirrorArch rem p src pl c = pureF (planned pl)"
  by (auto simp: sameTarget_def mirrorArch_def split: option.splits)

lemma withRetry_success: "fn s = (None, s') \<Longrightarrow> withRetry cfg wait fn s = (None, s')"
proof -
  assume fn: "fn s = (None, s')"
  obtain n where "attemptBudget cfg = Suc n" using attemptBudget_pos gr0_implies_Suc by blast
  with fn show ?thesis by (simp add: withRetry_eq)
qed

text \<open>The answers of the target to HEAD after which the push goes on.\<close>

definition mayPush :: "'w pusher \<Rightarrow> reference \<Rightarrow> hash \<Rightarrow> goerror + hash option \<Rightarrow> bool" where
  "mayPush p ref h r \<longleftrightarrow> (case r of
       Inl e \<Rightarrow> isNotFoundError e
     | Inr None \<Rightarrow> False
     | Inr (Some g) \<Rightarrow> g \<noteq> h \<and> (case ref of
           Tag _ t \<Rightarrow> EqualFold t ''latest'' \<or> allowDifferentDigestRepush p | Digest _ _ \<Rightarrow> True))"

lemma mirrorHeadCheck_mayPush:
  assumes "remoteHead rem (targetOpts p auth) (de_targetRef de) (st_world s) = (r, w)"
    and "mayPush p (de_targetRef de) h r"
  shows "mirrorHeadCheck rem p auth de h s = (Continue (), s\<lparr>st_world := w\<rparr>)"
  using assms by (auto simp: mirrorHeadCheck_def mayPush_def call_def flow_defs
      split: sum.splits option.splits reference.splits)

lemma mirrorDeliver_pushes:
  assumes "sameTarget p pl c" "contentDigest c = Inr h" "\<not> dryRun p"
    and "remoteHead rem (targetOpts p auth) (mp_targetRef pl) (st_world s) = (r, w3)" "mayPush p (mp_targetRef pl) h r"
    and "t_EnsureRepository (p_target p) (mp_repo pl) w3 = (None, w4)"
    and "pushOnce wr p auth (planned pl) c w4 = (None, w5)"
    and "remoteHead rem (targetOpts p auth) (mp_targetRef pl) w5 = (v, w6)" "v \<noteq> Inr None"
  shows "mirrorDeliver rem wr p src pl auth c s =
    (Return None, s\<lparr>st_world := w6,
       st_metrics := RecordPushSuccess (mp_target pl) (RecordPullSuccess src (st_metrics s))\<rparr>)"
proof -
  have de: "de_targetRef (planned pl) = mp_targetRef pl" "de_repo (planned pl) = mp_repo pl"
    "de_target (planned pl) = mp_target pl" by (simp_all add: planned_def)
  have v: "(case v of Inr None \<Rightarrow> panicF | _ \<Rightarrow> k) = k" for k :: "('w pst, unit) prog"
    using assms(9) by (auto split: sum.split option.split)
  have head: "mirrorHeadCheck rem p auth (planned pl) h (s\<lparr>st_metrics := m\<rparr>) = (Continue (), s\<lparr>st_metrics := m, st_world := w3\<rparr>)" for m
    using mirrorHeadCheck_mayPush [of rem p auth "planned pl" "s\<lparr>st_metrics := m\<rparr>" r w3 h] assms(4,5) de by simp
  show ?thesis
    using assms(1-3,6-8)
    by (simp add: mirrorDeliver_def mirrorArch_same mirrorDigest_def head mirrorEnsure_def
        mirrorPush_def mirrorVerify_def de v recordMet_def call_def flow_defs withRetry_success)
qed

text \<open>
  What the source offers without a choice of platform: an image, or an index that is copied as a whole
  because pulls by digest are off.
\<close>

definition offers :: "'w pusher \<Rightarrow> remoteDescriptor \<Rightarrow> content \<Rightarrow> bool" where
  "offers p desc c \<longleftrightarrow> (case c of
       ContentImage img \<Rightarrow> \<not> rd_isIndex desc \<and> rd_image desc = Inr img
     | ContentIndex idx \<Rightarrow> rd_isIndex desc \<and> \<not> pullByDigest p \<and> rd_index desc = Inr idx)"

lemma mirrorSelect_offers: "offers p desc c \<Longrightarrow> mirrorSelect rem p src pl auth desc desired primary = pureF c"
  by (cases c) (auto simp: offers_def mirrorSelect_def shouldMirrorEntireIndex_def Let_def)

lemma Mirror_reaches_deliver:
  assumes "mirrorPrepare rem p src meta = Inr pl" "\<not> mp_usePodDigest pl" "\<not> dryPull p"
    and "beginProcessing (failureCooldown p) (now rem (st_world s)) (mp_target pl) (st_ledger s) = (Inr False, l)"
    and "t_BasicAuth (p_target p) (st_world s) = (Inr auth, w1)"
    and "remoteGet rem (sourceOpts p (snd (snd (platformChoice p (mp_meta pl))))) (mp_pullRef pl) w1 = (Inr desc, w2)"
    and "offers p desc c"
    and "mirrorDeliver rem wr p src pl auth c (s\<lparr>st_ledger := l, st_current := mp_target pl, st_world := w2\<rparr>) = (r, s1)"
  shows "Mirror rem wr p src meta s = (r, s1\<lparr>st_ledger := finishProcessing (st_current s1) (st_ledger s1)\<rparr>)"
proof -
  let ?s = "s\<lparr>st_ledger := l, st_current := mp_target pl\<rparr>"
  obtain desired primary request where pc: "platformChoice p (mp_meta pl) = (desired, primary, request)"
    by (metis prod.collapse)
  have "mirrorBody rem wr p src pl ?s = mirrorDeliver rem wr p src pl auth c (?s\<lparr>st_world := w2\<rparr>)"
    using mirrorBody_start [OF assms(2) _ pc, of ?s auth w1 rem wr src] assms(3,5,6) pc
    by (simp add: mirrorDescribe_def mirrorSelect_offers [OF assms(7)] call_def flow_defs)
  with assms(1,4,8) show ?thesis by (simp add: Mirror_def)
qed

lemma Mirror_pushes:
  assumes "mirrorPrepare rem p src meta = Inr pl" "\<not> mp_usePodDigest pl" "\<not> dryPull p" "\<not> dryRun p"
    and "beginProcessing (failureCooldown p) (now rem (st_world s)) (mp_target pl) (st_ledger s) = (Inr False, l)"
    and "t_BasicAuth (p_target p) (st_world s) = (Inr auth, w1)"
    and "remoteGet rem (sourceOpts p (snd (snd (platformChoice p (mp_meta pl))))) (mp_pullRef pl) w1 = (Inr desc, w2)"
    and "offers p desc c" "contentDigest c = Inr h" "sameTarget p pl c"
    and "remoteHead rem (targetOpts p auth) (mp_targetRef pl) w2 = (r, w3)" "mayPush p (mp_targetRef pl) h r"
    and "t_EnsureRepository (p_target p) (mp_repo pl) w3 = (None, w4)"
    and "pushOnce wr p auth (planned pl) c w4 = (None, w5)"
    and "remoteHead rem (targetOpts p auth) (mp_targetRef pl) w5 = (v, w6)" "v \<noteq> Inr None"
  shows "Mirror rem wr p src meta s =
    (Return None, s\<lparr>st_ledger := finishProcessing (mp_target pl) l, st_world := w6, st_current := mp_target pl,
       st_metrics := RecordPushSuccess (mp_target pl) (RecordPullSuccess src (st_metrics s))\<rparr>)"
proof -
  let ?s = "s\<lparr>st_ledger := l, st_current := mp_target pl, st_world := w2\<rparr>"
  have "mirrorDeliver rem wr p src pl auth c ?s = (Return None, ?s\<lparr>st_world := w6,
       st_metrics := RecordPushSuccess (mp_target pl) (RecordPullSuccess src (st_metrics s))\<rparr>)"
    using mirrorDeliver_pushes [OF assms(10,9,4) _ assms(12,13,14,15,16), where s = ?s and src = src] assms(11) by simp
  from Mirror_reaches_deliver [OF assms(1-3,5-8) this] show ?thesis by simp
qed

section \<open>A registry with a log\<close>

text \<open>The world of the witnesses: the log of calls, newest first.\<close>

datatype event = Head reference | Get reference | Ensure string | Write reference

definition demoRepo :: "string \<Rightarrow> string \<Rightarrow> repository" where
  "demoRepo reg rep = \<lparr>rp_registry = reg, rp_repository = rep, rp_name = reg @ ''/'' @ rep\<rparr>"

definition demoImage :: v1image where
  "demoImage = \<lparr>img_digest = Inr \<lparr>h_alg = ''sha256'', h_hex = ''aa''\<rparr>,
     img_config = Inr (Some \<lparr>cfg_arch = ''amd64'', cfg_os = ''linux''\<rparr>)\<rparr>"

definition demoIndex :: imageIndex where
  "demoIndex = ImageIndex (Inr (Some [])) (Inr zeroHash) (\<lambda>_. Inl EOF) (\<lambda>_. Inl EOF)"

definition demoDescriptor :: remoteDescriptor where
  "demoDescriptor = \<lparr>rd_isIndex = False, rd_digest = zeroHash, rd_image = Inr demoImage, rd_index = Inl EOF\<rparr>"

text \<open>Source references parse to \<open>app\<close> with a fixed tag; \<open>head\<close> is what the target answers and \<open>got\<close> what the source does.\<close>

definition demoRemoteTag ::
  "string \<Rightarrow> (event list \<Rightarrow> goerror + hash option) \<Rightarrow> goerror + remoteDescriptor \<Rightarrow> event list remote" where
  "demoRemoteTag tag head got = \<lparr>
     now = (\<lambda>_. 1000),
     ParseReference = (\<lambda>_. Inr (Tag (demoRepo ''src.io'' ''app'') tag)),
     NewTag = (\<lambda>_ _. Inr (demoRepo ''t.io'' ''app'', tag)),
     NewDigest = (\<lambda>_ _. Inl (ErrorString ''no digest'')),
     NewHash = (\<lambda>_. Inl (ErrorString ''no hash'')),
     AppendManifests = (\<lambda>_. demoIndex),
     remoteHead = (\<lambda>_ ref w. (head w, Head ref # w)),
     remoteGet = (\<lambda>_ ref w. (got, Get ref # w)),
     remoteImage = (\<lambda>_ _ w. (Inl EOF, w)),
     remoteIndex = (\<lambda>_ _ w. (Inl EOF, w)),
     sleep = (\<lambda>_ w. (None, w))\<rparr>"

abbreviation demoRemote ::
  "(event list \<Rightarrow> goerror + hash option) \<Rightarrow> goerror + remoteDescriptor \<Rightarrow> event list remote" where
  "demoRemote \<equiv> demoRemoteTag ''v1''"

definition demoWriter :: "event list writer" where
  "demoWriter = \<lparr>remoteWrite = (\<lambda>_ ref _ w. (None, Write ref # w)),
     remoteWriteIndex = (\<lambda>_ ref _ w. (None, Write ref # w))\<rparr>"

definition isLatest :: "reference \<Rightarrow> bool" where
  "isLatest ref = (case ref of Tag _ t \<Rightarrow> EqualFold t ''latest'' | Digest _ _ \<Rightarrow> True)"

definition failingWriter :: "event list writer" where
  "failingWriter = \<lparr>remoteWrite = (\<lambda>opts ref img w. if isLatest ref then remoteWrite demoWriter opts ref img w else (Some EOF, w)),
     remoteWriteIndex = (\<lambda>opts ref idx w. if isLatest ref then remoteWriteIndex demoWriter opts ref idx w else (Some EOF, w))\<rparr>"

definition demoTarget :: "event list target" where
  "demoTarget = \<lparr>t_Registry = ''t.io'', t_RepoPrefix = [], t_Insecure = False,
     t_EnsureRepository = (\<lambda>r w. (None, Ensure r # w)), t_BasicAuth = (\<lambda>w. (Inr ([], []), w))\<rparr>"

definition demoPusher :: "bool \<Rightarrow> bool \<Rightarrow> bool \<Rightarrow> event list pusher" where
  "demoPusher dry dryp byDigest =
     NewPusher demoTarget dry dryp (Some (\<lambda>r. r)) None 0 60 byDigest [] False [] [] None"

definition demoState :: "event list pst" where
  "demoState = \<lparr>st_ledger = emptyLedger, st_metrics = ResetMetrics, st_world = [], st_current = []\<rparr>"

definition demoMeta :: metadata where
  "demoMeta = \<lparr>Namespace = ''ns'', PodName = ''pod'', MContainerName = ''c'', Architecture = [], OS = [],
     MImageID = [], Registry = []\<rparr>"

text \<open>The marker is given back on every path.\<close>

lemma Mirror_busy: "busyOf (st_ledger (snd (Mirror rem wr p src meta s))) = busyOf (st_ledger s)"
proof (cases "mirrorPrepare rem p src meta")
  case (Inl r)
  then show ?thesis by (simp add: Mirror_def)
next
  case (Inr pl)
  then show ?thesis
  proof (cases rule: Mirror_cases [of rem p src meta pl wr s])
    case (ran l r s1)
    let ?s0 = "s\<lparr>st_ledger := l, st_current := mp_target pl\<rparr>"
    have "owns (busyOf (st_ledger s)) (mp_target pl) ?s0"
      using ran(1,2) mirrorPrepare_slash [OF Inr] by (simp add: owns_def)
    from body_exit [OF marker.body_triple this ran(3)]
    have "releasable (busyOf (st_ledger s)) (Some None) s1" by (auto simp: releasable_def)
    with ran(4) show ?thesis
      using lg.finish_busy slash_not_blank by (simp add: releasable_def)
  qed auto
qed

lemma Mirror_honest:
  assumes "honest rem"
  shows "\<exists>r s'. Mirror rem wr p src meta s = (Return r, s')"
proof (cases "mirrorPrepare rem p src meta")
  case (Inl r)
  then show ?thesis by (simp add: Mirror_def)
next
  case (Inr pl)
  then show ?thesis
  proof (cases rule: Mirror_cases [of rem p src meta pl wr s])
    case (ran l r s1)
    from body_exit [OF calm.body_triple TrueI ran(3)] ran(4) assms show ?thesis by auto
  qed auto
qed

section \<open>Properties\<close>

text \<open>
  Property C1. Every call of \<open>Mirror\<close> leaves the set of targets in flight as it found it, whichever
  way it ends: success, skip, any error, a refused or skipped reassignment, even a panic.
\<close>

theorem Mirror_releases_target:
  "busyOf (st_ledger (snd (Mirror rem wr p src meta s))) = busyOf (st_ledger s)"
  by (rule Mirror_busy)

text \<open>
  Property C12. \<open>Mirror\<close> does not panic: when the registry client keeps its word that a successful HEAD
  comes with a descriptor and an index manifest is not nil, the call always returns.
\<close>

theorem Mirror_returns:
  assumes "honest rem"
  shows "\<exists>r s'. Mirror rem wr p src meta s = (Return r, s')"
  using assms by (rule Mirror_honest)

theorem Mirror_returns_witness:
  "\<exists>r s'. Mirror (demoRemote (\<lambda>_. Inl EOF) (Inr demoDescriptor)) demoWriter (demoPusher False False False)
     ''app:v1'' demoMeta demoState = (Return r, s')"
  by (rule Mirror_returns) (simp add: honest_def demoRemoteTag_def demoDescriptor_def demoIndex_def)

text \<open>
  Property C8. With a cooldown configured, every error after the references were understood carries a
  retry time; unless it reports an older failure, the failed target is blocked until exactly that time
  in the state the call leaves behind.
\<close>

theorem Mirror_error_cooldown:
  assumes "failureCooldown p > 0" and "mirrorPrepare rem p src meta = Inr pl"
    and "Mirror rem wr p src meta s = (Return (Some e), s')"
  shows "\<exists>cause at. e = RetryError cause at \<and>
    (cause = ErrInCooldown \<or> blockedOf (failureCooldown p) (st_ledger s') (st_current s') = Some at)"
using assms(2)
proof (cases rule: Mirror_cases [of rem p src meta pl wr s])
  case (ran l r s1)
  with body_exit [OF cooldown.body_triple _ ran(3)] assms(3)
  have "cooled (failureCooldown p) (Some (Some e)) s1" by auto
  with ran(4) assms(1,3) show ?thesis
    by (auto simp: cooled_def lg.finish_blocked)
qed (use assms(3) in auto)

theorem Mirror_error_cooldown_witness:
  "\<exists>cause at. RetryError (Wrapf (''describe '' @ ''app:v1'' @ '': '') EOF []) 1060 = RetryError cause at \<and>
    (cause = ErrInCooldown \<or> blockedOf 60 (st_ledger (snd (Mirror (demoRemote (\<lambda>_. Inl EOF) (Inl EOF)) demoWriter
       (demoPusher False False False) ''app:v1'' demoMeta demoState)))
     (st_current (snd (Mirror (demoRemote (\<lambda>_. Inl EOF) (Inl EOF)) demoWriter
       (demoPusher False False False) ''app:v1'' demoMeta demoState))) = Some at)"
proof -
  let ?rem = "demoRemote (\<lambda>_. Inl EOF) (Inl EOF)" and ?p = "demoPusher False False False"
  let ?run = "Mirror ?rem demoWriter ?p ''app:v1'' demoMeta demoState"
  have cd: "failureCooldown ?p = 60" by code_simp
  have prep: "\<exists>pl. mirrorPrepare ?rem ?p ''app:v1'' demoMeta = Inr pl"
    by (rule exI) code_simp
  have "fst ?run = Return (Some (RetryError (Wrapf (''describe '' @ ''app:v1'' @ '': '') EOF []) 1060))" by code_simp
  then have run: "?run = (Return (Some (RetryError (Wrapf (''describe '' @ ''app:v1'' @ '': '') EOF []) 1060)), snd ?run)"
    by (metis prod.collapse)
  show ?thesis using prep Mirror_error_cooldown [OF _ _ run] by (auto simp: cd)
qed

text \<open>
  A dry run never writes: the whole behaviour of \<open>Mirror\<close>, result and state, is the same
  whatever the functions that upload images would do.
\<close>

lemma Mirror_dryRun_never_writes:
  assumes "dryRun p"
  shows "Mirror rem wr p = Mirror rem wr' p"
  using assms by (intro Mirror_cong_deliver mirrorDeliver_dryRun)

text \<open>
  A dry pull changes nothing at the target: its behaviour depends neither on the functions
  that upload images nor on the one that creates repositories.
\<close>

lemma Mirror_dryPull_target_untouched:
  assumes "dryPull p"
  shows "Mirror rem wr p src meta = Mirror rem wr' (withEnsure f p) src meta"
proof -
  have "mirrorBody rem wr p src = mirrorBody rem wr' (withEnsure f p) src"
    using mirrorBody_dryPull [OF assms] by (intro ext) metis
  then show ?thesis by (intro ext) (simp only: Mirror_def withEnsure_simps withEnsure_stages)
qed

text \<open>
  Property C39. A dry pull still asks the source registry for the manifest: when that request fails,
  \<open>Mirror\<close> fails as well, so the mode is not free of source traffic.
\<close>

theorem Mirror_dryPull_contacts_source:
  assumes "dryPull p" and "mirrorPrepare rem p src meta = Inr pl" and "\<not> mp_usePodDigest pl"
    and "fst (beginProcessing (failureCooldown p) (now rem (st_world s)) (mp_target pl) (st_ledger s)) = Inr False"
    and "t_BasicAuth (p_target p) (st_world s) = (Inr auth, w1)"
    and "remoteGet rem (sourceOpts p (snd (snd (platformChoice p (mp_meta pl))))) (mp_pullRef pl) w1 = (Inl e, w2)"
  shows "\<exists>e' s'. Mirror rem wr p src meta s = (Return (Some e'), s') \<and> st_world s' = w2"
proof -
  obtain l where b: "beginProcessing (failureCooldown p) (now rem (st_world s)) (mp_target pl) (st_ledger s) = (Inr False, l)"
    using assms(4) by (metis prod.collapse)
  let ?s = "s\<lparr>st_ledger := l, st_current := mp_target pl\<rparr>"
  obtain desired primary request where pc: "platformChoice p (mp_meta pl) = (desired, primary, request)"
    by (metis prod.collapse)
  have "\<exists>e' s'. mirrorBody rem wr p src pl ?s = (Return (Some e'), s') \<and> st_world s' = w2"
    using assms(1,3,5,6) pc mirrorBody_start [OF assms(3) _ pc, of ?s auth w1 rem wr src]
    by (auto simp: mirrorDescribe_def pullFailed_def failWith_def recordMet_def call_def flow_defs split: prod.split)
  with assms(2) b show ?thesis by (auto simp: Mirror_def)
qed

theorem Mirror_dryPull_contacts_source_witness:
  "\<exists>e' s'. Mirror (demoRemote (\<lambda>_. Inl EOF) (Inl EOF)) demoWriter (demoPusher False True False) ''app:v1'' demoMeta demoState =
      (Return (Some e'), s') \<and> st_world s' = [Get (Tag (demoRepo ''src.io'' ''app'') ''v1'')]"
proof -
  let ?rem = "demoRemote (\<lambda>_. Inl EOF) (Inl EOF)" and ?p = "demoPusher False True False"
  define pl where "pl = projr (mirrorPrepare ?rem ?p ''app:v1'' demoMeta)"
  have prep: "mirrorPrepare ?rem ?p ''app:v1'' demoMeta = Inr pl" unfolding pl_def by code_simp
  have facts: "dryPull ?p" "\<not> mp_usePodDigest pl" "mp_target pl = ''t.io/app:v1''"
    "mp_pullRef pl = Tag (demoRepo ''src.io'' ''app'') ''v1''" unfolding pl_def by code_simp+
  show ?thesis
    by (rule Mirror_dryPull_contacts_source [OF facts(1) prep facts(2), of _ "([], [])" "[]" EOF])
      (simp_all add: facts demoState_def demoRemoteTag_def beginProcessing_def emptyLedger_def demoPusher_def
        NewPusher_def demoTarget_def Let_def split: prod.split)
qed

text \<open>
  Property C3. Without permission to overwrite, no existing tag but \<open>latest\<close> is ever written: if two
  writers differ only on references that every HEAD finds at the target and whose tag is not
  \<open>latest\<close>, no run of \<open>Mirror\<close> can tell them apart.
\<close>

theorem Mirror_protects_tags:
  assumes "\<not> allowDifferentDigestRepush p"
    and "\<And>opts ref img. protectedRef rem ref \<or> remoteWrite wr opts ref img = remoteWrite wr' opts ref img"
    and "\<And>opts ref idx. protectedRef rem ref \<or> remoteWriteIndex wr opts ref idx = remoteWriteIndex wr' opts ref idx"
  shows "Mirror rem wr p src meta s = Mirror rem wr' p src meta s"
  using Mirror_cong_deliver [OF mirrorDeliver_protected [OF assms]] by simp

theorem Mirror_protects_tags_witness:
  "Mirror (demoRemote (\<lambda>_. Inr (Some zeroHash)) (Inr demoDescriptor)) demoWriter (demoPusher False False False) ''app:v1'' demoMeta demoState =
   Mirror (demoRemote (\<lambda>_. Inr (Some zeroHash)) (Inr demoDescriptor)) failingWriter (demoPusher False False False) ''app:v1'' demoMeta demoState"
proof (rule Mirror_protects_tags)
  show "\<not> allowDifferentDigestRepush (demoPusher False False False)"
    by (simp add: demoPusher_def NewPusher_def Let_def split: prod.split)
qed (auto simp: protectedRef_def failingWriter_def isLatest_def demoRemoteTag_def fun_eq_iff split: reference.splits)

text \<open>
  Property C40. The tag \<open>latest\<close> has no protection: even without permission to overwrite, a source image
  whose digest differs from the one at the target is written over it.
\<close>

theorem Mirror_overwrites_latest:
  assumes "\<not> allowDifferentDigestRepush p" "mp_targetRef pl = Tag ctx t" "EqualFold t ''latest''"
    and "mirrorPrepare rem p src meta = Inr pl" "\<not> mp_usePodDigest pl" "\<not> dryPull p" "\<not> dryRun p"
    and "beginProcessing (failureCooldown p) (now rem (st_world s)) (mp_target pl) (st_ledger s) = (Inr False, l)"
    and "t_BasicAuth (p_target p) (st_world s) = (Inr auth, w1)"
    and "remoteGet rem (sourceOpts p (snd (snd (platformChoice p (mp_meta pl))))) (mp_pullRef pl) w1 = (Inr desc, w2)"
    and "offers p desc c" "contentDigest c = Inr h" "sameTarget p pl c"
    and "remoteHead rem (targetOpts p auth) (mp_targetRef pl) w2 = (Inr (Some present), w3)" "present \<noteq> h"
    and "t_EnsureRepository (p_target p) (mp_repo pl) w3 = (None, w4)"
    and "pushOnce wr p auth (planned pl) c w4 = (None, w5)"
    and "remoteHead rem (targetOpts p auth) (mp_targetRef pl) w5 = (v, w6)" "v \<noteq> Inr None"
  shows "fst (Mirror rem wr p src meta s) = Return None \<and> st_world (snd (Mirror rem wr p src meta s)) = w6"
proof -
  have "mayPush p (mp_targetRef pl) h (Inr (Some present))"
    using assms(2,3,15) by (simp add: mayPush_def)
  from Mirror_pushes [OF assms(4-14) this assms(16-19)] show ?thesis by simp
qed

theorem Mirror_overwrites_latest_witness:
  "fst (Mirror (demoRemoteTag ''latest'' (\<lambda>_. Inr (Some zeroHash)) (Inr demoDescriptor)) demoWriter
      (demoPusher False False False) ''app'' demoMeta demoState) = Return None
   \<and> st_world (snd (Mirror (demoRemoteTag ''latest'' (\<lambda>_. Inr (Some zeroHash)) (Inr demoDescriptor)) demoWriter
      (demoPusher False False False) ''app'' demoMeta demoState)) =
     [Head (Tag (demoRepo ''t.io'' ''app'') ''latest''), Write (Tag (demoRepo ''t.io'' ''app'') ''latest''),
      Ensure ''app'', Head (Tag (demoRepo ''t.io'' ''app'') ''latest''), Get (Tag (demoRepo ''src.io'' ''app'') ''latest'')]"
proof -
  let ?rem = "demoRemoteTag ''latest'' (\<lambda>_. Inr (Some zeroHash)) (Inr demoDescriptor)"
  let ?p = "demoPusher False False False" and ?src = "Tag (demoRepo ''src.io'' ''app'') ''latest''"
  let ?ref = "Tag (demoRepo ''t.io'' ''app'') ''latest''" and ?l = "emptyLedger\<lparr>pushed := {|''t.io/app:latest''|}\<rparr>"
  define pl where "pl = projr (mirrorPrepare ?rem ?p ''app'' demoMeta)"
  have prep: "mirrorPrepare ?rem ?p ''app'' demoMeta = Inr pl" unfolding pl_def by code_simp
  have facts: "mp_targetRef pl = ?ref" "\<not> mp_usePodDigest pl" "mp_target pl = ''t.io/app:latest''" "mp_repo pl = ''app''"
    "mp_pullRef pl = ?src" "sameTarget ?p pl (ContentImage demoImage)" unfolding pl_def by code_simp+
  have cfg: "\<not> allowDifferentDigestRepush ?p" "\<not> dryPull ?p" "\<not> dryRun ?p" "failureCooldown ?p = 60" "p_target ?p = demoTarget"
    by (simp_all add: demoPusher_def NewPusher_def Let_def split: prod.split)
  have fold: "EqualFold ''latest'' ''latest''" by code_simp
  show ?thesis
    by (rule Mirror_overwrites_latest [OF cfg(1) facts(1) fold prep facts(2) cfg(2,3), of _ ?l "([], [])" "[]" demoDescriptor
          "[Get ?src]" "ContentImage demoImage" "\<lparr>h_alg = ''sha256'', h_hex = ''aa''\<rparr>" zeroHash "[Head ?ref, Get ?src]"
          "[Ensure ''app'', Head ?ref, Get ?src]" _ "[Write ?ref, Ensure ''app'', Head ?ref, Get ?src]" "Inr (Some zeroHash)"])
      (simp_all add: facts cfg demoState_def demoRemoteTag_def beginProcessing_def emptyLedger_def
        offers_def contentDigest_def pushOnce_def planned_def demoTarget_def demoDescriptor_def demoImage_def [THEN arg_cong, of img_digest] zeroHash_def demoWriter_def Let_def)
qed

text \<open>
  Property C4. A missing image is delivered. Let neither dry run, dry pull nor a pull by the digest of the pod apply, let the
  target be neither in flight nor in a cooldown, and let the repository path not depend on an
  architecture that is found only in the image (\<open>sameTarget\<close>). When credentials are handed out, the source offers
  an image, or an index with pulls by digest off, the target answers 404, the repository can be created
  and the first upload succeeds, then \<open>Mirror\<close> succeeds, has made exactly these calls in this order and the HEAD
  that verifies the upload, counts one pull and one push, and is no longer in flight.
\<close>

theorem Mirror_delivers:
  assumes "mirrorPrepare rem p src meta = Inr pl" "\<not> mp_usePodDigest pl" "\<not> dryPull p" "\<not> dryRun p"
    and "beginProcessing (failureCooldown p) (now rem (st_world s)) (mp_target pl) (st_ledger s) = (Inr False, l)"
    and "t_BasicAuth (p_target p) (st_world s) = (Inr auth, w1)"
    and "remoteGet rem (sourceOpts p (snd (snd (platformChoice p (mp_meta pl))))) (mp_pullRef pl) w1 = (Inr desc, w2)"
    and "offers p desc c" "contentDigest c = Inr h" "sameTarget p pl c"
    and "remoteHead rem (targetOpts p auth) (mp_targetRef pl) w2 = (Inl e, w3)" "isNotFoundError e"
    and "t_EnsureRepository (p_target p) (mp_repo pl) w3 = (None, w4)"
    and "pushOnce wr p auth (planned pl) c w4 = (None, w5)"
    and "remoteHead rem (targetOpts p auth) (mp_targetRef pl) w5 = (v, w6)" "v \<noteq> Inr None"
  shows "Mirror rem wr p src meta s =
    (Return None, s\<lparr>st_ledger := finishProcessing (mp_target pl) l, st_world := w6, st_current := mp_target pl,
       st_metrics := RecordPushSuccess (mp_target pl) (RecordPullSuccess src (st_metrics s))\<rparr>)"
proof -
  have "mayPush p (mp_targetRef pl) h (Inl e)" using assms(12) by (simp add: mayPush_def)
  from Mirror_pushes [OF assms(1-11) this assms(13-16)] show ?thesis .
qed

theorem Mirror_delivers_witness:
  "Mirror (demoRemote (\<lambda>w. Inl (TransportError 404 [] ''not found'')) (Inr demoDescriptor)) demoWriter
     (demoPusher False False False) ''app:v1'' demoMeta demoState =
   (Return None, demoState\<lparr>st_ledger := finishProcessing ''t.io/app:v1'' (emptyLedger\<lparr>pushed := {|''t.io/app:v1''|}\<rparr>),
      st_world := [Head (Tag (demoRepo ''t.io'' ''app'') ''v1''), Write (Tag (demoRepo ''t.io'' ''app'') ''v1''),
        Ensure ''app'', Head (Tag (demoRepo ''t.io'' ''app'') ''v1''), Get (Tag (demoRepo ''src.io'' ''app'') ''v1'')],
      st_current := ''t.io/app:v1'',
      st_metrics := RecordPushSuccess ''t.io/app:v1'' (RecordPullSuccess ''app:v1'' (st_metrics demoState))\<rparr>)"
proof -
  let ?rem = "demoRemote (\<lambda>w. Inl (TransportError 404 [] ''not found'')) (Inr demoDescriptor)"
  let ?p = "demoPusher False False False" and ?src = "Tag (demoRepo ''src.io'' ''app'') ''v1''"
  let ?ref = "Tag (demoRepo ''t.io'' ''app'') ''v1''" and ?l = "emptyLedger\<lparr>pushed := {|''t.io/app:v1''|}\<rparr>"
  define pl where "pl = projr (mirrorPrepare ?rem ?p ''app:v1'' demoMeta)"
  have prep: "mirrorPrepare ?rem ?p ''app:v1'' demoMeta = Inr pl" unfolding pl_def by code_simp
  have facts: "mp_targetRef pl = ?ref" "\<not> mp_usePodDigest pl" "mp_target pl = ''t.io/app:v1''" "mp_repo pl = ''app''"
    "mp_pullRef pl = ?src" "sameTarget ?p pl (ContentImage demoImage)" unfolding pl_def by code_simp+
  have cfg: "\<not> dryPull ?p" "\<not> dryRun ?p" "failureCooldown ?p = 60" "p_target ?p = demoTarget"
    by (simp_all add: demoPusher_def NewPusher_def Let_def split: prod.split)
  show ?thesis
    unfolding facts(3) [symmetric]
    by (rule Mirror_delivers [OF prep facts(2) cfg(1,2), of _ _ "([], [])" "[]" demoDescriptor
          "[Get ?src]" "ContentImage demoImage" "\<lparr>h_alg = ''sha256'', h_hex = ''aa''\<rparr>" "TransportError 404 [] ''not found''" "[Head ?ref, Get ?src]"
          "[Ensure ''app'', Head ?ref, Get ?src]" _ "[Write ?ref, Ensure ''app'', Head ?ref, Get ?src]" "Inl (TransportError 404 [] ''not found'')"])
      (simp_all add: facts cfg demoState_def demoRemoteTag_def beginProcessing_def emptyLedger_def isNotFoundError_def
        offers_def contentDigest_def pushOnce_def planned_def
        demoTarget_def demoDescriptor_def demoImage_def [THEN arg_cong, of img_digest] zeroHash_def demoWriter_def Let_def)
qed

text \<open>
  With pulls by digest enabled, a tag whose pod has not reported an image ID is left alone:
  no registry is contacted and nothing changes. In particular the digest is not resolved from the
  registry for workloads that only have a pod template.
\<close>

lemma Mirror_digestPull_waits:
  assumes "pullByDigest p" "ParseReference rem src = Inr (Tag ctx t)"
    and "ToLower (TrimSpace t) \<notin> digestPullIgnoredTags p" "TrimSpace (MImageID meta) = []"
  shows "\<exists>r. Mirror rem wr p src meta s = (Return r, s)"
proof -
  have "MImageID (fillRegistry ref meta) = MImageID meta" for ref
    by (simp add: fillRegistry_def Let_def)
  then have "\<exists>r. mirrorPrepare rem p src meta = Inl r"
    using assms by (auto simp: mirrorPrepare_def usesPodDigest_def pusher_normalizeImageID_def
        pullReferenceFromMetadata_def Let_def split: option.splits sum.splits)
  then show ?thesis by (auto simp: Mirror_def)
qed

end
