(* ===== verification/MirrorDelivery.thy ===== *)
theory MirrorDelivery
  imports MirrorProps
begin

text \<open>
  What \<open>Mirror\<close> copies and what it leaves alone: the index that is put together for the wanted platforms,
  images the target already has, and images of excluded registries.
\<close>

section \<open>The filtered index\<close>

text \<open>Whether a manifest has an entry for a platform.\<close>

definition platformOffered :: "indexManifest \<Rightarrow> platformSpec \<Rightarrow> bool" where
  "platformOffered ds spec \<longleftrightarrow> findDescriptorForSpec (Some ds) spec \<noteq> None"

text \<open>Where the content of an entry may come from: the source index, or the target under the digest of the entry.\<close>

definition targetHolds ::
  "'w remote \<Rightarrow> 'w pusher \<Rightarrow> repository \<Rightarrow> string \<times> string \<Rightarrow> descriptor \<Rightarrow> appendable \<Rightarrow> bool" where
  "targetHolds rem p repo auth d a \<longleftrightarrow> (\<exists>ctx ds w.
     NewDigest rem (t_Insecure (p_target p)) (rp_name repo @ ''@'' @ hashString (d_digest d)) = Inr (ctx, ds)
     \<and> (case a of
          AppendIndex x \<Rightarrow> d_isIndex d \<and> fst (remoteIndex rem (targetOpts p auth) (Digest ctx ds) w) = Inr x
        | AppendImage x \<Rightarrow> \<not> d_isIndex d \<and> fst (remoteImage rem (targetOpts p auth) (Digest ctx ds) w) = Inr x))"

definition rightContent ::
  "'w remote \<Rightarrow> 'w pusher \<Rightarrow> imageIndex \<Rightarrow> repository \<Rightarrow> string \<times> string \<Rightarrow> appendable \<times> descriptor \<Rightarrow> bool" where
  "rightContent rem p idx repo auth entry \<longleftrightarrow>
     appendableForDescriptor idx (Some (snd entry)) = Inr (fst entry) \<or> targetHolds rem p repo auth (snd entry) (fst entry)"

lemma targetHolds_index:
  assumes "NewDigest rem (t_Insecure (p_target p)) (rp_name repo @ ''@'' @ hashString (d_digest d)) = Inr (ctx, ds)"
  shows "d_isIndex d \<Longrightarrow> remoteIndex rem (targetOpts p auth) (Digest ctx ds) w = (Inr x, w') \<Longrightarrow> targetHolds rem p repo auth d (AppendIndex x)"
    and "\<not> d_isIndex d \<Longrightarrow> remoteImage rem (targetOpts p auth) (Digest ctx ds) w = (Inr y, w') \<Longrightarrow> targetHolds rem p repo auth d (AppendImage y)"
  using assms unfolding targetHolds_def by (auto intro!: exI [of _ w])

lemma map_sum_eq_Inr: "map_sum f g x = Inr y \<longleftrightarrow> (\<exists>z. x = Inr z \<and> y = g z)"
  by (cases x) auto

lemma appendable_right:
  "appendableForFilteredDescriptor rem p idx (Some d) spec repo auth w = (Inr a, w') \<Longrightarrow> rightContent rem p idx repo auth (a, d)"
  by (auto simp: appendableForFilteredDescriptor_def rightContent_def Let_def map_sum_eq_Inr
      intro: targetHolds_index split: if_splits sum.splits prod.splits)

lemma filterLoop_spec:
  "filterLoop rem p idx ds repo auth specs adds matched missing w = (Inr (adds', matched', missing'), w') \<Longrightarrow>
   \<exists>new. adds' = adds @ new \<and> map snd new = List.map_filter (findDescriptorForSpec (Some ds)) specs
     \<and> list_all (rightContent rem p idx repo auth) new
     \<and> matched' = matched @ filter (platformOffered ds) specs
     \<and> missing' = missing @ filter (\<lambda>s. \<not> platformOffered ds s) specs"
proof (induction specs arbitrary: adds matched missing w)
  case (Cons spec specs)
  show ?case
  proof (cases "findDescriptorForSpec (Some ds) spec")
    case None
    with Cons.prems have "filterLoop rem p idx ds repo auth specs adds matched (missing @ [spec]) w = (Inr (adds', matched', missing'), w')"
      by simp
    from Cons.IH [OF this] None show ?thesis by (simp add: platformOffered_def map_filter_simps)
  next
    case (Some d)
    with Cons.prems obtain a w1 where a: "appendableForFilteredDescriptor rem p idx (Some d) spec repo auth w = (Inr a, w1)"
      and rest: "filterLoop rem p idx ds repo auth specs (adds @ [(a, d)]) (matched @ [spec]) missing w1 = (Inr (adds', matched', missing'), w')"
      by (auto split: prod.splits sum.splits)
    from Cons.IH [OF rest] obtain new where "adds' = (adds @ [(a, d)]) @ new"
      "map snd new = List.map_filter (findDescriptorForSpec (Some ds)) specs" "list_all (rightContent rem p idx repo auth) new"
      "matched' = (matched @ [spec]) @ filter (platformOffered ds) specs"
      "missing' = missing @ filter (\<lambda>s. \<not> platformOffered ds s) specs" by blast
    moreover have "platformOffered ds spec" using Some by (simp add: platformOffered_def)
    ultimately show ?thesis
      using Some appendable_right [OF a] by (intro exI [of _ "(a, d) # new"]) (simp add: map_filter_simps)
  qed
qed (simp add: map_filter_simps)

section \<open>Images the target has\<close>

lemma mirrorDeliver_present:
  assumes "sameTarget p pl c" "contentDigest c = Inr h"
    and "remoteHead rem (targetOpts p auth) (mp_targetRef pl) (st_world s) = (Inr (Some h), w)"
  shows "mirrorDeliver rem wr p src pl auth c s =
    (Return None, s\<lparr>st_world := w, st_metrics := RecordPullSuccess src (st_metrics s)\<rparr>)"
  using assms by (simp add: mirrorDeliver_def mirrorArch_same mirrorDigest_def mirrorHeadCheck_def planned_def
      recordMet_def call_def flow_defs)

section \<open>Properties\<close>

text \<open>
  Property C27. The index for the wanted platforms is complete and correct: it has, in the order of the wanted
  platforms, exactly one entry for each that the source offers, namely the first runnable manifest that
  fits; the content of every entry is what the source holds or what the target holds under the same digest;
  the remaining platforms are reported as missing. With nothing offered the source index is kept.
\<close>

theorem filterIndexByPlatforms_spec:
  assumes "idx_manifest idx = Inr (Some ds)"
    and "filterIndexByPlatforms rem p idx desired repo auth w = (Inr (out, matched, missing), w')"
  shows "matched = filter (platformOffered ds) desired \<and> missing = filter (\<lambda>s. \<not> platformOffered ds s) desired
    \<and> (if matched = [] then out = idx
       else \<exists>adds. out = AppendManifests rem adds
         \<and> map snd adds = List.map_filter (findDescriptorForSpec (Some ds)) desired
         \<and> list_all (rightContent rem p idx repo auth) adds)"
proof -
  from assms obtain adds where
    run: "filterLoop rem p idx ds repo auth desired [] [] [] w = (Inr (adds, matched, missing), w')"
    and out: "out = (if adds = [] then idx else AppendManifests rem adds)"
    by (auto simp: filterIndexByPlatforms_def split: sum.splits prod.splits if_splits)
  from filterLoop_spec [OF run] have spec: "map snd adds = List.map_filter (findDescriptorForSpec (Some ds)) desired"
    "list_all (rightContent rem p idx repo auth) adds" "matched = filter (platformOffered ds) desired"
    "missing = filter (\<lambda>s. \<not> platformOffered ds s) desired" by auto
  have "List.map_filter (findDescriptorForSpec (Some ds)) desired = [] \<longleftrightarrow> matched = []"
    unfolding spec(3) by (induction desired) (auto simp: platformOffered_def map_filter_simps split: option.split)
  then have "adds = [] \<longleftrightarrow> matched = []" using spec(1) by (metis map_is_Nil_conv)
  with spec out show ?thesis by auto
qed

definition demoEntry :: "string \<Rightarrow> descriptor" where
  "demoEntry arch = \<lparr>d_isIndex = False, d_digest = zeroHash, d_platform = Some \<lparr>pl_arch = arch, pl_os = ''linux''\<rparr>,
     d_annotations = Map.empty\<rparr>"

definition demoMulti :: imageIndex where
  "demoMulti = ImageIndex (Inr (Some [demoEntry ''amd64'', demoEntry ''arm64''])) (Inr zeroHash) (\<lambda>_. Inr demoImage) (\<lambda>_. Inl EOF)"

theorem filterIndexByPlatforms_spec_witness:
  "filter (platformOffered [demoEntry ''amd64'', demoEntry ''arm64''])
     [\<lparr>ps_arch = ''arm64'', ps_os = ''linux''\<rparr>, \<lparr>ps_arch = ''s390x'', ps_os = ''linux''\<rparr>] = [\<lparr>ps_arch = ''arm64'', ps_os = ''linux''\<rparr>]"
proof -
  let ?rem = "demoRemote (\<lambda>_. Inl EOF) (Inl EOF)" and ?p = "demoPusher False False True"
  let ?arm = "\<lparr>ps_arch = ''arm64'', ps_os = ''linux''\<rparr>" and ?s390 = "\<lparr>ps_arch = ''s390x'', ps_os = ''linux''\<rparr>"
  have "idx_manifest demoMulti = Inr (Some [demoEntry ''amd64'', demoEntry ''arm64''])" by (simp add: demoMulti_def)
  moreover have "filterIndexByPlatforms ?rem ?p demoMulti [?arm, ?s390] zeroRepository ([], []) [] =
      (Inr (demoIndex, [?arm], [?s390]), [])"
  proof -
    have fits: "specMatches ?arm (Some (demoEntry ''arm64''))" "\<not> specMatches ?arm (Some (demoEntry ''amd64''))"
      "\<not> specMatches ?s390 (Some (demoEntry ''arm64''))" "\<not> specMatches ?s390 (Some (demoEntry ''amd64''))"
      "descriptorIsRunnable (demoEntry ''arm64'')" by code_simp+
    then show ?thesis
      by (simp add: filterIndexByPlatforms_def findDescriptorForSpec_def appendableForFilteredDescriptor_def
          appendableForDescriptor_def demoMulti_def demoRemoteTag_def demoEntry_def [THEN arg_cong, of d_isIndex])
  qed
  ultimately show ?thesis
    by (rule filterIndexByPlatforms_spec [THEN conjunct1, symmetric])
qed

text \<open>
  Property C7. Mirroring again does nothing. Let neither dry pull nor a pull by the digest of the pod apply, let the
  target be neither in flight nor in a cooldown, and let the repository path not depend on an architecture that is
  found only in the image. When the source offers an image, or an index with pulls by digest off, and the target
  already has that content under the target reference, \<open>Mirror\<close> succeeds after one HEAD request to the target;
  nothing is uploaded, no repository is created, no push is counted, and the target is no longer in flight.
  Choices from an index by platform are not part of this statement.
\<close>

theorem Mirror_present_skips:
  assumes "mirrorPrepare rem p src meta = Inr pl" "\<not> mp_usePodDigest pl" "\<not> dryPull p"
    and "beginProcessing (failureCooldown p) (now rem (st_world s)) (mp_target pl) (st_ledger s) = (Inr False, l)"
    and "t_BasicAuth (p_target p) (st_world s) = (Inr auth, w1)"
    and "remoteGet rem (sourceOpts p (snd (snd (platformChoice p (mp_meta pl))))) (mp_pullRef pl) w1 = (Inr desc, w2)"
    and "offers p desc c" "contentDigest c = Inr h" "sameTarget p pl c"
    and "remoteHead rem (targetOpts p auth) (mp_targetRef pl) w2 = (Inr (Some h), w3)"
  shows "Mirror rem wr p src meta s =
    (Return None, s\<lparr>st_ledger := finishProcessing (mp_target pl) l, st_world := w3, st_current := mp_target pl,
       st_metrics := RecordPullSuccess src (st_metrics s)\<rparr>)"
proof -
  let ?s = "s\<lparr>st_ledger := l, st_current := mp_target pl, st_world := w2\<rparr>"
  have "mirrorDeliver rem wr p src pl auth c ?s =
      (Return None, ?s\<lparr>st_world := w3, st_metrics := RecordPullSuccess src (st_metrics s)\<rparr>)"
    using mirrorDeliver_present [OF assms(9,8), where s = ?s] assms(10) by simp
  from Mirror_reaches_deliver [OF assms(1-7) this] show ?thesis by simp
qed

theorem Mirror_present_skips_witness:
  "st_world (snd (Mirror (demoRemote (\<lambda>w. Inr (Some \<lparr>h_alg = ''sha256'', h_hex = ''aa''\<rparr>)) (Inr demoDescriptor)) failingWriter
     (demoPusher False False False) ''app:v1'' demoMeta demoState)) =
   [Head (Tag (demoRepo ''t.io'' ''app'') ''v1''), Get (Tag (demoRepo ''src.io'' ''app'') ''v1'')]"
proof -
  let ?h = "\<lparr>h_alg = ''sha256'', h_hex = ''aa''\<rparr>"
  let ?rem = "demoRemote (\<lambda>w. Inr (Some ?h)) (Inr demoDescriptor)"
  let ?p = "demoPusher False False False" and ?src = "Tag (demoRepo ''src.io'' ''app'') ''v1''"
  let ?ref = "Tag (demoRepo ''t.io'' ''app'') ''v1''" and ?l = "emptyLedger\<lparr>pushed := {|''t.io/app:v1''|}\<rparr>"
  define pl where "pl = projr (mirrorPrepare ?rem ?p ''app:v1'' demoMeta)"
  have prep: "mirrorPrepare ?rem ?p ''app:v1'' demoMeta = Inr pl" unfolding pl_def by code_simp
  have facts: "mp_targetRef pl = ?ref" "\<not> mp_usePodDigest pl" "mp_target pl = ''t.io/app:v1''"
    "mp_pullRef pl = ?src" "sameTarget ?p pl (ContentImage demoImage)" unfolding pl_def by code_simp+
  have cfg: "\<not> dryPull ?p" "failureCooldown ?p = 60" "p_target ?p = demoTarget"
    by (simp_all add: demoPusher_def NewPusher_def Let_def split: prod.split)
  have "Mirror ?rem failingWriter ?p ''app:v1'' demoMeta demoState =
      (Return None, demoState\<lparr>st_ledger := finishProcessing (mp_target pl) ?l, st_world := [Head ?ref, Get ?src],
         st_current := mp_target pl, st_metrics := RecordPullSuccess ''app:v1'' (st_metrics demoState)\<rparr>)"
    by (rule Mirror_present_skips [OF prep facts(2) cfg(1), of _ _ "([], [])" "[]" demoDescriptor "[Get ?src]"
          "ContentImage demoImage" ?h])
      (simp_all add: facts cfg demoState_def demoRemoteTag_def beginProcessing_def emptyLedger_def offers_def
        contentDigest_def demoTarget_def demoDescriptor_def demoImage_def [THEN arg_cong, of img_digest] Let_def)
  then show ?thesis by simp
qed

text \<open>
  Property C25. Images of excluded registries are left alone. An entry of the configured list that names a
  registry, or a path in it, covers every image there, also when the two differ in upper and lower case, blanks
  around them, a scheme in front, a slash after the entry, or in the name used for Docker Hub; images without a
  registry are those of Docker Hub, in \<open>library\<close> when they are a bare name. An entry ends at the
  boundary of a path component, a tag or a digest. For a covered image the pusher built from that
  configuration returns success at once and changes nothing, whatever else is configured.
\<close>

theorem Mirror_excluded_untouched:
  assumes "entry \<in> set excluded" "covers entry src"
  shows "Mirror rem wr (NewPusher t dry dryp tr kc timeout cooldown byDigest ignored allow excluded pls retry) src meta s = (Return None, s)"
proof -
  let ?p = "NewPusher t dry dryp tr kc timeout cooldown byDigest ignored allow excluded pls retry"
  have "excludedRegistries ?p = normalizeExcludedRegistries excluded"
    by (simp add: NewPusher_def Let_def split: prod.split)
  with covers_matched [OF assms(2,1)] show ?thesis by (auto simp: Mirror_def mirrorPrepare_def split: option.splits)
qed

theorem Mirror_excluded_untouched_witness:
  "Mirror (demoRemote (\<lambda>_. Inl EOF) (Inl EOF)) demoWriter
     (NewPusher demoTarget False False None None 0 60 False [] False ['' https://GHCR.io/ ''] [] None) ''ghcr.IO/team/App:1'' demoMeta demoState =
   (Return None, demoState)"
proof (rule Mirror_excluded_untouched)
  have host: "hostName ''ghcr.io''" by code_simp
  have "'' https://GHCR.io/ '' = '' '' @ ''https://'' @ ''GHCR.io/'' @ '' '' \<and> list_all isSpace '' ''
    \<and> ToLower ''https://'' = ''https://'' \<and> ToLower ''GHCR.io/'' = ''ghcr.io'' @ ''/'' \<and> list_all (\<lambda>c. \<not> isSpace c) ''GHCR.io/''"
    by code_simp
  then have "spells '' https://GHCR.io/ '' (''ghcr.io'' @ ''/'')" unfolding spells_def by blast
  from excludes.registry [OF this host] have entry: "excludes '' https://GHCR.io/ '' ''ghcr.io'' []"
    by (simp add: canonicalHost_def)
  have "''ghcr.IO/team/App:1'' = [] @ [] @ ''ghcr.IO/team/App:1'' @ [] \<and> list_all isSpace [] \<and> ToLower [] = []
    \<and> ToLower ''ghcr.IO/team/App:1'' = ''ghcr.io'' @ ''/'' @ ''team/app:1'' \<and> list_all (\<lambda>c. \<not> isSpace c) ''ghcr.IO/team/App:1''"
    by code_simp
  then have "spells ''ghcr.IO/team/App:1'' (''ghcr.io'' @ ''/'' @ ''team/app:1'')" unfolding spells_def by blast
  from refersTo.full [OF this host] have "refersTo ''ghcr.IO/team/App:1'' ''ghcr.io'' (''/'' @ ''team/app:1'')"
    by (simp add: canonicalHost_def)
  with entry show "covers '' https://GHCR.io/ '' ''ghcr.IO/team/App:1''"
    unfolding covers_def by (intro exI [of _ "''ghcr.io''"] exI [of _ "[]"] exI [of _ "''/team/app:1''"]) simp
qed simp

end
