(* ===== verification/Convergence.thy ===== *)
theory Convergence
  imports MirrorDelivery
begin

text \<open>
  The purpose of the program: afterwards the images are there. What a registry that works does is stated as
  \<open>healthy\<close>, over an abstract view of what it stores; a call of \<open>Mirror\<close>, a run over many calls, and a forced
  run of the started program are followed through it. The last section shows the one case in which a
  successful call leaves its target without content.
\<close>

section \<open>Registries that work\<close>

text \<open>
  \<open>store\<close> is the view of the target: the digest under each reference. Reads leave it as it is, a HEAD reports it,
  and a write puts the digest of its content under its reference and keeps what other references hold. The
  source answers from \<open>catalog\<close>. Everything else in the world is free.
\<close>

definition healthy ::
  "'w remote \<Rightarrow> 'w writer \<Rightarrow> 'w pusher \<Rightarrow> string \<times> string \<Rightarrow> ('w \<Rightarrow> reference \<Rightarrow> hash option)
   \<Rightarrow> (reference \<Rightarrow> remoteDescriptor) \<Rightarrow> bool" where
  "healthy rem wr p auth store catalog \<longleftrightarrow>
     (\<forall>w. \<exists>w'. t_BasicAuth (p_target p) w = (Inr auth, w') \<and> store w' = store w)
     \<and> (\<forall>repo w. \<exists>w'. t_EnsureRepository (p_target p) repo w = (None, w') \<and> store w' = store w)
     \<and> (\<forall>pl ref w. \<exists>w'. remoteGet rem (sourceOpts p pl) ref w = (Inr (catalog ref), w') \<and> store w' = store w)
     \<and> (\<forall>ref w. \<exists>r w'. remoteHead rem (targetOpts p auth) ref w = (r, w') \<and> store w' = store w
          \<and> (case store w ref of Some h \<Rightarrow> r = Inr (Some h) | None \<Rightarrow> (\<exists>e. r = Inl e \<and> isNotFoundError e)))
     \<and> (\<forall>de c h w. contentDigest c = Inr h \<longrightarrow>
          (\<exists>w'. pushOnce wr p auth de c w = (None, w') \<and> store w' (de_targetRef de) = Some h
            \<and> (\<forall>ref. ref \<noteq> de_targetRef de \<longrightarrow> store w ref \<noteq> None \<longrightarrow> store w' ref = store w ref)))"

lemma healthyD:
  assumes "healthy rem wr p auth store catalog"
  obtains w1 where "t_BasicAuth (p_target p) w = (Inr auth, w1)" "store w1 = store w"
proof -
  from assms have "\<forall>w. \<exists>w'. t_BasicAuth (p_target p) w = (Inr auth, w') \<and> store w' = store w"
    unfolding healthy_def by blast
  then show ?thesis using that by blast
qed

lemma healthy_ensure:
  assumes "healthy rem wr p auth store catalog"
  obtains w1 where "t_EnsureRepository (p_target p) repo w = (None, w1)" "store w1 = store w"
proof -
  from assms have "\<forall>repo w. \<exists>w'. t_EnsureRepository (p_target p) repo w = (None, w') \<and> store w' = store w"
    unfolding healthy_def by blast
  then show ?thesis using that by blast
qed

lemma healthy_get:
  assumes "healthy rem wr p auth store catalog"
  obtains w1 where "remoteGet rem (sourceOpts p pl) ref w = (Inr (catalog ref), w1)" "store w1 = store w"
proof -
  from assms have "\<forall>pl ref w. \<exists>w'. remoteGet rem (sourceOpts p pl) ref w = (Inr (catalog ref), w') \<and> store w' = store w"
    unfolding healthy_def by blast
  then show ?thesis using that by blast
qed

lemma healthy_head:
  assumes "healthy rem wr p auth store catalog"
  obtains (found) h w1 where "store w ref = Some h" "remoteHead rem (targetOpts p auth) ref w = (Inr (Some h), w1)" "store w1 = store w"
  | (missing) e w1 where "store w ref = None" "remoteHead rem (targetOpts p auth) ref w = (Inl e, w1)" "isNotFoundError e"
      "store w1 = store w"
proof -
  from assms have "\<forall>ref w. \<exists>r w'. remoteHead rem (targetOpts p auth) ref w = (r, w') \<and> store w' = store w
      \<and> (case store w ref of Some h \<Rightarrow> r = Inr (Some h) | None \<Rightarrow> (\<exists>e. r = Inl e \<and> isNotFoundError e))"
    unfolding healthy_def by blast
  then obtain r w' where "remoteHead rem (targetOpts p auth) ref w = (r, w')" "store w' = store w"
    "case store w ref of Some h \<Rightarrow> r = Inr (Some h) | None \<Rightarrow> (\<exists>e. r = Inl e \<and> isNotFoundError e)" by blast
  then show ?thesis using that by (cases "store w ref") auto
qed

lemma healthy_push:
  assumes "healthy rem wr p auth store catalog" "contentDigest c = Inr h"
  obtains w1 where "pushOnce wr p auth de c w = (None, w1)" "store w1 (de_targetRef de) = Some h"
    "\<And>ref. ref \<noteq> de_targetRef de \<Longrightarrow> store w ref \<noteq> None \<Longrightarrow> store w1 ref = store w ref"
proof -
  from assms have "\<exists>w'. pushOnce wr p auth de c w = (None, w') \<and> store w' (de_targetRef de) = Some h
      \<and> (\<forall>ref. ref \<noteq> de_targetRef de \<longrightarrow> store w ref \<noteq> None \<longrightarrow> store w' ref = store w ref)"
    unfolding healthy_def by blast
  then show ?thesis using that by blast
qed

lemmas healthy_auth = healthyD

section \<open>One call\<close>

text \<open>
  An image that can be mirrored: it is excluded, or its target is known, the source offers content without a
  choice of platform, and \<open>want\<close> is the digest of that content for its target.
\<close>

definition mirrorable ::
  "'w remote \<Rightarrow> 'w pusher \<Rightarrow> (reference \<Rightarrow> remoteDescriptor) \<Rightarrow> (reference \<Rightarrow> hash) \<Rightarrow> string \<times> metadata \<Rightarrow> bool" where
  "mirrorable rem p catalog want image' \<longleftrightarrow>
     (case mirrorPrepare rem p (fst image') (snd image') of
        Inl r \<Rightarrow> r = None
      | Inr pl \<Rightarrow> \<not> mp_usePodDigest pl \<and> (\<exists>c. offers p (catalog (mp_pullRef pl)) c
          \<and> contentDigest c = Inr (want (mp_targetRef pl)) \<and> sameTarget p pl c))"

text \<open>The target reference of a call is up to date.\<close>

definition inPlace ::
  "'w remote \<Rightarrow> 'w pusher \<Rightarrow> (reference \<Rightarrow> hash) \<Rightarrow> (reference \<Rightarrow> hash option) \<Rightarrow> string \<times> metadata \<Rightarrow> bool" where
  "inPlace rem p want stored image' \<longleftrightarrow>
     (case mirrorPrepare rem p (fst image') (snd image') of
        Inl _ \<Rightarrow> True
      | Inr pl \<Rightarrow> stored (mp_targetRef pl) = Some (want (mp_targetRef pl)))"

text \<open>Nothing in flight, nothing in a cooldown.\<close>

definition restful :: "duration \<Rightarrow> ledger \<Rightarrow> bool" where
  "restful cooldown l \<longleftrightarrow> busyOf l = {} \<and> (\<forall>t. blockedOf cooldown l t = None)"

text \<open>What is wanted stays.\<close>

definition keepsWanted :: "(reference \<Rightarrow> hash) \<Rightarrow> (reference \<Rightarrow> hash option) \<Rightarrow> (reference \<Rightarrow> hash option) \<Rightarrow> bool" where
  "keepsWanted want a b \<longleftrightarrow> (\<forall>ref. a ref = Some (want ref) \<longrightarrow> b ref = Some (want ref))"

lemma keepsWanted_refl [simp]: "keepsWanted want a a"
  by (simp add: keepsWanted_def)

lemma keepsWanted_trans: "keepsWanted want a b \<Longrightarrow> keepsWanted want b c \<Longrightarrow> keepsWanted want a c"
  by (simp add: keepsWanted_def)

lemma inPlace_keeps: "keepsWanted want a b \<Longrightarrow> inPlace rem p want a i \<Longrightarrow> inPlace rem p want b i"
  by (auto simp: inPlace_def keepsWanted_def split: sum.splits)

lemma restful_begin:
  assumes "restful cooldown l" "CHR ''/'' \<in> set t"
  obtains l' where "beginProcessing cooldown moment t l = (Inr False, l')" "restful cooldown (finishProcessing t l')"
proof -
  have l: "t |\<notin>| pushed l" "cooldown > 0 \<Longrightarrow> fmlookup (failed l) t = None"
    using assms(1) by (auto simp: restful_def busyOf_def blockedOf_def split: if_splits)
  then have b: "beginProcessing cooldown moment t l = (Inr False, l\<lparr>pushed := finsert t (pushed l)\<rparr>)"
    by (simp add: beginProcessing_def Let_def)
  have "restful cooldown (finishProcessing t (l\<lparr>pushed := finsert t (pushed l)\<rparr>))"
    using assms slash_not_blank [OF assms(2)] by (simp add: restful_def finishProcessing_def busyOf_def blockedOf_def)
  with b that show ?thesis by blast
qed

lemma Mirror_in_place:
  assumes reg: "healthy rem wr p auth store catalog"
    and mode: "\<not> dryRun p" "\<not> dryPull p" "allowDifferentDigestRepush p"
    and img: "mirrorable rem p catalog want (src, meta)" and rest: "restful (failureCooldown p) (st_ledger s)"
  shows "\<exists>s'. Mirror rem wr p src meta s = (Return None, s') \<and> restful (failureCooldown p) (st_ledger s')
    \<and> inPlace rem p want (store (st_world s')) (src, meta)
    \<and> keepsWanted want (store (st_world s)) (store (st_world s'))"
proof (cases "mirrorPrepare rem p src meta")
  case (Inl r)
  with img rest show ?thesis by (simp add: mirrorable_def inPlace_def Mirror_def)
next
  case (Inr pl)
  let ?ref = "mp_targetRef pl" and ?request = "snd (snd (platformChoice p (mp_meta pl)))"
  obtain c where c: "\<not> mp_usePodDigest pl" "offers p (catalog (mp_pullRef pl)) c"
    "contentDigest c = Inr (want ?ref)" "sameTarget p pl c"
    using img Inr by (auto simp: mirrorable_def)
  obtain l where l: "beginProcessing (failureCooldown p) (now rem (st_world s)) (mp_target pl) (st_ledger s) = (Inr False, l)"
    "restful (failureCooldown p) (finishProcessing (mp_target pl) l)"
    using restful_begin [OF rest mirrorPrepare_slash [OF Inr]] by blast
  obtain w1 where w1: "t_BasicAuth (p_target p) (st_world s) = (Inr auth, w1)" "store w1 = store (st_world s)"
    using healthy_auth [OF reg] by blast
  obtain w2 where w2: "remoteGet rem (sourceOpts p ?request) (mp_pullRef pl) w1 = (Inr (catalog (mp_pullRef pl)), w2)"
    "store w2 = store w1" using healthy_get [OF reg] by blast
  note start = Mirror_reaches_deliver [OF Inr c(1) mode(2) l(1) w1(1) w2(1) c(2)]
  let ?s = "s\<lparr>st_ledger := l, st_current := mp_target pl, st_world := w2\<rparr>"
  obtain r w3 where head: "remoteHead rem (targetOpts p auth) ?ref w2 = (r, w3)" "store w3 = store w2"
    and answer: "r = Inr (Some (want ?ref)) \<and> store w2 ?ref = Some (want ?ref) \<or> mayPush p ?ref (want ?ref) r"
    using mode(3) by (cases rule: healthy_head [OF reg, of w2 ?ref])
      (auto simp: mayPush_def split: reference.split)
  show ?thesis
  proof (cases "r = Inr (Some (want ?ref)) \<and> store w2 ?ref = Some (want ?ref)")
    case True
    then have "mirrorDeliver rem wr p src pl auth c ?s =
        (Return None, ?s\<lparr>st_world := w3, st_metrics := RecordPullSuccess src (st_metrics s)\<rparr>)"
      using mirrorDeliver_present [OF c(4,3), where s = ?s] head by simp
    from start [OF this] l(2) True head(2) w1(2) w2(2) show ?thesis by (simp add: inPlace_def Inr)
  next
    case False
    obtain w4 where w4: "t_EnsureRepository (p_target p) (mp_repo pl) w3 = (None, w4)" "store w4 = store w3"
      using healthy_ensure [OF reg] by blast
    obtain w5 where w5: "pushOnce wr p auth (planned pl) c w4 = (None, w5)" "store w5 ?ref = Some (want ?ref)"
      "\<And>ref. ref \<noteq> ?ref \<Longrightarrow> store w4 ref \<noteq> None \<Longrightarrow> store w5 ref = store w4 ref"
      using healthy_push [OF reg c(3), of "planned pl" w4] by (auto simp: planned_def)
    obtain v w6 where w6: "remoteHead rem (targetOpts p auth) ?ref w5 = (v, w6)" "v \<noteq> Inr None" "store w6 = store w5"
      using healthy_head [OF reg, of w5 ?ref] by (metis Inl_Inr_False Inr_inject option.distinct(1))
    have "mirrorDeliver rem wr p src pl auth c ?s = (Return None, ?s\<lparr>st_world := w6,
        st_metrics := RecordPushSuccess (mp_target pl) (RecordPullSuccess src (st_metrics s))\<rparr>)"
      using mirrorDeliver_pushes [OF c(4,3) mode(1) _ _ w4(1) w5(1) w6(1,2), where s = ?s and src = src] head(1) answer False by simp
    moreover have "keepsWanted want (store (st_world s)) (store w6)"
      unfolding keepsWanted_def using w5(2,3) w6(3) w4(2) head(2) w2(2) w1(2) by (metis option.distinct(1))
    ultimately show ?thesis
      using start [of wr _ "?s\<lparr>st_world := w6, st_metrics := RecordPushSuccess (mp_target pl) (RecordPullSuccess src (st_metrics s))\<rparr>"]
        l(2) w5(2) w6(3) by (simp add: inPlace_def Inr)
  qed
qed

section \<open>A registry that works\<close>

text \<open>
  The world is the list of references that were written, newest first. The source offers one image under every
  reference.
\<close>

type_synonym shelf = "(reference \<times> hash) list"

definition shelfRemote :: "shelf remote" where
  "shelfRemote = \<lparr>now = (\<lambda>_. 1000),
     ParseReference = (\<lambda>s. Inr (Tag (demoRepo ''src.io'' s) ''v1'')), NewTag = (\<lambda>_ s. Inr (demoRepo ''t.io'' s, ''v1'')),
     NewDigest = (\<lambda>_ s. Inr (demoRepo ''t.io'' s, s)), NewHash = (\<lambda>_. Inl EOF), AppendManifests = (\<lambda>_. demoIndex),
     remoteHead = (\<lambda>_ ref w. (case map_of w ref of Some h \<Rightarrow> Inr (Some h) | None \<Rightarrow> Inl (TransportError 404 [] []), w)),
     remoteGet = (\<lambda>_ _ w. (Inr demoDescriptor, w)), remoteImage = (\<lambda>_ _ w. (Inl EOF, w)),
     remoteIndex = (\<lambda>_ _ w. (Inl EOF, w)), sleep = (\<lambda>_ w. (None, w))\<rparr>"

definition shelfWriter :: "shelf writer" where
  "shelfWriter = \<lparr>remoteWrite = (\<lambda>_ ref img w. (None, (ref, projr (img_digest img)) # w)),
     remoteWriteIndex = (\<lambda>_ ref idx w. (None, (ref, projr (idx_digest idx)) # w))\<rparr>"

lemma shelf_push:
  assumes "contentDigest c = Inr h"
  shows "pushOnce shelfWriter p auth de c w = (None, (de_targetRef de, h) # w)"
  using assms by (auto simp: pushOnce_def shelfWriter_def contentDigest_def split: content.splits)

lemma shelf_healthyI:
  assumes "\<And>w. t_BasicAuth (p_target p) w = (Inr auth, w)" "\<And>repo w. t_EnsureRepository (p_target p) repo w = (None, w)"
  shows "healthy shelfRemote shelfWriter p auth map_of (\<lambda>_. demoDescriptor)"
proof -
  have "remoteGet shelfRemote opts ref w = (Inr demoDescriptor, w)"
    "remoteHead shelfRemote opts ref w = (case map_of w ref of Some h \<Rightarrow> Inr (Some h) | None \<Rightarrow> Inl (TransportError 404 [] []), w)"
    for opts ref w by (simp_all add: shelfRemote_def)
  with assms show ?thesis by (simp add: healthy_def shelf_push isNotFoundError_def split: option.split)
qed

section \<open>Properties\<close>

text \<open>
  Property C38. With digest pulls a successful call can leave its tag without an image: when the target
  repository already holds the digest the pod runs, under another tag or none, \<open>Mirror\<close> returns success after
  that one look and the tag, which nothing has written before, still does not exist.
\<close>

theorem Mirror_digest_present_no_tag:
  assumes "healthy rem wr p auth store catalog" and "restful (failureCooldown p) (st_ledger s)"
    and "mirrorPrepare rem p src meta = Inr pl" "mp_usePodDigest pl" "mp_havePodDigest pl"
    and "mp_targetRef pl = Tag ctx tag"
    and "NewDigest rem (t_Insecure (p_target p)) (rp_name ctx @ ''@'' @ mp_podDigest pl) = Inr (dctx, d)"
    and "store (st_world s) (Digest dctx d) \<noteq> None" and "store (st_world s) (mp_targetRef pl) = None"
  shows "\<exists>s'. Mirror rem wr p src meta s = (Return None, s') \<and> store (st_world s') (mp_targetRef pl) = None"
proof -
  obtain l where l: "beginProcessing (failureCooldown p) (now rem (st_world s)) (mp_target pl) (st_ledger s) = (Inr False, l)"
    using restful_begin [OF assms(2) mirrorPrepare_slash [OF assms(3)]] by blast
  obtain w1 where w1: "t_BasicAuth (p_target p) (st_world s) = (Inr auth, w1)" "store w1 = store (st_world s)"
    using healthy_auth [OF assms(1)] by blast
  obtain h w2 where w2: "remoteHead rem (targetOpts p auth) (Digest dctx d) w1 = (Inr (Some h), w2)" "store w2 = store w1"
    using assms(8) w1(2) by (cases rule: healthy_head [OF assms(1), of w1 "Digest dctx d"]) auto
  have "mirrorBody rem wr p src pl (s\<lparr>st_ledger := l, st_current := mp_target pl\<rparr>) =
      (Return None, s\<lparr>st_ledger := l, st_current := mp_target pl, st_world := w2\<rparr>)"
    using assms(4-7) w1(1) w2(1)
    by (simp add: mirrorBody_def mirrorAuth_def mirrorPodDigestCheck_def call_def flow_defs split: prod.split)
  with assms(3,9) l w1(2) w2(2) show ?thesis by (simp add: Mirror_def)
qed

definition digestPusher :: "shelf pusher" where
  "digestPusher = NewPusher \<lparr>t_Registry = ''t.io'', t_RepoPrefix = [], t_Insecure = False,
       t_EnsureRepository = (\<lambda>_ w. (None, w)), t_BasicAuth = (\<lambda>w. (Inr ([], []), w))\<rparr>
     False False (Some (\<lambda>r. r)) None 0 60 True [] True [] [] None"

definition digestMeta :: metadata where
  "digestMeta = demoMeta\<lparr>MImageID := ''d1@x''\<rparr>"

definition digestState :: "shelf pst" where
  "digestState = \<lparr>st_ledger = emptyLedger, st_metrics = ResetMetrics,
     st_world = [(Digest (demoRepo ''t.io'' ''t.io/t.io/app:v1@d1@x'') ''t.io/t.io/app:v1@d1@x'', zeroHash)], st_current = []\<rparr>"

theorem Mirror_digest_present_no_tag_witness:
  "\<exists>s'. Mirror shelfRemote shelfWriter digestPusher ''app'' digestMeta digestState = (Return None, s')
     \<and> map_of (st_world s') (Tag (demoRepo ''t.io'' ''t.io/app:v1'') ''v1'') = None"
proof -
  let ?ref = "Tag (demoRepo ''t.io'' ''t.io/app:v1'') ''v1''" and ?d = "''t.io/t.io/app:v1@d1@x''"
  define pl where "pl = projr (mirrorPrepare shelfRemote digestPusher ''app'' digestMeta)"
  have prep: "mirrorPrepare shelfRemote digestPusher ''app'' digestMeta = Inr pl" unfolding pl_def by code_simp
  have facts: "mp_usePodDigest pl" "mp_havePodDigest pl" "mp_targetRef pl = ?ref" "mp_podDigest pl = ''d1@x''"
    unfolding pl_def by code_simp+
  have t: "t_BasicAuth (p_target digestPusher) w = (Inr ([], []), w)" "t_EnsureRepository (p_target digestPusher) repo w = (None, w)"
    for repo w by (simp_all add: digestPusher_def NewPusher_def Let_def split: prod.split)
  have "NewDigest shelfRemote (t_Insecure (p_target digestPusher)) (rp_name (demoRepo ''t.io'' ''t.io/app:v1'') @ ''@'' @ mp_podDigest pl)
      = Inr (demoRepo ''t.io'' ?d, ?d)"
    by (simp add: shelfRemote_def demoRepo_def facts(4))
  moreover have "map_of (st_world digestState) (Digest (demoRepo ''t.io'' ?d) ?d) \<noteq> None" "map_of (st_world digestState) ?ref = None"
    "restful cd (st_ledger digestState)" for cd
    by (simp_all add: digestState_def restful_def emptyLedger_def busyOf_def blockedOf_def)
  ultimately show ?thesis
    using Mirror_digest_present_no_tag [OF shelf_healthyI [OF t], of digestState "''app''" digestMeta pl] prep facts by auto
qed

end
