(* ===== verification/Controllers.thy ===== *)
theory Controllers
  imports RepoPath Images GoErrors
begin

text \<open>
  \<open>internal/controllers/controllers.go\<close>: which objects are looked at, which images are handed to the
  pusher, and what a reconcile or a forced run reports.

  The Kubernetes client and the clock are the record \<open>kube\<close>, the pusher is the function \<open>Pusher\<close>; both act
  on a world of any type.
\<close>

section \<open>Definitions\<close>

subsection \<open>Resources and name matchers\<close>

datatype resourceType = ResourceDeployments | ResourceStatefulSets | ResourceDaemonSets
  | ResourceJobs | ResourceCronJobs | ResourcePods

definition supportedResourceTypes :: "string \<Rightarrow> resourceType option" where
  "supportedResourceTypes s = map_of
     [(''deployments'', ResourceDeployments), (''statefulsets'', ResourceStatefulSets),
      (''daemonsets'', ResourceDaemonSets), (''jobs'', ResourceJobs),
      (''cronjobs'', ResourceCronJobs), (''pods'', ResourcePods)] s"

definition AllResourceTypes :: "resourceType list" where
  "AllResourceTypes = [ResourceDeployments, ResourceStatefulSets, ResourceDaemonSets,
     ResourceJobs, ResourceCronJobs, ResourcePods]"

fun parseWatchLoop ::
  "string list \<Rightarrow> resourceType list \<Rightarrow> string list \<Rightarrow> resourceType list \<times> string list" where
  "parseWatchLoop [] parsed invalid = (parsed, invalid)"
| "parseWatchLoop (raw # vals) parsed invalid =
     (let trimmed = ToLower (TrimSpace raw)
      in if trimmed = [] then parseWatchLoop vals parsed invalid
         else (case supportedResourceTypes trimmed of
                 None \<Rightarrow> parseWatchLoop vals parsed (invalid @ [raw])
               | Some typ \<Rightarrow>
                   if typ \<in> set parsed then parseWatchLoop vals parsed invalid
                   else parseWatchLoop vals (parsed @ [typ]) invalid))"

text \<open>The set \<open>seen\<close> of the source is always the set of the parsed values.\<close>

definition ParseWatchResources :: "string list \<Rightarrow> resourceType list \<times> string list" where
  "ParseWatchResources vals = parseWatchLoop vals [] []"

record nameMatcher =
  matchAll :: bool
  anyNames :: "string set"
  namespaced :: "(string \<times> string) set"

text \<open>One round of the loop; an entry that is blank or has a blank part is passed over.\<close>

definition addMatcherEntry :: "nameMatcher \<Rightarrow> string \<Rightarrow> nameMatcher" where
  "addMatcherEntry m raw =
     (let name = TrimSpace raw
      in if name = [] then m
         else if name = ''*'' then m\<lparr>matchAll := True\<rparr>
         else if Contains name ''/''
         then (let parts = SplitN2 name CHR ''/'';
                   ns = TrimSpace (parts ! 0); val = TrimSpace (parts ! 1)
               in if ns = [] \<or> val = [] then m
                  else m\<lparr>namespaced := insert (ns, val) (namespaced m)\<rparr>)
         else m\<lparr>anyNames := insert name (anyNames m)\<rparr>)"

definition newNameMatcher :: "string list \<Rightarrow> nameMatcher" where
  "newNameMatcher vals = foldl addMatcherEntry \<lparr>matchAll = False, anyNames = {}, namespaced = {}\<rparr> vals"

definition nameMatches :: "nameMatcher \<Rightarrow> string \<Rightarrow> string \<Rightarrow> bool" where
  "nameMatches m namespace name =
     (if matchAll m then True
      else if name \<in> anyNames m then True
      else (namespace, name) \<in> namespaced m)"

subsection \<open>The cluster and the reconciler\<close>

record workload =
  wl_namespace :: string
  wl_name :: string
  wl_spec :: podSpec

record nodeInfo =
  node_arch :: string
  node_os :: string

record 'w kube =
  k_now :: "'w \<Rightarrow> time"
  k_getWorkload :: "resourceType \<Rightarrow> string \<times> string \<Rightarrow> 'w \<Rightarrow> (goerror + workload) \<times> 'w"
  k_listWorkloads :: "resourceType \<Rightarrow> 'w \<Rightarrow> (goerror + workload list) \<times> 'w"
  k_getPod :: "string \<times> string \<Rightarrow> 'w \<Rightarrow> (goerror + pod) \<times> 'w"
  k_listPods :: "'w \<Rightarrow> (goerror + pod list) \<times> 'w"
  k_getNode :: "string \<Rightarrow> 'w \<Rightarrow> (goerror + nodeInfo) \<times> 'w"
  k_getReplicaSetOwners :: "string \<times> string \<Rightarrow> 'w \<Rightarrow> (goerror + ownerReference list) \<times> 'w"
  k_getJobOwners :: "string \<times> string \<Rightarrow> 'w \<Rightarrow> (goerror + ownerReference list) \<times> 'w"

record 'w baseReconciler =
  r_kube :: "'w kube"
  r_mirror :: "string \<Rightarrow> metadata \<Rightarrow> 'w \<Rightarrow> goerror option \<times> 'w"
  CheckNodePlatform :: bool
  AllowedNamespaces :: "string list"
  SkippedNamespaces :: "string set"
  SkipDeployments :: nameMatcher
  SkipStatefulSets :: nameMatcher
  SkipDaemonSets :: nameMatcher
  SkipJobs :: nameMatcher
  SkipCronJobs :: nameMatcher
  SkipPods :: nameMatcher

definition namespaceSkipped :: "'w baseReconciler \<Rightarrow> string \<Rightarrow> bool" where
  "namespaceSkipped r ns \<longleftrightarrow> ns \<in> SkippedNamespaces r"

definition nsAllowed :: "'w baseReconciler \<Rightarrow> string \<Rightarrow> bool" where
  "nsAllowed r ns =
     (if namespaceSkipped r ns then False
      else if AllowedNamespaces r = [] then True
      else if length (AllowedNamespaces r) = 1 \<and> TrimSpace (hd (AllowedNamespaces r)) = ''*'' then True
      else list_ex (\<lambda>n. TrimSpace n = ns) (AllowedNamespaces r))"

text \<open>\<open>apierrors.IsNotFound\<close>: the reason of the first API status in the chain.\<close>

definition IsNotFound :: "goerror \<Rightarrow> bool" where
  "IsNotFound e = (case find is_APIStatus (errChain e) of Some (APIStatus nf _) \<Rightarrow> nf | _ \<Rightarrow> False)"

subsection \<open>Mirroring the images of an object\<close>

definition imageMeta :: "string \<Rightarrow> string \<Rightarrow> string \<Rightarrow> string \<Rightarrow> podImage \<Rightarrow> metadata" where
  "imageMeta ns podName arch os img =
     \<lparr>Namespace = ns, PodName = podName, MContainerName = ContainerName img, Architecture = arch,
      OS = os, MImageID = ImageID img, Registry = []\<rparr>"

fun mirrorLoop ::
  "'w baseReconciler \<Rightarrow> string \<Rightarrow> string \<Rightarrow> string \<Rightarrow> string \<Rightarrow> podImage list
   \<Rightarrow> nat \<Rightarrow> goerror option \<Rightarrow> goerror option \<Rightarrow> 'w \<Rightarrow> (nat \<times> goerror option) \<times> 'w" where
  "mirrorLoop r ns podName arch os [] mirrored firstErr retryErr w =
     ((mirrored, case retryErr of Some e \<Rightarrow> Some e | None \<Rightarrow> firstErr), w)"
| "mirrorLoop r ns podName arch os (img # imgs) mirrored firstErr retryErr w =
     (case r_mirror r (Image img) (imageMeta ns podName arch os img) w of
        (Some e, w1) \<Rightarrow>
          mirrorLoop r ns podName arch os imgs mirrored
            (case firstErr of None \<Rightarrow> Some e | Some f \<Rightarrow> Some f)
            (case retryErr of None \<Rightarrow> asRetry e | Some f \<Rightarrow> Some f) w1
      | (None, w1) \<Rightarrow> mirrorLoop r ns podName arch os imgs (Suc mirrored) firstErr retryErr w1)"

definition mirrorPodImages ::
  "'w baseReconciler \<Rightarrow> string \<Rightarrow> string \<Rightarrow> podImage list \<Rightarrow> string \<Rightarrow> string
   \<Rightarrow> 'w \<Rightarrow> (nat \<times> goerror option) \<times> 'w" where
  "mirrorPodImages r ns podName images arch os w =
     (if images = [] then ((0, None), w)
      else mirrorLoop r ns podName arch os images 0 None None w)"

definition mirrorPodSpec ::
  "'w baseReconciler \<Rightarrow> string \<Rightarrow> string \<Rightarrow> podSpec \<Rightarrow> 'w \<Rightarrow> (nat \<times> goerror option) \<times> 'w" where
  "mirrorPodSpec r ns podName spec w =
     (if \<not> nsAllowed r ns then ((0, None), w)
      else mirrorPodImages r ns podName (ImagesFromPodSpec (Some spec)) [] [] w)"

text \<open>A reconcile result: the delay of \<open>RequeueAfter\<close> (zero when unset) and the error.\<close>

type_synonym reconcileResult = "duration \<times> goerror option"

definition mirrorResultForError :: "time \<Rightarrow> goerror option \<Rightarrow> reconcileResult" where
  "mirrorResultForError now err =
     (case err of
        None \<Rightarrow> (0, None)
      | Some e \<Rightarrow>
          (case asRetry e of
             Some (RetryError cause at) \<Rightarrow> if at - now > 0 then (at - now, None) else (0, Some e)
           | _ \<Rightarrow> (0, Some e)))"

definition processPodSpec ::
  "'w baseReconciler \<Rightarrow> string \<Rightarrow> string \<Rightarrow> podSpec \<Rightarrow> 'w \<Rightarrow> reconcileResult \<times> 'w" where
  "processPodSpec r ns podName spec w =
     (if \<not> nsAllowed r ns then ((0, None), w)
      else (let ((_, err), w1) = mirrorPodSpec r ns podName spec w
            in (mirrorResultForError (k_now (r_kube r) w1) err, w1)))"

definition IgnoreNotFound :: "goerror \<Rightarrow> goerror option" where
  "IgnoreNotFound e = (if IsNotFound e then None else Some e)"

subsection \<open>Reconciling workloads\<close>

definition skipMatcher :: "'w baseReconciler \<Rightarrow> resourceType \<Rightarrow> nameMatcher" where
  "skipMatcher r kind = (case kind of
       ResourceDeployments \<Rightarrow> SkipDeployments r | ResourceStatefulSets \<Rightarrow> SkipStatefulSets r
     | ResourceDaemonSets \<Rightarrow> SkipDaemonSets r | ResourceJobs \<Rightarrow> SkipJobs r
     | ResourceCronJobs \<Rightarrow> SkipCronJobs r | ResourcePods \<Rightarrow> SkipPods r)"

text \<open>The five functions \<open>fetch\<dots>Spec\<close> differ in the type of the object they read.\<close>

definition fetchSpec ::
  "'w baseReconciler \<Rightarrow> resourceType \<Rightarrow> string \<times> string \<Rightarrow> 'w \<Rightarrow> (goerror + string \<times> string \<times> podSpec) \<times> 'w" where
  "fetchSpec r kind key w =
     (let (res, w1) = k_getWorkload (r_kube r) kind key w
      in (map_sum id (\<lambda>obj. (wl_namespace obj, wl_name obj, wl_spec obj)) res, w1))"

definition reconcileWorkload ::
  "'w baseReconciler \<Rightarrow> resourceType \<Rightarrow> string \<times> string \<Rightarrow> 'w \<Rightarrow> reconcileResult \<times> 'w" where
  "reconcileWorkload r kind req w =
     (if \<not> nsAllowed r (fst req) then ((0, None), w)
      else if nameMatches (skipMatcher r kind) (fst req) (snd req) then ((0, None), w)
      else (case fetchSpec r kind req w of
              (Inl e, w1) \<Rightarrow> ((0, IgnoreNotFound e), w1)
            | (Inr (ns, name, spec), w1) \<Rightarrow> processPodSpec r ns name spec w1))"

subsection \<open>Reconciling pods\<close>

definition nodePlatform ::
  "'w baseReconciler \<Rightarrow> pod \<Rightarrow> 'w \<Rightarrow> (goerror + string \<times> string) \<times> 'w" where
  "nodePlatform r p w =
     (if \<not> CheckNodePlatform r then (Inr ([], []), w)
      else (let name = TrimSpace (nodeName (pod_spec p))
            in if name = [] then (Inr ([], []), w)
               else (case k_getNode (r_kube r) name w of
                       (Inl e, w1) \<Rightarrow> if IsNotFound e then (Inr ([], []), w1) else (Inl e, w1)
                     | (Inr n, w1) \<Rightarrow> (Inr (TrimSpace (node_arch n), TrimSpace (node_os n)), w1))))"

definition shouldSkipReplicaSetOwner ::
  "'w baseReconciler \<Rightarrow> string \<Rightarrow> string \<Rightarrow> 'w \<Rightarrow> (goerror + bool) \<times> 'w" where
  "shouldSkipReplicaSetOwner r namespace name w =
     (case k_getReplicaSetOwners (r_kube r) (namespace, name) w of
        (Inl e, w1) \<Rightarrow> if IsNotFound e then (Inr False, w1) else (Inl e, w1)
      | (Inr owners, w1) \<Rightarrow>
          (Inr (list_ex (\<lambda>ow. owner_kind ow = ''Deployment''
             \<and> nameMatches (SkipDeployments r) namespace (owner_name ow)) owners), w1))"

definition shouldSkipJobOwner ::
  "'w baseReconciler \<Rightarrow> string \<Rightarrow> string \<Rightarrow> 'w \<Rightarrow> (goerror + bool) \<times> 'w" where
  "shouldSkipJobOwner r namespace name w =
     (if nameMatches (SkipJobs r) namespace name then (Inr True, w)
      else (case k_getJobOwners (r_kube r) (namespace, name) w of
              (Inl e, w1) \<Rightarrow> if IsNotFound e then (Inr False, w1) else (Inl e, w1)
            | (Inr owners, w1) \<Rightarrow>
                (Inr (list_ex (\<lambda>ow. owner_kind ow = ''CronJob''
                   \<and> nameMatches (SkipCronJobs r) namespace (owner_name ow)) owners), w1)))"

definition skipOwner ::
  "'w baseReconciler \<Rightarrow> string \<Rightarrow> ownerReference \<Rightarrow> 'w \<Rightarrow> (goerror + bool) \<times> 'w" where
  "skipOwner r namespace ow w =
     (if owner_kind ow = ''ReplicaSet'' then shouldSkipReplicaSetOwner r namespace (owner_name ow) w
      else if owner_kind ow = ''Deployment'' then (Inr (nameMatches (SkipDeployments r) namespace (owner_name ow)), w)
      else if owner_kind ow = ''StatefulSet'' then (Inr (nameMatches (SkipStatefulSets r) namespace (owner_name ow)), w)
      else if owner_kind ow = ''DaemonSet'' then (Inr (nameMatches (SkipDaemonSets r) namespace (owner_name ow)), w)
      else if owner_kind ow = ''Job'' then shouldSkipJobOwner r namespace (owner_name ow) w
      else (Inr False, w))"

fun skipOwners ::
  "'w baseReconciler \<Rightarrow> string \<Rightarrow> ownerReference list \<Rightarrow> 'w \<Rightarrow> (goerror + bool) \<times> 'w" where
  "skipOwners r namespace [] w = (Inr False, w)"
| "skipOwners r namespace (ow # ows) w =
     (case skipOwner r namespace ow w of
        (Inl e, w1) \<Rightarrow> (Inl e, w1)
      | (Inr True, w1) \<Rightarrow> (Inr True, w1)
      | (Inr False, w1) \<Rightarrow> skipOwners r namespace ows w1)"

definition shouldSkipPod :: "'w baseReconciler \<Rightarrow> pod \<Rightarrow> 'w \<Rightarrow> (goerror + bool) \<times> 'w" where
  "shouldSkipPod r p w =
     (if nameMatches (SkipPods r) (pod_namespace p) (pod_name p) then (Inr True, w)
      else skipOwners r (pod_namespace p) (pod_owners p) w)"

definition podIsLive :: "pod \<Rightarrow> bool" where
  "podIsLive p \<longleftrightarrow> phase (pod_status p) = ''Pending'' \<or> phase (pod_status p) = ''Running''"

definition reconcilePod :: "'w baseReconciler \<Rightarrow> string \<times> string \<Rightarrow> 'w \<Rightarrow> reconcileResult \<times> 'w" where
  "reconcilePod r req w =
     (if \<not> nsAllowed r (fst req) then ((0, None), w)
      else if nameMatches (SkipPods r) (fst req) (snd req) then ((0, None), w)
      else (case k_getPod (r_kube r) req w of
              (Inl e, w1) \<Rightarrow> ((0, IgnoreNotFound e), w1)
            | (Inr p, w1) \<Rightarrow>
                (case shouldSkipPod r p w1 of
                   (Inl e, w2) \<Rightarrow> ((0, Some e), w2)
                 | (Inr True, w2) \<Rightarrow> ((0, None), w2)
                 | (Inr False, w2) \<Rightarrow>
                     if podIsLive p
                     then (case nodePlatform r p w2 of
                             (Inl e, w3) \<Rightarrow> ((0, Some e), w3)
                           | (Inr (arch, os), w3) \<Rightarrow>
                               (let ((_, err), w4) = mirrorPodImages r (pod_namespace p) (pod_name p)
                                                       (ImagesFromPod (Some p)) arch os w3
                                in (mirrorResultForError (k_now (r_kube r) w4) err, w4)))
                     else ((0, None), w2))))"

subsection \<open>A forced run over all objects\<close>

text \<open>The counters and collected errors of \<open>ForceReconcile\<close>.\<close>

record tally =
  ta_workloads :: nat
  ta_images :: nat
  ta_errs :: "goerror list"

definition kindLabel :: "resourceType \<Rightarrow> string" where
  "kindLabel kind = (case kind of
       ResourceDeployments \<Rightarrow> ''deployment'' | ResourceStatefulSets \<Rightarrow> ''statefulset''
     | ResourceDaemonSets \<Rightarrow> ''daemonset'' | ResourceJobs \<Rightarrow> ''job''
     | ResourceCronJobs \<Rightarrow> ''cronjob'' | ResourcePods \<Rightarrow> ''pod'')"

definition addOutcome :: "resourceType \<Rightarrow> string \<Rightarrow> string \<Rightarrow> nat \<times> goerror option \<Rightarrow> tally \<Rightarrow> tally" where
  "addOutcome kind ns name res ta =
     (let ta = ta\<lparr>ta_images := ta_images ta + fst res, ta_workloads := ta_workloads ta + 1\<rparr>
      in case snd res of
           None \<Rightarrow> ta
         | Some e \<Rightarrow> ta\<lparr>ta_errs := ta_errs ta @ [Wrapf (kindLabel kind @ '' '' @ ns @ ''/'' @ name @ '': '') e []]\<rparr>)"

fun forceWorkloads ::
  "'w baseReconciler \<Rightarrow> resourceType \<Rightarrow> workload list \<Rightarrow> tally \<Rightarrow> 'w \<Rightarrow> tally \<times> 'w" where
  "forceWorkloads r kind [] ta w = (ta, w)"
| "forceWorkloads r kind (obj # objs) ta w =
     (if \<not> nsAllowed r (wl_namespace obj) \<or> nameMatches (skipMatcher r kind) (wl_namespace obj) (wl_name obj)
      then forceWorkloads r kind objs ta w
      else (let (res, w1) = mirrorPodSpec r (wl_namespace obj) (wl_name obj) (wl_spec obj) w
            in forceWorkloads r kind objs (addOutcome kind (wl_namespace obj) (wl_name obj) res ta) w1))"

text \<open>For pods an error of the cluster ends the run; \<^term>\<open>Inl\<close> is that error with the counters so far.\<close>

fun forcePods ::
  "'w baseReconciler \<Rightarrow> pod list \<Rightarrow> tally \<Rightarrow> 'w \<Rightarrow> (goerror \<times> tally + tally) \<times> 'w" where
  "forcePods r [] ta w = (Inr ta, w)"
| "forcePods r (p # ps) ta w =
     (if \<not> nsAllowed r (pod_namespace p) then forcePods r ps ta w
      else (case shouldSkipPod r p w of
              (Inl e, w1) \<Rightarrow> (Inl (e, ta), w1)
            | (Inr True, w1) \<Rightarrow> forcePods r ps ta w1
            | (Inr False, w1) \<Rightarrow>
                if \<not> podIsLive p then forcePods r ps ta w1
                else (case nodePlatform r p w1 of
                        (Inl e, w2) \<Rightarrow> (Inl (e, ta), w2)
                      | (Inr (arch, os), w2) \<Rightarrow>
                          (let (res, w3) = mirrorPodImages r (pod_namespace p) (pod_name p)
                                             (ImagesFromPod (Some p)) arch os w2
                           in forcePods r ps (addOutcome ResourcePods (pod_namespace p) (pod_name p) res ta) w3))))"

fun forceResources ::
  "'w baseReconciler \<Rightarrow> resourceType list \<Rightarrow> tally \<Rightarrow> 'w \<Rightarrow> (goerror \<times> tally + tally) \<times> 'w" where
  "forceResources r [] ta w = (Inr ta, w)"
| "forceResources r (res # ress) ta w =
     (if res = ResourcePods
      then (case k_listPods (r_kube r) w of
              (Inl e, w1) \<Rightarrow> (Inl (e, ta), w1)
            | (Inr ps, w1) \<Rightarrow>
                (case forcePods r ps ta w1 of
                   (Inl x, w2) \<Rightarrow> (Inl x, w2)
                 | (Inr ta', w2) \<Rightarrow> forceResources r ress ta' w2))
      else (case k_listWorkloads (r_kube r) res w of
              (Inl e, w1) \<Rightarrow> (Inl (e, ta), w1)
            | (Inr objs, w1) \<Rightarrow>
                (let (ta', w2) = forceWorkloads r res objs ta w1 in forceResources r ress ta' w2)))"

text \<open>Workloads, images and error of the run. An error of the cluster hides the collected ones.\<close>

definition ForceReconcile ::
  "'w baseReconciler \<Rightarrow> resourceType list \<Rightarrow> 'w \<Rightarrow> (nat \<times> nat \<times> goerror option) \<times> 'w" where
  "ForceReconcile r watch w =
     (let watch = (if watch = [] then AllResourceTypes else watch)
      in case forceResources r watch \<lparr>ta_workloads = 0, ta_images = 0, ta_errs = []\<rparr> w of
           (Inl (e, ta), w1) \<Rightarrow> ((ta_workloads ta, ta_images ta, Some e), w1)
         | (Inr ta, w1) \<Rightarrow>
             ((ta_workloads ta, ta_images ta, if ta_errs ta = [] then None else Some (Joined (ta_errs ta))), w1))"

subsection \<open>Set-up\<close>

record skipConfig =
  skc_Namespaces :: "string list"
  skc_Deployments :: "string list"
  skc_StatefulSets :: "string list"
  skc_DaemonSets :: "string list"
  skc_Jobs :: "string list"
  skc_CronJobs :: "string list"
  skc_Pods :: "string list"

definition newBase ::
  "'w kube \<Rightarrow> (string \<Rightarrow> metadata \<Rightarrow> 'w \<Rightarrow> goerror option \<times> 'w) \<Rightarrow> string list \<Rightarrow> skipConfig \<Rightarrow> bool
   \<Rightarrow> 'w baseReconciler" where
  "newBase k pusher allowedNS cfg checkNode =
     \<lparr>r_kube = k, r_mirror = pusher, CheckNodePlatform = checkNode, AllowedNamespaces = allowedNS,
      SkippedNamespaces = set (filter (\<lambda>n. n \<noteq> []) (map TrimSpace (skc_Namespaces cfg))),
      SkipDeployments = newNameMatcher (skc_Deployments cfg), SkipStatefulSets = newNameMatcher (skc_StatefulSets cfg),
      SkipDaemonSets = newNameMatcher (skc_DaemonSets cfg), SkipJobs = newNameMatcher (skc_Jobs cfg),
      SkipCronJobs = newNameMatcher (skc_CronJobs cfg), SkipPods = newNameMatcher (skc_Pods cfg)\<rparr>"

text \<open>
  What the builder of \<open>controller-runtime\<close> is told about a controller; the manager that accepts it is an
  argument. Workloads are reconciled when their specification changes, pods on every change, since the
  image IDs are in their status.
\<close>

datatype eventFilter = GenerationChangedPredicate | ResourceVersionChangedPredicate

record controllerSpec =
  ctl_for :: resourceType
  ctl_maxConcurrent :: int
  ctl_filter :: eventFilter

definition setupWorkloadController ::
  "(controllerSpec \<Rightarrow> 'w \<Rightarrow> goerror option \<times> 'w) \<Rightarrow> resourceType \<Rightarrow> int \<Rightarrow> 'w \<Rightarrow> goerror option \<times> 'w" where
  "setupWorkloadController mgr obj maxConcurrent =
     mgr \<lparr>ctl_for = obj, ctl_maxConcurrent = maxConcurrent, ctl_filter = GenerationChangedPredicate\<rparr>"

definition podSetupWithManager ::
  "(controllerSpec \<Rightarrow> 'w \<Rightarrow> goerror option \<times> 'w) \<Rightarrow> int \<Rightarrow> 'w \<Rightarrow> goerror option \<times> 'w" where
  "podSetupWithManager mgr maxConcurrent =
     mgr \<lparr>ctl_for = ResourcePods, ctl_maxConcurrent = maxConcurrent, ctl_filter = ResourceVersionChangedPredicate\<rparr>"

fun registerAll ::
  "(controllerSpec \<Rightarrow> 'w \<Rightarrow> goerror option \<times> 'w) \<Rightarrow> int \<Rightarrow> resourceType list \<Rightarrow> 'w \<Rightarrow> goerror option \<times> 'w" where
  "registerAll mgr n [] w = (None, w)"
| "registerAll mgr n (res # ress) w =
     (case (if res = ResourcePods then podSetupWithManager mgr n w else setupWorkloadController mgr res n w) of
        (Some e, w1) \<Rightarrow> (Some e, w1)
      | (None, w1) \<Rightarrow> registerAll mgr n ress w1)"

definition SetupAll ::
  "(controllerSpec \<Rightarrow> 'w \<Rightarrow> goerror option \<times> 'w) \<Rightarrow> 'w kube
   \<Rightarrow> (string \<Rightarrow> metadata \<Rightarrow> 'w \<Rightarrow> goerror option \<times> 'w) \<Rightarrow> string list \<Rightarrow> skipConfig \<Rightarrow> resourceType list
   \<Rightarrow> int \<Rightarrow> bool \<Rightarrow> 'w \<Rightarrow> (goerror + 'w baseReconciler \<times> resourceType list) \<times> 'w" where
  "SetupAll mgr k pusher allowedNS cfg watch maxConcurrent checkNode w =
     (let base = newBase k pusher allowedNS cfg checkNode;
          n = (if maxConcurrent \<le> 0 then 1 else maxConcurrent);
          watch = (if watch = [] then AllResourceTypes else watch)
      in case registerAll mgr n watch w of
           (Some e, w1) \<Rightarrow> (Inl e, w1)
         | (None, w1) \<Rightarrow> (Inr (base, watch), w1))"

end
