(* ===== verification/ControllerProps.thy ===== *)
theory ControllerProps
  imports Controllers
begin

text \<open>
  What the controllers guarantee: which names a skip list covers, that one failing image does not keep
  the others back, which pods are left out, and, in the locale \<open>mirror_client\<close>, that whatever the pusher
  and the cluster keep invariant is kept by every reconcile and every forced run.
\<close>

section \<open>Skip lists\<close>

text \<open>What one entry of a skip list covers.\<close>

definition entryCovers :: "string \<Rightarrow> string \<Rightarrow> string \<Rightarrow> bool" where
  "entryCovers raw namespace name \<longleftrightarrow>
     (let e = TrimSpace raw
      in e = ''*''
         \<or> CHR ''/'' \<notin> set e \<and> e \<noteq> [] \<and> name = e
         \<or> CHR ''/'' \<in> set e \<and> namespace \<noteq> [] \<and> name \<noteq> []
             \<and> namespace = TrimSpace (takeWhile (\<lambda>c. c \<noteq> CHR ''/'') e)
             \<and> name = TrimSpace (tl (dropWhile (\<lambda>c. c \<noteq> CHR ''/'') e)))"

lemma addMatcherEntry_matches:
  "nameMatches (addMatcherEntry m raw) ns name \<longleftrightarrow> nameMatches m ns name \<or> entryCovers raw ns name"
proof -
  define e where "e = TrimSpace raw"
  consider "e = []" | "e = ''*''" | "CHR ''/'' \<in> set e" | "CHR ''/'' \<notin> set e" "e \<noteq> []" "e \<noteq> ''*''" by blast
  then show ?thesis
  proof cases
    case 3
    define a b where "a = TrimSpace (takeWhile (\<lambda>c. c \<noteq> CHR ''/'') e)"
      and "b = TrimSpace (tl (dropWhile (\<lambda>c. c \<noteq> CHR ''/'') e))"
    from 3 have ne: "e \<noteq> []" "e \<noteq> ''*''" by auto
    with 3 have "addMatcherEntry m raw = (if a = [] \<or> b = [] then m else m\<lparr>namespaced := insert (a, b) (namespaced m)\<rparr>)"
      by (simp add: addMatcherEntry_def e_def [symmetric] a_def b_def SplitN2_eq Let_def)
    moreover have "entryCovers raw ns name \<longleftrightarrow> ns \<noteq> [] \<and> name \<noteq> [] \<and> ns = a \<and> name = b"
      using 3 ne by (simp add: entryCovers_def e_def [symmetric] a_def b_def Let_def)
    ultimately show ?thesis by (auto simp: nameMatches_def)
  qed (auto simp: addMatcherEntry_def entryCovers_def e_def [symmetric] nameMatches_def Let_def)
qed

lemma matcher_matches:
  "nameMatches (foldl addMatcherEntry m vals) ns name \<longleftrightarrow> nameMatches m ns name \<or> (\<exists>raw \<in> set vals. entryCovers raw ns name)"
  by (induction vals arbitrary: m) (auto simp: addMatcherEntry_matches)

section \<open>Mirroring the images of an object\<close>

text \<open>All images in order, each with its outcome.\<close>

fun runImages ::
  "(string \<Rightarrow> metadata \<Rightarrow> 'w \<Rightarrow> goerror option \<times> 'w) \<Rightarrow> (podImage \<Rightarrow> metadata) \<Rightarrow> podImage list \<Rightarrow> 'w
   \<Rightarrow> goerror option list \<times> 'w" where
  "runImages f mt [] w = ([], w)"
| "runImages f mt (img # imgs) w =
     (let (o1, w1) = f (Image img) (mt img) w; (os, w2) = runImages f mt imgs w1 in (o1 # os, w2))"

definition errorsOf :: "goerror option list \<Rightarrow> goerror list" where
  "errorsOf os = List.map_filter (\<lambda>x. x) os"

lemma errorsOf_simps [simp]:
  "errorsOf [] = []" "errorsOf (None # os) = errorsOf os" "errorsOf (Some e # os) = e # errorsOf os"
  by (simp_all add: errorsOf_def map_filter_simps)

definition firstRetry :: "goerror list \<Rightarrow> goerror option" where
  "firstRetry es = Option.bind (find (\<lambda>e. asRetry e \<noteq> None) es) asRetry"

lemma firstRetry_simps [simp]:
  "firstRetry [] = None"
  "firstRetry (e # es) = (case asRetry e of Some r \<Rightarrow> Some r | None \<Rightarrow> firstRetry es)"
  by (auto simp: firstRetry_def split: option.split)

text \<open>The error an object reports: the first with a retry time, otherwise the first.\<close>

definition reportedError :: "goerror list \<Rightarrow> goerror option" where
  "reportedError es = (case firstRetry es of Some x \<Rightarrow> Some x | None \<Rightarrow> (case es of [] \<Rightarrow> None | e # _ \<Rightarrow> Some e))"

text \<open>The same in the middle of the loop, with the candidates found so far.\<close>

definition orElse :: "'a option \<Rightarrow> 'a option \<Rightarrow> 'a option" where
  "orElse a b = (case a of None \<Rightarrow> b | Some x \<Rightarrow> Some x)"

lemma orElse_simps [simp]: "orElse None b = b" "orElse (Some x) b = Some x" "orElse a None = a"
  "orElse (orElse a b) c = orElse a (orElse b c)"
  by (simp_all add: orElse_def split: option.split)

definition headOption :: "'a list \<Rightarrow> 'a option" where
  "headOption xs = (case xs of [] \<Rightarrow> None | x # _ \<Rightarrow> Some x)"

lemma headOption_simps [simp]: "headOption [] = None" "headOption (x # xs) = Some x"
  by (simp_all add: headOption_def)

lemma reportedError_eq: "reportedError es = orElse (firstRetry es) (headOption es)"
  by (simp add: reportedError_def orElse_def headOption_def)

lemma firstRetry_Cons: "firstRetry (e # es) = orElse (asRetry e) (firstRetry es)"
  by (simp add: orElse_def split: option.split)

lemma mirrorLoop_step:
  "mirrorLoop r ns pn arch os (img # imgs) n fe rt w =
     (case r_mirror r (Image img) (imageMeta ns pn arch os img) w of
        (Some e, w1) \<Rightarrow> mirrorLoop r ns pn arch os imgs n (orElse fe (Some e)) (orElse rt (asRetry e)) w1
      | (None, w1) \<Rightarrow> mirrorLoop r ns pn arch os imgs (Suc n) fe rt w1)"
  by (simp add: orElse_def split: prod.split option.split)

lemma mirrorLoop_eq:
  assumes "runImages (r_mirror r) (imageMeta ns pn arch os) imgs w = (res, w')"
  shows "mirrorLoop r ns pn arch os imgs n fe rt w =
    ((n + length (filter (\<lambda>x. x = None) res),
      orElse (orElse rt (firstRetry (errorsOf res))) (orElse fe (headOption (errorsOf res)))), w')"
  using assms
proof (induction imgs arbitrary: n fe rt w res)
  case (Cons img imgs)
  obtain o1 w1 where o1: "r_mirror r (Image img) (imageMeta ns pn arch os img) w = (o1, w1)" by fastforce
  obtain os1 where rs: "runImages (r_mirror r) (imageMeta ns pn arch os) imgs w1 = (os1, w')" "res = o1 # os1"
    using Cons.prems o1 by (auto simp: Let_def split: prod.splits)
  show ?case
  proof (cases o1)
    case None
    with Cons.IH [OF rs(1)] o1 rs(2) show ?thesis by (simp add: mirrorLoop_step del: mirrorLoop.simps)
  next
    case (Some e)
    with Cons.IH [OF rs(1)] o1 rs(2) show ?thesis
      by (simp add: mirrorLoop_step firstRetry_Cons del: mirrorLoop.simps firstRetry_simps)
  qed
qed (simp add: orElse_def split: option.split)

lemma runImages_length:
  "runImages f mt imgs w = (res, w') \<Longrightarrow> length res = length imgs"
  by (induction imgs arbitrary: w res) (auto simp: Let_def split: prod.splits)

lemma mirrorPodImages_eq:
  assumes "runImages (r_mirror r) (imageMeta ns pn arch os) imgs w = (res, w')"
  shows "mirrorPodImages r ns pn imgs arch os w = ((length (filter (\<lambda>x. x = None) res), reportedError (errorsOf res)), w')"
  using mirrorLoop_eq [OF assms, of 0 None None] assms
  by (cases "imgs = []") (auto simp: mirrorPodImages_def reportedError_eq)

section \<open>Pods of skipped owners\<close>

text \<open>A cluster whose owner lookups succeed and change nothing.\<close>

definition ownersReadable ::
  "'w baseReconciler \<Rightarrow> (string \<times> string \<Rightarrow> ownerReference list) \<Rightarrow> (string \<times> string \<Rightarrow> ownerReference list) \<Rightarrow> 'w \<Rightarrow> bool" where
  "ownersReadable r rs js w \<longleftrightarrow>
     (\<forall>key. k_getReplicaSetOwners (r_kube r) key w = (Inr (rs key), w))
     \<and> (\<forall>key. k_getJobOwners (r_kube r) key w = (Inr (js key), w))"

text \<open>An owner that makes a pod be left out: directly by its kind and name, or one level up.\<close>

definition ownerSkipped ::
  "'w baseReconciler \<Rightarrow> (string \<times> string \<Rightarrow> ownerReference list) \<Rightarrow> (string \<times> string \<Rightarrow> ownerReference list)
   \<Rightarrow> string \<Rightarrow> ownerReference \<Rightarrow> bool" where
  "ownerSkipped r rs js ns ow \<longleftrightarrow>
     owner_kind ow = ''Deployment'' \<and> nameMatches (SkipDeployments r) ns (owner_name ow)
     \<or> owner_kind ow = ''StatefulSet'' \<and> nameMatches (SkipStatefulSets r) ns (owner_name ow)
     \<or> owner_kind ow = ''DaemonSet'' \<and> nameMatches (SkipDaemonSets r) ns (owner_name ow)
     \<or> owner_kind ow = ''Job'' \<and> nameMatches (SkipJobs r) ns (owner_name ow)
     \<or> owner_kind ow = ''ReplicaSet'' \<and> (\<exists>d \<in> set (rs (ns, owner_name ow)).
         owner_kind d = ''Deployment'' \<and> nameMatches (SkipDeployments r) ns (owner_name d))
     \<or> owner_kind ow = ''Job'' \<and> (\<exists>c \<in> set (js (ns, owner_name ow)).
         owner_kind c = ''CronJob'' \<and> nameMatches (SkipCronJobs r) ns (owner_name c))"

lemma skipOwner_eq:
  assumes "ownersReadable r rs js w"
  shows "skipOwner r ns ow w = (Inr (ownerSkipped r rs js ns ow), w)"
proof -
  from assms have reads: "k_getReplicaSetOwners (r_kube r) key w = (Inr (rs key), w)"
    "k_getJobOwners (r_kube r) key w = (Inr (js key), w)" for key
    by (simp_all only: ownersReadable_def)
  consider "owner_kind ow = ''ReplicaSet''" | "owner_kind ow = ''Deployment''" | "owner_kind ow = ''StatefulSet''"
    | "owner_kind ow = ''DaemonSet''" | "owner_kind ow = ''Job''"
    | "owner_kind ow \<notin> {''ReplicaSet'', ''Deployment'', ''StatefulSet'', ''DaemonSet'', ''Job''}" by blast
  then show ?thesis
    by cases (auto simp: skipOwner_def ownerSkipped_def shouldSkipReplicaSetOwner_def shouldSkipJobOwner_def
        reads list_ex_iff)
qed

lemma skipOwners_eq:
  "ownersReadable r rs js w \<Longrightarrow>
     skipOwners r ns ows w = (Inr (\<exists>ow \<in> set ows. ownerSkipped r rs js ns ow), w)"
proof (induction ows)
  case (Cons ow ows)
  then show ?case by (cases "ownerSkipped r rs js ns ow") (simp_all add: skipOwner_eq [OF Cons.prems])
qed simp

section \<open>What the pusher keeps, the controllers keep\<close>

locale mirror_client =
  fixes r :: "'w baseReconciler" and Inv :: "'w \<Rightarrow> bool"
  assumes keeps_mirror: "Inv w \<Longrightarrow> Inv (snd (r_mirror r src meta w))"
    and keeps_getWorkload: "Inv w \<Longrightarrow> Inv (snd (k_getWorkload (r_kube r) kind key w))"
    and keeps_listWorkloads: "Inv w \<Longrightarrow> Inv (snd (k_listWorkloads (r_kube r) kind w))"
    and keeps_getPod: "Inv w \<Longrightarrow> Inv (snd (k_getPod (r_kube r) key w))"
    and keeps_listPods: "Inv w \<Longrightarrow> Inv (snd (k_listPods (r_kube r) w))"
    and keeps_getNode: "Inv w \<Longrightarrow> Inv (snd (k_getNode (r_kube r) n w))"
    and keeps_getReplicaSet: "Inv w \<Longrightarrow> Inv (snd (k_getReplicaSetOwners (r_kube r) key w))"
    and keeps_getJob: "Inv w \<Longrightarrow> Inv (snd (k_getJobOwners (r_kube r) key w))"
begin

lemma mirrorLoop_keeps: "Inv w \<Longrightarrow> Inv (snd (mirrorLoop r ns pn arch os imgs n fe rt w))"
proof (induction imgs arbitrary: n fe rt w)
  case (Cons img imgs)
  with keeps_mirror [of w "Image img" "imageMeta ns pn arch os img"] show ?case
    by (auto split: prod.split option.split)
qed simp

lemma mirrorPodImages_keeps: "Inv w \<Longrightarrow> Inv (snd (mirrorPodImages r ns pn imgs arch os w))"
  by (simp add: mirrorPodImages_def mirrorLoop_keeps)

lemma mirrorPodSpec_keeps: "Inv w \<Longrightarrow> Inv (snd (mirrorPodSpec r ns pn spec w))"
  by (simp add: mirrorPodSpec_def mirrorPodImages_keeps)

lemma processPodSpec_keeps: "Inv w \<Longrightarrow> Inv (snd (processPodSpec r ns pn spec w))"
  using mirrorPodSpec_keeps [of w ns pn spec] by (auto simp: processPodSpec_def split: prod.split)

lemma skipOwners_keeps: "Inv w \<Longrightarrow> Inv (snd (skipOwners r ns ows w))"
proof (induction ows arbitrary: w)
  case (Cons ow ows)
  have "Inv (snd (skipOwner r ns ow w))"
    using Cons.prems keeps_getReplicaSet [of w "(ns, owner_name ow)"] keeps_getJob [of w "(ns, owner_name ow)"]
    by (auto simp: skipOwner_def shouldSkipReplicaSetOwner_def shouldSkipJobOwner_def split: prod.split sum.split)
  with Cons.IH show ?case by (auto split: prod.split sum.split bool.split)
qed simp

lemma shouldSkipPod_keeps: "Inv w \<Longrightarrow> Inv (snd (shouldSkipPod r p w))"
  by (simp add: shouldSkipPod_def skipOwners_keeps)

lemma nodePlatform_keeps: "Inv w \<Longrightarrow> Inv (snd (nodePlatform r p w))"
  using keeps_getNode [of w "TrimSpace (nodeName (pod_spec p))"]
  by (auto simp: nodePlatform_def Let_def split: prod.split sum.split)

lemma reconcileWorkload_keeps: "Inv w \<Longrightarrow> Inv (snd (reconcileWorkload r kind req w))"
  using keeps_getWorkload [of w kind req]
  by (auto simp: reconcileWorkload_def fetchSpec_def Let_def processPodSpec_keeps split: prod.split sum.split)

lemma forceWorkloads_keeps: "Inv w \<Longrightarrow> Inv (snd (forceWorkloads r kind objs ta w))"
proof (induction objs arbitrary: ta w)
  case (Cons obj objs)
  with mirrorPodSpec_keeps [of w "wl_namespace obj" "wl_name obj" "wl_spec obj"] show ?case
    by (auto simp: Let_def split: prod.split)
qed simp

lemma forcePods_keeps: "Inv w \<Longrightarrow> Inv (snd (forcePods r ps ta w))"
proof (induction ps arbitrary: ta w)
  case (Cons p ps)
  obtain sk w1 where sk: "shouldSkipPod r p w = (sk, w1)" by fastforce
  obtain np w2 where np: "nodePlatform r p w1 = (np, w2)" by fastforce
  have "Inv w1" "Inv w2"
    using shouldSkipPod_keeps [OF Cons.prems, of p] nodePlatform_keeps [of w1 p] sk np by auto
  moreover have "Inv (snd (mirrorPodImages r ns pn imgs arch os w2))" for ns pn imgs arch os
    using \<open>Inv w2\<close> by (rule mirrorPodImages_keeps)
  then have "mirrorPodImages r ns pn imgs arch os w2 = (res, w3) \<Longrightarrow> Inv w3" for ns pn imgs arch os res w3
    by (metis snd_conv)
  ultimately show ?case
    using Cons by (auto simp: sk np Let_def split: prod.split sum.split bool.split)
qed simp

lemma forceResources_keeps: "Inv w \<Longrightarrow> Inv (snd (forceResources r ress ta w))"
proof (induction ress arbitrary: ta w)
  case (Cons res ress)
  show ?case
  proof (cases "res = ResourcePods")
    case True
    have "k_listPods (r_kube r) w = (x, w1) \<Longrightarrow> Inv w1" for x w1
      using keeps_listPods [OF Cons.prems] by simp
    moreover have "Inv w1 \<Longrightarrow> forcePods r ps ta w1 = (x, w2) \<Longrightarrow> Inv w2" for ps w1 x w2
      using forcePods_keeps [of w1 ps ta] by simp
    ultimately show ?thesis using True Cons.IH by (fastforce split: prod.split sum.split)
  next
    case False
    have "k_listWorkloads (r_kube r) res w = (x, w1) \<Longrightarrow> Inv w1" for x w1
      using keeps_listWorkloads [OF Cons.prems, of res] by simp
    moreover have "Inv w1 \<Longrightarrow> forceWorkloads r res objs ta w1 = (x, w2) \<Longrightarrow> Inv w2" for objs w1 x w2
      using forceWorkloads_keeps [of w1 res objs ta] by simp
    ultimately show ?thesis using False Cons.IH by (fastforce split: prod.split sum.split)
  qed
qed simp

lemma ForceReconcile_keeps: "Inv w \<Longrightarrow> Inv (snd (ForceReconcile r watch w))"
proof -
  assume "Inv w"
  then have "forceResources r ress ta w = (x, w1) \<Longrightarrow> Inv w1" for ress ta x w1
    using forceResources_keeps [of w ress ta] by simp
  then show ?thesis by (auto simp: ForceReconcile_def Let_def split: prod.split sum.split)
qed

lemma reconcilePod_keeps: "Inv w \<Longrightarrow> Inv (snd (reconcilePod r req w))"
proof -
  assume w: "Inv w"
  have get: "k_getPod (r_kube r) req w = (x, w1) \<Longrightarrow> Inv w1" for x w1
    using keeps_getPod [OF w, of req] by simp
  have skip: "Inv w1 \<Longrightarrow> shouldSkipPod r p w1 = (x, w2) \<Longrightarrow> Inv w2" for p w1 x w2
    using shouldSkipPod_keeps [of w1 p] by simp
  have node: "Inv w2 \<Longrightarrow> nodePlatform r p w2 = (x, w3) \<Longrightarrow> Inv w3" for p w2 x w3
    using nodePlatform_keeps [of w2 p] by simp
  have mirror: "Inv w3 \<Longrightarrow> mirrorPodImages r ns pn imgs arch os w3 = (x, w4) \<Longrightarrow> Inv w4" for ns pn imgs arch os w3 x w4
    using mirrorPodImages_keeps [of w3 ns pn imgs arch os] by simp
  show ?thesis
    unfolding reconcilePod_def Let_def
    by (auto simp: w split: prod.split sum.split bool.split)
      (blast dest: get skip node mirror)+
qed

end

section \<open>Properties\<close>

text \<open>
  Property C21. A skip list covers exactly what its entries say: the star covers everything, a plain name
  covers that name in every namespace, \<open>namespace/name\<close> covers that one object; blanks around the parts
  do not matter and an entry with an empty part covers nothing.
\<close>

theorem nameMatcher_spec:
  "nameMatches (newNameMatcher vals) ns name \<longleftrightarrow> (\<exists>raw \<in> set vals. entryCovers raw ns name)"
  unfolding newNameMatcher_def matcher_matches by (simp add: nameMatches_def)

text \<open>
  Property C20. One failing image does not keep the others back: every image of the object is handed to
  the pusher once and in order, the count is the number of successes, and the error is the first
  one that carries a retry time, otherwise the first one, and none exactly when all succeeded.
\<close>

theorem mirrorPodImages_spec:
  "case runImages (r_mirror r) (imageMeta ns pn arch os) imgs w of (res, w') \<Rightarrow>
     length res = length imgs
     \<and> mirrorPodImages r ns pn imgs arch os w =
         ((length (filter (\<lambda>x. x = None) res), reportedError (errorsOf res)), w')"
proof -
  obtain res w' where run: "runImages (r_mirror r) (imageMeta ns pn arch os) imgs w = (res, w')" by fastforce
  from mirrorPodImages_eq [OF run] run show ?thesis by (simp add: runImages_length [OF run])
qed

text \<open>
  A failed object is tried again at the time its error names: the delay is never negative, the
  error is swallowed only together with a delay that ends exactly at the retry time of the first error
  in the chain that has one, and an error without a future retry time is passed on.
\<close>

lemma mirrorResultForError_spec:
  "(case mirrorResultForError now (Some e) of (delay, err) \<Rightarrow>
      (err = None \<and> delay > 0 \<and> (\<exists>cause. asRetry e = Some (RetryError cause (now + delay))))
      \<or> (err = Some e \<and> delay = 0 \<and> (\<forall>cause at. asRetry e = Some (RetryError cause at) \<longrightarrow> at \<le> now)))
   \<and> mirrorResultForError now None = (0, None)"
  by (auto simp: mirrorResultForError_def split: option.split goerror.split)

text \<open>
  Watched resources are parsed without loss: every value that names a supported resource,
  in any case and with blanks around it, is in the result once, every other value that is not blank is
  reported as invalid in its original form and order, and nothing else appears.
\<close>

lemma ParseWatchResources_spec:
  "case ParseWatchResources vals of (parsed, invalid) \<Rightarrow>
     distinct parsed
     \<and> set parsed = {typ. \<exists>v \<in> set vals. supportedResourceTypes (ToLower (TrimSpace v)) = Some typ}
     \<and> invalid = filter (\<lambda>v. TrimSpace v \<noteq> [] \<and> supportedResourceTypes (ToLower (TrimSpace v)) = None) vals"
proof -
  have blank: "supportedResourceTypes [] = None" by (simp add: supportedResourceTypes_def)
  have "case parseWatchLoop vals parsed invalid of (parsed', invalid') \<Rightarrow>
     (distinct parsed \<longrightarrow> distinct parsed')
     \<and> set parsed' = set parsed \<union> {typ. \<exists>v \<in> set vals. supportedResourceTypes (ToLower (TrimSpace v)) = Some typ}
     \<and> invalid' = invalid @ filter (\<lambda>v. TrimSpace v \<noteq> [] \<and> supportedResourceTypes (ToLower (TrimSpace v)) = None) vals"
    for parsed invalid
  proof (induction vals arbitrary: parsed invalid)
    case (Cons v vals)
    show ?case
    proof (cases "supportedResourceTypes (ToLower (TrimSpace v))")
      case None
      with Cons [of parsed invalid] Cons [of parsed "invalid @ [v]"] show ?thesis
        by (cases "TrimSpace v = []") (auto simp: Let_def split: prod.splits)
    next
      case (Some res)
      with blank have "TrimSpace v \<noteq> []" by (auto simp: ToLower_def)
      with Some Cons [of parsed invalid] Cons [of "parsed @ [res]" invalid] show ?thesis
        by (cases "res \<in> set parsed") (auto simp: Let_def split: prod.splits)
    qed
  qed simp
  from this [of "[]" "[]"] show ?thesis by (simp add: ParseWatchResources_def)
qed

text \<open>
  A pod is left out exactly when it is on the skip list itself, when an owner of it is on the
  list of its kind, when its replica set belongs to a skipped deployment, or when its job belongs to a
  skipped cron job. This holds whenever the owner lookups succeed, and the decision changes nothing.
\<close>

lemma shouldSkipPod_spec:
  assumes "ownersReadable r rs js w"
  shows "shouldSkipPod r p w =
    (Inr (nameMatches (SkipPods r) (pod_namespace p) (pod_name p)
          \<or> (\<exists>ow \<in> set (pod_owners p). ownerSkipped r rs js (pod_namespace p) ow)), w)"
  by (simp add: shouldSkipPod_def skipOwners_eq [OF assms])

text \<open>A skip list and a pod it covers through the owner of its replica set.\<close>

definition sampleSkip :: skipConfig where
  "sampleSkip = \<lparr>skc_Namespaces = [], skc_Deployments = [''shop/web''], skc_StatefulSets = [], skc_DaemonSets = [],
     skc_Jobs = [], skc_CronJobs = [], skc_Pods = []\<rparr>"

definition samplePod :: pod where
  "samplePod = \<lparr>pod_namespace = ''shop'', pod_name = ''web-1'',
     pod_owners = [\<lparr>owner_kind = ''ReplicaSet'', owner_name = ''web-rs''\<rparr>],
     pod_spec = \<lparr>initContainers = [], containers = [], ephemeralContainers = [], nodeName = []\<rparr>,
     pod_status = \<lparr>phase = ''Running'', initContainerStatuses = [], containerStatuses = [], ephemeralContainerStatuses = []\<rparr>\<rparr>"

end
