(* ===== verification/ForceRun.thy ===== *)
theory ForceRun
  imports ControllerProps
begin

text \<open>
  A forced run (\<open>ForceReconcile\<close>) against the list of calls it owes: which objects of the cluster are
  selected, which images of each with which metadata, in which order. The run is compared with a plain
  loop over that list that knows nothing of namespaces, skip lists, owners or nodes.
\<close>

section \<open>The calls a run owes\<close>

record mirrorTask =
  sel_namespace :: string
  sel_name :: string
  sel_arch :: string
  sel_os :: string
  sel_images :: "podImage list"

definition callsOf :: "mirrorTask \<Rightarrow> (string \<times> metadata) list" where
  "callsOf s = map (\<lambda>img. (Image img, imageMeta (sel_namespace s) (sel_name s) (sel_arch s) (sel_os s) img)) (sel_images s)"

text \<open>What the cluster holds, read once.\<close>

record cluster =
  cl_workloads :: "resourceType \<Rightarrow> workload list"
  cl_pods :: "pod list"
  cl_nodes :: "string \<Rightarrow> nodeInfo"
  cl_rsOwners :: "string \<times> string \<Rightarrow> ownerReference list"
  cl_jobOwners :: "string \<times> string \<Rightarrow> ownerReference list"

definition workloadSelected :: "'w baseReconciler \<Rightarrow> resourceType \<Rightarrow> workload \<Rightarrow> bool" where
  "workloadSelected r kind obj \<longleftrightarrow>
     nsAllowed r (wl_namespace obj) \<and> \<not> nameMatches (skipMatcher r kind) (wl_namespace obj) (wl_name obj)"

definition podSelected :: "'w baseReconciler \<Rightarrow> cluster \<Rightarrow> pod \<Rightarrow> bool" where
  "podSelected r cl p \<longleftrightarrow>
     nsAllowed r (pod_namespace p) \<and> podIsLive p
     \<and> \<not> nameMatches (SkipPods r) (pod_namespace p) (pod_name p)
     \<and> \<not> (\<exists>ow \<in> set (pod_owners p). ownerSkipped r (cl_rsOwners cl) (cl_jobOwners cl) (pod_namespace p) ow)"

definition workloadTask :: "workload \<Rightarrow> mirrorTask" where
  "workloadTask obj = \<lparr>sel_namespace = wl_namespace obj, sel_name = wl_name obj, sel_arch = [], sel_os = [],
     sel_images = ImagesFromPodSpec (Some (wl_spec obj))\<rparr>"

text \<open>The platform of the node counts only when the check is on and the pod has a node.\<close>

definition podNode :: "'w baseReconciler \<Rightarrow> cluster \<Rightarrow> pod \<Rightarrow> string \<times> string" where
  "podNode r cl p =
     (let name = TrimSpace (nodeName (pod_spec p))
      in if CheckNodePlatform r \<and> name \<noteq> []
         then (TrimSpace (node_arch (cl_nodes cl name)), TrimSpace (node_os (cl_nodes cl name))) else ([], []))"

definition podTask :: "'w baseReconciler \<Rightarrow> cluster \<Rightarrow> pod \<Rightarrow> mirrorTask" where
  "podTask r cl p = \<lparr>sel_namespace = pod_namespace p, sel_name = pod_name p, sel_arch = fst (podNode r cl p),
     sel_os = snd (podNode r cl p), sel_images = ImagesFromPod (Some p)\<rparr>"

definition tasksOf :: "'w baseReconciler \<Rightarrow> cluster \<Rightarrow> resourceType \<Rightarrow> mirrorTask list" where
  "tasksOf r cl kind =
     (if kind = ResourcePods then map (podTask r cl) (filter (podSelected r cl) (cl_pods cl))
      else map workloadTask (filter (workloadSelected r kind) (cl_workloads cl kind)))"

definition owedTasks :: "'w baseReconciler \<Rightarrow> cluster \<Rightarrow> resourceType list \<Rightarrow> mirrorTask list" where
  "owedTasks r cl watch = concat (map (tasksOf r cl) (if watch = [] then AllResourceTypes else watch))"

text \<open>The plain loop.\<close>

fun runCalls ::
  "(string \<Rightarrow> metadata \<Rightarrow> 'w \<Rightarrow> goerror option \<times> 'w) \<Rightarrow> (string \<times> metadata) list \<Rightarrow> 'w \<Rightarrow> goerror option list \<times> 'w" where
  "runCalls f [] w = ([], w)"
| "runCalls f ((src, meta) # calls) w =
     (let (o1, w1) = f src meta w; (os, w2) = runCalls f calls w1 in (o1 # os, w2))"

definition allCalls :: "mirrorTask list \<Rightarrow> (string \<times> metadata) list" where
  "allCalls ts = concat (map callsOf ts)"

lemma allCalls_simps [simp]:
  "allCalls [] = []" "allCalls (t # ts) = callsOf t @ allCalls ts" "allCalls (ts @ us) = allCalls ts @ allCalls us"
  by (simp_all add: allCalls_def)

text \<open>A cluster that answers every read from \<open>cl\<close>, whatever was mirrored before.\<close>

definition steady :: "'w baseReconciler \<Rightarrow> cluster \<Rightarrow> bool" where
  "steady r cl \<longleftrightarrow>
     (\<forall>kind w. k_listWorkloads (r_kube r) kind w = (Inr (cl_workloads cl kind), w))
     \<and> (\<forall>w. k_listPods (r_kube r) w = (Inr (cl_pods cl), w))
     \<and> (\<forall>n w. k_getNode (r_kube r) n w = (Inr (cl_nodes cl n), w))
     \<and> (\<forall>w. ownersReadable r (cl_rsOwners cl) (cl_jobOwners cl) w)"

section \<open>Runs of calls\<close>

lemma runCalls_append:
  "runCalls f (xs @ ys) w = (let (os1, w1) = runCalls f xs w; (os2, w2) = runCalls f ys w1 in (os1 @ os2, w2))"
proof (induction xs arbitrary: w)
  case (Cons c xs)
  then show ?case by (cases c) (simp add: Let_def split: prod.split)
qed simp

lemma runCalls_length: "runCalls f calls w = (res, w') \<Longrightarrow> length res = length calls"
proof (induction calls arbitrary: w res)
  case (Cons c calls)
  then show ?case by (cases c) (auto simp: Let_def split: prod.splits)
qed simp

lemma runImages_is_runCalls: "runImages f mt imgs w = runCalls f (map (\<lambda>img. (Image img, mt img)) imgs) w"
  by (induction imgs arbitrary: w) simp_all

section \<open>What the counters record\<close>

text \<open>The counters before and after some objects with the outcomes of their calls.\<close>

definition recorded :: "nat \<Rightarrow> goerror option list \<Rightarrow> tally \<Rightarrow> tally \<Rightarrow> bool" where
  "recorded n res ta ta' \<longleftrightarrow>
     ta_workloads ta' = ta_workloads ta + n
     \<and> ta_images ta' = ta_images ta + length (filter (\<lambda>x. x = None) res)
     \<and> (ta_errs ta' = [] \<longleftrightarrow> ta_errs ta = [] \<and> (\<forall>x \<in> set res. x = None))"

lemma recorded_refl [simp]: "recorded 0 [] ta ta"
  by (simp add: recorded_def)

lemma recorded_trans:
  "recorded n xs ta ta1 \<Longrightarrow> recorded m ys ta1 ta2 \<Longrightarrow> recorded (n + m) (xs @ ys) ta ta2"
  by (auto simp: recorded_def)

lemma errorsOf_Nil: "errorsOf res = [] \<longleftrightarrow> (\<forall>x \<in> set res. x = None)"
proof (induction res)
  case (Cons x res)
  then show ?case by (cases x) auto
qed simp

lemma reportedError_None: "reportedError es = None \<longleftrightarrow> es = []"
  by (auto simp: reportedError_def split: option.split list.split)

text \<open>One selected object: its calls are made and recorded.\<close>

definition performs :: "'w baseReconciler \<Rightarrow> mirrorTask list \<Rightarrow> tally \<Rightarrow> 'w \<Rightarrow> tally \<Rightarrow> 'w \<Rightarrow> bool" where
  "performs r ts ta w ta' w' \<longleftrightarrow>
     (\<exists>res. runCalls (r_mirror r) (allCalls ts) w = (res, w') \<and> recorded (length ts) res ta ta')"

lemma performs_Nil [simp]: "performs r [] ta w ta w"
  by (simp add: performs_def)

lemma performs_append:
  "performs r ts ta w ta1 w1 \<Longrightarrow> performs r us ta1 w1 ta2 w2 \<Longrightarrow> performs r (ts @ us) ta w ta2 w2"
  by (auto simp: performs_def runCalls_append intro: recorded_trans)

lemmas performs_Cons = performs_append [of _ "[t]" for t, simplified]

lemma performs_object:
  assumes "mirrorPodImages r (sel_namespace t) (sel_name t) (sel_images t) (sel_arch t) (sel_os t) w = (x, w')"
  shows "performs r [t] ta w (addOutcome kind (sel_namespace t) (sel_name t) x ta) w'"
proof -
  obtain res w1 where run:
    "runImages (r_mirror r) (imageMeta (sel_namespace t) (sel_name t) (sel_arch t) (sel_os t)) (sel_images t) w = (res, w1)"
    by fastforce
  with mirrorPodImages_eq [OF run] assms
  have "w1 = w'" "x = (length (filter (\<lambda>x. x = None) res), reportedError (errorsOf res))" by simp_all
  moreover have "recorded 1 res ta (addOutcome kind (sel_namespace t) (sel_name t)
      (length (filter (\<lambda>x. x = None) res), reportedError (errorsOf res)) ta)"
    using reportedError_None [of "errorsOf res"]
    by (auto simp: recorded_def addOutcome_def Let_def errorsOf_Nil split: option.split)
  ultimately show ?thesis
    using run by (simp add: performs_def callsOf_def runImages_is_runCalls)
qed

section \<open>The loops of a run\<close>

lemma forceWorkloads_performs:
  "\<exists>ta' w'. forceWorkloads r kind objs ta w = (ta', w')
     \<and> performs r (map workloadTask (filter (workloadSelected r kind) objs)) ta w ta' w'"
proof (induction objs arbitrary: ta w)
  case (Cons obj objs)
  show ?case
  proof (cases "workloadSelected r kind obj")
    case True
    obtain x w1 where m: "mirrorPodSpec r (wl_namespace obj) (wl_name obj) (wl_spec obj) w = (x, w1)" by fastforce
    with True have "performs r [workloadTask obj] ta w (addOutcome kind (wl_namespace obj) (wl_name obj) x ta) w1"
      using performs_object [of r "workloadTask obj" w x w1 ta kind]
      by (simp add: workloadSelected_def mirrorPodSpec_def workloadTask_def)
    moreover from True have "\<not> (\<not> nsAllowed r (wl_namespace obj)
        \<or> nameMatches (skipMatcher r kind) (wl_namespace obj) (wl_name obj))" by (simp add: workloadSelected_def)
    ultimately show ?thesis
      using Cons.IH [of "addOutcome kind (wl_namespace obj) (wl_name obj) x ta" w1] True m
      by (auto intro: performs_Cons)
  next
    case False
    with Cons.IH [of ta w] show ?thesis by (auto simp: workloadSelected_def)
  qed
qed simp

lemma nodePlatform_steady: "steady r cl \<Longrightarrow> nodePlatform r p w = (Inr (podNode r cl p), w)"
  by (auto simp: steady_def nodePlatform_def podNode_def Let_def)

lemma shouldSkipPod_steady:
  "steady r cl \<Longrightarrow> nsAllowed r (pod_namespace p) \<Longrightarrow> podIsLive p \<Longrightarrow>
     shouldSkipPod r p w = (Inr (\<not> podSelected r cl p), w)"
  by (simp add: steady_def shouldSkipPod_def podSelected_def skipOwners_eq [of r "cl_rsOwners cl" "cl_jobOwners cl"])

lemma shouldSkipPod_steady_total: "steady r cl \<Longrightarrow> \<exists>b. shouldSkipPod r p w = (Inr b, w)"
  by (auto simp: steady_def shouldSkipPod_def skipOwners_eq [of r "cl_rsOwners cl" "cl_jobOwners cl"])

lemma forcePods_performs:
  assumes "steady r cl"
  shows "\<exists>ta' w'. forcePods r ps ta w = (Inr ta', w')
     \<and> performs r (map (podTask r cl) (filter (podSelected r cl) ps)) ta w ta' w'"
proof (induction ps arbitrary: ta w)
  case (Cons p ps)
  show ?case
  proof (cases "podSelected r cl p")
    case True
    let ?np = "podNode r cl p"
    obtain x w1 where m: "mirrorPodImages r (pod_namespace p) (pod_name p) (ImagesFromPod (Some p)) (fst ?np) (snd ?np) w = (x, w1)"
      by fastforce
    then have "performs r [podTask r cl p] ta w (addOutcome ResourcePods (pod_namespace p) (pod_name p) x ta) w1"
      using performs_object [of r "podTask r cl p" w x w1 ta ResourcePods] by (simp add: podTask_def)
    moreover have "forcePods r (p # ps) ta w =
        forcePods r ps (addOutcome ResourcePods (pod_namespace p) (pod_name p) x ta) w1"
      using True m by (cases ?np) (simp add: podSelected_def nodePlatform_steady [OF assms]
          shouldSkipPod_steady [OF assms, of p])
    ultimately show ?thesis
      using Cons.IH [of "addOutcome ResourcePods (pod_namespace p) (pod_name p) x ta" w1] True
      by (auto intro: performs_Cons)
  next
    case False
    obtain b where "shouldSkipPod r p w = (Inr b, w)" using shouldSkipPod_steady_total [OF assms] by blast
    with False have "forcePods r (p # ps) ta w = forcePods r ps ta w"
      by (cases b; cases "podIsLive p"; cases "nsAllowed r (pod_namespace p)")
        (simp_all add: shouldSkipPod_steady [OF assms, of p])
    with False Cons.IH [of ta w] show ?thesis by simp
  qed
qed simp

lemma forceResources_performs:
  assumes "steady r cl"
  shows "\<exists>ta' w'. forceResources r watch ta w = (Inr ta', w')
     \<and> performs r (concat (map (tasksOf r cl) watch)) ta w ta' w'"
proof (induction watch arbitrary: ta w)
  case (Cons kind watch)
  from assms have reads: "k_listWorkloads (r_kube r) kind w = (Inr (cl_workloads cl kind), w)"
    "k_listPods (r_kube r) w = (Inr (cl_pods cl), w)" by (simp_all add: steady_def)
  obtain ta1 w1 where one: "performs r (tasksOf r cl kind) ta w ta1 w1"
    and step: "forceResources r (kind # watch) ta w = forceResources r watch ta1 w1"
  proof (cases "kind = ResourcePods")
    case True
    with forcePods_performs [OF assms, of "cl_pods cl" ta w] that reads show ?thesis
      by (auto simp: tasksOf_def)
  next
    case False
    with forceWorkloads_performs [of r kind "cl_workloads cl kind" ta w] that reads show ?thesis
      by (auto simp: tasksOf_def)
  qed
  with Cons.IH [of ta1 w1] show ?case by (auto intro: performs_append)
qed simp

lemma ForceReconcile_runs:
  assumes "steady r cl" and "runCalls (r_mirror r) (allCalls (owedTasks r cl watch)) w = (res, w')"
  obtains err where "ForceReconcile r watch w =
      ((length (owedTasks r cl watch), length (filter (\<lambda>x. x = None) res), err), w')"
    and "err = None \<longleftrightarrow> (\<forall>x \<in> set res. x = None)"
proof -
  let ?ta = "\<lparr>ta_workloads = 0, ta_images = 0, ta_errs = []\<rparr>"
  obtain ta' w1 where "forceResources r (if watch = [] then AllResourceTypes else watch) ?ta w = (Inr ta', w1)"
    and "performs r (owedTasks r cl watch) ?ta w ta' w1"
    using forceResources_performs [OF assms(1), of "if watch = [] then AllResourceTypes else watch" ?ta w]
    unfolding owedTasks_def by blast
  with assms(2) that show ?thesis
    by (auto simp: performs_def recorded_def ForceReconcile_def Let_def)
qed

section \<open>Properties\<close>

text \<open>
  Property C14. A forced run is complete and does nothing else. On a cluster whose reads succeed, it makes
  exactly the calls it owes, one after the other in the order of the watched kinds, the objects of a
  kind and the images of an object: every image of every workload in an allowed namespace that is not on
  the skip list of its kind, and every image of every live pod that neither is nor belongs to
  something skipped, with the platform of its node. A failing image stops nothing; the run counts
  every selected object and every success, and reports an error exactly when some call failed.
\<close>

theorem ForceReconcile_complete:
  assumes "steady r cl"
  shows "case runCalls (r_mirror r) (allCalls (owedTasks r cl watch)) w of (res, w') \<Rightarrow>
     length res = length (allCalls (owedTasks r cl watch))
     \<and> (\<exists>err. ForceReconcile r watch w =
           ((length (owedTasks r cl watch), length (filter (\<lambda>x. x = None) res), err), w')
         \<and> (err = None \<longleftrightarrow> (\<forall>x \<in> set res. x = None)))"
proof -
  obtain res w' where run: "runCalls (r_mirror r) (allCalls (owedTasks r cl watch)) w = (res, w')" by fastforce
  with ForceReconcile_runs [OF assms run] show ?thesis by (auto simp: runCalls_length)
qed

text \<open>
  A deployment with two images, one of which fails, a second deployment on the skip list, a pod of that
  deployment and a finished pod: the two images are tried, nothing else is.
\<close>

definition runCluster :: cluster where
  "runCluster = (let spec = (\<lambda>imgs. \<lparr>initContainers = [], containers = imgs, ephemeralContainers = [], nodeName = []\<rparr>)
     in \<lparr>cl_workloads = (\<lambda>kind. if kind = ResourceDeployments
           then [\<lparr>wl_namespace = ''shop'', wl_name = ''cart'',
                   wl_spec = spec [\<lparr>c_name = ''a'', c_image = ''bad:1''\<rparr>, \<lparr>c_name = ''b'', c_image = ''good:1''\<rparr>]\<rparr>,
                 \<lparr>wl_namespace = ''shop'', wl_name = ''web'', wl_spec = spec [\<lparr>c_name = ''a'', c_image = ''web:1''\<rparr>]\<rparr>]
           else []),
         cl_pods = [samplePod\<lparr>pod_spec := spec [\<lparr>c_name = ''a'', c_image = ''web:1''\<rparr>]\<rparr>,
           samplePod\<lparr>pod_owners := [], pod_spec := spec [\<lparr>c_name = ''a'', c_image = ''old:1''\<rparr>],
             pod_status := (pod_status samplePod)\<lparr>phase := ''Succeeded''\<rparr>\<rparr>],
         cl_nodes = (\<lambda>_. \<lparr>node_arch = ''amd64'', node_os = ''linux''\<rparr>),
         cl_rsOwners = (\<lambda>_. [\<lparr>owner_kind = ''Deployment'', owner_name = ''web''\<rparr>]), cl_jobOwners = (\<lambda>_. [])\<rparr>)"

definition runReconciler :: "string list baseReconciler" where
  "runReconciler = newBase
     \<lparr>k_now = (\<lambda>w. 0), k_getWorkload = (\<lambda>_ _ w. (Inl (APIStatus True ''gone''), w)),
      k_listWorkloads = (\<lambda>kind w. (Inr (cl_workloads runCluster kind), w)),
      k_getPod = (\<lambda>_ w. (Inl (APIStatus True ''gone''), w)), k_listPods = (\<lambda>w. (Inr (cl_pods runCluster), w)),
      k_getNode = (\<lambda>n w. (Inr (cl_nodes runCluster n), w)),
      k_getReplicaSetOwners = (\<lambda>key w. (Inr (cl_rsOwners runCluster key), w)),
      k_getJobOwners = (\<lambda>key w. (Inr (cl_jobOwners runCluster key), w))\<rparr>
     (\<lambda>src meta w. (if src = ''bad:1'' then Some (ErrorString ''no such image'') else None, w @ [src])) [''*''] sampleSkip False"

theorem ForceReconcile_complete_witness:
  "case ForceReconcile runReconciler [] [] of ((objects, mirrored, err), w) \<Rightarrow>
     objects = 1 \<and> mirrored = 1 \<and> err \<noteq> None \<and> w = [''bad:1'', ''good:1'']"
proof -
  have "steady runReconciler runCluster"
    by (simp add: steady_def ownersReadable_def runReconciler_def newBase_def)
  moreover have "length (owedTasks runReconciler runCluster []) = 1" by code_simp
  moreover have "runCalls (r_mirror runReconciler) (allCalls (owedTasks runReconciler runCluster [])) [] =
      ([Some (ErrorString ''no such image''), None], [''bad:1'', ''good:1''])" by code_simp
  ultimately show ?thesis
    using ForceReconcile_complete [of runReconciler runCluster "[]" "[]"] by auto
qed

end
