(* ===== verification/Registries.thy ===== *)
theory Registries
  imports Pusher
begin

text \<open>
  \<open>internal/registry\<close>: the two kinds of target, a plain Docker registry and Amazon ECR, as instances of the
  interface \<open>target\<close> the pusher uses. The AWS client is a parameter; its error type for a missing
  repository is the predicate \<open>isRepositoryNotFound\<close>, and the authorization data are the tokens of the
  answer. The base64 decoding of the standard library is written out.
\<close>

section \<open>Base64\<close>

definition b64alphabet :: string where
  "b64alphabet = ''ABCDEFGHIJKLMNOPQRSTUVWXYZabcdefghijklmnopqrstuvwxyz0123456789+/''"

fun indexOf :: "'a \<Rightarrow> 'a list \<Rightarrow> nat option" where
  "indexOf x [] = None"
| "indexOf x (y # ys) = (if x = y then Some 0 else map_option Suc (indexOf x ys))"

definition b64value :: "char \<Rightarrow> nat option" where
  "b64value c = indexOf c b64alphabet"

text \<open>The first \<open>n\<close> of the three bytes of a group of four digits.\<close>

definition quadBytes :: "nat \<Rightarrow> nat \<Rightarrow> nat \<Rightarrow> nat \<Rightarrow> nat \<Rightarrow> string" where
  "quadBytes n a b c d =
     (let v = ((a * 64 + b) * 64 + c) * 64 + d
      in take n [char_of (v div 65536), char_of (v div 256), char_of v])"

fun decodeQuads :: "string \<Rightarrow> string option" where
  "decodeQuads [] = Some []"
| "decodeQuads (a # b # c # d # rest) =
     (case (b64value a, b64value b) of
        (Some x, Some y) \<Rightarrow>
          (case b64value c of
             Some z \<Rightarrow>
               (case b64value d of
                  Some u \<Rightarrow> map_option (\<lambda>t. quadBytes 3 x y z u @ t) (decodeQuads rest)
                | None \<Rightarrow> if d = CHR ''='' \<and> rest = [] then Some (quadBytes 2 x y z 0) else None)
           | None \<Rightarrow> if c = CHR ''='' \<and> d = CHR ''='' \<and> rest = [] then Some (quadBytes 1 x y 0 0) else None)
      | _ \<Rightarrow> None)"
| "decodeQuads _ = None"

text \<open>\<open>base64.StdEncoding.DecodeString\<close>: line breaks are skipped.\<close>

definition DecodeString :: "string \<Rightarrow> string option" where
  "DecodeString s = decodeQuads (filter (\<lambda>c. c \<noteq> CHR 0x0D \<and> c \<noteq> CHR 0x0A) s)"

section \<open>Docker\<close>

record dockerConfig =
  dc_Registry :: string
  dc_Username :: string
  dc_Password :: string
  dc_RepoPrefix :: string
  dc_Insecure :: bool

definition NewDocker :: "dockerConfig \<Rightarrow> 'w target" where
  "NewDocker cfg = \<lparr>t_Registry = dc_Registry cfg, t_RepoPrefix = dc_RepoPrefix cfg, t_Insecure = dc_Insecure cfg,
     t_EnsureRepository = (\<lambda>name w. (None, w)),
     t_BasicAuth = (\<lambda>w. (Inr (dc_Username cfg, dc_Password cfg), w))\<rparr>"

section \<open>ECR\<close>

record ecrConfig =
  ec_AccountID :: string
  ec_Region :: string
  ec_RepoPrefix :: string
  ec_CreateRepo :: bool
  ec_AssumeRoleArn :: string
  ec_LifecyclePolicy :: string

record 'w awsClient =
  DescribeRepositories :: "string option \<Rightarrow> string \<Rightarrow> 'w \<Rightarrow> goerror option \<times> 'w"
  CreateRepository :: "string option \<Rightarrow> string \<Rightarrow> 'w \<Rightarrow> goerror option \<times> 'w"
  PutLifecyclePolicy :: "string option \<Rightarrow> string \<Rightarrow> string \<Rightarrow> 'w \<Rightarrow> goerror option \<times> 'w"
  GetAuthorizationToken :: "'w \<Rightarrow> (goerror + string list) \<times> 'w"
  isRepositoryNotFound :: "goerror \<Rightarrow> bool"

definition registryId :: "ecrConfig \<Rightarrow> string option" where
  "registryId cfg = (if ec_AccountID cfg \<noteq> [] then Some (ec_AccountID cfg) else None)"

definition ecrEnsureRepository :: "'w awsClient \<Rightarrow> ecrConfig \<Rightarrow> string \<Rightarrow> 'w \<Rightarrow> goerror option \<times> 'w" where
  "ecrEnsureRepository aws cfg name w =
     (case DescribeRepositories aws (registryId cfg) name w of
        (None, w1) \<Rightarrow> (None, w1)
      | (Some e, w1) \<Rightarrow>
          if ec_CreateRepo cfg \<and> (isRepositoryNotFound aws e \<or> Contains (errText e) ''RepositoryNotFound'')
          then (case CreateRepository aws (registryId cfg) name w1 of
                  (Some createErr, w2) \<Rightarrow> (Some createErr, w2)
                | (None, w2) \<Rightarrow>
                    (let policy = TrimSpace (ec_LifecyclePolicy cfg)
                     in if policy \<noteq> []
                        then (case PutLifecyclePolicy aws (registryId cfg) name policy w2 of
                                (Some putErr, w3) \<Rightarrow> (Some putErr, w3)
                              | (None, w3) \<Rightarrow> (None, w3))
                        else (None, w2)))
          else (Some e, w1))"

definition CorruptInput :: goerror where
  "CorruptInput = ErrorString ''illegal base64 data''"

definition ecrBasicAuth :: "'w awsClient \<Rightarrow> 'w \<Rightarrow> (goerror + string \<times> string) \<times> 'w" where
  "ecrBasicAuth aws w =
     (case GetAuthorizationToken aws w of
        (Inl e, w1) \<Rightarrow> (Inl e, w1)
      | (Inr tokens, w1) \<Rightarrow>
          (case tokens of
             [] \<Rightarrow> (Inl (ErrorString ''no ECR auth data''), w1)
           | tok # _ \<Rightarrow>
               (case DecodeString tok of
                  None \<Rightarrow> (Inl CorruptInput, w1)
                | Some dec \<Rightarrow>
                    (let parts = SplitN2 dec CHR '':''
                     in if length parts \<noteq> 2 then (Inl (ErrorString ''unexpected token''), w1)
                        else (Inr (parts ! 0, parts ! 1), w1)))))"

text \<open>The construction of the AWS client from the environment and the assumed role is the argument \<open>mk\<close>.\<close>

definition NewECR :: "(ecrConfig \<Rightarrow> goerror + 'w awsClient) \<Rightarrow> ecrConfig \<Rightarrow> goerror + 'w target" where
  "NewECR mk cfg =
     (case mk cfg of
        Inl e \<Rightarrow> Inl e
      | Inr aws \<Rightarrow> Inr \<lparr>t_Registry = ec_AccountID cfg @ ''.dkr.ecr.'' @ ec_Region cfg @ ''.amazonaws.com'',
          t_RepoPrefix = ec_RepoPrefix cfg, t_Insecure = False,
          t_EnsureRepository = ecrEnsureRepository aws cfg, t_BasicAuth = ecrBasicAuth aws\<rparr>)"

section \<open>Facts\<close>

subsection \<open>Encoding, as the reference for decoding\<close>

fun b64encode :: "string \<Rightarrow> string" where
  "b64encode [] = []"
| "b64encode [a] =
     (let v = of_char a * 65536
      in [b64alphabet ! (v div 262144), b64alphabet ! (v div 4096 mod 64), CHR ''='', CHR ''=''])"
| "b64encode [a, b] =
     (let v = of_char a * 65536 + of_char b * 256
      in [b64alphabet ! (v div 262144), b64alphabet ! (v div 4096 mod 64), b64alphabet ! (v div 64 mod 64), CHR ''=''])"
| "b64encode (a # b # c # rest) =
     (let v = of_char a * 65536 + of_char b * 256 + of_char c
      in [b64alphabet ! (v div 262144), b64alphabet ! (v div 4096 mod 64), b64alphabet ! (v div 64 mod 64),
          b64alphabet ! (v mod 64)] @ b64encode rest)"

lemma b64value_nth: "n < 64 \<Longrightarrow> b64value (b64alphabet ! n) = Some n"
proof -
  have "list_all (\<lambda>n. b64value (b64alphabet ! n) = Some n) [0..<64]" by code_simp
  then show "n < 64 \<Longrightarrow> b64value (b64alphabet ! n) = Some n" by (simp add: list_all_iff)
qed

lemma b64alphabet_plain: "n < 64 \<Longrightarrow> b64alphabet ! n \<noteq> CHR 0x0D \<and> b64alphabet ! n \<noteq> CHR 0x0A"
proof -
  have "list_all (\<lambda>n. b64alphabet ! n \<noteq> CHR 0x0D \<and> b64alphabet ! n \<noteq> CHR 0x0A) [0..<64]" by code_simp
  then show "n < 64 \<Longrightarrow> b64alphabet ! n \<noteq> CHR 0x0D \<and> b64alphabet ! n \<noteq> CHR 0x0A" by (simp add: list_all_iff)
qed

lemma b64value_pad: "b64value CHR ''='' = None" by code_simp

text \<open>The four digits of a 24-bit number give it back.\<close>

lemma quad_value:
  fixes v :: nat
  shows "((v div 262144 * 64 + v div 4096 mod 64) * 64 + v div 64 mod 64) * 64 + v mod 64 = v"
proof -
  have "v div 262144 * 64 + v div 4096 mod 64 = v div 4096"
    using div_mult_mod_eq [of "v div 4096" 64] by (simp add: div_mult2_eq [symmetric])
  moreover have "v div 4096 * 64 + v div 64 mod 64 = v div 64"
    using div_mult_mod_eq [of "v div 64" 64] by (simp add: div_mult2_eq [symmetric])
  ultimately show ?thesis by (simp add: mult.commute)
qed

lemma char_of_shift: "char_of (of_char a + n * 256) = (a :: char)" for n :: nat
proof -
  have "char_of (of_char a + n * 256) = (char_of ((of_char a + n * 256) mod 256) :: char)"
    by (simp only: char_of_mod_256)
  also have "(of_char a + n * 256) mod 256 = (of_char a :: nat)" by simp
  finally show ?thesis by simp
qed

lemma bytes_div:
  fixes x y z :: nat
  assumes "x < 256" "y < 256" "z < 256"
  shows "(x * 65536 + y * 256 + z) div 65536 = x" "(x * 65536 + y * 256 + z) div 256 = y + x * 256"
    "(x * 65536 + y * 256 + z) div 262144 < 64"
proof -
  have "y * 256 + z < 65536" using assms by linarith
  then show "(x * 65536 + y * 256 + z) div 65536 = x" by (intro div_nat_eqI) simp_all
  show "(x * 65536 + y * 256 + z) div 256 = y + x * 256" using assms by (intro div_nat_eqI) simp_all
  show "(x * 65536 + y * 256 + z) div 262144 < 64" using assms by (intro div_less_iff_less_mult [THEN iffD2]) linarith+
qed

lemma quadBytes_encode:
  fixes a b c :: char
  defines "v \<equiv> of_char a * 65536 + of_char b * 256 + of_char c :: nat"
  shows "quadBytes n (v div 262144) (v div 4096 mod 64) (v div 64 mod 64) (v mod 64) = take n [a, b, c]"
proof -
  have "v div 65536 = of_char a" "v div 256 = of_char b + of_char a * 256" "v = of_char c + (of_char b + of_char a * 256) * 256"
    unfolding v_def by (simp_all add: bytes_div)
  then have "char_of (v div 65536) = a" "char_of (v div 256) = b" "char_of v = c"
    by (metis char_of_char, metis char_of_shift, metis char_of_shift)
  then show ?thesis by (simp only: quadBytes_def quad_value Let_def)
qed

lemma digit_bounds:
  fixes a b c :: char
  shows "(of_char a * 65536 + of_char b * 256 + of_char c) div 262144 < (64 :: nat)"
  using bytes_div(3) [of "of_char a" "of_char b" "of_char c"] by simp

lemma mult_multiples:
  fixes x y z :: nat
  shows "(x * 65536 + y * 256) mod 64 = 0" "z * 65536 div 64 mod 64 = 0" "z * 65536 mod 64 = 0"
proof -
  have eq: "x * 65536 + y * 256 = 64 * (x * 1024 + y * 4)" "z * 65536 = 64 * (z * 1024)" "z * 1024 = 64 * (z * 16)" by simp_all
  show "(x * 65536 + y * 256) mod 64 = 0" "z * 65536 mod 64 = 0" unfolding eq by (rule mod_mult_self1_is_0)+
  have "64 * (z * 1024) div 64 = z * 1024" by (rule nonzero_mult_div_cancel_left) simp
  then show "z * 65536 div 64 mod 64 = 0" unfolding eq(2) by (simp only: eq(3) mod_mult_self1_is_0)
qed

lemma decode_encode: "decodeQuads (b64encode s) = Some s"
proof (induction s rule: b64encode.induct)
  case (2 a)
  have "of_char a * 65536 div 64 mod 64 = (0 :: nat)" "of_char a * 65536 mod 64 = (0 :: nat)" by (rule mult_multiples)+
  with quadBytes_encode [of 1 a "CHR 0x00" "CHR 0x00"] digit_bounds [of a "CHR 0x00" "CHR 0x00"] show ?case
    by (simp add: Let_def b64value_nth b64value_pad)
next
  case (3 a b)
  have "(of_char a * 65536 + of_char b * 256) mod 64 = (0 :: nat)" by (rule mult_multiples(1))
  with quadBytes_encode [of 2 a b "CHR 0x00"] digit_bounds [of a b "CHR 0x00"] show ?case
    by (simp add: Let_def b64value_nth b64value_pad)
next
  case (4 a b c rest)
  with quadBytes_encode [of 3 a b c] digit_bounds [of a b c] show ?case
    by (simp add: Let_def b64value_nth)
qed simp

lemma b64encode_plain: "c \<in> set (b64encode s) \<Longrightarrow> c \<noteq> CHR 0x0D \<and> c \<noteq> CHR 0x0A"
proof (induction s rule: b64encode.induct)
  case (2 a)
  with digit_bounds [of a "CHR 0x00" "CHR 0x00"] show ?case by (auto simp: Let_def b64alphabet_plain)
next
  case (3 a b)
  with digit_bounds [of a b "CHR 0x00"] show ?case by (auto simp: Let_def b64alphabet_plain)
next
  case (4 a b d rest)
  with digit_bounds [of a b d] show ?case by (auto simp: Let_def b64alphabet_plain)
qed simp

lemma DecodeString_encode: "DecodeString (b64encode s) = Some s"
proof -
  have "filter (\<lambda>c. c \<noteq> CHR 0x0D \<and> c \<noteq> CHR 0x0A) (b64encode s) = b64encode s"
    by (rule filter_True) (use b64encode_plain in blast)
  then show ?thesis by (simp add: DecodeString_def decode_encode)
qed

section \<open>Properties\<close>

text \<open>
  Property C35. ECR credentials survive their transport: when the first token is the base64 form of
  \<open>user:password\<close> with no colon in the user name, the target authenticates with exactly that user and that
  password, colons in the password included.
\<close>

theorem ecrBasicAuth_roundtrip:
  assumes "GetAuthorizationToken aws w = (Inr (b64encode (user @ '':'' @ password) # others), w')"
    and "CHR '':'' \<notin> set user"
  shows "ecrBasicAuth aws w = (Inr (user, password), w')"
  using assms by (simp add: ecrBasicAuth_def DecodeString_encode SplitN2_eq takeWhile_sep dropWhile_sep)

definition sampleAws :: "bool awsClient" where
  "sampleAws = \<lparr>DescribeRepositories = (\<lambda>_ _ w. (if w then None else Some (ErrorString ''RepositoryNotFoundException''), w)),
     CreateRepository = (\<lambda>_ _ w. (None, True)), PutLifecyclePolicy = (\<lambda>_ _ _ w. (Some EOF, w)),
     GetAuthorizationToken = (\<lambda>w. (Inr [b64encode ''AWS:p:w''], w)), isRepositoryNotFound = (\<lambda>_. True)\<rparr>"

definition sampleEcr :: ecrConfig where
  "sampleEcr = \<lparr>ec_AccountID = ''1'', ec_Region = ''eu'', ec_RepoPrefix = [], ec_CreateRepo = True,
     ec_AssumeRoleArn = [], ec_LifecyclePolicy = ''{}''\<rparr>"

theorem ecrBasicAuth_roundtrip_witness: "ecrBasicAuth sampleAws False = (Inr (''AWS'', ''p:w''), False)"
proof (rule ecrBasicAuth_roundtrip [where others = "[]"])
  show "GetAuthorizationToken sampleAws False = (Inr [b64encode (''AWS'' @ '':'' @ ''p:w'')], False)"
    by (simp add: sampleAws_def)
qed code_simp

text \<open>
  When \<open>EnsureRepository\<close> reports success, the repository exists: it either was there or has been
  created, provided that the service answers a description exactly for the repositories it has and
  that a successful creation adds one.
\<close>

lemma ecrEnsureRepository_exists:
  assumes "\<And>rid w e w'. DescribeRepositories aws rid name w = (e, w') \<Longrightarrow> e = None \<longleftrightarrow> name \<in> repos w'"
    and "\<And>rid w w'. CreateRepository aws rid name w = (None, w') \<Longrightarrow> name \<in> repos w'"
    and "\<And>rid policy w e w'. PutLifecyclePolicy aws rid name policy w = (e, w') \<Longrightarrow> repos w' = repos w"
    and "ecrEnsureRepository aws cfg name w = (None, w')"
  shows "name \<in> repos w'"
proof (cases "DescribeRepositories aws (registryId cfg) name w")
  case (Pair e w1)
  show ?thesis
  proof (cases e)
    case None
    with Pair assms(1) [OF Pair] assms(4) show ?thesis by (simp add: ecrEnsureRepository_def)
  next
    case (Some err)
    with Pair assms(4) obtain w2 where create: "CreateRepository aws (registryId cfg) name w1 = (None, w2)"
      by (auto simp: ecrEnsureRepository_def split: prod.splits option.splits if_splits)
    have "w' = w2 \<or> (\<exists>policy. PutLifecyclePolicy aws (registryId cfg) name policy w2 = (None, w'))"
      using assms(4) Pair Some create by (auto simp: ecrEnsureRepository_def Let_def split: prod.splits option.splits if_splits)
    with assms(2) [OF create] assms(3) show ?thesis by blast
  qed
qed

text \<open>
  Property C37. A lifecycle policy that could not be set at creation is never set: the call that creates the
  repository fails, and every later call that finds the repository succeeds whatever setting the policy
  would do, so that the repository stays without it.
\<close>

theorem ecr_policy_not_retried:
  assumes "ec_CreateRepo cfg" "TrimSpace (ec_LifecyclePolicy cfg) \<noteq> []"
    and "DescribeRepositories aws (registryId cfg) name w = (Some e, w1)" "isRepositoryNotFound aws e"
    and "CreateRepository aws (registryId cfg) name w1 = (None, w2)"
    and "PutLifecyclePolicy aws (registryId cfg) name (TrimSpace (ec_LifecyclePolicy cfg)) w2 = (Some putErr, w3)"
  shows "ecrEnsureRepository aws cfg name w = (Some putErr, w3)
    \<and> (\<forall>later after. DescribeRepositories aws (registryId cfg) name later = (None, after) \<longrightarrow>
         ecrEnsureRepository (aws\<lparr>PutLifecyclePolicy := put\<rparr>) cfg name later = (None, after))"
  using assms by (simp add: ecrEnsureRepository_def Let_def)

theorem ecr_policy_not_retried_witness:
  "ecrEnsureRepository sampleAws sampleEcr ''app'' False = (Some EOF, True)
   \<and> ecrEnsureRepository (sampleAws\<lparr>PutLifecyclePolicy := (\<lambda>_ _ _ w. (None, w))\<rparr>) sampleEcr ''app'' True = (None, True)"
  using ecr_policy_not_retried [of sampleEcr sampleAws "''app''" False
      "ErrorString ''RepositoryNotFoundException''" False True EOF True "\<lambda>_ _ _ w. (None, w)"]
  by (simp add: sampleEcr_def sampleAws_def TrimSpace_def trimBy_def isSpace_def)

end
