(* ===== verification/Config.thy ===== *)
theory Config
  imports Controllers Registries Keychain PathMap
begin

text \<open>
  \<open>cmd/manager/runtime_config.go\<close> and the types of \<open>internal/config/config.go\<close>: the runtime configuration from
  environment, flags and configuration file. The environment is a function from names to values (empty
  when unset); the parsed file is a record. Durations are 64-bit nanoseconds and wrap around.
\<close>

section \<open>Numbers and errors\<close>

text \<open>Two's complement of 64 bits.\<close>

definition int64 :: "int \<Rightarrow> int" where
  "int64 x = (x + 2 ^ 63) mod 2 ^ 64 - 2 ^ 63"

definition Second :: duration where
  "Second = 1000000000"

definition Minute :: duration where
  "Minute = 60 * Second"

definition quoted :: "string \<Rightarrow> string" where
  "quoted s = [CHR 0x22] @ s @ [CHR 0x22]"

text \<open>The error of \<open>strconv\<close> for a value it rejects.\<close>

definition numError :: "string \<Rightarrow> string \<Rightarrow> goerror" where
  "numError fn v =
     (let digits = (case v of [] \<Rightarrow> [] | c # cs \<Rightarrow> if c = CHR ''-'' \<or> c = CHR ''+'' then cs else v)
      in ErrorString (''strconv.'' @ fn @ '': parsing '' @ quoted v @
           (if fn = ''Atoi'' \<and> digits \<noteq> [] \<and> list_all isDigit digits
            then '': value out of range'' else '': invalid syntax'')))"

definition atoiE :: "string \<Rightarrow> goerror + int" where
  "atoiE v = (case Atoi v of Some n \<Rightarrow> Inr n | None \<Rightarrow> Inl (numError ''Atoi'' v))"

definition parseBoolE :: "string \<Rightarrow> goerror + bool" where
  "parseBoolE v = (case ParseBool v of Some b \<Rightarrow> Inr b | None \<Rightarrow> Inl (numError ''ParseBool'' v))"

text \<open>\<open>return fmt.Errorf(\<dots>)\<close> in the middle of a function.\<close>

definition bindE :: "goerror + 'a \<Rightarrow> ('a \<Rightarrow> goerror + 'b) \<Rightarrow> goerror + 'b" where
  "bindE m k = (case m of Inl e \<Rightarrow> Inl e | Inr x \<Rightarrow> k x)"

definition wrapE :: "string \<Rightarrow> goerror + 'a \<Rightarrow> goerror + 'a" where
  "wrapE label m = (case m of Inl e \<Rightarrow> Inl (Wrapf label e []) | Inr x \<Rightarrow> Inr x)"

section \<open>The configuration file\<close>

record ecrSection =
  es_AccountID :: string
  es_Region :: string
  es_RepoPrefix :: string
  es_CreateRepo :: "bool option"
  es_AssumeRoleArn :: string
  es_LifecyclePolicy :: string

record dockerSection =
  ds_Registry :: string
  ds_RepoPrefix :: string
  ds_Insecure :: bool

record registryCredential =
  cr_Registry :: string
  cr_RegistryAliases :: "string list"
  cr_Username :: string
  cr_Password :: string
  cr_UsernameEnv :: string
  cr_PasswordEnv :: string
  cr_Token :: string
  cr_TokenEnv :: string

record fileConfig =
  fc_TargetKind :: string
  fc_LogLevel :: string
  fc_ECR :: ecrSection
  fc_Docker :: dockerSection
  fc_DigestPull :: bool
  fc_DigestPullIgnoredTags :: "string list"
  fc_IgnoreMissingPlatforms :: "string list"
  fc_CheckNodePlatform :: bool
  fc_MirrorPlatforms :: "string list"
  fc_AllowDifferentDigestRepush :: "bool option"
  fc_IncludeNamespaces :: "string list"
  fc_SkipNamespaces :: "string list"
  fc_SkipNames :: skipConfig
  fc_ExcludeRegistries :: "string list"
  fc_WatchResources :: "string list"
  fc_DryRun :: bool
  fc_DryPull :: bool
  fc_RequestTimeoutSeconds :: "int option"
  fc_RegistryRetryAttempts :: "int option"
  fc_RegistryRetryBackoffSeconds :: "int option"
  fc_FailureCooldownMinutes :: "int option"
  fc_ForceReconcileMinutes :: "int option"
  fc_MaxConcurrentReconciles :: "int option"
  fc_RegistryCredentials :: "registryCredential list"
  fc_PathMap :: "pathMapping list"

text \<open>
  The fields of \<open>Config\<close> with the keys their tags ask for. \<open>sigs.k8s.io/yaml\<close> converts the file to JSON and
  hands it to \<open>encoding/json\<close>, which does not look at \<open>yaml\<close> tags: a key sets the field whose name it
  equals up to case. The matching is a parameter, since the package is not part of the sources.
\<close>

definition configFields :: "(string \<times> string) list" where
  "configFields =
     [(''TargetKind'', ''targetKind''), (''LogLevel'', ''logLevel''), (''ECR'', ''ecr''), (''Docker'', ''docker''),
      (''DigestPull'', ''digestPull''), (''DigestPullIgnoredTags'', ''digestPullIgnoredTags''),
      (''IgnoreMissingPlatforms'', ''ignoreMissingPlatforms''), (''CheckNodePlatform'', ''checkNodePlatform''),
      (''MirrorPlatforms'', ''mirrorPlatforms''), (''AllowDifferentDigestRepush'', ''allowDifferentDigestRepush''),
      (''IncludeNamespaces'', ''includeNamespaces''), (''SkipNamespaces'', ''skipNamespaces''),
      (''SkipNames'', ''skipNames''), (''ExcludeRegistries'', ''excludeRegistries''),
      (''WatchResources'', ''watchResources''), (''DryRun'', ''dryRun''), (''DryPull'', ''dryPull''),
      (''RequestTimeoutSeconds'', ''requestTimeout''), (''RegistryRetryAttempts'', ''registryRetryAttempts''),
      (''RegistryRetryBackoffSeconds'', ''registryRetryBackoff''), (''FailureCooldownMinutes'', ''failureCooldownMinutes''),
      (''ForceReconcileMinutes'', ''forceReconcileMinutes''), (''MaxConcurrentReconciles'', ''maxConcurrentReconciles''),
      (''RegistryCredentials'', ''registryCredentials''), (''PathMap'', ''pathMap'')]"

definition fieldForKey :: "(string \<Rightarrow> string \<Rightarrow> bool) \<Rightarrow> string \<Rightarrow> string option" where
  "fieldForKey keyMatches key = find (\<lambda>field. keyMatches field key) (map fst configFields)"

section \<open>Loading the file\<close>

definition zeroConfig :: fileConfig where
  "zeroConfig = \<lparr>fc_TargetKind = [], fc_LogLevel = [],
     fc_ECR = \<lparr>es_AccountID = [], es_Region = [], es_RepoPrefix = [], es_CreateRepo = None, es_AssumeRoleArn = [], es_LifecyclePolicy = []\<rparr>,
     fc_Docker = \<lparr>ds_Registry = [], ds_RepoPrefix = [], ds_Insecure = False\<rparr>,
     fc_DigestPull = False, fc_DigestPullIgnoredTags = [], fc_IgnoreMissingPlatforms = [], fc_CheckNodePlatform = False,
     fc_MirrorPlatforms = [], fc_AllowDifferentDigestRepush = None, fc_IncludeNamespaces = [], fc_SkipNamespaces = [],
     fc_SkipNames = \<lparr>skc_Namespaces = [], skc_Deployments = [], skc_StatefulSets = [], skc_DaemonSets = [], skc_Jobs = [],
       skc_CronJobs = [], skc_Pods = []\<rparr>,
     fc_ExcludeRegistries = [], fc_WatchResources = [], fc_DryRun = False, fc_DryPull = False,
     fc_RequestTimeoutSeconds = None, fc_RegistryRetryAttempts = None, fc_RegistryRetryBackoffSeconds = None,
     fc_FailureCooldownMinutes = None, fc_ForceReconcileMinutes = None, fc_MaxConcurrentReconciles = None,
     fc_RegistryCredentials = [], fc_PathMap = []\<rparr>"

text \<open>The file system and the YAML package: reading a file, the test for a missing file, and decoding.\<close>

record files =
  ReadFile :: "string \<Rightarrow> goerror + string"
  IsNotExist :: "goerror \<Rightarrow> bool"
  Unmarshal :: "string \<Rightarrow> goerror + fileConfig"

definition FilePath :: string where
  "FilePath = ''/config/config.yaml''"

text \<open>The configuration and whether there is one; a missing file is not an error.\<close>

definition Load :: "files \<Rightarrow> string \<Rightarrow> goerror + fileConfig \<times> bool" where
  "Load fs path =
     (case ReadFile fs path of
        Inl e \<Rightarrow> if IsNotExist fs e then Inr (zeroConfig, False) else Inl e
      | Inr b \<Rightarrow> (case Unmarshal fs b of Inl e \<Rightarrow> Inl e | Inr c \<Rightarrow> Inr (c, True)))"

definition loadConfigFile :: "files \<Rightarrow> (string \<Rightarrow> string) \<Rightarrow> goerror + fileConfig \<times> bool" where
  "loadConfigFile fs getenv =
     (let cfgPath = (if getenv ''CONFIG_PATH'' = [] then FilePath else getenv ''CONFIG_PATH'')
      in map_sum (\<lambda>e. Wrapf ''load config file: '' e []) id (Load fs cfgPath))"

section \<open>Lists\<close>

definition sanitizeEntry :: "string \<Rightarrow> string list" where
  "sanitizeEntry val =
     (let trimmed = TrimSpace val
      in if trimmed = [] then []
         else if Contains trimmed '',''
         then filter (\<lambda>p. p \<noteq> []) (map TrimSpace (Split trimmed CHR '',''))
         else [trimmed])"

definition sanitizeStringList :: "string list \<Rightarrow> string list" where
  "sanitizeStringList vals = concat (map sanitizeEntry vals)"

definition resolveList :: "string \<Rightarrow> string list \<Rightarrow> string list" where
  "resolveList envVal configValues =
     (let trimmed = TrimSpace envVal
      in if trimmed \<noteq> [] then sanitizeStringList (Split trimmed CHR '','') else sanitizeStringList configValues)"

definition resolveAllowedNamespaces :: "string \<Rightarrow> string list \<Rightarrow> string list" where
  "resolveAllowedNamespaces envVal configValues =
     (let ns = resolveList envVal configValues in if ns \<noteq> [] then ns else [''*''])"

section \<open>Single settings\<close>

definition durationFromMinutes :: "int \<Rightarrow> duration" where
  "durationFromMinutes minutes = (if minutes \<le> 0 then 0 else int64 (minutes * Minute))"

text \<open>The value and whether it is set.\<close>

definition resolveOptionalBoolEnv :: "string \<Rightarrow> goerror + bool option" where
  "resolveOptionalBoolEnv v =
     (let trimmed = TrimSpace v
      in if trimmed = [] then Inr None else map_sum id Some (parseBoolE trimmed))"

text \<open>Lines 166 to 186.\<close>

definition dryMode :: "string \<Rightarrow> bool \<Rightarrow> bool \<Rightarrow> bool" where
  "dryMode env flag file =
     (if env \<noteq> []
      then (let val = ToLower (TrimSpace env) in val = ''1'' \<or> val = ''true'' \<or> val = ''yes'')
      else flag \<or> file)"

definition secondsOrOff :: "int \<Rightarrow> duration" where
  "secondsOrOff n = (if n \<le> 0 then 0 else int64 (n * Second))"

text \<open>Lines 188 to 206.\<close>

definition resolveTimeout :: "string \<Rightarrow> int option \<Rightarrow> goerror + duration" where
  "resolveTimeout env file =
     (let v = TrimSpace env
      in if v \<noteq> [] then map_sum (\<lambda>e. Wrapf ''parse registry request timeout: '' e []) secondsOrOff (atoiE v)
         else (case file of Some n \<Rightarrow> Inr (secondsOrOff n) | None \<Rightarrow> Inr (5 * Minute)))"

text \<open>A count that has to be positive, from the environment or the file: lines 208 to 223 and 293 to 308.\<close>

definition resolvePositive :: "string \<Rightarrow> string \<Rightarrow> string \<Rightarrow> int \<Rightarrow> string \<Rightarrow> int option \<Rightarrow> goerror + int" where
  "resolvePositive parseLabel envMsg fileMsg dflt env file =
     (let v = TrimSpace env
      in if v \<noteq> []
         then bindE (wrapE parseLabel (atoiE v)) (\<lambda>n. if n \<le> 0 then Inl (ErrorString envMsg) else Inr n)
         else (case file of
                 Some n \<Rightarrow> if n \<le> 0 then Inl (ErrorString fileMsg) else Inr n
               | None \<Rightarrow> Inr dflt))"

text \<open>Lines 225 to 240.\<close>

definition resolveBackoff :: "string \<Rightarrow> int option \<Rightarrow> goerror + duration" where
  "resolveBackoff env file =
     (let v = TrimSpace env
      in if v \<noteq> []
         then bindE (wrapE ''parse registry retry backoff: '' (atoiE v)) (\<lambda>n.
                if n < 0 then Inl (ErrorString ''registry retry backoff must not be negative'')
                else Inr (int64 (n * Second)))
         else (case file of
                 Some n \<Rightarrow> if n < 0 then Inl (ErrorString ''registryRetryBackoff in config must not be negative'')
                           else Inr (int64 (n * Second))
               | None \<Rightarrow> Inr (10 * Second)))"

text \<open>A number of minutes; used for the cooldown and for the periodic resync.\<close>

definition resolveMinutes :: "string \<Rightarrow> duration \<Rightarrow> string \<Rightarrow> int option \<Rightarrow> goerror + duration" where
  "resolveMinutes label dflt env file =
     (let v = TrimSpace env
      in if v \<noteq> [] then bindE (wrapE label (atoiE v)) (\<lambda>n. Inr (durationFromMinutes n))
         else (case file of Some n \<Rightarrow> Inr (durationFromMinutes n) | None \<Rightarrow> Inr dflt))"

text \<open>A switch that the environment may override.\<close>

definition resolveSwitch :: "string \<Rightarrow> bool \<Rightarrow> string \<Rightarrow> goerror + bool" where
  "resolveSwitch label dflt env =
     (let v = TrimSpace env in if v \<noteq> [] then wrapE label (parseBoolE v) else Inr dflt)"

section \<open>Credentials\<close>

text \<open>The returned names come from the iteration over a Go map, so only their set is determined.\<close>

definition registryAliases :: "registryCredential \<Rightarrow> string set" where
  "registryAliases c =
     (let trimmed = ToLower (TrimSpace (cr_Registry c))
      in if trimmed = [] then {}
         else set (filter (\<lambda>v. v \<noteq> []) (map (\<lambda>a. ToLower (TrimSpace a)) (trimmed # cr_RegistryAliases c))))"

definition fromEnv :: "(string \<Rightarrow> string) \<Rightarrow> string \<Rightarrow> string \<Rightarrow> string" where
  "fromEnv getenv envName direct =
     (let env = TrimSpace envName
      in if env \<noteq> [] then (let val = getenv env in if val \<noteq> [] then val else direct) else direct)"

definition credentialAuth :: "(string \<Rightarrow> string) \<Rightarrow> registryCredential \<Rightarrow> authenticator option" where
  "credentialAuth getenv c =
     (let username = fromEnv getenv (cr_UsernameEnv c) (TrimSpace (cr_Username c));
          password = fromEnv getenv (cr_PasswordEnv c) (cr_Password c);
          token = fromEnv getenv (cr_TokenEnv c) (TrimSpace (cr_Token c))
      in if token \<noteq> [] then Some (RegistryToken token)
         else if username \<noteq> [] \<or> password \<noteq> [] then Some (Basic username password)
         else None)"

text \<open>The map \<open>auths\<close>; a later credential replaces an earlier one for the same name.\<close>

fun authMap :: "(string \<Rightarrow> string) \<Rightarrow> registryCredential list \<Rightarrow> (string \<rightharpoonup> authenticator) \<Rightarrow> (string \<rightharpoonup> authenticator)" where
  "authMap getenv [] m = m"
| "authMap getenv (c # cs) m =
     (case credentialAuth getenv c of
        None \<Rightarrow> authMap getenv cs m
      | Some a \<Rightarrow> authMap getenv cs (\<lambda>k. if k \<in> registryAliases c then Some a else m k))"

text \<open>\<open>iter\<close> lists the entries of a map in the order one iteration visits them.\<close>

definition buildKeychainFromConfig ::
  "((string \<rightharpoonup> authenticator) \<Rightarrow> (string \<times> authenticator option) list) \<Rightarrow> (string \<Rightarrow> string)
   \<Rightarrow> registryCredential list \<Rightarrow> staticKeychain" where
  "buildKeychainFromConfig iter getenv creds =
     (if creds = [] then NewStaticKeychain []
      else NewStaticKeychain (iter (authMap getenv creds Map.empty)))"

section \<open>The target\<close>

datatype targetConfig = EcrTarget ecrConfig | DockerTarget dockerConfig

definition firstSet :: "string \<Rightarrow> string \<Rightarrow> string" where
  "firstSet env file = (if env \<noteq> [] then env else file)"

text \<open>Lines 97 to 131, up to the construction of the client.\<close>

definition resolveEcr :: "(string \<Rightarrow> string) \<Rightarrow> ecrSection \<Rightarrow> goerror + targetConfig" where
  "resolveEcr getenv file =
     (let account = firstSet (getenv ''ECR_ACCOUNT_ID'') (es_AccountID file);
          region = firstSet (getenv ''AWS_REGION'') (es_Region file);
          prefix = firstSet (getenv ''ECR_REPO_PREFIX'') (es_RepoPrefix file);
          create = (case es_CreateRepo file of Some b \<Rightarrow> b | None \<Rightarrow> True)
      in bindE (wrapE ''parse ecr create repo: '' (resolveOptionalBoolEnv (getenv ''ECR_CREATE_REPO''))) (\<lambda>b.
           let cfg = \<lparr>ec_AccountID = account, ec_Region = region, ec_RepoPrefix = prefix,
                      ec_CreateRepo = (case b of Some x \<Rightarrow> x | None \<Rightarrow> create),
                      ec_AssumeRoleArn = es_AssumeRoleArn file, ec_LifecyclePolicy = es_LifecyclePolicy file\<rparr>
           in if ec_AccountID cfg = [] \<or> ec_Region cfg = []
              then Inl (ErrorString ''for TARGET_KIND=ecr set ECR_ACCOUNT_ID and AWS_REGION (via ConfigMap or env)'')
              else Inr (EcrTarget cfg)))"

text \<open>Lines 133 to 158.\<close>

definition resolveDocker :: "(string \<Rightarrow> string) \<Rightarrow> dockerSection \<Rightarrow> goerror + targetConfig" where
  "resolveDocker getenv file =
     (let insecure = (if getenv ''TARGET_INSECURE'' \<noteq> []
                      then (case ParseBool (TrimSpace (getenv ''TARGET_INSECURE'')) of
                              Some b \<Rightarrow> b | None \<Rightarrow> ds_Insecure file)
                      else ds_Insecure file);
          cfg = \<lparr>dc_Registry = firstSet (getenv ''TARGET_REGISTRY'') (ds_Registry file),
                 dc_Username = getenv ''TARGET_USERNAME'', dc_Password = getenv ''TARGET_PASSWORD'',
                 dc_RepoPrefix = firstSet (getenv ''TARGET_REPO_PREFIX'') (ds_RepoPrefix file),
                 dc_Insecure = insecure\<rparr>
      in if dc_Registry cfg = []
         then Inl (ErrorString ''for TARGET_KIND=docker set TARGET_REGISTRY (via ConfigMap or env)'')
         else Inr (DockerTarget cfg))"

text \<open>Lines 84 to 164; \<open>initError\<close> is the outcome of building the AWS client.\<close>

definition resolveTarget ::
  "(ecrConfig \<Rightarrow> goerror option) \<Rightarrow> (string \<Rightarrow> string) \<Rightarrow> fileConfig \<Rightarrow> bool \<Rightarrow> goerror + targetConfig" where
  "resolveTarget initError getenv file cfgFound =
     (let kind = getenv ''TARGET_KIND'';
          kind = (if kind = [] \<and> cfgFound then ToLower (TrimSpace (fc_TargetKind file)) else kind);
          kind = (if kind = [] then ''ecr'' else kind)
      in if kind = ''ecr''
         then bindE (resolveEcr getenv (fc_ECR file)) (\<lambda>t.
                case (case t of EcrTarget cfg \<Rightarrow> initError cfg | DockerTarget _ \<Rightarrow> None) of
                  Some e \<Rightarrow> Inl (Wrapf ''init registry target failed: '' e [])
                | None \<Rightarrow> Inr t)
         else if kind = ''docker'' then resolveDocker getenv (fc_Docker file)
         else Inl (ErrorString (''unknown TARGET_KIND '' @ kind)))"

section \<open>The runtime configuration\<close>

record runtimeConfig =
  rc_AllowedNS :: "string list"
  rc_SkipCfg :: skipConfig
  rc_ExcludedRegistries :: "string list"
  rc_Target :: targetConfig
  rc_DryRun :: bool
  rc_DryPull :: bool
  rc_PathMap :: "pathMapping list"
  rc_RequestTimeout :: duration
  rc_RegistryRetryAttempts :: int
  rc_RegistryRetryBackoff :: duration
  rc_Keychain :: staticKeychain
  rc_FailureCooldown :: duration
  rc_DigestPull :: bool
  rc_DigestPullIgnoredTags :: "string list"
  rc_IgnoreMissingPlatforms :: "string list"
  rc_CheckNodePlatform :: bool
  rc_MirrorPlatforms :: "string list"
  rc_AllowDifferentDigestRepush :: bool
  rc_MaxConcurrentReconciles :: int
  rc_WatchResources :: "resourceType list"
  rc_ForceResync :: duration

definition resolveSkips :: "(string \<Rightarrow> string) \<Rightarrow> fileConfig \<Rightarrow> skipConfig" where
  "resolveSkips getenv file = \<lparr>
     skc_Namespaces = resolveList (getenv ''SKIP_NAMESPACES'') (fc_SkipNamespaces file),
     skc_Deployments = resolveList (getenv ''SKIP_DEPLOYMENTS'') (skc_Deployments (fc_SkipNames file)),
     skc_StatefulSets = resolveList (getenv ''SKIP_STATEFULSETS'') (skc_StatefulSets (fc_SkipNames file)),
     skc_DaemonSets = resolveList (getenv ''SKIP_DAEMONSETS'') (skc_DaemonSets (fc_SkipNames file)),
     skc_Jobs = resolveList (getenv ''SKIP_JOBS'') (skc_Jobs (fc_SkipNames file)),
     skc_CronJobs = resolveList (getenv ''SKIP_CRONJOBS'') (skc_CronJobs (fc_SkipNames file)),
     skc_Pods = resolveList (getenv ''SKIP_PODS'') (skc_Pods (fc_SkipNames file))\<rparr>"

text \<open>Lines 74 to 82.\<close>

definition resolveWatch :: "string \<Rightarrow> string list \<Rightarrow> goerror + resourceType list" where
  "resolveWatch env file =
     (let vals = resolveList env file
      in if vals = [] then Inr []
         else (let (parsed, invalid) = ParseWatchResources vals
               in if invalid \<noteq> [] then Inl (ErrorString (''unsupported watch resource(s): '' @ Join invalid '', ''))
                  else Inr parsed))"

definition ignoredTags :: "string list \<Rightarrow> string list" where
  "ignoredTags tags = (if tags = [] then [''latest''] else tags)"

text \<open>The settings with a fallible value, one definition each.\<close>

definition resolveAttempts :: "(string \<Rightarrow> string) \<Rightarrow> fileConfig \<Rightarrow> goerror + int" where
  "resolveAttempts getenv file =
     resolvePositive ''parse registry retry attempts: '' ''registry retry attempts must be greater than zero''
       ''registryRetryAttempts in config must be greater than zero'' 3
       (getenv ''REGISTRY_RETRY_ATTEMPTS'') (fc_RegistryRetryAttempts file)"

definition resolveCooldown :: "(string \<Rightarrow> string) \<Rightarrow> fileConfig \<Rightarrow> goerror + duration" where
  "resolveCooldown getenv file =
     resolveMinutes ''parse failure cooldown minutes: '' DefaultFailureCooldown
       (getenv ''FAILURE_COOLDOWN_MINUTES'') (fc_FailureCooldownMinutes file)"

definition resolveDigestPull :: "(string \<Rightarrow> string) \<Rightarrow> fileConfig \<Rightarrow> goerror + bool" where
  "resolveDigestPull getenv file =
     resolveSwitch ''parse digest pull: '' (fc_DigestPull file) (getenv ''DIGEST_PULL'')"

definition resolveCheckNode :: "(string \<Rightarrow> string) \<Rightarrow> fileConfig \<Rightarrow> goerror + bool" where
  "resolveCheckNode getenv file =
     resolveSwitch ''parse check node platform: '' (fc_CheckNodePlatform file) (getenv ''CHECK_NODE_PLATFORM'')"

definition resolveAllowRepush :: "(string \<Rightarrow> string) \<Rightarrow> fileConfig \<Rightarrow> goerror + bool" where
  "resolveAllowRepush getenv file =
     resolveSwitch ''parse allow different digest repush: ''
       (case fc_AllowDifferentDigestRepush file of Some b \<Rightarrow> b | None \<Rightarrow> True)
       (getenv ''ALLOW_DIFFERENT_DIGEST_REPUSH'')"

definition resolveMaxConcurrent :: "(string \<Rightarrow> string) \<Rightarrow> fileConfig \<Rightarrow> goerror + int" where
  "resolveMaxConcurrent getenv file =
     resolvePositive ''parse max concurrent reconciles: '' ''max concurrent reconciles must be greater than zero''
       ''maxConcurrentReconciles in config must be greater than zero'' 2
       (getenv ''MAX_CONCURRENT_RECONCILES'') (fc_MaxConcurrentReconciles file)"

definition resolveForceResync :: "(string \<Rightarrow> string) \<Rightarrow> fileConfig \<Rightarrow> goerror + duration" where
  "resolveForceResync getenv file =
     resolveMinutes ''parse force reconcile minutes: '' 0
       (getenv ''FORCE_RECONCILE_MINUTES'') (fc_ForceReconcileMinutes file)"

text \<open>The settings are resolved in the order of the source, so the first error wins.\<close>

definition loadRuntimeConfig ::
  "((string \<rightharpoonup> authenticator) \<Rightarrow> (string \<times> authenticator option) list) \<Rightarrow> (ecrConfig \<Rightarrow> goerror option)
   \<Rightarrow> (string \<Rightarrow> string) \<Rightarrow> bool \<Rightarrow> bool \<Rightarrow> fileConfig \<Rightarrow> bool \<Rightarrow> goerror + runtimeConfig" where
  "loadRuntimeConfig iter initError getenv dryRunFlag dryPullFlag file cfgFound =
     bindE (resolveWatch (getenv ''WATCH_RESOURCES'') (fc_WatchResources file)) (\<lambda>watch.
     bindE (resolveTarget initError getenv file cfgFound) (\<lambda>target.
     bindE (resolveTimeout (getenv ''REGISTRY_REQUEST_TIMEOUT'') (fc_RequestTimeoutSeconds file)) (\<lambda>timeout.
     bindE (resolveAttempts getenv file) (\<lambda>attempts.
     bindE (resolveBackoff (getenv ''REGISTRY_RETRY_BACKOFF'') (fc_RegistryRetryBackoffSeconds file)) (\<lambda>backoff.
     bindE (resolveCooldown getenv file) (\<lambda>cooldown.
     bindE (resolveDigestPull getenv file) (\<lambda>digestPull.
     bindE (resolveCheckNode getenv file) (\<lambda>checkNode.
     bindE (resolveAllowRepush getenv file) (\<lambda>allowRepush.
     bindE (resolveMaxConcurrent getenv file) (\<lambda>maxConcurrent.
     bindE (resolveForceResync getenv file) (\<lambda>forceResync.
     Inr \<lparr>rc_AllowedNS = resolveAllowedNamespaces (getenv ''INCLUDE_NAMESPACES'') (fc_IncludeNamespaces file),
          rc_SkipCfg = resolveSkips getenv file,
          rc_ExcludedRegistries = resolveList (getenv ''EXCLUDE_REGISTRIES'') (fc_ExcludeRegistries file),
          rc_Target = target,
          rc_DryRun = dryMode (getenv ''DRY_RUN'') dryRunFlag (fc_DryRun file),
          rc_DryPull = dryMode (getenv ''DRY_PULL'') dryPullFlag (fc_DryPull file),
          rc_PathMap = fc_PathMap file, rc_RequestTimeout = timeout, rc_RegistryRetryAttempts = attempts,
          rc_RegistryRetryBackoff = backoff,
          rc_Keychain = buildKeychainFromConfig iter getenv (fc_RegistryCredentials file),
          rc_FailureCooldown = cooldown, rc_DigestPull = digestPull,
          rc_DigestPullIgnoredTags = ignoredTags (resolveList (getenv ''DIGEST_PULL_IGNORED_TAGS'') (fc_DigestPullIgnoredTags file)),
          rc_IgnoreMissingPlatforms = resolveList (getenv ''IGNORE_MISSING_PLATFORMS'') (fc_IgnoreMissingPlatforms file),
          rc_CheckNodePlatform = checkNode,
          rc_MirrorPlatforms = resolveList (getenv ''MIRROR_PLATFORMS'') (fc_MirrorPlatforms file),
          rc_AllowDifferentDigestRepush = allowRepush, rc_MaxConcurrentReconciles = maxConcurrent,
          rc_WatchResources = watch, rc_ForceResync = forceResync\<rparr>)))))))))))"

section \<open>Facts\<close>

subsection \<open>Lists\<close>

text \<open>A list entry in its final form.\<close>

definition cleanEntry :: "string \<Rightarrow> bool" where
  "cleanEntry s \<longleftrightarrow> s \<noteq> [] \<and> TrimSpace s = s \<and> CHR '','' \<notin> set s"

lemma sanitizeEntry_clean: "e \<in> set (sanitizeEntry v) \<Longrightarrow> cleanEntry e"
proof -
  assume e: "e \<in> set (sanitizeEntry v)"
  have "CHR '','' \<notin> set e"
  proof (cases "CHR '','' \<in> set (TrimSpace v)")
    case True
    with e obtain w where "w \<in> set (Split (TrimSpace v) CHR '','')" "e = TrimSpace w"
      by (auto simp: sanitizeEntry_def Let_def split: if_splits)
    with Split_no_sep show ?thesis using TrimSpace_subset by fast
  next
    case False
    with e show ?thesis by (auto simp: sanitizeEntry_def Let_def Contains_def Index_char split: if_splits)
  qed
  with e show ?thesis by (auto simp: sanitizeEntry_def Let_def cleanEntry_def split: if_splits)
qed

lemma sanitizeEntry_fixed: "cleanEntry e \<Longrightarrow> sanitizeEntry e = [e]"
  by (simp add: sanitizeEntry_def cleanEntry_def Contains_def Index_char)

lemma sanitize_clean: "e \<in> set (sanitizeStringList vals) \<Longrightarrow> cleanEntry e"
  by (auto simp: sanitizeStringList_def dest: sanitizeEntry_clean)

lemma sanitize_fixed: "(\<And>e. e \<in> set es \<Longrightarrow> cleanEntry e) \<Longrightarrow> sanitizeStringList es = es"
  by (induction es) (auto simp: sanitizeStringList_def sanitizeEntry_fixed)

interpretation list_norm: normalizer sanitizeStringList
  by unfold_locales (rule sanitize_fixed, rule sanitize_clean)

lemma resolveList_clean: "e \<in> set (resolveList env file) \<Longrightarrow> cleanEntry e"
  by (auto simp: resolveList_def Let_def dest: sanitize_clean split: if_splits)

subsection \<open>Errors\<close>

lemma bindE_Inr: "bindE m k = Inr y \<longleftrightarrow> (\<exists>x. m = Inr x \<and> k x = Inr y)"
  by (auto simp: bindE_def split: sum.split)

lemma wrapE_Inr [simp]: "wrapE label m = Inr x \<longleftrightarrow> m = Inr x"
  by (auto simp: wrapE_def split: sum.split)

lemma resolvePositive_pos: "0 < dflt \<Longrightarrow> resolvePositive l a b dflt env file = Inr n \<Longrightarrow> 0 < n"
  by (auto simp: resolvePositive_def bindE_Inr Let_def split: if_splits option.splits)

lemma int64_range: "- (2 ^ 63) \<le> int64 x \<and> int64 x < 2 ^ 63"
  by (simp add: int64_def)

lemma int64_id: "- (2 ^ 63) \<le> x \<Longrightarrow> x < 2 ^ 63 \<Longrightarrow> int64 x = x"
  by (simp add: int64_def)

lemma durationFromMinutes_exact: "m \<le> 153722867 \<Longrightarrow> durationFromMinutes m = (if m \<le> 0 then 0 else m * Minute)"
  by (simp add: durationFromMinutes_def Minute_def Second_def int64_id)

subsection \<open>Well-formed configurations\<close>

definition wfTarget :: "targetConfig \<Rightarrow> bool" where
  "wfTarget t = (case t of
       EcrTarget c \<Rightarrow> ec_AccountID c \<noteq> [] \<and> ec_Region c \<noteq> []
     | DockerTarget d \<Rightarrow> dc_Registry d \<noteq> [])"

definition skipLists :: "skipConfig \<Rightarrow> string list" where
  "skipLists s = skc_Namespaces s @ skc_Deployments s @ skc_StatefulSets s @ skc_DaemonSets s
     @ skc_Jobs s @ skc_CronJobs s @ skc_Pods s"

definition wfRuntime :: "runtimeConfig \<Rightarrow> bool" where
  "wfRuntime rc \<longleftrightarrow>
     wfTarget (rc_Target rc)
     \<and> rc_AllowedNS rc \<noteq> [] \<and> rc_DigestPullIgnoredTags rc \<noteq> []
     \<and> list_all cleanEntry (rc_AllowedNS rc @ rc_ExcludedRegistries rc @ rc_DigestPullIgnoredTags rc
         @ rc_IgnoreMissingPlatforms rc @ rc_MirrorPlatforms rc @ skipLists (rc_SkipCfg rc))
     \<and> distinct (rc_WatchResources rc)
     \<and> rc_RegistryRetryAttempts rc > 0 \<and> rc_MaxConcurrentReconciles rc > 0"

lemma resolveTarget_wf: "resolveTarget initError getenv file found = Inr t \<Longrightarrow> wfTarget t"
  by (auto simp: resolveTarget_def resolveEcr_def resolveDocker_def wfTarget_def bindE_Inr Let_def
      split: if_splits option.splits)

lemma parseWatchLoop_distinct: "distinct parsed \<Longrightarrow> distinct (fst (parseWatchLoop vals parsed invalid))"
  by (induction vals arbitrary: parsed invalid) (auto simp: Let_def split: option.split)

lemma resolveWatch_distinct: "resolveWatch env file = Inr ws \<Longrightarrow> distinct ws"
  using parseWatchLoop_distinct [of "[]" "resolveList env file" "[]"]
  by (auto simp: resolveWatch_def ParseWatchResources_def Let_def split: if_splits prod.splits)

lemma clean_star: "cleanEntry ''*''" and clean_latest: "cleanEntry ''latest''"
  by code_simp+

lemma resolveAllowed_clean: "list_all cleanEntry (resolveAllowedNamespaces env file)"
  by (auto simp: resolveAllowedNamespaces_def list_all_iff clean_star resolveList_clean Let_def)

lemma resolveSkips_clean: "list_all cleanEntry (skipLists (resolveSkips getenv file))"
  by (auto simp: skipLists_def resolveSkips_def list_all_iff resolveList_clean)

lemma ignoredTags_clean: "list_all cleanEntry (ignoredTags (resolveList env file))"
  by (auto simp: ignoredTags_def list_all_iff clean_latest resolveList_clean)

lemma loadRuntimeConfig_Inr:
  assumes "loadRuntimeConfig iter initError getenv dr dp file found = Inr rc"
  shows "resolveWatch (getenv ''WATCH_RESOURCES'') (fc_WatchResources file) = Inr (rc_WatchResources rc)"
    and "resolveTarget initError getenv file found = Inr (rc_Target rc)"
    and "resolveAttempts getenv file = Inr (rc_RegistryRetryAttempts rc)"
    and "resolveMaxConcurrent getenv file = Inr (rc_MaxConcurrentReconciles rc)"
    and "rc_AllowedNS rc = resolveAllowedNamespaces (getenv ''INCLUDE_NAMESPACES'') (fc_IncludeNamespaces file)"
    and "rc_SkipCfg rc = resolveSkips getenv file"
    and "rc_ExcludedRegistries rc = resolveList (getenv ''EXCLUDE_REGISTRIES'') (fc_ExcludeRegistries file)"
    and "rc_DigestPullIgnoredTags rc = ignoredTags (resolveList (getenv ''DIGEST_PULL_IGNORED_TAGS'') (fc_DigestPullIgnoredTags file))"
    and "rc_IgnoreMissingPlatforms rc = resolveList (getenv ''IGNORE_MISSING_PLATFORMS'') (fc_IgnoreMissingPlatforms file)"
    and "rc_MirrorPlatforms rc = resolveList (getenv ''MIRROR_PLATFORMS'') (fc_MirrorPlatforms file)"
    and "rc_Keychain rc = buildKeychainFromConfig iter getenv (fc_RegistryCredentials file)"
    and "rc_DryRun rc = dryMode (getenv ''DRY_RUN'') dr (fc_DryRun file)"
  using assms unfolding loadRuntimeConfig_def bindE_Inr by (elim exE conjE; force)+

subsection \<open>Keys of the file\<close>

lemma lowerChar_upper:
  "lowerChar CHR ''A'' = CHR ''a''" "lowerChar CHR ''B'' = CHR ''b''" "lowerChar CHR ''C'' = CHR ''c''" "lowerChar CHR ''D'' = CHR ''d''" "lowerChar CHR ''E'' = CHR ''e''"
  "lowerChar CHR ''F'' = CHR ''f''" "lowerChar CHR ''G'' = CHR ''g''" "lowerChar CHR ''H'' = CHR ''h''" "lowerChar CHR ''I'' = CHR ''i''" "lowerChar CHR ''J'' = CHR ''j''"
  "lowerChar CHR ''K'' = CHR ''k''" "lowerChar CHR ''L'' = CHR ''l''" "lowerChar CHR ''M'' = CHR ''m''" "lowerChar CHR ''N'' = CHR ''n''" "lowerChar CHR ''O'' = CHR ''o''"
  "lowerChar CHR ''P'' = CHR ''p''" "lowerChar CHR ''Q'' = CHR ''q''" "lowerChar CHR ''R'' = CHR ''r''" "lowerChar CHR ''S'' = CHR ''s''" "lowerChar CHR ''T'' = CHR ''t''"
  "lowerChar CHR ''U'' = CHR ''u''" "lowerChar CHR ''V'' = CHR ''v''" "lowerChar CHR ''W'' = CHR ''w''" "lowerChar CHR ''X'' = CHR ''x''" "lowerChar CHR ''Y'' = CHR ''y''"
  "lowerChar CHR ''Z'' = CHR ''z''"
  by code_simp+

lemma lowerChar_lower:
  "lowerChar CHR ''a'' = CHR ''a''" "lowerChar CHR ''b'' = CHR ''b''" "lowerChar CHR ''c'' = CHR ''c''" "lowerChar CHR ''d'' = CHR ''d''" "lowerChar CHR ''e'' = CHR ''e''"
  "lowerChar CHR ''f'' = CHR ''f''" "lowerChar CHR ''g'' = CHR ''g''" "lowerChar CHR ''h'' = CHR ''h''" "lowerChar CHR ''i'' = CHR ''i''" "lowerChar CHR ''j'' = CHR ''j''"
  "lowerChar CHR ''k'' = CHR ''k''" "lowerChar CHR ''l'' = CHR ''l''" "lowerChar CHR ''m'' = CHR ''m''" "lowerChar CHR ''n'' = CHR ''n''" "lowerChar CHR ''o'' = CHR ''o''"
  "lowerChar CHR ''p'' = CHR ''p''" "lowerChar CHR ''q'' = CHR ''q''" "lowerChar CHR ''r'' = CHR ''r''" "lowerChar CHR ''s'' = CHR ''s''" "lowerChar CHR ''t'' = CHR ''t''"
  "lowerChar CHR ''u'' = CHR ''u''" "lowerChar CHR ''v'' = CHR ''v''" "lowerChar CHR ''w'' = CHR ''w''" "lowerChar CHR ''x'' = CHR ''x''" "lowerChar CHR ''y'' = CHR ''y''"
  "lowerChar CHR ''z'' = CHR ''z''"
  by code_simp+

lemma configFields_lower:
  "map (map_prod ToLower ToLower) configFields =
     [(''targetkind'', ''targetkind''), (''loglevel'', ''loglevel''), (''ecr'', ''ecr''),
      (''docker'', ''docker''), (''digestpull'', ''digestpull''),
      (''digestpullignoredtags'', ''digestpullignoredtags''),
      (''ignoremissingplatforms'', ''ignoremissingplatforms''),
      (''checknodeplatform'', ''checknodeplatform''), (''mirrorplatforms'', ''mirrorplatforms''),
      (''allowdifferentdigestrepush'', ''allowdifferentdigestrepush''),
      (''includenamespaces'', ''includenamespaces''), (''skipnamespaces'', ''skipnamespaces''),
      (''skipnames'', ''skipnames''), (''excluderegistries'', ''excluderegistries''),
      (''watchresources'', ''watchresources''), (''dryrun'', ''dryrun''), (''drypull'', ''drypull''),
      (''requesttimeoutseconds'', ''requesttimeout''),
      (''registryretryattempts'', ''registryretryattempts''),
      (''registryretrybackoffseconds'', ''registryretrybackoff''),
      (''failurecooldownminutes'', ''failurecooldownminutes''),
      (''forcereconcileminutes'', ''forcereconcileminutes''),
      (''maxconcurrentreconciles'', ''maxconcurrentreconciles''),
      (''registrycredentials'', ''registrycredentials''), (''pathmap'', ''pathmap'')]"
  by (simp add: configFields_def ToLower_def lowerChar_upper lowerChar_lower)

lemma fold_find:
  assumes "distinct (map ToLower names)" "field \<in> set names"
  shows "find (\<lambda>name. EqualFold name key) names = Some field \<longleftrightarrow> ToLower field = ToLower key"
  using assms
proof (induction names)
  case (Cons name names)
  then have "field \<in> set names \<Longrightarrow> ToLower name \<noteq> ToLower field" by (metis distinct.simps(2) image_eqI list.set_map list.simps(9))
  moreover have "find P names = Some name \<Longrightarrow> ToLower name \<in> ToLower ` set names" for P
    by (auto simp: find_Some_iff)
  ultimately show ?case using Cons by (cases "field = name") (auto simp: EqualFold_def)
qed simp

lemma configFields_names: "distinct (map ToLower (map fst configFields))"
proof -
  have "map ToLower (map fst configFields) = map fst (map (map_prod ToLower ToLower) configFields)" by simp
  then show ?thesis unfolding configFields_lower by simp
qed

lemma fieldForKey_own:
  assumes "\<And>field key. keyMatches field key \<longleftrightarrow> EqualFold field key" "(field, key) \<in> set configFields"
  shows "fieldForKey keyMatches key = Some field \<longleftrightarrow> ToLower field = ToLower key"
  unfolding fieldForKey_def assms(1)
  by (rule fold_find [OF configFields_names]) (use assms(2) in force)

text \<open>A small configuration file.\<close>

definition sampleFile :: fileConfig where
  "sampleFile = \<lparr>fc_TargetKind = ''docker'', fc_LogLevel = ''Info'',
     fc_ECR = \<lparr>es_AccountID = [], es_Region = [], es_RepoPrefix = [], es_CreateRepo = None, es_AssumeRoleArn = [], es_LifecyclePolicy = []\<rparr>,
     fc_Docker = \<lparr>ds_Registry = ''t.io'', ds_RepoPrefix = [], ds_Insecure = False\<rparr>,
     fc_DigestPull = False, fc_DigestPullIgnoredTags = [], fc_IgnoreMissingPlatforms = [], fc_CheckNodePlatform = False,
     fc_MirrorPlatforms = [], fc_AllowDifferentDigestRepush = None, fc_IncludeNamespaces = [''a, b''], fc_SkipNamespaces = [],
     fc_SkipNames = \<lparr>skc_Namespaces = [], skc_Deployments = [], skc_StatefulSets = [], skc_DaemonSets = [], skc_Jobs = [],
       skc_CronJobs = [], skc_Pods = []\<rparr>,
     fc_ExcludeRegistries = [], fc_WatchResources = [''Pods''], fc_DryRun = False, fc_DryPull = False,
     fc_RequestTimeoutSeconds = None, fc_RegistryRetryAttempts = None, fc_RegistryRetryBackoffSeconds = None,
     fc_FailureCooldownMinutes = None, fc_ForceReconcileMinutes = None, fc_MaxConcurrentReconciles = None,
     fc_RegistryCredentials = [], fc_PathMap = []\<rparr>"

section \<open>Properties\<close>

text \<open>
  Property C33. Every configuration that loads is usable: the target has its mandatory parts, all name lists
  consist of trimmed, non-empty entries without commas, some namespace selection and some ignored tag
  are always there, watched resources are not repeated, and attempts and workers are positive.
\<close>

theorem loadRuntimeConfig_wf:
  assumes "loadRuntimeConfig iter initError getenv dryRunFlag dryPullFlag file found = Inr rc"
  shows "wfRuntime rc"
proof -
  note rc = loadRuntimeConfig_Inr [OF assms]
  have "rc_RegistryRetryAttempts rc > 0" "rc_MaxConcurrentReconciles rc > 0"
    using rc(3,4) by (auto simp: resolveAttempts_def resolveMaxConcurrent_def dest!: resolvePositive_pos [rotated])
  moreover have "rc_AllowedNS rc \<noteq> []" "rc_DigestPullIgnoredTags rc \<noteq> []"
    by (simp_all add: rc resolveAllowedNamespaces_def ignoredTags_def Let_def)
  ultimately show ?thesis
    using resolveTarget_wf [OF rc(2)] resolveWatch_distinct [OF rc(1)]
      resolveAllowed_clean resolveSkips_clean ignoredTags_clean resolveList_clean
    by (auto simp: wfRuntime_def rc(5-10) list_all_iff)
qed

theorem loadRuntimeConfig_wf_witness:
  "wfRuntime (projr (loadRuntimeConfig (\<lambda>_. []) (\<lambda>_. None) (\<lambda>_. []) False False sampleFile True))"
proof (rule loadRuntimeConfig_wf)
  show "loadRuntimeConfig (\<lambda>_. []) (\<lambda>_. None) (\<lambda>_. []) False False sampleFile True =
    Inr (projr (loadRuntimeConfig (\<lambda>_. []) (\<lambda>_. None) (\<lambda>_. []) False False sampleFile True))"
  proof (rule sum.collapse(2) [symmetric])
    show "\<not> isl (loadRuntimeConfig (\<lambda>_. []) (\<lambda>_. None) (\<lambda>_. []) False False sampleFile True)" by code_simp
  qed
qed

text \<open>
  Property C34. Two documented keys of the configuration file have no effect: because keys are matched with
  field names and not with the \<open>yaml\<close> tags, \<open>requestTimeout\<close> and \<open>registryRetryBackoff\<close> set no field, while
  every other key sets the field it is meant for. The defaults then apply.
\<close>

theorem config_keys_ignored:
  assumes matches: "\<And>field key. keyMatches field key \<longleftrightarrow> EqualFold field key"
  shows "filter (\<lambda>(field, key). fieldForKey keyMatches key \<noteq> Some field) configFields =
     [(''RequestTimeoutSeconds'', ''requestTimeout''), (''RegistryRetryBackoffSeconds'', ''registryRetryBackoff'')]
   \<and> fieldForKey keyMatches ''requestTimeout'' = None \<and> fieldForKey keyMatches ''registryRetryBackoff'' = None
   \<and> resolveTimeout [] None = Inr (300 * Second) \<and> resolveBackoff [] None = Inr (10 * Second)"
proof (intro conjI)
  let ?lower = "map (map_prod ToLower ToLower) configFields"
  have "filter (\<lambda>(field, key). fieldForKey keyMatches key \<noteq> Some field) configFields =
      filter (\<lambda>(field, key). ToLower field \<noteq> ToLower key) configFields"
    by (rule filter_cong) (auto simp: fieldForKey_own [OF matches])
  also have "\<dots> = [(''RequestTimeoutSeconds'', ''requestTimeout''), (''RegistryRetryBackoffSeconds'', ''registryRetryBackoff'')]"
    by (simp add: configFields_def ToLower_def lowerChar_upper lowerChar_lower)
  finally show "filter (\<lambda>(field, key). fieldForKey keyMatches key \<noteq> Some field) configFields =
     [(''RequestTimeoutSeconds'', ''requestTimeout''), (''RegistryRetryBackoffSeconds'', ''registryRetryBackoff'')]" .
  have "fieldForKey keyMatches key = None \<longleftrightarrow> ToLower key \<notin> set (map fst ?lower)" for key
    unfolding fieldForKey_def matches find_None_iff by (force simp: EqualFold_def)
  then show "fieldForKey keyMatches ''requestTimeout'' = None" "fieldForKey keyMatches ''registryRetryBackoff'' = None"
    unfolding configFields_lower by (simp_all add: ToLower_def lowerChar_upper lowerChar_lower)
qed (simp_all add: resolveTimeout_def resolveBackoff_def Minute_def)

theorem config_keys_ignored_witness:
  "fieldForKey EqualFold ''requestTimeout'' = None \<and> fieldForKey EqualFold ''registryRetryBackoff'' = None"
  using config_keys_ignored [of EqualFold] by simp

text \<open>
  A cooldown in minutes is exact up to 153722867 minutes; one minute more overflows the 64-bit
  nanoseconds to a negative duration, and the pusher replaces it by one hour.
\<close>

lemma cooldown_minutes_overflow:
  "(\<forall>m. durationFromMinutes (min m 153722867) = max 0 (min m 153722867) * Minute)
   \<and> durationFromMinutes 153722868 < 0
   \<and> failureCooldown (NewPusher t dry dryp tr kc timeout (durationFromMinutes 153722868) byDigest ignored allow excluded pls retry)
       = 60 * Minute"
proof -
  have neg: "durationFromMinutes 153722868 < 0"
    by (simp add: durationFromMinutes_def int64_def Minute_def Second_def)
  moreover have "durationFromMinutes (min m 153722867) = max 0 (min m 153722867) * Minute" for m
    using durationFromMinutes_exact [of "min m 153722867"] by (auto simp: max_def)
  ultimately show ?thesis
    by (simp add: NewPusher_def Let_def DefaultFailureCooldown_def Minute_def Second_def split: prod.split)
qed

end
