(* ===== verification/Flags.thy ===== *)
theory Flags
  imports Config
begin

text \<open>
  The command line of \<open>cmd/manager/main.go\<close>: the flags the program defines, the part of package \<open>flag\<close> that parses
  them, and the options of the logger. Libraries add flags of their own to the same set (those of the logger act
  on its options); they are an argument, a partial function from names.
\<close>

section \<open>Definitions\<close>

subsection \<open>The options of the logger\<close>

datatype timeEncoding = RFC3339NanoTime | OtherTime string

datatype encoding = JSONEncoding timeEncoding | OtherEncoding string

datatype logWriter = Stdout | OtherWriter string

record zapOptions =
  Development :: bool
  DestWriter :: logWriter
  Encoder :: "encoding option"
  TimeEncoder :: timeEncoding
  Level :: "int option"

definition zeroOptions :: zapOptions where
  "zeroOptions = \<lparr>Development = False, DestWriter = OtherWriter ''nil'', Encoder = None, TimeEncoder = OtherTime ''nil'', Level = None\<rparr>"

definition configureJSONLogging :: "zapOptions \<Rightarrow> zapOptions" where
  "configureJSONLogging opts = opts\<lparr>Development := False, DestWriter := Stdout,
     Encoder := Some (JSONEncoding RFC3339NanoTime), TimeEncoder := RFC3339NanoTime\<rparr>"

text \<open>The options of the logger that \<open>logStartupError\<close> makes for an error before the flags are known.\<close>

definition startupLogger :: zapOptions where
  "startupLogger = configureJSONLogging zeroOptions"

subsection \<open>The flags of the program\<close>

text \<open>Each flag with the value it is given, if any.\<close>

record flags =
  fl_metricsBindAddress :: "string option"
  fl_healthProbeBindAddress :: "string option"
  fl_leaderElect :: "bool option"
  fl_dryRun :: "bool option"
  fl_dryPull :: "bool option"

definition noFlags :: flags where
  "noFlags = \<lparr>fl_metricsBindAddress = None, fl_healthProbeBindAddress = None, fl_leaderElect = None, fl_dryRun = None, fl_dryPull = None\<rparr>"

definition flagOr :: "'a option \<Rightarrow> 'a \<Rightarrow> 'a" where
  "flagOr given dflt = (case given of Some v \<Rightarrow> v | None \<Rightarrow> dflt)"

definition dryRunFlag :: "flags \<Rightarrow> bool" where
  "dryRunFlag fl = flagOr (fl_dryRun fl) False"

definition dryPullFlag :: "flags \<Rightarrow> bool" where
  "dryPullFlag fl = flagOr (fl_dryPull fl) False"

text \<open>A flag of a library: whether it is boolean, and what setting it does to the options of the logger.\<close>

record extraFlag =
  xf_isBool :: bool
  xf_set :: "string \<Rightarrow> zapOptions \<Rightarrow> goerror + zapOptions"

definition isBoolFlag :: "(string \<rightharpoonup> extraFlag) \<Rightarrow> string \<Rightarrow> bool option" where
  "isBoolFlag extra name =
     (if name = ''metrics-bind-address'' \<or> name = ''health-probe-bind-address'' then Some False
      else if name = ''leader-elect'' \<or> name = ''dry-run'' \<or> name = ''dry-pull'' then Some True
      else map_option xf_isBool (extra name))"

definition boolValue :: "string \<Rightarrow> goerror + bool" where
  "boolValue v = (case ParseBool v of Some b \<Rightarrow> Inr b | None \<Rightarrow> Inl (ErrorString ''parse error''))"

definition setFlag ::
  "(string \<rightharpoonup> extraFlag) \<Rightarrow> string \<Rightarrow> string \<Rightarrow> flags \<times> zapOptions \<Rightarrow> goerror + flags \<times> zapOptions" where
  "setFlag extra name v st =
     (let (fl, opts) = st
      in if name = ''metrics-bind-address'' then Inr (fl\<lparr>fl_metricsBindAddress := Some v\<rparr>, opts)
         else if name = ''health-probe-bind-address'' then Inr (fl\<lparr>fl_healthProbeBindAddress := Some v\<rparr>, opts)
         else if name = ''leader-elect'' then bindE (boolValue v) (\<lambda>b. Inr (fl\<lparr>fl_leaderElect := Some b\<rparr>, opts))
         else if name = ''dry-run'' then bindE (boolValue v) (\<lambda>b. Inr (fl\<lparr>fl_dryRun := Some b\<rparr>, opts))
         else if name = ''dry-pull'' then bindE (boolValue v) (\<lambda>b. Inr (fl\<lparr>fl_dryPull := Some b\<rparr>, opts))
         else (case extra name of
                 None \<Rightarrow> Inl (ErrorString ''no such flag'')
               | Some x \<Rightarrow> bindE (xf_set x v opts) (\<lambda>opts. Inr (fl, opts))))"

subsection \<open>Parsing\<close>

text \<open>The name before the first equals sign, which is not looked for in the first position, and the value after it.\<close>

definition splitValue :: "string \<Rightarrow> string \<times> string option" where
  "splitValue name =
     (let rest = tl name; key = takeWhile (\<lambda>c. c \<noteq> CHR ''='') rest
      in (hd name # key, if CHR ''='' \<in> set rest then Some (drop (Suc (length key)) rest) else None))"

datatype flagFailure = ErrHelp | FlagError (flagError: goerror)

text \<open>
  \<open>FlagSet.Parse\<close>: the flags in order, up to the first argument that is not a flag or the terminator; the
  remaining arguments are returned as well.
\<close>

function parseFlags ::
  "(string \<rightharpoonup> extraFlag) \<Rightarrow> string list \<Rightarrow> flags \<times> zapOptions \<Rightarrow> flagFailure + (flags \<times> zapOptions) \<times> string list" where
  "parseFlags extra [] st = Inr (st, [])"
| "parseFlags extra (s # args) st =
     (if length s < 2 \<or> hd s \<noteq> CHR ''-'' then Inr (st, s # args)
      else if s = ''--'' then Inr (st, args)
      else (let name = (if s ! 1 = CHR ''-'' then drop 2 s else drop 1 s)
            in if name = [] \<or> hd name = CHR ''-'' \<or> hd name = CHR ''='' then Inl (FlagError (ErrorString (''bad flag syntax: '' @ s)))
               else (let (key, val) = splitValue name
                     in case isBoolFlag extra key of
                          None \<Rightarrow>
                            if key = ''help'' \<or> key = ''h'' then Inl ErrHelp
                            else Inl (FlagError (ErrorString (''flag provided but not defined: -'' @ key)))
                        | Some True \<Rightarrow>
                            (case val of
                               Some v \<Rightarrow>
                                 (case setFlag extra key v st of
                                    Inl e \<Rightarrow> Inl (FlagError (Wrapf (''invalid boolean value '' @ quoted v @ '' for -'' @ key @ '': '') e []))
                                  | Inr st1 \<Rightarrow> parseFlags extra args st1)
                             | None \<Rightarrow>
                                 (case setFlag extra key ''true'' st of
                                    Inl e \<Rightarrow> Inl (FlagError (Wrapf (''invalid boolean flag '' @ key @ '': '') e []))
                                  | Inr st1 \<Rightarrow> parseFlags extra args st1))
                        | Some False \<Rightarrow>
                            (if val = None \<and> args = [] then Inl (FlagError (ErrorString (''flag needs an argument: -'' @ key)))
                             else (let v = (case val of Some v \<Rightarrow> v | None \<Rightarrow> hd args);
                                       args1 = (case val of Some v \<Rightarrow> args | None \<Rightarrow> tl args)
                                   in case setFlag extra key v st of
                                        Inl e \<Rightarrow> Inl (FlagError (Wrapf (''invalid value '' @ quoted v @ '' for flag -'' @ key @ '': '') e []))
                                      | Inr st1 \<Rightarrow> parseFlags extra args1 st1)))))"
  by pat_completeness auto

termination parseFlags
  by (relation "measure (\<lambda>(extra, args, st). length args)") (auto split: option.splits)

declare parseFlags.simps(2) [simp del]

section \<open>Facts\<close>

text \<open>A logger that writes JSON to the standard output.\<close>

definition jsonLogger :: "zapOptions \<Rightarrow> bool" where
  "jsonLogger opts \<longleftrightarrow> \<not> Development opts \<and> DestWriter opts = Stdout
     \<and> Encoder opts = Some (JSONEncoding RFC3339NanoTime) \<and> TimeEncoder opts = RFC3339NanoTime"

lemma jsonLogger_configured [simp]: "jsonLogger (configureJSONLogging opts)" "jsonLogger startupLogger"
  by (simp_all add: jsonLogger_def configureJSONLogging_def startupLogger_def)

text \<open>One argument of the form \<open>--name=value\<close>.\<close>

lemma splitValue_assign:
  assumes "CHR ''='' \<notin> set name" "name \<noteq> []"
  shows "splitValue (name @ ''='' @ v) = (name, Some v)"
  using assms by (cases name) (auto simp: splitValue_def Let_def takeWhile_append)

lemma parseFlags_assign:
  assumes "CHR ''='' \<notin> set name" "name \<noteq> []" "hd name \<noteq> CHR ''-''" "isBoolFlag extra name = Some b"
    and "setFlag extra name v st = Inr st1"
  shows "parseFlags extra ((''--'' @ name @ ''='' @ v) # args) st = parseFlags extra args st1"
proof -
  have "hd (name @ ''='' @ v) \<noteq> CHR ''-''" "hd (name @ ''='' @ v) \<noteq> CHR ''=''"
    using assms(1-3) by (auto simp: hd_append) (metis list.set_sel(1))
  with assms splitValue_assign [OF assms(1,2), of v] show ?thesis
    by (simp add: parseFlags.simps(2) split: bool.split)
qed

lemma parseFlags_dryRun: "parseFlags extra [''--dry-run''] (noFlags, opts) = Inr ((noFlags\<lparr>fl_dryRun := Some True\<rparr>, opts), [])"
proof -
  have "splitValue ''dry-run'' = (''dry-run'', None)" "boolValue ''true'' = Inr True" by code_simp+
  then show ?thesis by (simp add: parseFlags.simps(2) isBoolFlag_def setFlag_def bindE_def)
qed

text \<open>A command line that says what some flags are.\<close>

definition showBool :: "bool \<Rightarrow> string" where
  "showBool b = (if b then ''true'' else ''false'')"

definition renderOption :: "string \<Rightarrow> string option \<Rightarrow> string list" where
  "renderOption name given = (case given of None \<Rightarrow> [] | Some v \<Rightarrow> [''--'' @ name @ ''='' @ v])"

definition renderFlags :: "flags \<Rightarrow> string list" where
  "renderFlags fl =
     renderOption ''metrics-bind-address'' (fl_metricsBindAddress fl)
     @ renderOption ''health-probe-bind-address'' (fl_healthProbeBindAddress fl)
     @ renderOption ''leader-elect'' (map_option showBool (fl_leaderElect fl))
     @ renderOption ''dry-run'' (map_option showBool (fl_dryRun fl))
     @ renderOption ''dry-pull'' (map_option showBool (fl_dryPull fl))"

lemma boolValue_showBool [simp]: "boolValue (showBool b) = Inr b"
proof (cases b)
  case True
  have "boolValue ''true'' = Inr True" by code_simp
  with True show ?thesis by (simp add: showBool_def)
next
  case False
  have "boolValue ''false'' = Inr False" by code_simp
  with False show ?thesis by (simp add: showBool_def)
qed

lemma parseFlags_option:
  assumes "CHR ''='' \<notin> set name" "name \<noteq> []" "hd name \<noteq> CHR ''-''" "isBoolFlag extra name = Some b"
    and "\<And>v. given = Some v \<Longrightarrow> setFlag extra name v st = Inr st1" "given = None \<Longrightarrow> st1 = st"
  shows "parseFlags extra (renderOption name given @ args) st = parseFlags extra args st1"
proof (cases given)
  case None
  with assms(6) show ?thesis by (simp add: renderOption_def)
next
  case (Some v)
  then have "renderOption name given @ args = (''--'' @ name @ ''='' @ v) # args" by (simp add: renderOption_def)
  with parseFlags_assign [OF assms(1-4) assms(5) [OF Some]] show ?thesis by simp
qed

section \<open>Properties\<close>

text \<open>
  Property C36. The flags of the program can be given on its command line: for every combination of values, the
  arguments \<open>--name=value\<close> parse to exactly those values, nothing is left over, the options of the logger are
  untouched, and the flags that libraries add make no difference.
\<close>

theorem parseFlags_renderFlags:
  "parseFlags extra (renderFlags fl) (noFlags, opts) = Inr ((fl, opts), [])"
proof -
  let ?f1 = "noFlags\<lparr>fl_metricsBindAddress := fl_metricsBindAddress fl\<rparr>"
  let ?f2 = "?f1\<lparr>fl_healthProbeBindAddress := fl_healthProbeBindAddress fl\<rparr>"
  let ?f3 = "?f2\<lparr>fl_leaderElect := fl_leaderElect fl\<rparr>"
  let ?f4 = "?f3\<lparr>fl_dryRun := fl_dryRun fl\<rparr>"
  let ?f5 = "?f4\<lparr>fl_dryPull := fl_dryPull fl\<rparr>"
  have "parseFlags extra (renderFlags fl) (noFlags, opts) = parseFlags extra (renderOption ''health-probe-bind-address'' (fl_healthProbeBindAddress fl)
     @ renderOption ''leader-elect'' (map_option showBool (fl_leaderElect fl))
     @ renderOption ''dry-run'' (map_option showBool (fl_dryRun fl))
     @ renderOption ''dry-pull'' (map_option showBool (fl_dryPull fl))) (?f1, opts)"
    unfolding renderFlags_def
    by (rule parseFlags_option) (auto simp: isBoolFlag_def setFlag_def noFlags_def)
  also have "\<dots> = parseFlags extra (renderOption ''leader-elect'' (map_option showBool (fl_leaderElect fl))
     @ renderOption ''dry-run'' (map_option showBool (fl_dryRun fl))
     @ renderOption ''dry-pull'' (map_option showBool (fl_dryPull fl))) (?f2, opts)"
    by (rule parseFlags_option) (auto simp: isBoolFlag_def setFlag_def noFlags_def)
  also have "\<dots> = parseFlags extra (renderOption ''dry-run'' (map_option showBool (fl_dryRun fl))
     @ renderOption ''dry-pull'' (map_option showBool (fl_dryPull fl))) (?f3, opts)"
    by (rule parseFlags_option) (auto simp: isBoolFlag_def setFlag_def noFlags_def bindE_def)
  also have "\<dots> = parseFlags extra (renderOption ''dry-pull'' (map_option showBool (fl_dryPull fl)) @ []) (?f4, opts)"
    by (simp only: append_Nil2) (rule parseFlags_option; auto simp: isBoolFlag_def setFlag_def noFlags_def bindE_def)
  also have "\<dots> = parseFlags extra [] (?f5, opts)"
    by (rule parseFlags_option) (auto simp: isBoolFlag_def setFlag_def noFlags_def bindE_def)
  also have "\<dots> = Inr ((fl, opts), [])" by (simp add: noFlags_def)
  finally show ?thesis .
qed

end
