(* ===== verification/Namespaces.thy ===== *)
theory Namespaces
  imports Glob GoErrors
begin

text \<open>
  \<open>cmd/manager/namespaces.go\<close>: the configured namespaces are checked against the cluster and wildcards are
  expanded. The cluster's answer to the list request is an argument.
\<close>

section \<open>Definitions\<close>

definition hasWildcard :: "string \<Rightarrow> bool" where
  "hasWildcard v = ContainsAny v ''*?[''"

definition ErrBadPattern :: goerror where
  "ErrBadPattern = ErrorString ''syntax error in pattern''"

fun matchLoop :: "string \<Rightarrow> string list \<Rightarrow> string list \<Rightarrow> goerror + string list" where
  "matchLoop pat [] matches = Inr matches"
| "matchLoop pat (name # names) matches =
     (case Match pat name of
        None \<Rightarrow> Inl ErrBadPattern
      | Some ok \<Rightarrow> matchLoop pat names (if ok then matches @ [name] else matches))"

definition matchNamespacePattern :: "string \<Rightarrow> string list \<Rightarrow> goerror + string list" where
  "matchNamespacePattern pat candidates = map_sum id sortStrings (matchLoop pat candidates [])"

text \<open>The first loop: the trimmed selections, or \<^term>\<open>None\<close> when one of them is the star.\<close>

fun normalizeSelections :: "string list \<Rightarrow> string list \<Rightarrow> string list option" where
  "normalizeSelections [] acc = Some acc"
| "normalizeSelections (raw # raws) acc =
     (let trimmed = TrimSpace raw
      in if trimmed = [] then normalizeSelections raws acc
         else if trimmed = ''*'' then None
         else normalizeSelections raws (acc @ [trimmed]))"

text \<open>The second loop: the selected names so far and the configured names the cluster does not have.\<close>

fun expandLoop :: "string list \<Rightarrow> string list \<Rightarrow> string list \<Rightarrow> string list \<Rightarrow> string list \<times> string list" where
  "expandLoop existing [] results missing = (results, missing)"
| "expandLoop existing (sel # sels) results missing =
     (if hasWildcard sel
      then (case matchNamespacePattern sel existing of
              Inl _ \<Rightarrow> expandLoop existing sels results missing
            | Inr matches \<Rightarrow> expandLoop existing sels (results @ matches) missing)
      else if sel \<notin> set existing then expandLoop existing sels results (missing @ [sel])
      else expandLoop existing sels (results @ [sel]) missing)"

definition validateAndExpandNamespaces :: "goerror + string list \<Rightarrow> string list \<Rightarrow> goerror + string list" where
  "validateAndExpandNamespaces listed selections =
     (if selections = [] then Inr [''*'']
      else (case normalizeSelections selections [] of
              None \<Rightarrow> Inr [''*'']
            | Some normalized \<Rightarrow>
                if normalized = [] then Inr [''*'']
                else (case listed of
                        Inl e \<Rightarrow> Inl (Wrapf ''list namespaces: '' e [])
                      | Inr items \<Rightarrow>
                          (let existing = filter (\<lambda>n. n \<noteq> []) (map TrimSpace items);
                               (results, missing) = expandLoop existing normalized [] []
                           in if missing \<noteq> []
                              then Inl (ErrorString (''configured namespace(s) do not exist: ''
                                          @ Join (sortStrings missing) '', ''))
                              else Inr (sortStrings (remdups results))))))"

section \<open>Facts\<close>

lemma matchLoop_plain:
  assumes "plainPattern pat" "\<forall>n \<in> set names. CHR ''/'' \<notin> set n"
  shows "matchLoop pat names acc = Inr (acc @ filter (wild pat) names)"
  using assms(2) by (induction names arbitrary: acc) (auto simp: Match_plain [OF assms(1)])

lemma normalizeSelections_eq:
  "normalizeSelections sels acc =
     (if ''*'' \<in> TrimSpace ` set sels then None
      else Some (acc @ filter (\<lambda>n. n \<noteq> []) (map TrimSpace sels)))"
  by (induction sels arbitrary: acc) (auto simp: Let_def)

text \<open>What one selection stands for.\<close>

definition selected :: "string list \<Rightarrow> string \<Rightarrow> string set" where
  "selected existing sel =
     (if hasWildcard sel
      then (case matchNamespacePattern sel existing of Inl _ \<Rightarrow> {} | Inr ms \<Rightarrow> set ms)
      else {sel} \<inter> set existing)"

lemma expandLoop_eq:
  "expandLoop existing sels results missing = (results', missing') \<Longrightarrow>
     set results' = set results \<union> (\<Union>sel \<in> set sels. selected existing sel)
     \<and> missing' = missing @ filter (\<lambda>sel. \<not> hasWildcard sel \<and> sel \<notin> set existing) sels"
proof (induction sels arbitrary: results missing)
  case (Cons sel sels)
  show ?case
  proof (cases "hasWildcard sel")
    case True
    show ?thesis
    proof (cases "matchNamespacePattern sel existing")
      case (Inl e)
      with True have "selected existing sel = {}" by (simp add: selected_def)
      with True Inl Cons show ?thesis by simp
    next
      case (Inr ms)
      with True have "selected existing sel = set ms" by (simp add: selected_def)
      with True Inr Cons.prems Cons.IH [of "results @ ms" missing] show ?thesis by auto
    qed
  next
    case False
    then have "selected existing sel = {sel} \<inter> set existing" by (simp add: selected_def)
    with False Cons.prems Cons.IH [of "results @ [sel]" missing] Cons.IH [of results "missing @ [sel]"] show ?thesis
      by (cases "sel \<in> set existing") auto
  qed
qed simp

lemma matchLoop_subset: "matchLoop pat names acc = Inr ms \<Longrightarrow> set ms \<subseteq> set acc \<union> set names"
  by (induction names arbitrary: acc) (fastforce split: option.splits if_splits)+

lemma selected_subset: "selected existing sel \<subseteq> set existing"
  using matchLoop_subset [of sel existing "[]"]
  by (auto simp: selected_def matchNamespacePattern_def sortStrings_def map_sum_def split: sum.splits)

section \<open>Properties\<close>

text \<open>
  Property C31. A namespace pattern of literals, question marks and stars means what it says: it selects, in
  order, exactly the namespaces that some choice of texts for the stars and characters for the
  question marks turns it into. The greedy search of the standard library misses none.
\<close>

theorem matchNamespacePattern_wildcards:
  assumes "plainPattern pat" and "\<forall>n \<in> set names. CHR ''/'' \<notin> set n"
  shows "matchNamespacePattern pat names = Inr (sort (filter (wild pat) names))"
  using matchLoop_plain [OF assms, of "[]"] by (simp add: matchNamespacePattern_def sortStrings_def)

theorem matchNamespacePattern_wildcards_witness:
  "matchNamespacePattern ''team-*-?'' [''team-a-b-c'', ''other'', ''team-1-2''] =
   Inr (sort (filter (wild ''team-*-?'') [''team-a-b-c'', ''other'', ''team-1-2'']))"
  by (rule matchNamespacePattern_wildcards) code_simp+

text \<open>
  Property C32. The expansion is sound and complete: when no selection is a lone star and one is not
  blank, the result is an error if the cluster cannot be listed or a plain name does not exist, and
  otherwise the sorted list, without repetitions, of the existing namespaces that some selection
  stands for.
\<close>

theorem validateAndExpandNamespaces_spec:
  assumes "''*'' \<notin> TrimSpace ` set sels" and "\<exists>s \<in> set sels. TrimSpace s \<noteq> []"
  shows "validateAndExpandNamespaces (Inl e) sels = Inl (Wrapf ''list namespaces: '' e [])
    \<and> (let existing = filter (\<lambda>n. n \<noteq> []) (map TrimSpace items);
           chosen = filter (\<lambda>n. n \<noteq> []) (map TrimSpace sels)
       in case validateAndExpandNamespaces (Inr items) sels of
            Inl _ \<Rightarrow> \<exists>sel \<in> set chosen. \<not> hasWildcard sel \<and> sel \<notin> set existing
          | Inr ns \<Rightarrow> (\<forall>sel \<in> set chosen. hasWildcard sel \<or> sel \<in> set existing)
              \<and> sorted ns \<and> distinct ns \<and> set ns = (\<Union>sel \<in> set chosen. selected existing sel)
              \<and> set ns \<subseteq> set existing)"
proof -
  let ?existing = "filter (\<lambda>n. n \<noteq> []) (map TrimSpace items)"
  let ?chosen = "filter (\<lambda>n. n \<noteq> []) (map TrimSpace sels)"
  have ne: "sels \<noteq> []" "?chosen \<noteq> []" using assms(2) by (auto simp: filter_empty_conv)
  have norm: "normalizeSelections sels [] = Some ?chosen" using assms(1) by (simp add: normalizeSelections_eq)
  obtain results missing where loop: "expandLoop ?existing ?chosen [] [] = (results, missing)" by fastforce
  note facts = expandLoop_eq [OF loop]
  have "validateAndExpandNamespaces (Inl e) sels = Inl (Wrapf ''list namespaces: '' e [])"
    using ne norm by (simp add: validateAndExpandNamespaces_def)
  moreover have "validateAndExpandNamespaces (Inr items) sels =
    (if missing \<noteq> [] then Inl (ErrorString (''configured namespace(s) do not exist: '' @ Join (sortStrings missing) '', ''))
     else Inr (sortStrings (remdups results)))"
    using ne norm loop by (simp add: validateAndExpandNamespaces_def Let_def)
  ultimately show ?thesis
    using facts selected_subset [of ?existing]
    by (auto simp: Let_def sortStrings_def filter_empty_conv)
qed

theorem validateAndExpandNamespaces_spec_witness:
  "validateAndExpandNamespaces (Inl EOF) [''team-*''] = Inl (Wrapf ''list namespaces: '' EOF [])
    \<and> (let existing = filter (\<lambda>n. n \<noteq> []) (map TrimSpace [''team-b'', ''team-a'']);
           chosen = filter (\<lambda>n. n \<noteq> []) (map TrimSpace [''team-*''])
       in case validateAndExpandNamespaces (Inr [''team-b'', ''team-a'']) [''team-*''] of
            Inl _ \<Rightarrow> \<exists>sel \<in> set chosen. \<not> hasWildcard sel \<and> sel \<notin> set existing
          | Inr ns \<Rightarrow> (\<forall>sel \<in> set chosen. hasWildcard sel \<or> sel \<in> set existing)
              \<and> sorted ns \<and> distinct ns \<and> set ns = (\<Union>sel \<in> set chosen. selected existing sel)
              \<and> set ns \<subseteq> set existing)"
  by (rule validateAndExpandNamespaces_spec) code_simp+

end
