(* ===== verification/Http.thy ===== *)
theory Http
  imports Ledger
begin

text \<open>
  \<open>cmd/manager/http_handlers.go\<close>: the two endpoints of the metrics server that reset the cooldown and start a
  forced run. A service behind an endpoint acts on a state of any type; before start-up is complete there
  is none. The responses are the records that are encoded as JSON. The methods \<open>SetResetter\<close> and
  \<open>SetReconciler\<close> hold the write lock and \<open>ServeHTTP\<close> reads under the read lock, so each is one step.
\<close>

section \<open>Definitions\<close>

subsection \<open>Resetting the cooldown\<close>

type_synonym 's cooldownResetter = "'s \<Rightarrow> (nat \<times> bool) \<times> 's"

record cooldownResetResponse =
  Reset :: bool
  ClearedTargets :: nat
  cr_Message :: string

record 's cooldownHandler =
  resetter :: "'s cooldownResetter option"

definition newCooldownHandler :: "'s cooldownHandler" where
  "newCooldownHandler = \<lparr>resetter = None\<rparr>"

definition SetResetter :: "'s cooldownResetter \<Rightarrow> 's cooldownHandler \<Rightarrow> 's cooldownHandler" where
  "SetResetter f h = h\<lparr>resetter := Some f\<rparr>"

definition serveCooldown :: "'s cooldownHandler \<Rightarrow> 's \<Rightarrow> cooldownResetResponse \<times> 's" where
  "serveCooldown h s =
     (case resetter h of
        None \<Rightarrow> (\<lparr>Reset = False, ClearedTargets = 0, cr_Message = ''cooldown reset service not ready''\<rparr>, s)
      | Some f \<Rightarrow>
          (let ((cleared, enabled), s1) = f s
           in (\<lparr>Reset = enabled \<and> cleared > 0, ClearedTargets = cleared,
                cr_Message = (if \<not> enabled then ''failure cooldown disabled''
                              else if cleared = 0 then ''no cooldown entries to reset''
                              else ''failure cooldown reset'')\<rparr>, s1)))"

subsection \<open>Forced runs\<close>

type_synonym 's forceReconcilable = "'s \<Rightarrow> (nat \<times> nat \<times> goerror option) \<times> 's"

record forceReconcileResponse =
  Triggered :: bool
  Success :: bool
  fr_Workloads :: nat
  fr_Images :: nat
  fr_Message :: string

record 's forceReconcileHandler =
  reconciler :: "'s forceReconcilable option"

definition newForceReconcileHandler :: "'s forceReconcileHandler" where
  "newForceReconcileHandler = \<lparr>reconciler = None\<rparr>"

definition SetReconciler :: "'s forceReconcilable \<Rightarrow> 's forceReconcileHandler \<Rightarrow> 's forceReconcileHandler" where
  "SetReconciler f h = h\<lparr>reconciler := Some f\<rparr>"

definition serveForce :: "'s forceReconcileHandler \<Rightarrow> 's \<Rightarrow> forceReconcileResponse \<times> 's" where
  "serveForce h s =
     (case reconciler h of
        None \<Rightarrow> (\<lparr>Triggered = False, Success = False, fr_Workloads = 0, fr_Images = 0,
                 fr_Message = ''force reconcile service not ready''\<rparr>, s)
      | Some f \<Rightarrow>
          (let ((workloads, images, err), s1) = f s
           in (\<lparr>Triggered = True, Success = (err = None), fr_Workloads = workloads, fr_Images = images,
                fr_Message = (case err of
                    Some e \<Rightarrow> ''force reconcile failed: '' @ errText e
                  | None \<Rightarrow> ''force reconcile completed'')\<rparr>, s1)))"

section \<open>Facts\<close>

lemma serveCooldown_not_ready [simp]: "snd (serveCooldown newCooldownHandler s) = s"
  by (simp add: serveCooldown_def newCooldownHandler_def)

lemma serveForce_not_ready [simp]: "snd (serveForce newForceReconcileHandler s) = s"
  by (simp add: serveForce_def newForceReconcileHandler_def)

lemma serveForce_ready:
  "serveForce (SetReconciler f h) s =
     (let ((workloads, images, err), s1) = f s
      in (\<lparr>Triggered = True, Success = (err = None), fr_Workloads = workloads, fr_Images = images,
           fr_Message = (case err of Some e \<Rightarrow> ''force reconcile failed: '' @ errText e
                                   | None \<Rightarrow> ''force reconcile completed'')\<rparr>, s1))"
  by (simp add: serveForce_def SetReconciler_def)

section \<open>Properties\<close>

text \<open>
  Property C22. A reset request that reaches the pusher leaves no target in a cooldown and touches no target
  in flight; the answer says whether anything was lifted and how many targets had failed. Before the
  pusher is set nothing happens and the answer says so.
\<close>

theorem serveCooldown_resets:
  "(case serveCooldown (SetResetter (ResetCooldown cooldown) h) l of (answer, l1) \<Rightarrow>
      (\<forall>t. blockedOf cooldown l1 t = None) \<and> busyOf l1 = busyOf l
      \<and> (Reset answer \<longleftrightarrow> (\<exists>t. blockedOf cooldown l t \<noteq> None))
      \<and> ClearedTargets answer = card {t. blockedOf cooldown l t \<noteq> None})
   \<and> snd (serveCooldown newCooldownHandler l) = l \<and> \<not> Reset (fst (serveCooldown newCooldownHandler l))"
proof (intro conjI)
  have waiting: "{t. blockedOf cooldown l t \<noteq> None} = (if cooldown > 0 then fmdom' (failed l) else {})"
    by (auto simp: blockedOf_def fmdom'_alt_def fmlookup_dom_iff)
  obtain cleared enabled l1 where r: "ResetCooldown cooldown l = ((cleared, enabled), l1)"
    by (metis prod.collapse)
  from ResetCooldown_spec [of cooldown l]
  have spec: "enabled = (cooldown > 0)" "cleared = card {t. blockedOf cooldown l t \<noteq> None}"
    "\<forall>t. blockedOf cooldown l1 t = None" "busyOf l1 = busyOf l"
    unfolding waiting by (simp_all add: r)
  have "finite {t. blockedOf cooldown l t \<noteq> None}" unfolding waiting by simp
  then have "cleared > 0 \<longleftrightarrow> (\<exists>t. blockedOf cooldown l t \<noteq> None)" by (auto simp: spec(2) card_gt_0_iff)
  moreover have "enabled \<longleftrightarrow> cooldown > 0" "(\<exists>t. blockedOf cooldown l t \<noteq> None) \<Longrightarrow> cooldown > 0"
    using spec(1) by (auto simp: blockedOf_def split: if_splits)
  ultimately show "case serveCooldown (SetResetter (ResetCooldown cooldown) h) l of (answer, l1) \<Rightarrow>
      (\<forall>t. blockedOf cooldown l1 t = None) \<and> busyOf l1 = busyOf l
      \<and> (Reset answer \<longleftrightarrow> (\<exists>t. blockedOf cooldown l t \<noteq> None))
      \<and> ClearedTargets answer = card {t. blockedOf cooldown l t \<noteq> None}"
    using spec(2-4) by (auto simp: serveCooldown_def SetResetter_def r)
qed (simp_all add: serveCooldown_def newCooldownHandler_def)

end
