(* ===== verification/System.thy ===== *)
theory System
  imports MirrorProps ControllerProps Config Flags Namespaces Http
begin

text \<open>
  \<open>cmd/manager/main.go\<close>: from the configuration to the running program, and what the running program does
  with one event after the other. Everything the program gets from outside is the record \<open>outside\<close>;
  the state is that of the pusher, whose world is shared with the cluster client.
\<close>

section \<open>Definitions\<close>

subsection \<open>The pusher and the cluster in one state\<close>

text \<open>
  \<open>Mirror\<close> as the controllers call it. The branch for a panic is not reached with an honest registry
  client (\<open>asPusher_returns\<close> below).
\<close>

definition asPusher ::
  "'w remote \<Rightarrow> 'w writer \<Rightarrow> 'w pusher \<Rightarrow> string \<Rightarrow> metadata \<Rightarrow> 'w pst \<Rightarrow> goerror option \<times> 'w pst" where
  "asPusher rem wr p src meta s =
     (case Mirror rem wr p src meta s of
        (Return e, s1) \<Rightarrow> (e, s1)
      | (Continue _, s1) \<Rightarrow> (None, s1)
      | (Panic, s1) \<Rightarrow> (Some (ErrorString ''panic''), s1))"

definition onWorld :: "('w \<Rightarrow> 'a \<times> 'w) \<Rightarrow> 'w pst \<Rightarrow> 'a \<times> 'w pst" where
  "onWorld f s = (let (r, w) = f (st_world s) in (r, s\<lparr>st_world := w\<rparr>))"

definition liftKube :: "'w kube \<Rightarrow> 'w pst kube" where
  "liftKube k = \<lparr>k_now = (\<lambda>s. k_now k (st_world s)),
     k_getWorkload = (\<lambda>kind key. onWorld (k_getWorkload k kind key)),
     k_listWorkloads = (\<lambda>kind. onWorld (k_listWorkloads k kind)),
     k_getPod = (\<lambda>key. onWorld (k_getPod k key)), k_listPods = onWorld (k_listPods k),
     k_getNode = (\<lambda>n. onWorld (k_getNode k n)),
     k_getReplicaSetOwners = (\<lambda>key. onWorld (k_getReplicaSetOwners k key)),
     k_getJobOwners = (\<lambda>key. onWorld (k_getJobOwners k key))\<rparr>"

text \<open>\<open>ResetCooldown\<close> as a method of the pusher.\<close>

definition pusherReset :: "'w pusher \<Rightarrow> 'w pst cooldownResetter" where
  "pusherReset p s =
     (let (r, l) = ResetCooldown (failureCooldown p) (st_ledger s) in (r, s\<lparr>st_ledger := l\<rparr>))"

subsection \<open>Start-up\<close>

record cacheOptions =
  SyncPeriod :: "duration option"
  DefaultNamespaces :: "string set option"

definition cacheOptionsFor :: "runtimeConfig \<Rightarrow> cacheOptions" where
  "cacheOptionsFor cfg =
     \<lparr>SyncPeriod = (if rc_ForceResync cfg > 0 then Some (rc_ForceResync cfg) else None),
      DefaultNamespaces =
        (if length (rc_AllowedNS cfg) \<noteq> 0 \<and> (length (rc_AllowedNS cfg) \<noteq> 1 \<or> hd (rc_AllowedNS cfg) \<noteq> ''*'')
         then Some (set (rc_AllowedNS cfg)) else None)\<rparr>"

definition envOrDefault :: "(string \<Rightarrow> string) \<Rightarrow> string \<Rightarrow> string \<Rightarrow> string" where
  "envOrDefault getenv key fallback = (let v = TrimSpace (getenv key) in if v = [] then fallback else v)"

text \<open>\<open>ctrl.Options\<close>; the extra handlers of the metrics server are given by their paths.\<close>

record managerOptions =
  mo_metricsBindAddress :: string
  mo_extraHandlers :: "string list"
  mo_healthProbeBindAddress :: string
  mo_leaderElection :: bool
  mo_leaderElectionID :: string
  mo_cache :: cacheOptions

definition managerOptionsFor :: "(string \<Rightarrow> string) \<Rightarrow> flags \<Rightarrow> runtimeConfig \<Rightarrow> managerOptions" where
  "managerOptionsFor getenv fl cfg =
     \<lparr>mo_metricsBindAddress = flagOr (fl_metricsBindAddress fl) (envOrDefault getenv ''METRICS_ADDR'' '':8080''),
      mo_extraHandlers = [''/reset-cooldown'', ''/force-reconcile''],
      mo_healthProbeBindAddress = flagOr (fl_healthProbeBindAddress fl) '':8081'',
      mo_leaderElection = flagOr (fl_leaderElect fl) True,
      mo_leaderElectionID = ''k8s-copycat.k8s-copycat'',
      mo_cache = cacheOptionsFor cfg\<rparr>"

text \<open>\<open>o_addCheck\<close> is the outcome of \<open>AddHealthzCheck\<close> and \<open>AddReadyzCheck\<close>, by the name of the check.\<close>

record ('w, 're) outside =
  o_remote :: "'w remote"
  o_writer :: "'w writer"
  o_kube :: "'w kube"
  o_regexp :: "'re regexpPkg"
  o_aws :: "ecrConfig \<Rightarrow> goerror + 'w awsClient"
  o_mapOrder :: "(string \<rightharpoonup> authenticator) \<Rightarrow> (string \<times> authenticator option) list"
  o_getenv :: "string \<Rightarrow> string"
  o_namespaces :: "goerror + string list"
  o_newClient :: "goerror option"
  o_newManager :: "managerOptions \<Rightarrow> goerror option"
  o_register :: "controllerSpec \<Rightarrow> 'w pst \<Rightarrow> goerror option \<times> 'w pst"
  o_addCheck :: "string \<Rightarrow> goerror option"

text \<open>The target the configuration names, built by the constructors of package \<open>registry\<close>.\<close>

definition targetOf :: "(ecrConfig \<Rightarrow> goerror + 'w awsClient) \<Rightarrow> targetConfig \<Rightarrow> goerror + 'w target" where
  "targetOf aws t = (case t of EcrTarget cfg \<Rightarrow> NewECR aws cfg | DockerTarget cfg \<Rightarrow> Inr (NewDocker cfg))"

definition ecrInitError :: "(ecrConfig \<Rightarrow> goerror + 'w awsClient) \<Rightarrow> ecrConfig \<Rightarrow> goerror option" where
  "ecrInitError aws cfg = (case aws cfg of Inl e \<Rightarrow> Some e | Inr _ \<Rightarrow> None)"

definition configuredPusher :: "('w, 're) outside \<Rightarrow> runtimeConfig \<Rightarrow> 'w target \<Rightarrow> 'w pusher" where
  "configuredPusher env cfg t =
     NewPusher t (rc_DryRun cfg) (rc_DryPull cfg) (Some (NewRepoPathTransformer (o_regexp env) (rc_PathMap cfg)))
       (Some (rc_Keychain cfg))
       (rc_RequestTimeout cfg) (rc_FailureCooldown cfg) (rc_DigestPull cfg) (rc_DigestPullIgnoredTags cfg)
       (rc_AllowDifferentDigestRepush cfg) (rc_ExcludedRegistries cfg) (rc_MirrorPlatforms cfg)
       (Some \<lparr>Attempts = rc_RegistryRetryAttempts cfg, Backoff = rc_RegistryRetryBackoff cfg\<rparr>)"

record 'w running =
  run_config :: runtimeConfig
  run_options :: managerOptions
  run_pusher :: "'w pusher"
  run_base :: "'w pst baseReconciler"
  run_watch :: "resourceType list"
  run_cooldown :: "'w pst cooldownHandler"
  run_force :: "'w pst forceReconcileHandler"

text \<open>The middle of \<open>main\<close>, from the loaded configuration on; every \<open>os.Exit(1)\<close> is an error.\<close>

definition addChecks :: "(string \<Rightarrow> goerror option) \<Rightarrow> goerror option" where
  "addChecks add = (case add ''healthz'' of Some e \<Rightarrow> Some e | None \<Rightarrow> add ''readyz'')"

definition startManager :: "('w, 're) outside \<Rightarrow> flags \<Rightarrow> runtimeConfig \<Rightarrow> 'w target \<Rightarrow> 'w pst \<Rightarrow> (goerror + 'w running) \<times> 'w pst" where
  "startManager env fl cfg t s =
     (case (case o_newClient env of
              Some e \<Rightarrow> Inl e
            | None \<Rightarrow> validateAndExpandNamespaces (o_namespaces env) (rc_AllowedNS cfg)) of
        Inl e \<Rightarrow> (Inl e, s)
      | Inr ns \<Rightarrow>
          (let cfg = cfg\<lparr>rc_AllowedNS := ns\<rparr>; opts = managerOptionsFor (o_getenv env) fl cfg
           in case o_newManager env opts of
                Some e \<Rightarrow> (Inl e, s)
              | None \<Rightarrow>
                  (let p = configuredPusher env cfg t
                   in case SetupAll (o_register env) (liftKube (o_kube env)) (asPusher (o_remote env) (o_writer env) p)
                             (rc_AllowedNS cfg) (rc_SkipCfg cfg) (rc_WatchResources cfg)
                             (rc_MaxConcurrentReconciles cfg) (rc_CheckNodePlatform cfg) s of
                        (Inl e, s1) \<Rightarrow> (Inl e, s1)
                      | (Inr (base, watch), s1) \<Rightarrow>
                          (case addChecks (o_addCheck env) of
                             Some e \<Rightarrow> (Inl e, s1)
                           | None \<Rightarrow>
                               (Inr \<lparr>run_config = cfg, run_options = opts, run_pusher = p, run_base = base, run_watch = watch,
                                  run_cooldown = SetResetter (pusherReset p) newCooldownHandler,
                                  run_force = SetReconciler (ForceReconcile base watch) newForceReconcileHandler\<rparr>, s1)))))"

definition start ::
  "('w, 're) outside \<Rightarrow> flags \<Rightarrow> fileConfig \<Rightarrow> bool \<Rightarrow> 'w pst \<Rightarrow> (goerror + 'w running) \<times> 'w pst" where
  "start env fl file found s =
     (case loadRuntimeConfig (o_mapOrder env) (ecrInitError (o_aws env)) (o_getenv env) (dryRunFlag fl) (dryPullFlag fl) file found of
        Inl e \<Rightarrow> (Inl e, s)
      | Inr cfg \<Rightarrow>
          (case targetOf (o_aws env) (rc_Target cfg) of
             Inl e \<Rightarrow> (Inl e, s)
           | Inr t \<Rightarrow> startManager env fl cfg t s))"

text \<open>
  The beginning of \<open>main\<close>: the configuration file, its log level (parsed by \<open>zapcore\<close>), and the command line,
  after which the options of the logger are set again. \<open>flag.Parse\<close> leaves the process when it fails.
\<close>

definition applyLogLevel :: "(string \<Rightarrow> goerror + int) \<Rightarrow> string \<Rightarrow> zapOptions \<Rightarrow> goerror + zapOptions" where
  "applyLogLevel parseLevel level opts =
     (let levelStr = TrimSpace level
      in if levelStr \<noteq> [] then bindE (parseLevel (ToLower levelStr)) (\<lambda>lvl. Inr (opts\<lparr>Level := Some lvl\<rparr>)) else Inr opts)"

text \<open>A failure of the start-up comes with the options of the logger that reports it.\<close>

datatype exitCause = HelpRequested | BadFlags goerror | StartError zapOptions goerror

definition main ::
  "('w, 're) outside \<Rightarrow> files \<Rightarrow> (string \<Rightarrow> goerror + int) \<Rightarrow> (string \<rightharpoonup> extraFlag) \<Rightarrow> string list \<Rightarrow> 'w pst
     \<Rightarrow> (exitCause + zapOptions \<times> 'w running) \<times> 'w pst" where
  "main env fs parseLevel extra args s =
     (case loadConfigFile fs (o_getenv env) of
        Inl e \<Rightarrow> (Inl (StartError startupLogger e), s)
      | Inr (file, found) \<Rightarrow>
          (case applyLogLevel parseLevel (fc_LogLevel file) (configureJSONLogging zeroOptions) of
             Inl e \<Rightarrow> (Inl (StartError startupLogger e), s)
           | Inr opts \<Rightarrow>
               (case parseFlags extra args (noFlags, opts) of
                  Inl ErrHelp \<Rightarrow> (Inl HelpRequested, s)
                | Inl (FlagError e) \<Rightarrow> (Inl (BadFlags e), s)
                | Inr ((fl, opts1), _) \<Rightarrow>
                    (let logger = configureJSONLogging opts1
                     in case start env fl file found s of
                          (Inl e, s1) \<Rightarrow> (Inl (StartError logger e), s1)
                        | (Inr run, s1) \<Rightarrow> (Inr (logger, run), s1)))))"

text \<open>
  The status of the process: that of \<open>flag.ExitOnError\<close> (0 for help, 2 for a command line that does not parse),
  1 when start-up fails or \<open>mgr.Start\<close>, whose outcome is \<open>stopped\<close>, returns an error, 0 otherwise.
\<close>

definition exitStatus :: "exitCause + zapOptions \<times> 'w running \<Rightarrow> goerror option \<Rightarrow> nat" where
  "exitStatus started stopped =
     (case started of
        Inl HelpRequested \<Rightarrow> 0
      | Inl (BadFlags _) \<Rightarrow> 2
      | Inl (StartError _ _) \<Rightarrow> 1
      | Inr _ \<Rightarrow> (case stopped of Some _ \<Rightarrow> 1 | None \<Rightarrow> 0))"

subsection \<open>Events\<close>

text \<open>What the manager calls while it runs: a reconciler, or the extra handler for the path of a request.\<close>

datatype managerEvent = ReconcileObject resourceType "string \<times> string" | ReconcilePod "string \<times> string"
  | HttpRequest string

definition handle :: "'w running \<Rightarrow> managerEvent \<Rightarrow> 'w pst \<Rightarrow> 'w pst" where
  "handle run ev s = (case ev of
       ReconcileObject kind key \<Rightarrow> snd (reconcileWorkload (run_base run) kind key s)
     | ReconcilePod key \<Rightarrow> snd (reconcilePod (run_base run) key s)
     | HttpRequest path \<Rightarrow>
         if path = ''/reset-cooldown'' then snd (serveCooldown (run_cooldown run) s)
         else if path = ''/force-reconcile'' then snd (serveForce (run_force run) s)
         else s)"

definition handleAll :: "'w running \<Rightarrow> managerEvent list \<Rightarrow> 'w pst \<Rightarrow> 'w pst" where
  "handleAll run evs s = foldl (\<lambda>s ev. handle run ev s) s evs"

section \<open>Facts\<close>

lemma asPusher_returns:
  "honest rem \<Longrightarrow> Mirror rem wr p src meta s = (Return (fst (asPusher rem wr p src meta s)), snd (asPusher rem wr p src meta s))"
  using Mirror_honest [of rem wr p src meta s] by (auto simp: asPusher_def)

lemma asPusher_state: "snd (asPusher rem wr p src meta s) = snd (Mirror rem wr p src meta s)"
  by (simp add: asPusher_def split: prod.split flow.split)

lemma onWorld_ledger [simp]: "st_ledger (snd (onWorld f s)) = st_ledger s"
  by (simp add: onWorld_def split: prod.split)

lemma newBase_sel [simp]:
  "r_kube (newBase k m ns cfg chk) = k" "r_mirror (newBase k m ns cfg chk) = m"
  "AllowedNamespaces (newBase k m ns cfg chk) = ns"
  "SkippedNamespaces (newBase k m ns cfg chk) = set (filter (\<lambda>n. n \<noteq> []) (map TrimSpace (skc_Namespaces cfg)))"
  by (simp_all add: newBase_def)

text \<open>The real pusher and the real cluster client keep the set of targets in flight, so the controllers do.\<close>

interpretation in_flight: mirror_client "newBase (liftKube k) (asPusher rem wr p) ns cfg chk"
  "\<lambda>s. busyOf (st_ledger s) = B" for k rem wr p ns cfg chk B
  by unfold_locales (simp_all add: liftKube_def asPusher_state Mirror_busy)

lemma pusherReset_busy [simp]: "busyOf (st_ledger (snd (pusherReset p s))) = busyOf (st_ledger s)"
  by (auto simp: pusherReset_def busyOf_def split: prod.split) (metis ResetCooldown_pushed snd_conv)+

lemma serveCooldown_state: "snd (serveCooldown (SetResetter f h) s) = snd (f s)"
  by (simp add: serveCooldown_def SetResetter_def split: prod.split)

lemma serveForce_state: "snd (serveForce (SetReconciler f h) s) = snd (f s)"
  by (simp add: serveForce_ready split: prod.split)

lemma startManager_Inr:
  assumes "startManager env fl cfg t s = (Inr run, s1)"
  obtains ns p where "validateAndExpandNamespaces (o_namespaces env) (rc_AllowedNS cfg) = Inr ns"
    and "p = configuredPusher env (cfg\<lparr>rc_AllowedNS := ns\<rparr>) t" and "run_pusher run = p"
    and "run_config run = cfg\<lparr>rc_AllowedNS := ns\<rparr>"
    and "run_base run = newBase (liftKube (o_kube env)) (asPusher (o_remote env) (o_writer env) p) ns (rc_SkipCfg cfg) (rc_CheckNodePlatform cfg)"
    and "run_options run = managerOptionsFor (o_getenv env) fl (cfg\<lparr>rc_AllowedNS := ns\<rparr>)"
    and "run_cooldown run = SetResetter (pusherReset p) newCooldownHandler"
    and "run_force run = SetReconciler (ForceReconcile (run_base run) (run_watch run)) newForceReconcileHandler"
  using assms unfolding startManager_def SetupAll_def Let_def
  by (auto split: sum.splits option.splits prod.splits)

lemma start_Inr:
  assumes "start env fl file found s = (Inr run, s1)"
  obtains cfg t where "loadRuntimeConfig (o_mapOrder env) (ecrInitError (o_aws env)) (o_getenv env)
      (dryRunFlag fl) (dryPullFlag fl) file found = Inr cfg"
    and "startManager env fl cfg t s = (Inr run, s1)"
  using assms unfolding start_def by (auto split: sum.splits)

lemma handle_busy:
  assumes "start env fl file found s0 = (Inr run, s1)"
  shows "busyOf (st_ledger (handle run ev s)) = busyOf (st_ledger s)"
proof -
  obtain cfg t where "startManager env fl cfg t s0 = (Inr run, s1)" using start_Inr [OF assms] by blast
  then obtain ns p where base: "run_base run = newBase (liftKube (o_kube env)) (asPusher (o_remote env) (o_writer env) p)
        ns (rc_SkipCfg cfg) (rc_CheckNodePlatform cfg)"
    and cool: "run_cooldown run = SetResetter (pusherReset p) newCooldownHandler"
    and force: "run_force run = SetReconciler (ForceReconcile (run_base run) (run_watch run)) newForceReconcileHandler"
    by (rule startManager_Inr) blast
  show ?thesis
    by (cases ev) (simp_all add: handle_def base cool force serveCooldown_state serveForce_state
        in_flight.reconcileWorkload_keeps in_flight.reconcilePod_keeps in_flight.ForceReconcile_keeps)
qed

lemma configuredPusher_dryRun [simp]: "dryRun (configuredPusher env cfg t) = rc_DryRun cfg"
  by (simp add: configuredPusher_def NewPusher_def Let_def split: prod.split)

lemma configuredPusher_writer [simp]: "configuredPusher (env\<lparr>o_writer := wr\<rparr>) cfg t = configuredPusher env cfg t"
  by (simp add: configuredPusher_def)

lemma asPusher_dryRun: "dryRun p \<Longrightarrow> asPusher rem wr p = asPusher rem wr' p"
  by (intro ext) (simp add: asPusher_def Mirror_cong_deliver [OF mirrorDeliver_dryRun, of p rem wr wr'])

lemma startManager_dryRun:
  assumes "rc_DryRun cfg"
  shows "startManager env fl cfg t s = startManager (env\<lparr>o_writer := wr\<rparr>) fl cfg t s"
proof -
  have "asPusher (o_remote env) (o_writer env) (configuredPusher env (cfg\<lparr>rc_AllowedNS := ns\<rparr>) t)
      = asPusher (o_remote env) wr (configuredPusher env (cfg\<lparr>rc_AllowedNS := ns\<rparr>) t)" for ns
    using assms by (intro asPusher_dryRun) simp
  then show ?thesis by (simp add: startManager_def Let_def split: sum.split option.split prod.split)
qed

lemma start_dryRun:
  assumes "dryMode (o_getenv env ''DRY_RUN'') (dryRunFlag fl) (fc_DryRun file)"
  shows "start (env\<lparr>o_writer := wr\<rparr>) fl file found s = start env fl file found s"
proof (cases "loadRuntimeConfig (o_mapOrder env) (ecrInitError (o_aws env)) (o_getenv env) (dryRunFlag fl) (dryPullFlag fl) file found")
  case (Inr cfg)
  with assms have "rc_DryRun cfg" by (simp add: loadRuntimeConfig_Inr(12))
  with Inr startManager_dryRun [of cfg env fl _ s wr] show ?thesis by (simp add: start_def split: sum.split)
qed (simp add: start_def)

text \<open>A program that \<open>main\<close> brings up is one that \<open>start\<close> brings up, so what holds of started programs holds of it.\<close>

lemma main_Inr:
  assumes "main env fs parseLevel extra args s = (Inr (logger, run), s1)"
  obtains "file" found opts fl opts1 rest where "loadConfigFile fs (o_getenv env) = Inr (file, found)"
    and "parseFlags extra args (noFlags, opts) = Inr ((fl, opts1), rest)"
    and "start env fl file found s = (Inr run, s1)"
  using assms by (auto simp: main_def Let_def split: sum.splits flagFailure.splits prod.splits)

text \<open>
  Whatever the flags of the libraries do, a started program and every failure of the start-up log JSON to the
  standard output.
\<close>

lemma main_logger:
  assumes "main env fs parseLevel extra args s = (r, s1)"
  shows "case r of Inr (logger, run) \<Rightarrow> jsonLogger logger | Inl (StartError logger e) \<Rightarrow> jsonLogger logger | Inl _ \<Rightarrow> True"
  using assms by (auto simp: main_def Let_def split: sum.splits flagFailure.splits prod.splits)

text \<open>The process ends with status 2 only for its command line, and without an error only when asked for help or stopped.\<close>

lemma exitStatus_two: "exitStatus started stopped = 2 \<longleftrightarrow> (\<exists>e. started = Inl (BadFlags e))"
  by (auto simp: exitStatus_def split: sum.split exitCause.split option.split)

lemma exitStatus_zero: "exitStatus started stopped = 0 \<longleftrightarrow> started = Inl HelpRequested \<or> \<not> isl started \<and> stopped = None"
  by (auto simp: exitStatus_def split: sum.split exitCause.split option.split)

text \<open>A pattern that fits no name selects nothing, valid or not.\<close>

lemma matchLoop_nothing:
  "(\<forall>n \<in> set names. Match pat n \<noteq> Some True) \<Longrightarrow> matchLoop pat names acc = Inr ms \<Longrightarrow> ms = acc"
  by (induction names arbitrary: acc) (auto split: option.splits if_splits)

lemma selected_nothing:
  "hasWildcard sel \<Longrightarrow> (\<forall>n \<in> set names. Match sel n \<noteq> Some True) \<Longrightarrow> selected names sel = {}"
  using matchLoop_nothing [of names sel "[]"]
  by (auto simp: selected_def matchNamespacePattern_def sortStrings_def map_sum_def split: sum.splits)

lemma expand_nothing:
  assumes "sels \<noteq> []"
    and sels: "\<forall>sel \<in> set sels. cleanEntry sel \<and> sel \<noteq> ''*'' \<and> hasWildcard sel
      \<and> (\<forall>n \<in> set items. Match sel (TrimSpace n) \<noteq> Some True)"
  shows "validateAndExpandNamespaces (Inr items) sels = Inr []"
proof -
  let ?existing = "filter (\<lambda>n. n \<noteq> []) (map TrimSpace items)"
  have clean: "map TrimSpace sels = sels" "filter (\<lambda>n. n \<noteq> []) sels = sels" "''*'' \<notin> set sels"
    using sels by (auto simp: cleanEntry_def intro!: map_idI)
  then have norm: "normalizeSelections sels [] = Some sels"
    by (simp add: normalizeSelections_eq) (metis image_set)
  obtain rs ms where r: "expandLoop ?existing sels [] [] = (rs, ms)" by fastforce
  have "selected ?existing sel = {}" if "sel \<in> set sels" for sel
    using sels that by (intro selected_nothing) auto
  with expandLoop_eq [OF r] sels have "rs = []" "ms = []" by auto
  with r norm assms(1) show ?thesis by (simp add: validateAndExpandNamespaces_def sortStrings_def)
qed

subsection \<open>A small instance\<close>

definition demoKube :: "event list kube" where
  "demoKube = \<lparr>k_now = (\<lambda>_. 1000), k_getWorkload = (\<lambda>_ _ w. (Inl EOF, w)), k_listWorkloads = (\<lambda>_ w. (Inr [], w)),
     k_getPod = (\<lambda>_ w. (Inl EOF, w)),
     k_listPods = (\<lambda>w. (Inr [], w)), k_getNode = (\<lambda>_ w. (Inl EOF, w)),
     k_getReplicaSetOwners = (\<lambda>_ w. (Inr [], w)), k_getJobOwners = (\<lambda>_ w. (Inr [], w))\<rparr>"

definition demoOutside :: "(event list, unit) outside" where
  "demoOutside = \<lparr>o_remote = demoRemote (\<lambda>_. Inl EOF) (Inr demoDescriptor), o_writer = demoWriter, o_kube = demoKube,
     o_regexp = \<lparr>Compile = (\<lambda>_. None), MatchString = (\<lambda>_ _. False), ReplaceAllString = (\<lambda>_ p _. p)\<rparr>,
     o_aws = (\<lambda>_. Inl EOF), o_mapOrder = (\<lambda>_. []), o_getenv = (\<lambda>_. []), o_namespaces = Inr [''a'', ''b''],
     o_newClient = None,
     o_newManager = (\<lambda>_. None), o_register = (\<lambda>_ s. (None, s)), o_addCheck = (\<lambda>_. None)\<rparr>"

definition demoFiles :: files where
  "demoFiles = \<lparr>ReadFile = (\<lambda>_. Inr []), IsNotExist = (\<lambda>_. False), Unmarshal = (\<lambda>_. Inr sampleFile)\<rparr>"

lemma demo_main: "\<not> isl (fst (main demoOutside demoFiles (\<lambda>_. Inr 0) Map.empty [''--dry-run''] demoState))"
  by code_simp

lemma demo_starts: "\<not> isl (fst (start demoOutside noFlags sampleFile True demoState))"
  by code_simp

lemma demo_wild_starts:
  "\<not> isl (fst (start demoOutside noFlags (sampleFile\<lparr>fc_IncludeNamespaces := [''x*'']\<rparr>) True demoState))"
  by code_simp

lemma start_projr:
  "\<not> isl (fst (start env fl file found s)) \<Longrightarrow>
     start env fl file found s = (Inr (projr (fst (start env fl file found s))), snd (start env fl file found s))"
  by (cases "start env fl file found s") simp

section \<open>Properties\<close>

text \<open>
  Property C18. Between events the program holds no target: whatever sequence of reconciles, cooldown resets
  and forced runs a started program handles one after the other, the targets in flight afterwards are those
  from before, for every behaviour of registries and cluster.
\<close>

theorem system_idle_between_events:
  assumes "honest (o_remote env)" and "start env fl file found s0 = (Inr run, s1)"
  shows "busyOf (st_ledger (handleAll run evs s)) = busyOf (st_ledger s)"
  using handle_busy [OF assms(2)] by (induction evs arbitrary: s) (simp_all add: handleAll_def)

theorem system_idle_between_events_witness:
  "busyOf (st_ledger (handleAll (projr (fst (start demoOutside noFlags sampleFile True demoState)))
     [ReconcilePod (''a'', ''p''), HttpRequest ''/force-reconcile'', HttpRequest ''/reset-cooldown''] demoState)) = busyOf (st_ledger demoState)"
proof (rule system_idle_between_events [OF _ start_projr [OF demo_starts]])
  show "honest (o_remote demoOutside)"
    by (simp add: demoOutside_def honest_def demoRemoteTag_def demoDescriptor_def demoIndex_def)
qed

text \<open>
  Property C13. A dry run never writes, however it is asked for. When the environment, or in its absence the
  command line or the configuration file, says so, the program is the same from \<open>main\<close> to the handling of every
  event, whatever the functions that upload images would do.
\<close>

theorem system_dryRun_never_writes:
  assumes "\<And>file found opts fl opts1 rest. loadConfigFile fs (o_getenv env) = Inr (file, found) \<Longrightarrow>
      parseFlags extra args (noFlags, opts) = Inr ((fl, opts1), rest) \<Longrightarrow>
      dryMode (o_getenv env ''DRY_RUN'') (dryRunFlag fl) (fc_DryRun file)"
  shows "main (env\<lparr>o_writer := wr\<rparr>) fs parseLevel extra args s = main env fs parseLevel extra args s"
proof -
  have "start (env\<lparr>o_writer := wr\<rparr>) fl file found s = start env fl file found s"
    if "loadConfigFile fs (o_getenv env) = Inr (file, found)" "parseFlags extra args (noFlags, opts) = Inr ((fl, opts1), rest)"
    for "file" found opts fl opts1 rest
    using assms that by (intro start_dryRun) blast
  then show ?thesis by (auto simp: main_def Let_def split: sum.split flagFailure.split)
qed

theorem system_dryRun_never_writes_witness:
  "\<not> isl (fst (main (demoOutside\<lparr>o_writer := failingWriter\<rparr>) demoFiles (\<lambda>_. Inr 0) Map.empty [''--dry-run''] demoState))"
proof -
  have "main (demoOutside\<lparr>o_writer := failingWriter\<rparr>) demoFiles (\<lambda>_. Inr 0) Map.empty [''--dry-run''] demoState =
     main demoOutside demoFiles (\<lambda>_. Inr 0) Map.empty [''--dry-run''] demoState"
    by (rule system_dryRun_never_writes) (auto simp: parseFlags_dryRun dryRunFlag_def flagOr_def dryMode_def demoOutside_def)
  with demo_main show ?thesis by simp
qed

text \<open>
  Property C19. When all configured namespaces are patterns and none of them fits a namespace of the cluster,
  the program does not watch nothing, as its log message says: the expansion is the empty list, which the
  controllers and the cache both read as no restriction, so every namespace that is not skipped is mirrored.
\<close>

theorem unmatched_patterns_allow_all:
  assumes "loadRuntimeConfig (o_mapOrder env) (ecrInitError (o_aws env)) (o_getenv env) (dryRunFlag fl) (dryPullFlag fl) file found = Inr cfg"
    and "o_namespaces env = Inr items"
    and "\<forall>pat \<in> set (rc_AllowedNS cfg). pat \<noteq> ''*'' \<and> hasWildcard pat \<and> (\<forall>n \<in> set items. Match pat (TrimSpace n) \<noteq> Some True)"
    and "start env fl file found s0 = (Inr run, s1)"
  shows "rc_AllowedNS (run_config run) = [] \<and> DefaultNamespaces (mo_cache (run_options run)) = None
    \<and> nsAllowed (run_base run) ns = (ns = [] \<or> ns \<notin> TrimSpace ` set (skc_Namespaces (rc_SkipCfg cfg)))"
proof -
  obtain t where m: "startManager env fl cfg t s0 = (Inr run, s1)"
    using start_Inr [OF assms(4)] assms(1) by fastforce
  have names: "rc_AllowedNS cfg = resolveAllowedNamespaces (o_getenv env ''INCLUDE_NAMESPACES'') (fc_IncludeNamespaces file)"
    by (rule loadRuntimeConfig_Inr(5) [OF assms(1)])
  then have "\<forall>pat \<in> set (rc_AllowedNS cfg). cleanEntry pat"
    using resolveAllowed_clean by (simp add: list_all_iff)
  moreover have "rc_AllowedNS cfg \<noteq> []" by (simp add: names resolveAllowedNamespaces_def Let_def)
  ultimately have "validateAndExpandNamespaces (o_namespaces env) (rc_AllowedNS cfg) = Inr []"
    unfolding assms(2) using assms(3) by (intro expand_nothing) auto
  with m show ?thesis
    by (elim startManager_Inr) (auto simp: managerOptionsFor_def cacheOptionsFor_def nsAllowed_def namespaceSkipped_def)
qed

theorem unmatched_patterns_allow_all_witness:
  "nsAllowed (run_base (projr (fst (start demoOutside noFlags (sampleFile\<lparr>fc_IncludeNamespaces := [''x*'']\<rparr>) True demoState)))) ''a''"
proof -
  let ?file = "sampleFile\<lparr>fc_IncludeNamespaces := [''x*'']\<rparr>"
  let ?load = "loadRuntimeConfig (o_mapOrder demoOutside) (ecrInitError (o_aws demoOutside)) (o_getenv demoOutside)
    (dryRunFlag noFlags) (dryPullFlag noFlags) ?file True"
  have load: "?load = Inr (projr ?load)" by (rule sum.collapse(2) [symmetric]) code_simp
  have allowed: "rc_AllowedNS (projr ?load) = [''x*'']" "skc_Namespaces (rc_SkipCfg (projr ?load)) = []" by code_simp+
  have "''x*'' \<noteq> ''*'' \<and> hasWildcard ''x*'' \<and> (\<forall>n \<in> set [''a'', ''b'']. Match ''x*'' (TrimSpace n) \<noteq> Some True)" by code_simp
  then have "\<forall>pat \<in> set (rc_AllowedNS (projr ?load)). pat \<noteq> ''*'' \<and> hasWildcard pat
      \<and> (\<forall>n \<in> set [''a'', ''b'']. Match pat (TrimSpace n) \<noteq> Some True)"
    by (simp add: allowed)
  moreover have "o_namespaces demoOutside = Inr [''a'', ''b'']" by (simp add: demoOutside_def)
  ultimately show ?thesis
    using unmatched_patterns_allow_all [OF load _ _ start_projr [OF demo_wild_starts], of "[''a'', ''b'']" "''a''"]
    by (simp add: allowed)
qed

end
