(* ===== verification/MirrorTraffic.thy ===== *)
theory MirrorTraffic
  imports Pusher
begin

text \<open>
  With which credentials and over which transport \<open>Mirror\<close> talks to registries. A call is lawful when it
  carries the deadline of the pusher and either the credentials of the target over the transport of the
  target, or the keychain over a transport that verifies certificates. Replacing the behaviour of all other
  calls changes nothing, so no other call is made.
\<close>

section \<open>Lawful calls\<close>

text \<open>The credentials a target hands out.\<close>

definition issuedBy :: "'w target \<Rightarrow> (string \<times> string) set" where
  "issuedBy t = {auth. \<exists>w. fst (t_BasicAuth t w) = Inr auth}"

definition lawful :: "'w target \<Rightarrow> staticKeychain \<Rightarrow> duration option \<Rightarrow> callOpts \<Rightarrow> bool" where
  "lawful t kc deadline opts \<longleftrightarrow>
     co_deadline opts = deadline
     \<and> (case co_auth opts of
          WithAuth auth \<Rightarrow> auth \<in> issuedBy t \<and> InsecureSkipVerify (co_transport opts) = t_Insecure t \<and> co_platform opts = None
        | WithAuthFromKeychain k \<Rightarrow> k = kc \<and> \<not> InsecureSkipVerify (co_transport opts))"

text \<open>The client \<open>rem\<close> on some calls and \<open>bad\<close> on the others.\<close>

definition mixRemote :: "(callOpts \<Rightarrow> bool) \<Rightarrow> 'w remote \<Rightarrow> 'w remote \<Rightarrow> 'w remote" where
  "mixRemote ok rem bad = rem\<lparr>
     remoteHead := (\<lambda>opts. remoteHead (if ok opts then rem else bad) opts),
     remoteGet := (\<lambda>opts. remoteGet (if ok opts then rem else bad) opts),
     remoteImage := (\<lambda>opts. remoteImage (if ok opts then rem else bad) opts),
     remoteIndex := (\<lambda>opts. remoteIndex (if ok opts then rem else bad) opts)\<rparr>"

definition mixWriter :: "(callOpts \<Rightarrow> bool) \<Rightarrow> 'w writer \<Rightarrow> 'w writer \<Rightarrow> 'w writer" where
  "mixWriter ok wr bad = \<lparr>
     remoteWrite = (\<lambda>opts. remoteWrite (if ok opts then wr else bad) opts),
     remoteWriteIndex = (\<lambda>opts. remoteWriteIndex (if ok opts then wr else bad) opts)\<rparr>"

section \<open>Stages on a mixed client\<close>

lemma mixRemote_pure [simp]:
  "now (mixRemote ok rem bad) = now rem" "ParseReference (mixRemote ok rem bad) = ParseReference rem"
  "NewTag (mixRemote ok rem bad) = NewTag rem" "NewDigest (mixRemote ok rem bad) = NewDigest rem"
  "NewHash (mixRemote ok rem bad) = NewHash rem" "AppendManifests (mixRemote ok rem bad) = AppendManifests rem"
  "sleep (mixRemote ok rem bad) = sleep rem"
  by (simp_all add: mixRemote_def)

lemma mixRemote_calls:
  "ok opts \<Longrightarrow> remoteHead (mixRemote ok rem bad) opts = remoteHead rem opts"
  "ok opts \<Longrightarrow> remoteGet (mixRemote ok rem bad) opts = remoteGet rem opts"
  "ok opts \<Longrightarrow> remoteImage (mixRemote ok rem bad) opts = remoteImage rem opts"
  "ok opts \<Longrightarrow> remoteIndex (mixRemote ok rem bad) opts = remoteIndex rem opts"
  by (simp_all add: mixRemote_def)

lemma mixRemote_failures [simp]:
  "failWith (mixRemote ok rem bad) = failWith rem" "pullFailed (mixRemote ok rem bad) = pullFailed rem"
  "pushFailed (mixRemote ok rem bad) = pushFailed rem" "reassign (mixRemote ok rem bad) = reassign rem"
proof -
  show *: "failWith (mixRemote ok rem bad) = failWith rem" by (intro ext) (simp add: failWith_def)
  show "pullFailed (mixRemote ok rem bad) = pullFailed rem" "pushFailed (mixRemote ok rem bad) = pushFailed rem"
    "reassign (mixRemote ok rem bad) = reassign rem"
    by (intro ext; simp only: pullFailed_def pushFailed_def reassign_def mixRemote_pure *)+
qed

lemma mixRemote_prepare [simp]:
  "buildTarget (mixRemote ok rem bad) = buildTarget rem" "mirrorPrepare (mixRemote ok rem bad) = mirrorPrepare rem"
  "mirrorAuth (mixRemote ok rem bad) = mirrorAuth rem"
proof -
  have digest: "pullReferenceFromMetadata (mixRemote ok rem bad) = pullReferenceFromMetadata rem"
    by (intro ext) (simp only: pullReferenceFromMetadata_def digestReferenceFromImageID_def mixRemote_pure)
  show target: "buildTarget (mixRemote ok rem bad) = buildTarget rem"
    by (intro ext) (simp only: buildTarget_def mixRemote_pure)
  show "mirrorPrepare (mixRemote ok rem bad) = mirrorPrepare rem"
    by (intro ext) (simp only: mirrorPrepare_def mixRemote_pure digest target)
  show "mirrorAuth (mixRemote ok rem bad) = mirrorAuth rem"
    by (intro ext) (simp only: mirrorAuth_def mixRemote_failures)
qed

text \<open>A pusher whose source calls, and whose target calls with one of the credentials \<open>A\<close>, are all among \<open>ok\<close>.\<close>

locale lawful_pusher =
  fixes p :: "'w pusher" and ok :: "callOpts \<Rightarrow> bool" and A :: "(string \<times> string) set"
  assumes source_ok: "ok (sourceOpts p platform)"
    and target_ok: "auth \<in> A \<Longrightarrow> ok (targetOpts p auth)"
    and issued: "fst (t_BasicAuth (p_target p) w) = Inr auth \<Longrightarrow> auth \<in> A"
begin

lemmas source_calls = mixRemote_calls [where ok = ok, OF source_ok]
lemmas target_calls = mixRemote_calls [where ok = ok, OF target_ok]

lemma before_select:
  assumes "auth \<in> A"
  shows "mirrorPodDigestCheck (mixRemote ok rem bad) p pl auth = mirrorPodDigestCheck rem p pl auth"
    and "mirrorPreflight (mixRemote ok rem bad) p pl auth = mirrorPreflight rem p pl auth"
    and "mirrorDescribe (mixRemote ok rem bad) p src pl = mirrorDescribe rem p src pl"
  by (intro ext; simp only: mirrorPodDigestCheck_def mirrorPreflight_def mirrorDescribe_def mixRemote_pure
      mixRemote_failures source_calls target_calls [OF assms])+

lemma filterLoop_mix:
  assumes "auth \<in> A"
  shows "filterLoop (mixRemote ok rem bad) p idx ds repo auth specs adds matched missing w
    = filterLoop rem p idx ds repo auth specs adds matched missing w"
proof -
  have "appendableForFilteredDescriptor (mixRemote ok rem bad) p idx desc spec repo auth
      = appendableForFilteredDescriptor rem p idx desc spec repo auth" for desc spec
    by (intro ext) (simp only: appendableForFilteredDescriptor_def mixRemote_pure target_calls [OF assms])
  then show ?thesis
    by (induction specs arbitrary: adds matched missing w) (simp_all split: option.split prod.split sum.split)
qed

lemma select_mix:
  assumes "auth \<in> A"
  shows "mirrorSelect (mixRemote ok rem bad) p src pl auth = mirrorSelect rem p src pl auth"
proof -
  have "filterIndexByPlatforms (mixRemote ok rem bad) p idx desired repo auth = filterIndexByPlatforms rem p idx desired repo auth"
    for idx desired repo
    by (intro ext) (simp only: filterIndexByPlatforms_def filterLoop_mix [OF assms] mixRemote_pure)
  then show ?thesis by (intro ext) (simp only: mirrorSelect_def mixRemote_failures)
qed

lemma deliver_mix:
  assumes "auth \<in> A"
  shows "mirrorDeliver (mixRemote ok rem bad) (mixWriter ok wr badw) p src pl auth = mirrorDeliver rem wr p src pl auth"
proof -
  have "mirrorArch (mixRemote ok rem bad) = mirrorArch rem" "mirrorDigest (mixRemote ok rem bad) = mirrorDigest rem"
    "mirrorEnsure (mixRemote ok rem bad) = mirrorEnsure rem"
    by (intro ext; simp only: mirrorArch_def mirrorDigest_def mirrorEnsure_def mixRemote_failures mixRemote_prepare)+
  moreover have "mirrorHeadCheck (mixRemote ok rem bad) p auth = mirrorHeadCheck rem p auth"
    "mirrorVerify (mixRemote ok rem bad) p auth = mirrorVerify rem p auth"
    by (intro ext; simp only: mirrorHeadCheck_def mirrorVerify_def mixRemote_failures target_calls [OF assms])+
  moreover have "pushOnce (mixWriter ok wr badw) p auth = pushOnce wr p auth"
    using target_ok [OF assms] by (intro ext) (simp add: pushOnce_def mixWriter_def split: content.split)
  then have "mirrorPush (mixRemote ok rem bad) (mixWriter ok wr badw) p auth = mirrorPush rem wr p auth"
    by (intro ext) (simp only: mirrorPush_def mixRemote_failures mixRemote_pure)
  ultimately show ?thesis by (intro ext) (simp only: mirrorDeliver_def)
qed

lemma auth_issued: "mirrorAuth rem p t s = (Continue auth, s') \<Longrightarrow> auth \<in> A"
  using issued [of "st_world s" auth]
  by (auto simp: mirrorAuth_def call_def flow_defs pushFailed_def recordMet_def failWith_def Let_def
      split: prod.splits sum.splits)

lemma body_mix: "mirrorBody (mixRemote ok rem bad) (mixWriter ok wr badw) p src pl = mirrorBody rem wr p src pl"
proof (rule ext)
  fix s
  show "mirrorBody (mixRemote ok rem bad) (mixWriter ok wr badw) p src pl s = mirrorBody rem wr p src pl s"
  proof (cases "mirrorAuth rem p (mp_target pl) s")
    case (Pair r s')
    show ?thesis
    proof (cases r)
      case (Continue auth)
      then have auth: "auth \<in> A" using auth_issued Pair by blast
      show ?thesis
        unfolding mirrorBody_def bindF_def [of "mirrorAuth (mixRemote ok rem bad) p (mp_target pl)"]
          bindF_def [of "mirrorAuth rem p (mp_target pl)"] mixRemote_prepare Pair Continue
        by (simp only: prod.case flow.case before_select [OF auth] select_mix [OF auth] deliver_mix [OF auth])
    qed (simp_all add: mirrorBody_def bindF_def Pair)
  qed
qed

lemma Mirror_mix: "Mirror (mixRemote ok rem bad) (mixWriter ok wr badw) p = Mirror rem wr p"
  by (intro ext) (simp only: Mirror_def mixRemote_prepare mixRemote_pure body_mix)

end

lemma NewPusher_sel [simp]:
  "p_target (NewPusher t dry dryp tr kc timeout cooldown byDigest ignored allow excluded pls retry) = t"
  "sourceTransport (NewPusher t dry dryp tr kc timeout cooldown byDigest ignored allow excluded pls retry) = newTransport False"
  "targetTransport (NewPusher t dry dryp tr kc timeout cooldown byDigest ignored allow excluded pls retry) = newTransport (t_Insecure t)"
  "p_keychain (NewPusher t dry dryp tr (Some k) timeout cooldown byDigest ignored allow excluded pls retry) = k"
  "operationContext (NewPusher t dry dryp tr kc timeout cooldown byDigest ignored allow excluded pls retry) =
     (if timeout \<le> 0 then None else Some timeout)"
  by (simp_all add: NewPusher_def operationContext_def Let_def split: prod.split)

text \<open>Every pusher built by \<open>NewPusher\<close> is lawful.\<close>

interpretation built: lawful_pusher "NewPusher t dry dryp tr (Some kc) timeout cooldown byDigest ignored allow excluded pls retry"
  "lawful t kc (if timeout \<le> 0 then None else Some timeout)" "issuedBy t"
  for t dry dryp tr kc timeout cooldown byDigest ignored allow excluded pls retry
  by unfold_locales (auto simp: lawful_def sourceOpts_def targetOpts_def newTransport_def issuedBy_def)

section \<open>Properties\<close>

text \<open>
  Credentials go only where they belong. Whatever registries answer, every call that \<open>Mirror\<close>
  makes to read or to write carries the configured deadline and either credentials that the target itself
  handed out, over a transport that skips the verification of certificates exactly when the target is
  configured as insecure, or the configured keychain, over a transport that always verifies them: with any other
  behaviour of all calls that are not of this form, \<open>Mirror\<close> does the same.
\<close>

lemma Mirror_calls_lawful:
  "Mirror (mixRemote (lawful t kc (if timeout \<le> 0 then None else Some timeout)) rem bad)
          (mixWriter (lawful t kc (if timeout \<le> 0 then None else Some timeout)) wr badw)
          (NewPusher t dry dryp tr (Some kc) timeout cooldown byDigest ignored allow excluded pls retry)
   = Mirror rem wr (NewPusher t dry dryp tr (Some kc) timeout cooldown byDigest ignored allow excluded pls retry)"
  by (rule built.Mirror_mix)

end
