(* ===== verification/Credentials.thy ===== *)
theory Credentials
  imports Config
begin

text \<open>
  From the credentials of the configuration file to the authenticator of a request: the map built by
  \<open>buildKeychainFromConfig\<close> of \<open>cmd/manager/runtime_config.go\<close>, handed to \<open>NewStaticKeychain\<close> and read by
  \<open>Resolve\<close> of \<open>internal/mirror/keychain.go\<close>.
\<close>

section \<open>What is configured for a name\<close>

text \<open>The last credential that carries the name and has a usable secret.\<close>

definition credentialFor :: "(string \<Rightarrow> string) \<Rightarrow> registryCredential list \<Rightarrow> string \<Rightarrow> authenticator option" where
  "credentialFor getenv creds name =
     Option.bind (find (\<lambda>c. name \<in> registryAliases c \<and> credentialAuth getenv c \<noteq> None) (rev creds)) (credentialAuth getenv)"

definition wildcardName :: "string \<Rightarrow> bool" where
  "wildcardName name = ContainsAny name ''*?[''"

text \<open>The authenticators whose pattern matches a host.\<close>

definition matchingAuths :: "(string \<Rightarrow> string) \<Rightarrow> registryCredential list \<Rightarrow> string \<Rightarrow> authenticator set" where
  "matchingAuths getenv creds key =
     {a. \<exists>p. wildcardName p \<and> credentialFor getenv creds p = Some a \<and> Match p key = Some True}"

text \<open>One iteration over a Go map: each entry, in any order.\<close>

definition iterates ::
  "((string \<rightharpoonup> authenticator) \<Rightarrow> (string \<times> authenticator option) list) \<Rightarrow> (string \<rightharpoonup> authenticator) \<Rightarrow> bool" where
  "iterates iter m \<longleftrightarrow> set (iter m) = {(k, Some a) | k a. m k = Some a}"

section \<open>The map of the configuration\<close>

lemma authMap_append: "authMap getenv (cs @ ds) m = authMap getenv ds (authMap getenv cs m)"
  by (induction cs arbitrary: m) (simp_all split: option.split)

lemma authMap_credentialFor: "authMap getenv creds Map.empty k = credentialFor getenv creds k"
proof (induction creds rule: rev_induct)
  case (snoc c creds)
  then show ?case by (auto simp: authMap_append credentialFor_def split: option.split)
qed (simp add: credentialFor_def)

lemma registryAliases_normal:
  assumes "k \<in> registryAliases c"
  shows "hostKey k = k" and "TrimSpace k \<noteq> []"
proof -
  from assms obtain a where "k = ToLower (TrimSpace a)" "k \<noteq> []"
    by (auto simp: registryAliases_def Let_def split: if_splits)
  then show "hostKey k = k" "TrimSpace k \<noteq> []" by (simp_all add: hostKey_def TrimSpace_ToLower)
qed

lemma credentialFor_normal:
  assumes "credentialFor getenv creds k = Some a"
  shows "hostKey k = k" and "TrimSpace k \<noteq> []"
proof -
  from assms obtain c where "k \<in> registryAliases c"
    by (auto simp: credentialFor_def bind_eq_Some_conv find_Some_iff)
  then show "hostKey k = k" "TrimSpace k \<noteq> []" by (rule registryAliases_normal)+
qed

lemma configured_entry:
  assumes "credentialFor getenv creds k = Some a"
  shows "exactEntry (k, Some a) = (if wildcardName k then None else Some (k, a))"
    and "patternEntry (k, Some a) = (if wildcardName k then Some (k, a) else None)"
  using credentialFor_normal [OF assms] by (simp_all add: exactEntry_def patternEntry_def wildcardName_def)

text \<open>The two halves of the keychain, in terms of what is configured.\<close>

lemma keychain_entries:
  assumes "iterates iter (authMap getenv creds Map.empty)"
  shows "(k, a) \<in> set (List.map_filter exactEntry (iter (authMap getenv creds Map.empty)))
      \<longleftrightarrow> credentialFor getenv creds k = Some a \<and> \<not> wildcardName k"
    and "(k, a) \<in> set (List.map_filter patternEntry (iter (authMap getenv creds Map.empty)))
      \<longleftrightarrow> credentialFor getenv creds k = Some a \<and> wildcardName k"
proof -
  have "f \<in> {exactEntry, patternEntry} \<Longrightarrow>
      (k, a) \<in> set (List.map_filter f (iter (authMap getenv creds Map.empty)))
        \<longleftrightarrow> (\<exists>k' a'. credentialFor getenv creds k' = Some a' \<and> f (k', Some a') = Some (k, a))" for f
    using assms by (auto simp: iterates_def set_map_filter_option authMap_credentialFor)
  note this [of exactEntry] this [of patternEntry]
  moreover have "(\<exists>k' a'. credentialFor getenv creds k' = Some a' \<and> exactEntry (k', Some a') = Some (k, a))
      \<longleftrightarrow> credentialFor getenv creds k = Some a \<and> \<not> wildcardName k"
    "(\<exists>k' a'. credentialFor getenv creds k' = Some a' \<and> patternEntry (k', Some a') = Some (k, a))
      \<longleftrightarrow> credentialFor getenv creds k = Some a \<and> wildcardName k"
    using configured_entry [of getenv creds] by (auto split: if_splits) (force split: if_splits)+
  ultimately show "(k, a) \<in> set (List.map_filter exactEntry (iter (authMap getenv creds Map.empty)))
      \<longleftrightarrow> credentialFor getenv creds k = Some a \<and> \<not> wildcardName k"
    "(k, a) \<in> set (List.map_filter patternEntry (iter (authMap getenv creds Map.empty)))
      \<longleftrightarrow> credentialFor getenv creds k = Some a \<and> wildcardName k"
    by simp_all
qed

lemma buildKeychain_eq:
  assumes "iterates iter (authMap getenv creds Map.empty)"
  shows "buildKeychainFromConfig iter getenv creds = NewStaticKeychain (iter (authMap getenv creds Map.empty))"
proof (cases "creds = []")
  case True
  with assms have "iter (authMap getenv creds Map.empty) = []" by (simp add: iterates_def)
  with True show ?thesis by (simp add: buildKeychainFromConfig_def)
qed (simp add: buildKeychainFromConfig_def)

section \<open>What a host gets\<close>

text \<open>
  Every request carries the credentials the file configures for its registry. A host is looked up
  without regard to case and surrounding blanks. When some credential names it, as its registry or as one of
  its aliases, and has a token, a user or a password, directly or from the environment, the last such
  credential is used, whatever patterns there are. Otherwise the credential of a pattern that matches is
  used, and the request is anonymous exactly when no pattern matches. This holds for every
  order in which the map of credentials is walked.
\<close>

lemma resolves_configured:
  assumes "iterates iter (authMap getenv creds Map.empty)"
  shows "case (if wildcardName (hostKey host) then None else credentialFor getenv creds (hostKey host)) of
      Some a \<Rightarrow> Resolve (Some (buildKeychainFromConfig iter getenv creds)) host = a
    | None \<Rightarrow>
        (if matchingAuths getenv creds (hostKey host) = {}
         then Resolve (Some (buildKeychainFromConfig iter getenv creds)) host = Anonymous
         else Resolve (Some (buildKeychainFromConfig iter getenv creds)) host \<in> matchingAuths getenv creds (hostKey host))"
proof -
  let ?k = "hostKey host"
  let ?X = "List.map_filter exactEntry (iter (authMap getenv creds Map.empty))"
    and ?W = "List.map_filter patternEntry (iter (authMap getenv creds Map.empty))"
  let ?f = "find (\<lambda>(p, a). Match p ?k = Some True) ?W"
  note entries = keychain_entries [OF assms]
  have R: "Resolve (Some (buildKeychainFromConfig iter getenv creds)) host = (case map_of (rev ?X) ?k of
      Some a \<Rightarrow> a | None \<Rightarrow> (case ?f of Some (p, a) \<Rightarrow> a | None \<Rightarrow> Anonymous))"
    by (simp only: Resolve_def buildKeychain_eq [OF assms] NewStaticKeychain_eq hostKey_def Let_def option.case
        staticKeychain.select_convs)
  show ?thesis
  proof (cases "if wildcardName ?k then None else credentialFor getenv creds ?k")
    case None
    then have none: "map_of (rev ?X) ?k = None"
      using entries(1) [of ?k] by (force simp: map_of_eq_None_iff split: if_splits)
    have "case ?f of None \<Rightarrow> matchingAuths getenv creds ?k = {} | Some (p, a) \<Rightarrow> a \<in> matchingAuths getenv creds ?k"
    proof (cases ?f)
      case None
      then have "Match p ?k \<noteq> Some True" if "(p, a) \<in> set ?W" for p a
        using that by (auto simp: find_None_iff)
      with entries(2) have "matchingAuths getenv creds ?k = {}" unfolding matchingAuths_def by blast
      with None show ?thesis by simp
    next
      case (Some e)
      then have "e \<in> set ?W" "Match (fst e) ?k = Some True" by (auto dest!: find_SomeD)
      with Some entries(2) [of "fst e" "snd e"] show ?thesis by (auto simp: matchingAuths_def)
    qed
    with None none show ?thesis by (auto simp: R split: option.splits prod.splits)
  next
    case (Some a)
    then have "map_of (rev ?X) ?k = Some a"
      using entries(1) [of ?k] by (intro map_of_agree) (auto split: if_splits)
    with Some show ?thesis by (simp add: R)
  qed
qed

text \<open>Two credentials: one with an alias and a password from the environment, one for a pattern.\<close>

definition hubCredential :: registryCredential where
  "hubCredential = \<lparr>cr_Registry = ''index.docker.io'', cr_RegistryAliases = ['' Docker.IO''], cr_Username = ''u'',
     cr_Password = [], cr_UsernameEnv = [], cr_PasswordEnv = ''HUB_PASSWORD'', cr_Token = [], cr_TokenEnv = []\<rparr>"

definition anyCredential :: registryCredential where
  "anyCredential = \<lparr>cr_Registry = ''*.io'', cr_RegistryAliases = [], cr_Username = [],
     cr_Password = [], cr_UsernameEnv = [], cr_PasswordEnv = [], cr_Token = ''t'', cr_TokenEnv = []\<rparr>"

text \<open>The environment and one order of the map for these two.\<close>

definition hubEnv :: "string \<Rightarrow> string" where
  "hubEnv v = (if v = ''HUB_PASSWORD'' then ''p'' else [])"

definition hubOrder :: "(string \<rightharpoonup> authenticator) \<Rightarrow> (string \<times> authenticator option) list" where
  "hubOrder m = [(''*.io'', m ''*.io''), (''docker.io'', m ''docker.io''), (''index.docker.io'', m ''index.docker.io'')]"

lemma hub_iterates: "iterates hubOrder (authMap hubEnv [hubCredential, anyCredential] Map.empty)"
proof -
  have "registryAliases hubCredential = {''index.docker.io'', ''docker.io''}" "registryAliases anyCredential = {''*.io''}"
    "credentialAuth hubEnv hubCredential = Some (Basic ''u'' ''p'')" "credentialAuth hubEnv anyCredential = Some (RegistryToken ''t'')"
    by code_simp+
  then show ?thesis by (auto simp: iterates_def hubOrder_def split: if_splits)
qed

lemma hub_configured:
  "hostKey ''DOCKER.io '' = ''docker.io''" "\<not> wildcardName ''docker.io''"
  "credentialFor hubEnv [hubCredential, anyCredential] ''docker.io'' = Some (Basic ''u'' ''p'')"
  by code_simp+

end
