(* ===== verification/SystemRun.thy ===== *)
theory SystemRun
  imports Convergence ForceRun System MirrorTraffic Credentials
begin

text \<open>
  Properties of the started program as a whole: that a forced run brings the target registry up to date, and
  with which credentials the program talks to registries. They combine what is known of \<open>Mirror\<close>, of the
  controllers and of the configuration along the wiring of \<open>main\<close>.
\<close>

section \<open>A run of calls against registries that work\<close>

lemma runCalls_in_place:
  assumes "healthy rem wr p auth store catalog" "\<not> dryRun p" "\<not> dryPull p" "allowDifferentDigestRepush p"
    and "\<forall>i \<in> set calls. mirrorable rem p catalog want i" "restful (failureCooldown p) (st_ledger s)"
  shows "\<exists>s'. runCalls (asPusher rem wr p) calls s = (replicate (length calls) None, s')
    \<and> restful (failureCooldown p) (st_ledger s')
    \<and> (\<forall>i \<in> set calls. inPlace rem p want (store (st_world s')) i)
    \<and> keepsWanted want (store (st_world s)) (store (st_world s'))"
  using assms(5,6)
proof (induction calls arbitrary: s)
  case (Cons i calls)
  obtain src meta where i: "i = (src, meta)" by (cases i)
  with Cons.prems obtain s1 where one: "Mirror rem wr p src meta s = (Return None, s1)"
    "restful (failureCooldown p) (st_ledger s1)" "inPlace rem p want (store (st_world s1)) i"
    "keepsWanted want (store (st_world s)) (store (st_world s1))"
    using Mirror_in_place [OF assms(1-4), of want src meta s] by auto
  from Cons.prems one(2) obtain s2 where rest: "runCalls (asPusher rem wr p) calls s1 = (replicate (length calls) None, s2)"
    "restful (failureCooldown p) (st_ledger s2)" "\<forall>i \<in> set calls. inPlace rem p want (store (st_world s2)) i"
    "keepsWanted want (store (st_world s1)) (store (st_world s2))"
    using Cons.IH [of s1] by auto
  have "runCalls (asPusher rem wr p) (i # calls) s = (replicate (length (i # calls)) None, s2)"
    using one(1) rest(1) i by (simp add: asPusher_def)
  moreover have "inPlace rem p want (store (st_world s2)) i" using inPlace_keeps [OF rest(4) one(3)] .
  moreover have "keepsWanted want (store (st_world s)) (store (st_world s2))" using keepsWanted_trans [OF one(4) rest(4)] .
  ultimately show ?case using rest(2,3) by auto
qed simp

section \<open>The parts of a started program\<close>

text \<open>A cluster client that answers every read from \<open>cl\<close> without changing anything.\<close>

definition answersFrom :: "'w kube \<Rightarrow> cluster \<Rightarrow> bool" where
  "answersFrom k cl \<longleftrightarrow>
     (\<forall>kind w. k_listWorkloads k kind w = (Inr (cl_workloads cl kind), w))
     \<and> (\<forall>w. k_listPods k w = (Inr (cl_pods cl), w))
     \<and> (\<forall>n w. k_getNode k n w = (Inr (cl_nodes cl n), w))
     \<and> (\<forall>key w. k_getReplicaSetOwners k key w = (Inr (cl_rsOwners cl key), w))
     \<and> (\<forall>key w. k_getJobOwners k key w = (Inr (cl_jobOwners cl key), w))"

lemma answersFrom_steady: "answersFrom k cl \<Longrightarrow> steady (newBase (liftKube k) m ns cfg chk) cl"
  by (simp add: answersFrom_def steady_def ownersReadable_def liftKube_def onWorld_def)

lemma started_parts:
  assumes "start env fl file found s0 = (Inr run, s1)"
  obtains cfg t ns where "loadRuntimeConfig (o_mapOrder env) (ecrInitError (o_aws env)) (o_getenv env)
      (dryRunFlag fl) (dryPullFlag fl) file found = Inr cfg"
    and "targetOf (o_aws env) (rc_Target cfg) = Inr t"
    and "run_pusher run = configuredPusher env (cfg\<lparr>rc_AllowedNS := ns\<rparr>) t"
    and "run_config run = cfg\<lparr>rc_AllowedNS := ns\<rparr>"
    and "run_base run = newBase (liftKube (o_kube env)) (asPusher (o_remote env) (o_writer env) (run_pusher run))
      ns (rc_SkipCfg cfg) (rc_CheckNodePlatform cfg)"
    and "run_force run = SetReconciler (ForceReconcile (run_base run) (run_watch run)) newForceReconcileHandler"
proof -
  from assms obtain cfg t where parts: "loadRuntimeConfig (o_mapOrder env) (ecrInitError (o_aws env)) (o_getenv env)
      (dryRunFlag fl) (dryPullFlag fl) file found = Inr cfg" "targetOf (o_aws env) (rc_Target cfg) = Inr t"
    and m: "startManager env fl cfg t s0 = (Inr run, s1)"
    unfolding start_def by (auto split: sum.splits)
  from m show ?thesis
    by (rule startManager_Inr) (rule that [OF parts]; simp)
qed

section \<open>Properties\<close>

text \<open>
  Property C5. A forced run brings the target up to date. Take a started program without dry run and dry pull that may
  overwrite tags with another digest, a cluster whose reads succeed, registries that work, and no target in flight or in a
  cooldown. Let every image of the selected objects be excluded or mirrored as it is offered: not by the digest of
  the pod, as an image or as a whole index with pulls by digest off, to a repository path that does not
  depend on an architecture that is found only in the image; and let images that share a target agree on the
  digest \<open>want\<close> of their content. Then a request for a forced run answers with
  success and the exact counts, and afterwards the target holds, under the reference of every such image,
  the digest the source offers, whatever it held before. Again nothing is in flight or in a cooldown.
\<close>

theorem system_force_converges:
  assumes "start env fl file found s0 = (Inr run, s1)"
    and "answersFrom (o_kube env) cl"
    and "healthy (o_remote env) (o_writer env) (run_pusher run) auth store catalog"
    and "\<not> dryRun (run_pusher run)" "\<not> dryPull (run_pusher run)" "allowDifferentDigestRepush (run_pusher run)"
    and "restful (failureCooldown (run_pusher run)) (st_ledger s)"
    and "\<forall>i \<in> set (allCalls (owedTasks (run_base run) cl (run_watch run))). mirrorable (o_remote env) (run_pusher run) catalog want i"
  shows "case serveForce (run_force run) s of (answer, s') \<Rightarrow>
     Success answer \<and> fr_Workloads answer = length (owedTasks (run_base run) cl (run_watch run))
     \<and> fr_Images answer = length (allCalls (owedTasks (run_base run) cl (run_watch run)))
     \<and> (\<forall>i \<in> set (allCalls (owedTasks (run_base run) cl (run_watch run))).
          inPlace (o_remote env) (run_pusher run) want (store (st_world s')) i)
     \<and> restful (failureCooldown (run_pusher run)) (st_ledger s')"
proof (rule started_parts [OF assms(1)])
  fix cfg ns
  assume base: "run_base run = newBase (liftKube (o_kube env))
        (asPusher (o_remote env) (o_writer env) (run_pusher run)) ns (rc_SkipCfg cfg) (rc_CheckNodePlatform cfg)"
    and force: "run_force run = SetReconciler (ForceReconcile (run_base run) (run_watch run)) newForceReconcileHandler"
  let ?calls = "allCalls (owedTasks (run_base run) cl (run_watch run))"
  have steady: "steady (run_base run) cl" unfolding base by (rule answersFrom_steady [OF assms(2)])
  have pusher: "r_mirror (run_base run) = asPusher (o_remote env) (o_writer env) (run_pusher run)" by (simp add: base)
  obtain s' where run: "runCalls (r_mirror (run_base run)) ?calls s = (replicate (length ?calls) None, s')"
    and after: "restful (failureCooldown (run_pusher run)) (st_ledger s')"
      "\<forall>i \<in> set ?calls. inPlace (o_remote env) (run_pusher run) want (store (st_world s')) i"
    using runCalls_in_place [OF assms(3-6,8,7)] unfolding pusher by blast
  obtain err where "ForceReconcile (run_base run) (run_watch run) s =
      ((length (owedTasks (run_base run) cl (run_watch run)), length ?calls, err), s')" "err = None"
    using ForceReconcile_runs [OF steady run] by (auto simp: filter_replicate)
  with after force show ?thesis by (simp add: serveForce_ready)
qed

text \<open>
  A program whose world is the registry \<open>shelf\<close>. The cluster runs \<open>app\<close> and \<open>db\<close> in a watched namespace and \<open>job\<close> in another.
\<close>

definition shelfPod :: "string \<Rightarrow> string \<Rightarrow> pod" where
  "shelfPod ns img = samplePod\<lparr>pod_namespace := ns, pod_name := img, pod_owners := [],
     pod_spec := \<lparr>initContainers = [], containers = [\<lparr>c_name = ''c'', c_image = img\<rparr>], ephemeralContainers = [], nodeName = []\<rparr>\<rparr>"

definition shelfCluster :: cluster where
  "shelfCluster = \<lparr>cl_workloads = (\<lambda>_. []), cl_pods = [shelfPod ''a'' ''app'', shelfPod ''c'' ''job'', shelfPod ''a'' ''db''],
     cl_nodes = (\<lambda>_. \<lparr>node_arch = [], node_os = []\<rparr>), cl_rsOwners = (\<lambda>_. []), cl_jobOwners = (\<lambda>_. [])\<rparr>"

definition shelfKube :: "shelf kube" where
  "shelfKube = \<lparr>k_now = (\<lambda>_. 1000), k_getWorkload = (\<lambda>_ _ w. (Inl EOF, w)),
     k_listWorkloads = (\<lambda>kind w. (Inr (cl_workloads shelfCluster kind), w)), k_getPod = (\<lambda>_ w. (Inl EOF, w)),
     k_listPods = (\<lambda>w. (Inr (cl_pods shelfCluster), w)), k_getNode = (\<lambda>n w. (Inr (cl_nodes shelfCluster n), w)),
     k_getReplicaSetOwners = (\<lambda>key w. (Inr (cl_rsOwners shelfCluster key), w)),
     k_getJobOwners = (\<lambda>key w. (Inr (cl_jobOwners shelfCluster key), w))\<rparr>"

definition shelfOutside :: "(shelf, unit) outside" where
  "shelfOutside = \<lparr>o_remote = shelfRemote, o_writer = shelfWriter, o_kube = shelfKube,
     o_regexp = \<lparr>Compile = (\<lambda>_. None), MatchString = (\<lambda>_ _. False), ReplaceAllString = (\<lambda>_ p _. p)\<rparr>,
     o_aws = (\<lambda>_. Inl EOF), o_mapOrder = (\<lambda>_. []), o_getenv = (\<lambda>_. []), o_namespaces = Inr [''a'', ''b'', ''c''],
     o_newClient = None, o_newManager = (\<lambda>_. None), o_register = (\<lambda>_ s. (None, s)), o_addCheck = (\<lambda>_. None)\<rparr>"

definition shelfState :: "shelf pst" where
  "shelfState = \<lparr>st_ledger = emptyLedger, st_metrics = ResetMetrics, st_world = [], st_current = []\<rparr>"

definition shelfRun :: "shelf running" where
  "shelfRun = projr (fst (start shelfOutside noFlags sampleFile True shelfState))"

lemma shelf_started:
  "start shelfOutside noFlags sampleFile True shelfState = (Inr shelfRun, snd (start shelfOutside noFlags sampleFile True shelfState))"
proof -
  have "\<not> isl (fst (start shelfOutside noFlags sampleFile True shelfState))" by code_simp
  then show ?thesis unfolding shelfRun_def by (rule start_projr)
qed

lemma shelf_healthy: "healthy shelfRemote shelfWriter (run_pusher shelfRun) ([], []) map_of (\<lambda>_. demoDescriptor)"
proof -
  let ?load = "loadRuntimeConfig (o_mapOrder shelfOutside) (ecrInitError (o_aws shelfOutside)) (o_getenv shelfOutside)
      (dryRunFlag noFlags) (dryPullFlag noFlags) sampleFile True"
  let ?d = "\<lparr>dc_Registry = ''t.io'', dc_Username = [], dc_Password = [], dc_RepoPrefix = [], dc_Insecure = False\<rparr>"
  have docker: "rc_Target (projr ?load) = DockerTarget ?d" by code_simp
  have "p_target (run_pusher shelfRun) = NewDocker ?d"
  proof (rule started_parts [OF shelf_started])
    fix cfg t ns
    assume "?load = Inr cfg" "targetOf (o_aws shelfOutside) (rc_Target cfg) = Inr t"
      and p: "run_pusher shelfRun = configuredPusher shelfOutside (cfg\<lparr>rc_AllowedNS := ns\<rparr>) t"
    with docker have "t = NewDocker ?d" by (simp add: targetOf_def)
    then show ?thesis unfolding p configuredPusher_def by simp
  qed
  then show ?thesis by (intro shelf_healthyI) (simp_all add: NewDocker_def)
qed

lemma shelf_calls:
  "allCalls (owedTasks (run_base shelfRun) shelfCluster (run_watch shelfRun)) =
     [(''app'', imageMeta ''a'' ''app'' [] [] \<lparr>Image = ''app'', ContainerName = ''c'', ImageID = []\<rparr>),
      (''db'', imageMeta ''a'' ''db'' [] [] \<lparr>Image = ''db'', ContainerName = ''c'', ImageID = []\<rparr>)]"
  "length (owedTasks (run_base shelfRun) shelfCluster (run_watch shelfRun)) = 2"
  by code_simp+

lemma shelf_mirrorable:
  assumes "mirrorPrepare shelfRemote (run_pusher shelfRun) src meta = Inr pl" "\<not> mp_usePodDigest pl"
    and "sameTarget (run_pusher shelfRun) pl (ContentImage demoImage)"
  shows "mirrorable shelfRemote (run_pusher shelfRun) (\<lambda>_. demoDescriptor) (\<lambda>_. \<lparr>h_alg = ''sha256'', h_hex = ''aa''\<rparr>) (src, meta)"
  using assms by (auto simp: mirrorable_def offers_def contentDigest_def demoDescriptor_def demoImage_def
      intro!: exI [of _ "ContentImage demoImage"])

theorem system_force_converges_witness:
  "case serveForce (run_force shelfRun) shelfState of (answer, s') \<Rightarrow>
     Success answer \<and> fr_Workloads answer = 2 \<and> fr_Images answer = 2
     \<and> map_of (st_world s') (Tag (demoRepo ''t.io'' ''t.io/app:v1'') ''v1'') = Some \<lparr>h_alg = ''sha256'', h_hex = ''aa''\<rparr>
     \<and> map_of (st_world s') (Tag (demoRepo ''t.io'' ''t.io/db:v1'') ''v1'') = Some \<lparr>h_alg = ''sha256'', h_hex = ''aa''\<rparr>"
proof -
  let ?want = "\<lambda>_. \<lparr>h_alg = ''sha256'', h_hex = ''aa''\<rparr>"
  let ?app = "imageMeta ''a'' ''app'' [] [] \<lparr>Image = ''app'', ContainerName = ''c'', ImageID = []\<rparr>"
    and ?db = "imageMeta ''a'' ''db'' [] [] \<lparr>Image = ''db'', ContainerName = ''c'', ImageID = []\<rparr>"
  define pa pd where "pa = projr (mirrorPrepare shelfRemote (run_pusher shelfRun) ''app'' ?app)"
    and "pd = projr (mirrorPrepare shelfRemote (run_pusher shelfRun) ''db'' ?db)"
  have prep: "mirrorPrepare shelfRemote (run_pusher shelfRun) ''app'' ?app = Inr pa"
    "mirrorPrepare shelfRemote (run_pusher shelfRun) ''db'' ?db = Inr pd" unfolding pa_def pd_def by code_simp+
  have facts: "\<not> mp_usePodDigest pa" "sameTarget (run_pusher shelfRun) pa (ContentImage demoImage)"
    "mp_targetRef pa = Tag (demoRepo ''t.io'' ''t.io/app:v1'') ''v1''"
    "\<not> mp_usePodDigest pd" "sameTarget (run_pusher shelfRun) pd (ContentImage demoImage)"
    "mp_targetRef pd = Tag (demoRepo ''t.io'' ''t.io/db:v1'') ''v1''" unfolding pa_def pd_def by code_simp+
  have cfg: "\<not> dryRun (run_pusher shelfRun)" "\<not> dryPull (run_pusher shelfRun)" "allowDifferentDigestRepush (run_pusher shelfRun)"
    by code_simp+
  have env: "o_remote shelfOutside = shelfRemote" "o_writer shelfOutside = shelfWriter" "o_kube shelfOutside = shelfKube"
    by (simp_all add: shelfOutside_def)
  have "answersFrom (o_kube shelfOutside) shelfCluster" by (simp add: env answersFrom_def shelfKube_def)
  moreover have "restful cd (st_ledger shelfState)" for cd
    by (simp add: restful_def shelfState_def emptyLedger_def busyOf_def blockedOf_def)
  moreover have "\<forall>i \<in> set (allCalls (owedTasks (run_base shelfRun) shelfCluster (run_watch shelfRun))).
      mirrorable (o_remote shelfOutside) (run_pusher shelfRun) (\<lambda>_. demoDescriptor) ?want i"
    unfolding shelf_calls env using shelf_mirrorable prep facts by simp
  ultimately show ?thesis
    using system_force_converges [OF shelf_started, of shelfCluster "([], [])" map_of "\<lambda>_. demoDescriptor" shelfState ?want]
      shelf_healthy cfg unfolding env shelf_calls
    by (auto simp: inPlace_def prep facts)
qed

text \<open>
  Property C6. From the configuration file to the wire: the function through which the controllers of a started
  program mirror images talks to registries only with the deadline of the configuration and with either
  credentials that the target handed out, over a transport that skips the verification of certificates
  exactly when the target is configured as insecure, or the keychain of the configured
  credentials, over a transport that verifies them; with any other behaviour of all other calls it is the same
  function. That keychain gives a host the last configured credential that names it, up to case and blanks,
  otherwise that of a matching pattern, and nothing exactly when no pattern matches.
\<close>

theorem system_credentials:
  assumes "start env fl file found s0 = (Inr run, s1)"
    and "iterates (o_mapOrder env) (authMap (o_getenv env) (fc_RegistryCredentials file) Map.empty)"
  shows "let kc = buildKeychainFromConfig (o_mapOrder env) (o_getenv env) (fc_RegistryCredentials file);
             timeout = rc_RequestTimeout (run_config run);
             ok = lawful (p_target (run_pusher run)) kc (if timeout \<le> 0 then None else Some timeout)
         in r_mirror (run_base run) =
              asPusher (mixRemote ok (o_remote env) bad) (mixWriter ok (o_writer env) badw) (run_pusher run)
            \<and> (case (if wildcardName (hostKey host) then None
                     else credentialFor (o_getenv env) (fc_RegistryCredentials file) (hostKey host)) of
                 Some a \<Rightarrow> Resolve (Some kc) host = a
               | None \<Rightarrow>
                   (let auths = matchingAuths (o_getenv env) (fc_RegistryCredentials file) (hostKey host)
                    in if auths = {} then Resolve (Some kc) host = Anonymous else Resolve (Some kc) host \<in> auths))"
  unfolding Let_def
proof (intro conjI resolves_configured [OF assms(2)], rule started_parts [OF assms(1)])
  fix cfg t ns
  assume load: "loadRuntimeConfig (o_mapOrder env) (ecrInitError (o_aws env)) (o_getenv env)
      (dryRunFlag fl) (dryPullFlag fl) file found = Inr cfg"
    and p: "run_pusher run = configuredPusher env (cfg\<lparr>rc_AllowedNS := ns\<rparr>) t"
    and cfg: "run_config run = cfg\<lparr>rc_AllowedNS := ns\<rparr>"
    and base: "run_base run = newBase (liftKube (o_kube env)) (asPusher (o_remote env) (o_writer env) (run_pusher run))
      ns (rc_SkipCfg cfg) (rc_CheckNodePlatform cfg)"
  have eqs: "rc_RequestTimeout (run_config run) = rc_RequestTimeout cfg" "p_target (run_pusher run) = t"
    "buildKeychainFromConfig (o_mapOrder env) (o_getenv env) (fc_RegistryCredentials file) = rc_Keychain cfg"
    using loadRuntimeConfig_Inr(11) [OF load] by (simp_all add: cfg p configuredPusher_def)
  let ?ok = "lawful t (rc_Keychain cfg) (if rc_RequestTimeout cfg \<le> 0 then None else Some (rc_RequestTimeout cfg))"
  have "Mirror (mixRemote ?ok (o_remote env) bad) (mixWriter ?ok (o_writer env) badw) (run_pusher run)
      = Mirror (o_remote env) (o_writer env) (run_pusher run)"
    unfolding p configuredPusher_def by (simp add: built.Mirror_mix)
  then have "r_mirror (run_base run) = asPusher (mixRemote ?ok (o_remote env) bad) (mixWriter ?ok (o_writer env) badw) (run_pusher run)"
    by (intro ext) (simp only: base newBase_sel asPusher_def)
  then show "r_mirror (run_base run) = asPusher
      (mixRemote (lawful (p_target (run_pusher run)) (buildKeychainFromConfig (o_mapOrder env) (o_getenv env) (fc_RegistryCredentials file))
         (if rc_RequestTimeout (run_config run) \<le> 0 then None else Some (rc_RequestTimeout (run_config run)))) (o_remote env) bad)
      (mixWriter (lawful (p_target (run_pusher run)) (buildKeychainFromConfig (o_mapOrder env) (o_getenv env) (fc_RegistryCredentials file))
         (if rc_RequestTimeout (run_config run) \<le> 0 then None else Some (rc_RequestTimeout (run_config run)))) (o_writer env) badw)
      (run_pusher run)"
    unfolding eqs .
qed

definition hubOutside :: "(event list, unit) outside" where
  "hubOutside = demoOutside\<lparr>o_mapOrder := hubOrder, o_getenv := hubEnv\<rparr>"

definition hubFile :: fileConfig where
  "hubFile = sampleFile\<lparr>fc_RegistryCredentials := [hubCredential, anyCredential]\<rparr>"

theorem system_credentials_witness:
  "let run = projr (fst (start hubOutside noFlags hubFile True demoState));
       kc = buildKeychainFromConfig hubOrder hubEnv [hubCredential, anyCredential];
       timeout = rc_RequestTimeout (run_config run);
       ok = lawful (p_target (run_pusher run)) kc (if timeout \<le> 0 then None else Some timeout)
   in r_mirror (run_base run) = asPusher (mixRemote ok (o_remote hubOutside) (demoRemote (\<lambda>_. Inl EOF) (Inl EOF)))
          (mixWriter ok (o_writer hubOutside) failingWriter) (run_pusher run)
      \<and> Resolve (Some kc) ''DOCKER.io '' = Basic ''u'' ''p''"
proof -
  have "\<not> isl (fst (start hubOutside noFlags hubFile True demoState))" by code_simp
  note started = start_projr [OF this]
  have "iterates (o_mapOrder hubOutside) (authMap (o_getenv hubOutside) (fc_RegistryCredentials hubFile) Map.empty)"
    using hub_iterates by (simp add: hubOutside_def hubFile_def)
  from system_credentials [OF started this, of "demoRemote (\<lambda>_. Inl EOF) (Inl EOF)" failingWriter "''DOCKER.io ''"]
  show ?thesis by (simp add: Let_def hubOutside_def hubFile_def hub_configured)
qed

end
