(* ===== verification/LedgerSpec.thy ===== *)
theory LedgerSpec
  imports Ledger
begin

text \<open>
  What the ledger of the pusher promises, without its data structures: a set of targets in flight and, for
  some targets, the time before which they must not be tried. The ledger records failure times and adds
  the cooldown when it looks at them, ignores them while the cooldown is disabled and drops them lazily;
  the specification knows none of this. Every sequence of operations on the ledger gives the answers of
  the specification.
\<close>

section \<open>The specification\<close>

record spec =
  flying :: "string set"
  restUntil :: "string \<Rightarrow> time option"

definition specAdmit :: "string \<Rightarrow> spec \<Rightarrow> (goerror + bool) \<times> spec" where
  "specAdmit t s = (Inr (t \<in> flying s), s\<lparr>flying := insert t (flying s)\<rparr>)"

definition specBegin :: "time \<Rightarrow> string \<Rightarrow> spec \<Rightarrow> (goerror + bool) \<times> spec" where
  "specBegin now t s =
     (case restUntil s t of
        Some r \<Rightarrow> if now < r then (Inl (RetryError ErrInCooldown r), s)
                  else specAdmit t (s\<lparr>restUntil := (restUntil s)(t := None)\<rparr>)
      | None \<Rightarrow> specAdmit t s)"

definition specFinish :: "string \<Rightarrow> spec \<Rightarrow> spec" where
  "specFinish t s = (if TrimSpace t = [] then s else s\<lparr>flying := flying s - {t}\<rparr>)"

text \<open>The new target takes the place of the old one, in flight and at rest.\<close>

definition specMove :: "string \<Rightarrow> string \<Rightarrow> spec \<Rightarrow> (goerror + bool) \<times> spec" where
  "specMove old new s =
     (Inr (new \<in> flying s),
      s\<lparr>flying := (if old \<in> flying s then insert new (flying s - {old}) else flying s),
        restUntil := (restUntil s)(new := restUntil s old, old := None)\<rparr>)"

definition specReassign :: "time \<Rightarrow> string \<Rightarrow> string \<Rightarrow> spec \<Rightarrow> (goerror + bool) \<times> spec" where
  "specReassign now old new s =
     (if old = new then (Inr False, s)
      else (case restUntil s new of
              Some r \<Rightarrow> if now < r then (Inl (RetryError ErrInCooldown r), s\<lparr>flying := flying s - {old}\<rparr>)
                        else specMove old new s
            | None \<Rightarrow> specMove old new s))"

definition specFail :: "duration \<Rightarrow> time \<Rightarrow> string \<Rightarrow> goerror \<Rightarrow> spec \<Rightarrow> goerror \<times> spec" where
  "specFail cd now t e s =
     (let s1 = s\<lparr>flying := flying s - {t}\<rparr>
      in if cd > 0 then (RetryError e (now + cd), s1\<lparr>restUntil := (restUntil s)(t \<mapsto> now + cd)\<rparr>) else (e, s1))"

definition specReset :: "duration \<Rightarrow> spec \<Rightarrow> (nat \<times> bool) \<times> spec" where
  "specReset cd s = ((card (dom (restUntil s)), cd > 0), s\<lparr>restUntil := Map.empty\<rparr>)"

section \<open>Operations and runs\<close>

datatype ledgerOp = Begin time string | Finish string | Reassign time string string
  | Fail time string goerror | ResetAll

datatype reply = Admission "goerror + bool" | Released | Failure goerror | Cleared "nat \<times> bool"

text \<open>One operation, for any implementation of the five.\<close>

locale ledger_ops =
  fixes beginOp :: "time \<Rightarrow> string \<Rightarrow> 'l \<Rightarrow> (goerror + bool) \<times> 'l"
    and finishOp :: "string \<Rightarrow> 'l \<Rightarrow> 'l"
    and reassignOp :: "time \<Rightarrow> string \<Rightarrow> string \<Rightarrow> 'l \<Rightarrow> (goerror + bool) \<times> 'l"
    and failOp :: "time \<Rightarrow> string \<Rightarrow> goerror \<Rightarrow> 'l \<Rightarrow> goerror \<times> 'l"
    and resetOp :: "'l \<Rightarrow> (nat \<times> bool) \<times> 'l"
    and absOp :: "'l \<Rightarrow> spec" and cd :: duration
  assumes begin_refines: "map_prod id absOp (beginOp now t l) = specBegin now t (absOp l)"
    and finish_refines: "absOp (finishOp t l) = specFinish t (absOp l)"
    and reassign_refines: "map_prod id absOp (reassignOp now old new l) = specReassign now old new (absOp l)"
    and fail_refines: "map_prod id absOp (failOp now t e l) = specFail cd now t e (absOp l)"
    and reset_refines: "map_prod id absOp (resetOp l) = specReset cd (absOp l)"

definition stepOf ::
  "(time \<Rightarrow> string \<Rightarrow> 'l \<Rightarrow> (goerror + bool) \<times> 'l) \<Rightarrow> (string \<Rightarrow> 'l \<Rightarrow> 'l)
   \<Rightarrow> (time \<Rightarrow> string \<Rightarrow> string \<Rightarrow> 'l \<Rightarrow> (goerror + bool) \<times> 'l) \<Rightarrow> (time \<Rightarrow> string \<Rightarrow> goerror \<Rightarrow> 'l \<Rightarrow> goerror \<times> 'l)
   \<Rightarrow> ('l \<Rightarrow> (nat \<times> bool) \<times> 'l) \<Rightarrow> ledgerOp \<Rightarrow> 'l \<Rightarrow> reply \<times> 'l" where
  "stepOf b f r e z cmd l = (case cmd of
       Begin now t \<Rightarrow> map_prod Admission id (b now t l)
     | Finish t \<Rightarrow> (Released, f t l)
     | Reassign now old new \<Rightarrow> map_prod Admission id (r now old new l)
     | Fail now t err \<Rightarrow> map_prod Failure id (e now t err l)
     | ResetAll \<Rightarrow> map_prod Cleared id (z l))"

fun runOps :: "('c \<Rightarrow> 'l \<Rightarrow> 'r \<times> 'l) \<Rightarrow> 'c list \<Rightarrow> 'l \<Rightarrow> 'r list \<times> 'l" where
  "runOps step [] l = ([], l)"
| "runOps step (cmd # cmds) l = (let (a, l1) = step cmd l; (as, l2) = runOps step cmds l1 in (a # as, l2))"

definition ledgerStep :: "duration \<Rightarrow> ledgerOp \<Rightarrow> ledger \<Rightarrow> reply \<times> ledger" where
  "ledgerStep cd = stepOf (beginProcessing cd) finishProcessing (reassignProcessing cd) (failureResult cd) (ResetCooldown cd)"

definition specStep :: "duration \<Rightarrow> ledgerOp \<Rightarrow> spec \<Rightarrow> reply \<times> spec" where
  "specStep cd = stepOf specBegin specFinish specReassign (specFail cd) (specReset cd)"

lemma runOps_refines:
  assumes "\<And>cmd l. map_prod id ab (step1 cmd l) = step2 cmd (ab l)"
  shows "map_prod id ab (runOps step1 cmds l) = runOps step2 cmds (ab l)"
proof (induction cmds arbitrary: l)
  case (Cons cmd cmds)
  obtain a l1 where a: "step1 cmd l = (a, l1)" by fastforce
  obtain rs l2 where rs: "runOps step1 cmds l1 = (rs, l2)" by fastforce
  from assms [of cmd l] a have "step2 cmd (ab l) = (a, ab l1)" by simp
  moreover from Cons [of l1] rs have "runOps step2 cmds (ab l1) = (rs, ab l2)" by simp
  ultimately show ?case by (simp add: a rs)
qed simp

context ledger_ops
begin

lemma step_refines:
  "map_prod id absOp (stepOf beginOp finishOp reassignOp failOp resetOp cmd l) = specStep cd cmd (absOp l)"
  by (cases cmd)
    (simp_all add: stepOf_def specStep_def finish_refines prod.map_comp
      begin_refines [symmetric] reassign_refines [symmetric] fail_refines [symmetric] reset_refines [symmetric])

lemma run_refines:
  "map_prod id absOp (runOps (stepOf beginOp finishOp reassignOp failOp resetOp) cmds l)
     = runOps (specStep cd) cmds (absOp l)"
  by (rule runOps_refines) (rule step_refines)

end

section \<open>The ledger implements the specification\<close>

definition absLedger :: "duration \<Rightarrow> ledger \<Rightarrow> spec" where
  "absLedger cd l = \<lparr>flying = busyOf l, restUntil = blockedOf cd l\<rparr>"

lemma spec_eqI: "flying s = flying t \<Longrightarrow> restUntil s = restUntil t \<Longrightarrow> s = (t :: spec)"
  by simp

lemma absLedger_sel [simp]:
  "flying (absLedger cd l) = busyOf l" "restUntil (absLedger cd l) = blockedOf cd l"
  by (simp_all add: absLedger_def)

lemma blockedOf_pushed [simp]: "blockedOf cd (l\<lparr>pushed := p\<rparr>) = blockedOf cd l"
  by (simp add: blockedOf_def fun_eq_iff)

lemma busyOf_pushed [simp]: "busyOf (l\<lparr>pushed := p\<rparr>) = fset p"
  by (simp add: busyOf_def)

lemma blockedOf_drop [simp]: "blockedOf cd (l\<lparr>failed := fmdrop t (failed l)\<rparr>) = (blockedOf cd l)(t := None)"
  by (auto simp: blockedOf_def)

lemma begin_abs: "map_prod id (absLedger cd) (beginProcessing cd now t l) = specBegin now t (absLedger cd l)"
  by (cases "fmlookup (failed l) t")
    (auto simp: beginProcessing_def specBegin_def specAdmit_def blockedOf_def busyOf_def Let_def fun_eq_iff
      intro!: spec_eqI)

lemma finish_abs: "absLedger cd (finishProcessing t l) = specFinish t (absLedger cd l)"
  by (auto simp: finishProcessing_def specFinish_def busyOf_def intro!: spec_eqI)

lemma fail_abs: "map_prod id (absLedger cd) (failureResult cd now t e l) = specFail cd now t e (absLedger cd l)"
  by (auto simp: failureResult_def specFail_def blockedOf_def busyOf_def Let_def fun_eq_iff intro!: spec_eqI)

lemma reset_abs: "map_prod id (absLedger cd) (ResetCooldown cd l) = specReset cd (absLedger cd l)"
proof (cases "cd > 0")
  case True
  then have "dom (blockedOf cd l) = fmdom' (failed l)" by (auto simp: blockedOf_def fmdom'_alt_def fmlookup_dom_iff)
  moreover have "fst (ResetCooldown cd l) = (card (fmdom' (failed l)), True)"
    using True by (auto simp: ResetCooldown_def Let_def fmdom'_alt_def fcard.rep_eq)
  moreover have "absLedger cd (snd (ResetCooldown cd l)) = (absLedger cd l)\<lparr>restUntil := Map.empty\<rparr>"
    using True by (auto simp: busyOf_def blockedOf_def ResetCooldown_failed intro!: spec_eqI)
  ultimately show ?thesis using True by (simp add: specReset_def prod_eq_iff)
next
  case False
  then show ?thesis by (auto simp: ResetCooldown_def specReset_def blockedOf_def dom_def intro!: spec_eqI)
qed

text \<open>A move of the marker alone, and of the failure time alone.\<close>

lemma movePushed_abs:
  "map_prod id (absLedger cd) (movePushed old new l) =
     (Inr (new \<in> busyOf l),
      (absLedger cd l)\<lparr>flying := (if old \<in> busyOf l then insert new (busyOf l - {old}) else busyOf l)\<rparr>)"
  if "old \<noteq> new"
  using that by (auto simp: movePushed_def busyOf_def intro!: spec_eqI)

lemma moveFailed_blocked:
  "old \<noteq> new \<Longrightarrow> blockedOf cd (moveFailed old new l) =
     (if fmlookup (failed l) old = None then blockedOf cd l else (blockedOf cd l)(new := blockedOf cd l old, old := None))"
  by (auto simp: moveFailed_def blockedOf_def fun_eq_iff split: option.split)

lemma reassign_abs:
  "map_prod id (absLedger cd) (reassignProcessing cd now old new l) = specReassign now old new (absLedger cd l)"
proof (cases "old = new")
  case False
  have old: "fmlookup (failed l) old = None \<Longrightarrow> blockedOf cd l old = None" by (simp add: blockedOf_def)
  show ?thesis
  proof (cases "fmlookup (failed l) new")
    case None
    with False old show ?thesis
      by (auto simp: reassignProcessing_def specReassign_def specMove_def movePushed_abs moveFailed_blocked
          blockedOf_def fun_eq_iff intro!: spec_eqI)
  next
    case (Some f)
    with False old show ?thesis
      by (auto simp: reassignProcessing_def specReassign_def specMove_def movePushed_abs moveFailed_blocked
          blockedOf_def fun_eq_iff Let_def intro!: spec_eqI) (simp_all add: busyOf_def)
  qed
qed (simp add: reassignProcessing_def specReassign_def)

interpretation led_ops: ledger_ops "beginProcessing cd" finishProcessing "reassignProcessing cd"
  "failureResult cd" "ResetCooldown cd" "absLedger cd" cd for cd
  by unfold_locales (rule begin_abs finish_abs reassign_abs fail_abs reset_abs)+

section \<open>Property\<close>

text \<open>
  Property C17. The ledger of the pusher implements its specification: for every cooldown and every sequence
  of operations the answers are those of the specification, and the ledger afterwards stands for the state
  of the specification.
\<close>

theorem ledger_refines:
  "map_prod id (absLedger cd) (runOps (ledgerStep cd) ops l) = runOps (specStep cd) ops (absLedger cd l)"
  unfolding ledgerStep_def by (rule led_ops.run_refines)

end
