(* ===== verification/MissingPlatforms.thy ===== *)
theory MissingPlatforms
  imports Platforms PathMap
begin

text \<open>
  The report on platforms an image does not offer (\<open>compileRegexList\<close>, \<open>ignoreMissingPlatformLog\<close> and
  \<open>logUnavailablePlatforms\<close> of \<open>internal/mirror/pusher.go\<close>): which platforms are reported and in which order.
  Package \<open>regexp\<close> is the argument known from the path rules.
\<close>

section \<open>Definitions\<close>

text \<open>Blank patterns and patterns that do not compile are left out.\<close>

definition compileRegexList :: "'re regexpPkg \<Rightarrow> string list \<Rightarrow> 're list" where
  "compileRegexList rx patterns =
     List.map_filter (Compile rx) (filter (\<lambda>t. t \<noteq> []) (map TrimSpace patterns))"

definition ignoreMissingPlatformLog :: "'re regexpPkg \<Rightarrow> string \<Rightarrow> string \<Rightarrow> 're list \<Rightarrow> bool" where
  "ignoreMissingPlatformLog rx src plat ignored =
     list_ex (\<lambda>pat. MatchString rx pat (src @ ''|'' @ plat)) ignored"

text \<open>The loop with the set \<open>seen\<close> and the list \<open>logged\<close>.\<close>

fun unavailableLoop ::
  "'re regexpPkg \<Rightarrow> string \<Rightarrow> 're list \<Rightarrow> platformSpec list \<Rightarrow> string set \<Rightarrow> platformSpec list \<Rightarrow> platformSpec list" where
  "unavailableLoop rx src ignored [] seen logged = logged"
| "unavailableLoop rx src ignored (spec # specs) seen logged =
     (let plat = specString spec
      in if plat = [] then unavailableLoop rx src ignored specs seen logged
         else if plat \<in> seen then unavailableLoop rx src ignored specs seen logged
         else if ignoreMissingPlatformLog rx src plat ignored
         then unavailableLoop rx src ignored specs (insert plat seen) logged
         else unavailableLoop rx src ignored specs (insert plat seen) (logged @ [spec]))"

definition logUnavailablePlatforms ::
  "'re regexpPkg \<Rightarrow> string \<Rightarrow> platformSpec list \<Rightarrow> 're list \<Rightarrow> platformSpec list" where
  "logUnavailablePlatforms rx src specs ignored = unavailableLoop rx src ignored specs {} []"

section \<open>Facts\<close>

text \<open>The first platform for every printed form.\<close>

fun firstPrinted :: "platformSpec list \<Rightarrow> string set \<Rightarrow> platformSpec list" where
  "firstPrinted [] seen = []"
| "firstPrinted (spec # specs) seen =
     (if specString spec \<in> seen then firstPrinted specs seen
      else spec # firstPrinted specs (insert (specString spec) seen))"

lemma firstPrinted_blank: "specString s = [] \<Longrightarrow>
    filter (\<lambda>s. specString s \<noteq> [] \<and> P s) (firstPrinted specs (insert [] seen))
      = filter (\<lambda>s. specString s \<noteq> [] \<and> P s) (firstPrinted specs seen)"
proof (induction specs arbitrary: seen)
  case (Cons spec specs)
  then show ?case by (cases "specString spec = []") (simp_all add: insert_commute)
qed simp

lemma unavailableLoop_eq:
  "unavailableLoop rx src ignored specs seen logged =
     logged @ filter (\<lambda>s. specString s \<noteq> [] \<and> \<not> ignoreMissingPlatformLog rx src (specString s) ignored) (firstPrinted specs seen)"
proof (induction specs arbitrary: seen logged)
  case (Cons spec specs)
  then show ?case using firstPrinted_blank [of spec _ specs seen]
    by (cases "specString spec = []") (simp_all add: Let_def)
qed simp

lemma firstPrinted_distinct: "distinct (map specString (firstPrinted specs seen)) \<and>
    specString ` set (firstPrinted specs seen) = specString ` set specs - seen"
  by (induction specs arbitrary: seen) auto

lemma list_ex_compile:
  "list_ex P (compileRegexList rx patterns) \<longleftrightarrow> (\<exists>t \<in> set patterns. TrimSpace t \<noteq> [] \<and>
     (case Compile rx (TrimSpace t) of Some r \<Rightarrow> P r | None \<Rightarrow> False))"
  by (induction patterns) (auto simp: compileRegexList_def map_filter_simps split: option.split)

section \<open>Property\<close>

text \<open>
  Each missing platform is reported at most once: the reported platforms have distinct printed
  forms, and a printed form is reported exactly when it is missing, not empty, and no usable pattern of
  the configuration matches the image and the platform joined by a bar.
\<close>

lemma logUnavailablePlatforms_spec:
  "distinct (map specString (logUnavailablePlatforms rx src specs (compileRegexList rx patterns)))
   \<and> specString ` set (logUnavailablePlatforms rx src specs (compileRegexList rx patterns)) =
     {plat \<in> specString ` set specs. plat \<noteq> [] \<and>
        \<not> (\<exists>t \<in> set patterns. TrimSpace t \<noteq> [] \<and>
            (case Compile rx (TrimSpace t) of Some r \<Rightarrow> MatchString rx r (src @ ''|'' @ plat) | None \<Rightarrow> False))}"
  (is "distinct (map _ ?out) \<and> _")
proof
  have out: "?out = filter (\<lambda>s. specString s \<noteq> [] \<and>
      \<not> ignoreMissingPlatformLog rx src (specString s) (compileRegexList rx patterns)) (firstPrinted specs {})"
    by (simp add: logUnavailablePlatforms_def unavailableLoop_eq)
  show "distinct (map specString ?out)"
    unfolding out using firstPrinted_distinct [of specs "{}"] by (simp add: distinct_map_filter)
  have printed: "specString ` set (firstPrinted specs {}) = specString ` set specs"
    using firstPrinted_distinct [of specs "{}"] by simp
  show "specString ` set ?out = {plat \<in> specString ` set specs. plat \<noteq> [] \<and>
        \<not> (\<exists>t \<in> set patterns. TrimSpace t \<noteq> [] \<and>
            (case Compile rx (TrimSpace t) of Some r \<Rightarrow> MatchString rx r (src @ ''|'' @ plat) | None \<Rightarrow> False))}"
    unfolding out printed [symmetric] ignoreMissingPlatformLog_def list_ex_compile by auto
qed

end
