(* ===== verification/Workers.thy ===== *)
theory Workers
  imports Ledger
begin

text \<open>
  The reconcile workers that share one pusher. \<open>Mirror\<close> runs concurrently in every worker of every
  controller; between its critical sections (the operations of the ledger) the other workers may run.
  A worker is idle, works on a target it has marked, or has given the marker back (\<open>failureResult\<close>, a
  refused or skipped reassignment) and still has the deferred \<open>finishProcessing\<close> ahead of it.

  The clock may show any time when a worker looks at it: nothing depends on its direction.

  The flag \<open>interleave\<close> says whether other workers may run between giving the marker back and the
  deferred call. The code allows it; the machine without it is the reference to compare with.
\<close>

section \<open>The machine\<close>

datatype wpc = Idle | Working string | Releasing string

record sys =
  led :: ledger
  clock :: time
  pcs :: "nat \<Rightarrow> wpc"

definition initSys :: "time \<Rightarrow> sys" where
  "initSys t0 = \<lparr>led = emptyLedger, clock = t0, pcs = (\<lambda>_. Idle)\<rparr>"

text \<open>Giving the marker back, with the deferred call done at once or left for later.\<close>

definition released :: "bool \<Rightarrow> nat \<Rightarrow> string \<Rightarrow> ledger \<Rightarrow> sys \<Rightarrow> sys" where
  "released interleave i t l s =
     (if interleave then s\<lparr>led := l, pcs := (pcs s)(i := Releasing t)\<rparr>
      else s\<lparr>led := finishProcessing t l, pcs := (pcs s)(i := Idle)\<rparr>)"

inductive worker_step :: "duration \<Rightarrow> bool \<Rightarrow> sys \<Rightarrow> sys \<Rightarrow> bool" for cd interleave where
  begin_go: "pcs s i = Idle \<Longrightarrow> TrimSpace t \<noteq> [] \<Longrightarrow>
     beginProcessing cd (clock s) t (led s) = (Inr False, l') \<Longrightarrow>
     worker_step cd interleave s (s\<lparr>led := l', pcs := (pcs s)(i := Working t)\<rparr>)"
| begin_stop: "pcs s i = Idle \<Longrightarrow> r \<noteq> Inr False \<Longrightarrow>
     beginProcessing cd (clock s) t (led s) = (r, l') \<Longrightarrow>
     worker_step cd interleave s (s\<lparr>led := l'\<rparr>)"
| reassign_go: "pcs s i = Working t \<Longrightarrow> TrimSpace t' \<noteq> [] \<Longrightarrow>
     reassignProcessing cd (clock s) t t' (led s) = (Inr False, l') \<Longrightarrow>
     worker_step cd interleave s (s\<lparr>led := l', pcs := (pcs s)(i := Working t')\<rparr>)"
| reassign_stop: "pcs s i = Working t \<Longrightarrow> r \<noteq> Inr False \<Longrightarrow>
     reassignProcessing cd (clock s) t t' (led s) = (r, l') \<Longrightarrow>
     worker_step cd interleave s (released interleave i t l' s)"
| fail: "pcs s i = Working t \<Longrightarrow>
     worker_step cd interleave s
       (released interleave i t (snd (failureResult cd (clock s) t e (led s))) s)"
| finish: "pcs s i = Working t \<Longrightarrow>
     worker_step cd interleave s (s\<lparr>led := finishProcessing t (led s), pcs := (pcs s)(i := Idle)\<rparr>)"
| finish_late: "pcs s i = Releasing t \<Longrightarrow>
     worker_step cd interleave s (s\<lparr>led := finishProcessing t (led s), pcs := (pcs s)(i := Idle)\<rparr>)"
| reset: "worker_step cd interleave s (s\<lparr>led := snd (ResetCooldown cd (led s))\<rparr>)"
| tick: "worker_step cd interleave s (s\<lparr>clock := c\<rparr>)"

inductive worker_reach :: "duration \<Rightarrow> bool \<Rightarrow> sys \<Rightarrow> bool" for cd interleave where
  start: "worker_reach cd interleave (initSys t0)"
| step: "worker_reach cd interleave s \<Longrightarrow> worker_step cd interleave s s' \<Longrightarrow>
     worker_reach cd interleave s'"

section \<open>Invariants\<close>

text \<open>No marker outlives its worker: what is marked is being worked on, under a usable name.\<close>

definition no_stale :: "sys \<Rightarrow> bool" where
  "no_stale s \<longleftrightarrow>
     (\<forall>t \<in> busyOf (led s). \<exists>i. pcs s i = Working t) \<and>
     (\<forall>i t. pcs s i = Working t \<or> pcs s i = Releasing t \<longrightarrow> TrimSpace t \<noteq> [])"

text \<open>Every worker holds the marker of its target, alone.\<close>

definition exclusive :: "sys \<Rightarrow> bool" where
  "exclusive s \<longleftrightarrow>
     (\<forall>i t. pcs s i = Working t \<longrightarrow> t \<in> busyOf (led s) \<and> TrimSpace t \<noteq> []) \<and>
     (\<forall>i j t. pcs s i = Working t \<and> pcs s j = Working t \<longrightarrow> i = j) \<and>
     (\<forall>i t. pcs s i \<noteq> Releasing t)"

lemma busyOf_ResetCooldown [simp]: "busyOf (snd (ResetCooldown cd l)) = busyOf l"
  by (simp add: busyOf_def)

lemma busyOf_begin_stop:
  "beginProcessing cd now t l = (r, l') \<Longrightarrow> r \<noteq> Inr False \<Longrightarrow> busyOf l' = busyOf l"
  by (cases r) (auto dest: lg.begin_error lg.begin_skip)

lemma busyOf_reassign_stop:
  "reassignProcessing cd now t t' l = (r, l') \<Longrightarrow> r \<noteq> Inr False \<Longrightarrow> busyOf l' = busyOf l - {t}"
  by (cases r) (auto dest: lg.reassign_error lg.reassign_skip)

lemma busyOf_reassign_go:
  assumes "reassignProcessing cd now t t' l = (Inr False, l')" "u \<in> busyOf l'"
  shows "u = t' \<or> u \<in> busyOf l \<and> u \<noteq> t"
proof (cases "t = t'")
  case True
  with assms show ?thesis by (auto simp: reassignProcessing_def)
next
  case False
  then have "busyOf l' = (if t \<in> busyOf l then insert t' (busyOf l - {t}) else busyOf l)"
    using lg.reassign_go [OF assms(1)] by simp
  with assms(2) show ?thesis by (cases "t \<in> busyOf l") auto
qed

text \<open>Every step of a worker updates the ledger and its own program counter; what the update must respect:\<close>

lemma no_stale_upd:
  assumes "no_stale s"
    and "\<And>u. u \<in> busyOf l' \<Longrightarrow> p = Working u \<or> u \<in> busyOf (led s) \<and> pcs s i \<noteq> Working u"
    and "\<And>u. p = Working u \<or> p = Releasing u \<Longrightarrow> TrimSpace u \<noteq> []"
  shows "no_stale (s\<lparr>led := l', pcs := (pcs s)(i := p)\<rparr>)"
  unfolding no_stale_def
proof (intro conjI ballI allI impI)
  fix u
  assume "u \<in> busyOf (led (s\<lparr>led := l', pcs := (pcs s)(i := p)\<rparr>))"
  then consider "p = Working u" | "u \<in> busyOf (led s)" "pcs s i \<noteq> Working u"
    using assms(2) by auto
  then show "\<exists>j. pcs (s\<lparr>led := l', pcs := (pcs s)(i := p)\<rparr>) j = Working u"
  proof cases
    case 2
    then obtain j where "pcs s j = Working u" using assms(1) by (auto simp: no_stale_def)
    with 2 have "((pcs s)(i := p)) j = Working u" by auto
    then show ?thesis by (intro exI [of _ j]) simp
  qed auto
next
  fix j u
  assume "pcs (s\<lparr>led := l', pcs := (pcs s)(i := p)\<rparr>) j = Working u \<or>
    pcs (s\<lparr>led := l', pcs := (pcs s)(i := p)\<rparr>) j = Releasing u"
  then show "TrimSpace u \<noteq> []"
    using assms(1,3) by (cases "j = i") (auto simp: no_stale_def)
qed

lemma exclusive_upd:
  assumes "exclusive s"
    and "\<And>j u. j \<noteq> i \<Longrightarrow> pcs s j = Working u \<Longrightarrow> u \<in> busyOf l' \<and> p \<noteq> Working u"
    and "\<And>u. p = Working u \<Longrightarrow> u \<in> busyOf l' \<and> TrimSpace u \<noteq> []" and "\<And>u. p \<noteq> Releasing u"
  shows "exclusive (s\<lparr>led := l', pcs := (pcs s)(i := p)\<rparr>)"
  using assms unfolding exclusive_def by (simp add: fun_upd_def) metis

lemma working_nonblank: "no_stale s \<Longrightarrow> pcs s i = Working t \<Longrightarrow> TrimSpace t \<noteq> []"
  by (simp add: no_stale_def)

lemma no_stale_release:
  assumes "no_stale s" "pcs s i = Working t" "busyOf l' = busyOf (led s) - {t}"
  shows "no_stale (released interleave i t l' s)"
proof (cases interleave)
  case True
  have "no_stale (s\<lparr>led := l', pcs := (pcs s)(i := Releasing t)\<rparr>)"
    by (rule no_stale_upd [OF assms(1)]) (use assms working_nonblank [OF assms(1,2)] in auto)
  with True show ?thesis by (simp add: released_def)
next
  case False
  have "no_stale (s\<lparr>led := finishProcessing t l', pcs := (pcs s)(i := Idle)\<rparr>)"
    by (rule no_stale_upd [OF assms(1)])
      (use assms working_nonblank [OF assms(1,2)] in \<open>auto simp: lg.finish_busy\<close>)
  with False show ?thesis by (simp add: released_def)
qed

lemma worker_step_no_stale: "worker_step cd interleave s s' \<Longrightarrow> no_stale s \<Longrightarrow> no_stale s'"
proof (induction rule: worker_step.induct)
  case (begin_go s i t l')
  then show ?case using lg.begin_go [OF begin_go(3)] by (intro no_stale_upd) auto
next
  case (begin_stop s i r t l')
  then show ?case using busyOf_begin_stop [OF begin_stop(3,2)] by (simp add: no_stale_def)
next
  case (reassign_go s i t t' l')
  then show ?case by (intro no_stale_upd) (auto dest: busyOf_reassign_go)
next
  case (reassign_stop s i t r t' l')
  then show ?case using no_stale_release busyOf_reassign_stop by blast
next
  case (fail s i t e)
  then show ?case using no_stale_release lg.fail_busy by blast
next
  case (finish s i t)
  then show ?case
    using working_nonblank [OF finish(2,1)] by (intro no_stale_upd) (auto simp: lg.finish_busy)
next
  case (finish_late s i t)
  then have "TrimSpace t \<noteq> []" by (auto simp: no_stale_def)
  with finish_late show ?case by (intro no_stale_upd) (auto simp: lg.finish_busy)
qed (simp_all add: no_stale_def)

text \<open>A worker that gives its marker back disturbs no other worker.\<close>

lemma exclusive_others:
  "exclusive s \<Longrightarrow> pcs s i = Working t \<Longrightarrow> j \<noteq> i \<Longrightarrow> pcs s j = Working u \<Longrightarrow>
   u \<in> busyOf (led s) - {t} \<and> TrimSpace t \<noteq> []"
  unfolding exclusive_def by (metis DiffI singletonD)

lemma exclusive_release:
  assumes "exclusive s" "pcs s i = Working t" "busyOf l' = busyOf (led s) - {t}"
  shows "exclusive (released False i t l' s)"
  unfolding released_def if_False
proof (rule exclusive_upd [OF assms(1)])
  fix j u
  assume "j \<noteq> i" "pcs s j = Working u"
  from exclusive_others [OF assms(1,2) this] show "u \<in> busyOf (finishProcessing t l') \<and> Idle \<noteq> Working u"
    by (simp add: lg.finish_busy assms(3))
qed simp_all

lemma worker_step_exclusive: "worker_step cd False s s' \<Longrightarrow> exclusive s \<Longrightarrow> exclusive s'"
proof (induction rule: worker_step.induct)
  case (begin_go s i t l')
  have "u \<in> busyOf (led s)" if "pcs s j = Working u" for j u
    using that begin_go(4) by (simp add: exclusive_def)
  then show ?case using lg.begin_go [OF begin_go(3)] begin_go by (intro exclusive_upd) auto
next
  case (begin_stop s i r t l')
  then show ?case using busyOf_begin_stop [OF begin_stop(3,2)] by (simp add: exclusive_def)
next
  case (reassign_go s i t t' l')
  have "t \<in> busyOf (led s)" using reassign_go(1,4) by (simp add: exclusive_def)
  then show ?case
    using lg.reassign_go [OF reassign_go(3)] exclusive_others [OF reassign_go(4,1)] reassign_go
    by (intro exclusive_upd) (auto, blast?)
next
  case (reassign_stop s i t r t' l')
  then show ?case using exclusive_release busyOf_reassign_stop by blast
next
  case (fail s i t e)
  then show ?case using exclusive_release lg.fail_busy by blast
next
  case (finish s i t)
  have "u \<in> busyOf (finishProcessing t (led s))" if "j \<noteq> i" "pcs s j = Working u" for j u
    using exclusive_others [OF finish(2,1) that] by (simp add: lg.finish_busy)
  with finish show ?case by (intro exclusive_upd) auto
next
  case (finish_late s i t)
  then show ?case by (auto simp: exclusive_def)
qed (simp_all add: exclusive_def)

lemma initSys_invariants: "no_stale (initSys t0)" "exclusive (initSys t0)"
  by (simp_all add: no_stale_def exclusive_def initSys_def emptyLedger_def busyOf_def)

section \<open>Properties\<close>

text \<open>
  Property C11. No target stays locked: in every reachable state of the concurrent machine, whatever the
  interleaving, a target is marked as in flight only while some worker is working on it.
\<close>

theorem no_stale_marker:
  assumes "worker_reach cd interleave s" and "t |\<in>| pushed (led s)"
  shows "\<exists>i. pcs s i = Working t"
proof -
  from assms(1) have "no_stale s"
    by (induction rule: worker_reach.induct) (auto intro: initSys_invariants worker_step_no_stale)
  with assms(2) show ?thesis by (auto simp: no_stale_def busyOf_def)
qed

definition oneWorker :: sys where
  "oneWorker = (initSys 0)\<lparr>led := emptyLedger\<lparr>pushed := {|''r/app:1''|}\<rparr>,
     pcs := (\<lambda>_. Idle)(0 := Working ''r/app:1'')\<rparr>"

lemma target_nonblank: "TrimSpace ''r/app:1'' \<noteq> []"
  by (simp add: TrimSpace_eq_Nil_iff isSpace_def)

lemma oneWorker_reach: "worker_reach cd interleave oneWorker"
proof -
  have "worker_step cd interleave (initSys 0) oneWorker"
    using begin_go [of "initSys 0" 0 "''r/app:1''" cd "emptyLedger\<lparr>pushed := {|''r/app:1''|}\<rparr>"]
      target_nonblank
    by (simp add: oneWorker_def initSys_def beginProcessing_def emptyLedger_def)
  then show ?thesis using worker_reach.start worker_reach.step by blast
qed

theorem no_stale_marker_witness:
  "worker_reach 0 True oneWorker \<and> ''r/app:1'' |\<in>| pushed (led oneWorker)
   \<and> (\<exists>i. pcs oneWorker i = Working ''r/app:1'')"
  using no_stale_marker [OF oneWorker_reach [of 0 True], of "''r/app:1''"] oneWorker_reach
  by (simp add: oneWorker_def)

text \<open>
  Property C16. One worker per target, provided that the deferred \<open>finishProcessing\<close> runs before any other
  worker takes a step: then no two workers ever work on the same target.
\<close>

theorem mutual_exclusion_atomic_release:
  assumes "worker_reach cd False s" and "pcs s i = Working t" and "pcs s j = Working t"
  shows "i = j"
proof -
  from assms(1) have "exclusive s"
    by (induction rule: worker_reach.induct) (auto intro: initSys_invariants worker_step_exclusive)
  with assms(2,3) show ?thesis by (auto simp: exclusive_def)
qed

theorem mutual_exclusion_atomic_release_witness:
  "worker_reach 0 False oneWorker \<and> pcs oneWorker 0 = Working ''r/app:1'' \<and> (0::nat) = 0"
  using mutual_exclusion_atomic_release [OF oneWorker_reach [of 0], of 0 "''r/app:1''" 0] oneWorker_reach
  by (simp add: oneWorker_def)

lemma fail_then_reset:
  "snd (ResetCooldown cd (snd (failureResult cd now t e (emptyLedger\<lparr>pushed := {|t|}\<rparr>)))) = emptyLedger"
proof (cases "cd > 0")
  case True
  then show ?thesis
    by (intro ledger.equality)
      (simp_all add: ResetCooldown_failed, simp_all add: failureResult_def emptyLedger_def Let_def)
next
  case False
  then show ?thesis by (simp add: ResetCooldown_def failureResult_def emptyLedger_def Let_def)
qed

lemma begin_from_empty:
  "pcs s i = Idle \<Longrightarrow> led s = emptyLedger \<Longrightarrow> TrimSpace t \<noteq> [] \<Longrightarrow>
   worker_step cd b s (s\<lparr>led := emptyLedger\<lparr>pushed := {|t|}\<rparr>, pcs := (pcs s)(i := Working t)\<rparr>)"
  by (rule begin_go) (simp_all add: beginProcessing_def emptyLedger_def Let_def)

text \<open>
  Property C2. The deferred call can unlock a target somebody else has locked: for every cooldown setting
  the machine as the code interleaves it reaches a state in which two workers work on the same target.
  One worker fails and gives the marker back, a second one takes it, the deferred \<open>finishProcessing\<close> of
  the first removes the second one's marker, and a third worker begins.
\<close>

theorem mutual_exclusion_violated:
  "\<exists>s. worker_reach cd True s \<and> (\<exists>i j t. i \<noteq> j \<and> pcs s i = Working t \<and> pcs s j = Working t)"
proof -
  let ?t = "''r/app:1''" and ?busy = "emptyLedger\<lparr>pushed := {|''r/app:1''|}\<rparr>"
  define s2 where "s2 = released True 0 ?t (snd (failureResult cd 0 ?t EOF ?busy)) oneWorker"
  define s3 where "s3 = s2\<lparr>led := emptyLedger\<rparr>"
  define s4 where "s4 = s3\<lparr>led := ?busy, pcs := (pcs s3)(1 := Working ?t)\<rparr>"
  define s5 where "s5 = s4\<lparr>led := emptyLedger, pcs := (pcs s4)(0 := Idle)\<rparr>"
  define s6 where "s6 = s5\<lparr>led := ?busy, pcs := (pcs s5)(2 := Working ?t)\<rparr>"
  have one: "pcs oneWorker 0 = Working ?t" "led oneWorker = ?busy" "clock oneWorker = 0"
    by (simp_all add: oneWorker_def initSys_def)
  have "worker_step cd True oneWorker s2"
    unfolding s2_def using fail [of oneWorker 0 ?t cd True EOF] one by simp
  then have r2: "worker_reach cd True s2" using oneWorker_reach worker_reach.step by blast
  have "worker_step cd True s2 s3"
    using reset [of cd True s2] fail_then_reset [of cd 0 ?t EOF] by (simp add: s2_def s3_def released_def)
  then have r3: "worker_reach cd True s3" using r2 worker_reach.step by blast
  have pcs3: "pcs s3 = (\<lambda>_. Idle)(0 := Releasing ?t)"
    by (simp add: s3_def s2_def released_def oneWorker_def)
  have "worker_step cd True s3 s4"
    unfolding s4_def by (rule begin_from_empty) (simp_all add: pcs3 target_nonblank, simp add: s3_def)
  then have r4: "worker_reach cd True s4" using r3 worker_reach.step by blast
  have "finishProcessing ?t (led s4) = emptyLedger"
    using target_nonblank by (simp add: s4_def finishProcessing_def emptyLedger_def)
  then have "worker_step cd True s4 s5"
    using finish_late [of s4 0 ?t cd True] by (simp add: s5_def s4_def pcs3)
  then have r5: "worker_reach cd True s5" using r4 worker_reach.step by blast
  have "worker_step cd True s5 s6"
    unfolding s6_def
    by (rule begin_from_empty) (simp_all add: s5_def s4_def pcs3 target_nonblank)
  then have "worker_reach cd True s6" using r5 worker_reach.step by blast
  moreover have "pcs s6 1 = Working ?t" "pcs s6 2 = Working ?t"
    by (simp_all add: s6_def s5_def s4_def pcs3)
  moreover have "(1::nat) \<noteq> 2" by simp
  ultimately show ?thesis by blast
qed

end
