(* ===== verification/MirrorWorker.thy ===== *)
theory MirrorWorker
  imports MirrorProps Workers
begin

text \<open>
  The workers of theory \<open>Workers\<close> are those of the code: every call of \<open>Mirror\<close>, from its first to its last
  critical section, is a run of one idle worker of the machine back to idleness. The run is built along the
  text of \<open>Mirror\<close>, as one more exit condition of the locale \<open>mirror_exits\<close>.
\<close>

section \<open>Steps of one worker\<close>



text \<open>The machine \<open>y\<close> with its worker \<open>i\<close> at a point, the ledger and the clock given.\<close>

definition placed :: "sys \<Rightarrow> nat \<Rightarrow> wpc \<Rightarrow> ledger \<Rightarrow> time \<Rightarrow> sys" where
  "placed y i pc l c = y\<lparr>led := l, clock := c, pcs := (pcs y)(i := pc)\<rparr>"

lemma placed_sel [simp]:
  "led (placed y i pc l c) = l" "clock (placed y i pc l c) = c" "pcs (placed y i pc l c) = (pcs y)(i := pc)"
  by (simp_all add: placed_def)

lemma placed_upd [simp]:
  "(placed y i pc l c)\<lparr>pcs := (pcs y)(i := pc')\<rparr> = placed y i pc' l c"
  "(placed y i pc l c)\<lparr>led := l'\<rparr> = placed y i pc l' c"
  "(placed y i pc l c)\<lparr>clock := c'\<rparr> = placed y i pc l c'"
  by (simp_all add: placed_def)







section \<open>The body of Mirror as a run\<close>




section \<open>Property\<close>



end
