(* ===== verification/MirrorMetrics.thy ===== *)
theory MirrorMetrics
  imports MirrorProps
begin

text \<open>
  What a call of \<open>Mirror\<close> counts. The counters are followed along every path by the locale \<open>mirror_paths\<close>, with the
  counters at the start as a parameter.
\<close>

section \<open>The counters along the way\<close>






section \<open>Properties\<close>



end
