(* ===== verification/Progress.thy ===== *)
theory Progress
  imports Complex_Main Retry
begin

text \<open>
  What \<open>internal/mirror/pusher.go\<close> writes to the log during an upload: \<open>logProgressUpdates\<close>, which reads the
  channel of updates of a write until it is closed, and \<open>logRegistryAuthError\<close>.

  The channel is the list of updates sent on it. The percentage is computed in \<open>float64\<close>; that
  computation is the argument \<open>percent\<close>, so what is shown holds for every rounding. The thresholds 10, 20 up
  to 100 are exact in \<open>float64\<close> and are integers here. An entry is its kind, percentage and bytes; the name of the
  operation, which only prefixes the message and is always \<open>push\<close>, is left out.
\<close>

section \<open>Definitions\<close>

record update =
  Total :: int
  Complete :: int
  UpdateError :: "goerror option"

datatype progressEntry =
    ProgressError goerror
  | ProgressAt int "(int \<times> int) option"

text \<open>The inner loop: every threshold below 100 that the percentage has reached.\<close>

function logThresholds :: "rat \<Rightarrow> update \<Rightarrow> int \<Rightarrow> progressEntry list \<times> int" where
  "logThresholds percent u nextThreshold =
     (if percent \<ge> of_int nextThreshold \<and> nextThreshold < 100
      then (let (es, n) = logThresholds percent u (nextThreshold + 10)
            in (ProgressAt nextThreshold (Some (Complete u, Total u)) # es, n))
      else ([], nextThreshold))"
  by pat_completeness auto

termination logThresholds
  by (relation "measure (\<lambda>(percent, u, n). nat (100 - n))") auto

declare logThresholds.simps [simp del]

text \<open>The outer loop with \<open>nextThreshold\<close>, \<open>loggedFinal\<close> and \<open>failed\<close>.\<close>

fun progressLoop :: "(int \<Rightarrow> int \<Rightarrow> rat) \<Rightarrow> update list \<Rightarrow> int \<Rightarrow> bool \<Rightarrow> bool \<Rightarrow> progressEntry list" where
  "progressLoop percent [] nextThreshold loggedFinal failed =
     (if \<not> failed \<and> \<not> loggedFinal then [ProgressAt 100 None] else [])"
| "progressLoop percent (u # us) nextThreshold loggedFinal failed =
     (case UpdateError u of
        Some e \<Rightarrow> ProgressError e # progressLoop percent us nextThreshold loggedFinal True
      | None \<Rightarrow>
          if Total u \<le> 0 then progressLoop percent us nextThreshold loggedFinal failed
          else (let p = percent (Complete u) (Total u);
                    (es, n) = logThresholds p u nextThreshold
                in if p \<ge> 100 \<and> \<not> loggedFinal
                   then es @ ProgressAt 100 (Some (Complete u, Total u)) # progressLoop percent us n True failed
                   else es @ progressLoop percent us n loggedFinal failed))"

definition logProgressUpdates :: "(int \<Rightarrow> int \<Rightarrow> rat) \<Rightarrow> update list \<Rightarrow> progressEntry list" where
  "logProgressUpdates percent updates = progressLoop percent updates 10 False False"

text \<open>
  The entry of \<open>logRegistryAuthError\<close>: the error, the message, the status code, and the details when there are any.
\<close>

record authLogEntry =
  al_error :: goerror
  al_message :: string
  al_statusCode :: int
  al_details :: "diagnostic list option"

definition logRegistryAuthError :: "goerror \<Rightarrow> string \<Rightarrow> authLogEntry option" where
  "logRegistryAuthError e phase =
     (case detectRegistryAuthError e of
        None \<Rightarrow> None
      | Some (code, ds) \<Rightarrow>
          Some \<lparr>al_error = e, al_message = ''registry authentication failed during '' @ phase, al_statusCode = code,
                al_details = (if length ds > 0 then Some ds else None)\<rparr>)"

section \<open>Facts\<close>

text \<open>The percentages of a log, in order, and its errors.\<close>

definition percentagesOf :: "progressEntry list \<Rightarrow> int list" where
  "percentagesOf es = List.map_filter (\<lambda>e. case e of ProgressAt k _ \<Rightarrow> Some k | ProgressError _ \<Rightarrow> None) es"

definition progressErrors :: "progressEntry list \<Rightarrow> goerror list" where
  "progressErrors es = List.map_filter (\<lambda>e. case e of ProgressError x \<Rightarrow> Some x | ProgressAt _ _ \<Rightarrow> None) es"

lemma percentagesOf_simps [simp]:
  "percentagesOf [] = []" "percentagesOf (ProgressAt k b # es) = k # percentagesOf es"
  "percentagesOf (ProgressError x # es) = percentagesOf es"
  "percentagesOf (es @ fs) = percentagesOf es @ percentagesOf fs"
  by (simp_all add: percentagesOf_def map_filter_simps List.map_filter_def)

lemma progressErrors_simps [simp]:
  "progressErrors [] = []" "progressErrors (ProgressAt k b # es) = progressErrors es"
  "progressErrors (ProgressError x # es) = x # progressErrors es"
  "progressErrors (es @ fs) = progressErrors es @ progressErrors fs"
  by (simp_all add: progressErrors_def map_filter_simps List.map_filter_def)

lemma map_filter_Nil: "List.map_filter f xs = [] \<longleftrightarrow> (\<forall>x \<in> set xs. f x = None)"
  by (auto simp: List.map_filter_def filter_empty_conv)

text \<open>The percentage an update reports, if it reports one.\<close>

definition reports :: "(int \<Rightarrow> int \<Rightarrow> rat) \<Rightarrow> update \<Rightarrow> rat \<Rightarrow> bool" where
  "reports percent u k \<longleftrightarrow> UpdateError u = None \<and> Total u > 0 \<and> percent (Complete u) (Total u) \<ge> k"

definition stepsBelow :: "int set" where
  "stepsBelow = {10, 20, 30, 40, 50, 60, 70, 80, 90}"

definition thresholds :: "int set" where
  "thresholds = insert 100 stepsBelow"

lemma thresholds_next: "n \<in> thresholds \<Longrightarrow> n < 100 \<Longrightarrow> n + 10 \<in> thresholds \<and> n \<in> stepsBelow"
  by (auto simp: thresholds_def stepsBelow_def)

lemma stepsBelow_iff: "k \<in> stepsBelow \<longleftrightarrow> k \<in> thresholds \<and> k < 100"
  by (auto simp: thresholds_def stepsBelow_def)

lemma thresholds_gap: "k \<in> thresholds \<Longrightarrow> n \<in> thresholds \<Longrightarrow> k < n + 10 \<Longrightarrow> k \<le> n"
  by (auto simp: thresholds_def stepsBelow_def)

lemma logThresholds_spec:
  assumes "logThresholds p u n = (es, n')" "n \<in> thresholds"
  shows "progressErrors es = []" and "n' \<in> thresholds" and "n \<le> n'"
    and "sorted_wrt (<) (percentagesOf es)"
    and "set (percentagesOf es) = {k \<in> thresholds. n \<le> k \<and> k < n'}"
    and "\<And>k. k \<in> stepsBelow \<Longrightarrow> n \<le> k \<Longrightarrow> k < n' \<longleftrightarrow> p \<ge> of_int k"
proof -
  have "progressErrors es = [] \<and> n' \<in> thresholds \<and> n \<le> n' \<and> sorted_wrt (<) (percentagesOf es)
    \<and> set (percentagesOf es) = {k \<in> thresholds. n \<le> k \<and> k < n'}
    \<and> (\<forall>k \<in> stepsBelow. n \<le> k \<longrightarrow> k < n' \<longleftrightarrow> p \<ge> of_int k)"
    using assms
  proof (induction p u n arbitrary: es n' rule: logThresholds.induct)
    case (1 p u n)
    show ?case
    proof (cases "p \<ge> of_int n \<and> n < 100")
      case True
      then obtain fs where fs: "logThresholds p u (n + 10) = (fs, n')"
        and es: "es = ProgressAt n (Some (Complete u, Total u)) # fs"
        using 1(2) by (auto simp: logThresholds.simps [of p u n] Let_def split: prod.splits)
      have next_t: "n + 10 \<in> thresholds" using thresholds_next 1(3) True by blast
      note ih = 1(1) [OF True fs next_t]
      have "{k \<in> thresholds. n \<le> k \<and> k < n'} = insert n {k \<in> thresholds. n + 10 \<le> k \<and> k < n'}"
        using ih 1(3) thresholds_gap [OF _ 1(3)] by force
      moreover have "k < n' \<longleftrightarrow> p \<ge> of_int k" if "k \<in> stepsBelow" "n \<le> k" for k
      proof (cases "n + 10 \<le> k")
        case False
        with that thresholds_gap [OF _ 1(3), of k] have "k = n" by (simp add: stepsBelow_iff)
        with ih True show ?thesis by simp
      qed (use ih that in blast)
      ultimately show ?thesis using ih es by (auto simp: sorted_wrt_append)
    next
      case False
      then have "es = []" "n' = n" using 1(2) by (auto simp: logThresholds.simps [of p u n])
      moreover have "\<not> p \<ge> of_int k" if "k \<in> stepsBelow" "n \<le> k" for k
      proof
        assume "of_int k \<le> p"
        moreover have "(of_int n :: rat) \<le> of_int k" using that by simp
        ultimately have "of_int n \<le> p" by linarith
        with False that show False by (simp add: stepsBelow_iff)
      qed
      ultimately show ?thesis using 1(3) by auto
    qed
  qed
  then show "progressErrors es = []" and "n' \<in> thresholds" and "n \<le> n'" and "sorted_wrt (<) (percentagesOf es)"
    and "set (percentagesOf es) = {k \<in> thresholds. n \<le> k \<and> k < n'}"
    and "\<And>k. k \<in> stepsBelow \<Longrightarrow> n \<le> k \<Longrightarrow> k < n' \<longleftrightarrow> p \<ge> of_int k" by blast+
qed

text \<open>The percentages owed from some point of the channel on.\<close>

definition owedMarks :: "(int \<Rightarrow> int \<Rightarrow> rat) \<Rightarrow> update list \<Rightarrow> int \<Rightarrow> bool \<Rightarrow> bool \<Rightarrow> int set" where
  "owedMarks percent us n loggedFinal failed =
     {k \<in> stepsBelow. n \<le> k \<and> (\<exists>u \<in> set us. reports percent u (of_int k))}
     \<union> {k. k = 100 \<and> \<not> loggedFinal
          \<and> ((\<exists>u \<in> set us. reports percent u 100) \<or> \<not> failed \<and> (\<forall>u \<in> set us. UpdateError u = None))}"

lemma progressLoop_errors:
  assumes "n \<in> thresholds"
  shows "progressErrors (progressLoop percent us n loggedFinal failed) = List.map_filter UpdateError us"
  using assms
proof (induction us arbitrary: n loggedFinal failed)
  case (Cons u us)
  obtain es n' where t: "logThresholds (percent (Complete u) (Total u)) u n = (es, n')" by fastforce
  note spec = logThresholds_spec [OF t Cons.prems]
  from Cons.IH [OF Cons.prems] Cons.IH [OF spec(2)] spec(1) t show ?case
    by (auto simp: map_filter_simps Let_def split: option.split)
qed (simp add: map_filter_simps)

lemma reached_all:
  assumes "logThresholds p u n = (es, n')" "n \<in> thresholds" "p \<ge> 100"
  shows "n' = 100"
proof (rule ccontr)
  note spec = logThresholds_spec [OF assms(1,2)]
  assume "n' \<noteq> 100"
  with spec(2) have step: "n' \<in> stepsBelow" by (simp add: thresholds_def)
  then have "n' \<le> 100" by (auto simp: stepsBelow_def)
  then have "(of_int n' :: rat) \<le> of_int 100" by (simp only: of_int_le_iff)
  with assms(3) have "p \<ge> of_int n'" by simp
  with spec(6) [OF step spec(3)] show False by simp
qed

lemma owedMarks_bounds: "k \<in> owedMarks percent us n loggedFinal failed \<Longrightarrow> n \<le> k \<or> k = 100"
  by (auto simp: owedMarks_def)

lemma owedMarks_final: "owedMarks percent us 100 True failed = {}"
  by (auto simp: owedMarks_def stepsBelow_def)

text \<open>One update that reports a percentage.\<close>

lemma owedMarks_step:
  assumes "UpdateError u = None" "Total u > 0" "n \<in> thresholds" "loggedFinal \<longrightarrow> n = 100"
    and "logThresholds (percent (Complete u) (Total u)) u n = (es, n')"
  shows "owedMarks percent (u # us) n loggedFinal failed =
    {k \<in> thresholds. n \<le> k \<and> k < n'}
    \<union> (if percent (Complete u) (Total u) \<ge> 100 \<and> \<not> loggedFinal then {100}
       else owedMarks percent us n' loggedFinal failed)"
proof -
  let ?p = "percent (Complete u) (Total u)"
  note spec = logThresholds_spec [OF assms(5,3)]
  have rep: "reports percent u k \<longleftrightarrow> k \<le> ?p" for k using assms(1,2) by (simp add: reports_def)
  have le: "n' \<le> 100" using spec(2) by (auto simp: thresholds_def stepsBelow_def)
  have below: "{k \<in> stepsBelow. n \<le> k \<and> (\<exists>v \<in> set (u # us). reports percent v (of_int k))} =
      {k \<in> thresholds. n \<le> k \<and> k < n'} \<union> {k \<in> stepsBelow. n' \<le> k \<and> (\<exists>v \<in> set us. reports percent v (of_int k))}"
  proof (intro set_eqI)
    fix k
    have "k \<in> stepsBelow \<Longrightarrow> n \<le> k \<Longrightarrow> (k < n') = (of_int k \<le> ?p)" by (rule spec(6))
    then show "k \<in> {k \<in> stepsBelow. n \<le> k \<and> (\<exists>v \<in> set (u # us). reports percent v (of_int k))} \<longleftrightarrow>
        k \<in> {k \<in> thresholds. n \<le> k \<and> k < n'} \<union> {k \<in> stepsBelow. n' \<le> k \<and> (\<exists>v \<in> set us. reports percent v (of_int k))}"
      using spec(3) le by (auto simp: rep stepsBelow_iff)
  qed
  show ?thesis
  proof (cases "?p \<ge> 100 \<and> \<not> loggedFinal")
    case True
    then have "n' = 100" using reached_all [OF assms(5,3)] by simp
    then have "{k \<in> stepsBelow. n' \<le> k \<and> (\<exists>v \<in> set us. reports percent v (of_int k))} = {}"
      by (auto simp: stepsBelow_def)
    with True show ?thesis unfolding owedMarks_def below by (auto simp: rep)
  next
    case False
    then show ?thesis unfolding owedMarks_def below using assms(1) by (auto simp: rep)
  qed
qed

lemma progressLoop_marks:
  assumes "n \<in> thresholds" "loggedFinal \<longrightarrow> n = 100"
  shows "set (percentagesOf (progressLoop percent us n loggedFinal failed)) = owedMarks percent us n loggedFinal failed
    \<and> sorted_wrt (<) (percentagesOf (progressLoop percent us n loggedFinal failed))"
  using assms
proof (induction us arbitrary: n loggedFinal failed)
  case Nil
  then show ?case by (auto simp: owedMarks_def)
next
  case (Cons u us)
  show ?case
  proof (cases "UpdateError u = None \<and> Total u > 0")
    case False
    then have "owedMarks percent (u # us) n loggedFinal failed
        = owedMarks percent us n loggedFinal (failed \<or> UpdateError u \<noteq> None)"
      by (auto simp: owedMarks_def reports_def)
    with False Cons.IH [OF Cons.prems] show ?thesis by (cases "UpdateError u") auto
  next
    case True
    obtain es n' where t: "logThresholds (percent (Complete u) (Total u)) u n = (es, n')" by fastforce
    note spec = logThresholds_spec [OF t Cons.prems(1)]
    note step = owedMarks_step [of u n loggedFinal percent es n', OF True [THEN conjunct1] True [THEN conjunct2] Cons.prems t]
    have le: "n' \<le> 100" using spec(2) by (auto simp: thresholds_def stepsBelow_def)
    show ?thesis
    proof (cases "percent (Complete u) (Total u) \<ge> 100 \<and> \<not> loggedFinal")
      case final: True
      then have "n' = 100" using reached_all [OF t Cons.prems(1)] by simp
      with Cons.IH [OF spec(2), of True failed] have "percentagesOf (progressLoop percent us n' True failed) = []"
        by (simp add: owedMarks_final)
      with True final t spec(4,5) step le show ?thesis
        by (auto simp: Let_def sorted_wrt_append)
    next
      case more': False
      have "loggedFinal \<longrightarrow> n' = 100" using Cons.prems(2) spec(3) le by auto
      note ih = Cons.IH [OF spec(2) this, of failed]
      from ih owedMarks_bounds have "k < n' \<Longrightarrow> j \<in> set (percentagesOf (progressLoop percent us n' loggedFinal failed)) \<Longrightarrow> k < j" for k j
        using le by fastforce
      with True more' t spec(4,5) step ih show ?thesis
        by (cases loggedFinal) (simp_all add: Let_def sorted_wrt_append)
    qed
  qed
qed

section \<open>Properties\<close>

text \<open>
  The progress log of an upload is exact. The percentages appear in strictly increasing order, so
  each at most once; a step of ten below 100 appears exactly when some update reached it, however many steps an
  update jumps over; 100 appears exactly when it was reached or when the upload ended without any error; and
  every error of the channel is logged, in order.
\<close>

lemma logProgressUpdates_spec:
  "sorted_wrt (<) (percentagesOf (logProgressUpdates percent us))
   \<and> set (percentagesOf (logProgressUpdates percent us)) =
       {k \<in> stepsBelow. \<exists>u \<in> set us. reports percent u (of_int k)}
       \<union> {k. k = 100 \<and> ((\<exists>u \<in> set us. reports percent u 100) \<or> List.map_filter UpdateError us = [])}
   \<and> progressErrors (logProgressUpdates percent us) = List.map_filter UpdateError us"
proof -
  have ten: "10 \<in> thresholds" and low: "\<And>k. k \<in> stepsBelow \<Longrightarrow> 10 \<le> k" by (auto simp: thresholds_def stepsBelow_def)
  from progressLoop_marks [OF ten, of False percent us False] progressLoop_errors [OF ten, of percent us False False] low
  show ?thesis by (auto simp: logProgressUpdates_def owedMarks_def map_filter_Nil)
qed

text \<open>
  A log entry about authentication is written exactly for the errors that are authentication
  errors, and carries the status code and the diagnostics.
\<close>

lemma logRegistryAuthError_spec:
  "logRegistryAuthError e phase = map_option (\<lambda>(code, ds).
     \<lparr>al_error = e, al_message = ''registry authentication failed during '' @ phase, al_statusCode = code,
      al_details = (if ds = [] then None else Some ds)\<rparr>) (detectRegistryAuthError e)"
  by (simp add: logRegistryAuthError_def split: option.split)

end
