(* ===== verification/Spec2Isabelle.thy ===== *)
theory Spec2Isabelle
  imports SystemRun LedgerSpec MissingPlatforms MirrorWorker MirrorMetrics Progress
begin

text \<open>
  k8s-copycat watches the workloads of a Kubernetes cluster and copies the container images they use to a
  target registry. This development models the program in full, apart from the parts listed under
  ``Not modelled'', and proves what makes it correct.

  \<^bold>\<open>How the program is put together.\<close> \<open>cmd/manager\<close> reads the configuration, checks the configured namespaces
  against the cluster, builds one pusher and one controller per watched kind of object, and serves two
  endpoints that reset the failure cooldown and start a forced run. A controller
  (\<open>internal/controllers\<close>) decides whether an object is looked at, takes the images out of its pod
  template or pod (\<open>pkg/util/images.go\<close>) and hands each to \<open>Mirror\<close> of the pusher (\<open>internal/mirror\<close>). \<open>Mirror\<close>
  works out the target reference (path rules of \<open>pkg/util/path.go\<close>, repository prefix, cleaned name),
  takes the target in the ledger of targets in flight, inspects source and target, selects an image or an
  index for the wanted platforms, and pushes it with retries; an error puts the target into a cooldown.
  The target registry is ECR or a plain registry (\<open>internal/registry\<close>). Counters of
  \<open>pkg/metrics\<close> are kept on the way.

  \<^bold>\<open>Theories and sources.\<close>

  \<^item> \<open>Prelude\<close>, \<open>GoStrings\<close>, \<open>GoErrors\<close>, \<open>Flow\<close>, \<open>Glob\<close>, \<open>Sha1\<close>: the ground. Rule collections and generic facts on
    lists; the functions of \<open>strings\<close>, \<open>strconv\<close> and \<open>sort\<close> that the sources use; error values with their chains
    and texts (\<open>errors.Is\<close>, \<open>errors.As\<close>, \<open>errors.Join\<close>, and \<open>RetryError\<close> of the pusher); straight-line Go
    code with early returns and panics, with triples; \<open>path.Match\<close>; \<open>crypto/sha1\<close> on 32-bit words.

  \<^item> \<open>Images\<close> (\<open>pkg/util/images.go\<close>), \<open>PathMap\<close> (\<open>pkg/util/path.go\<close>), \<open>Metrics\<close> (\<open>pkg/metrics/metrics.go\<close>).

  \<^item> \<open>internal/mirror/pusher.go\<close>, by its parts: \<open>RepoPath\<close> (\<open>expandRepoPrefix\<close>, \<open>resolveRepoPath\<close>), \<open>Exclusion\<close>
    (\<open>normalizeImageReference\<close>, \<open>matchExcludedRegistry\<close>), \<open>Retry\<close> (\<open>withRetry\<close> and the classification of errors),
    \<open>Ledger\<close> (\<open>beginProcessing\<close>, \<open>finishProcessing\<close>, \<open>reassignProcessing\<close>, \<open>failureResult\<close>, \<open>ResetCooldown\<close>; the maps
    \<open>pushed\<close> and \<open>failed\<close> are the record \<open>ledger\<close>), \<open>Platforms\<close> (platform specifications and the selection from an
    index), \<open>MissingPlatforms\<close> (the report on platforms an image lacks), \<open>Progress\<close> (\<open>logProgressUpdates\<close>,
    \<open>logRegistryAuthError\<close>), \<open>Pusher\<close> (\<open>newTransport\<close>, \<open>NewPusher\<close> and \<open>Mirror\<close>, split into stages that follow its
    text).

  \<^item> \<open>LedgerSpec\<close> states what the ledger promises without its data structures; \<open>Workers\<close> interleaves the critical
    sections of \<open>Mirror\<close> of any number of workers, and \<open>MirrorWorker\<close> shows that the real \<open>Mirror\<close> moves like one
    of them; \<open>MirrorFacts\<close> and \<open>MirrorProps\<close> hold the facts and properties of \<open>Mirror\<close>, \<open>MirrorDelivery\<close> those about
    filtered indexes, images that are present and excluded images, \<open>MirrorTraffic\<close> those about credentials
    and transports, \<open>MirrorMetrics\<close> those about the counters, \<open>Convergence\<close> those about registries that work.

  \<^item> \<open>Keychain\<close> (\<open>internal/mirror/keychain.go\<close>), \<open>Registries\<close> (\<open>internal/registry\<close>), \<open>Controllers\<close> and \<open>ControllerProps\<close>
    (\<open>internal/controllers/controllers.go\<close>), \<open>ForceRun\<close> (a forced run against the calls it owes), \<open>Credentials\<close>
    (from the configured credentials to the authenticator of a request), \<open>Namespaces\<close>, \<open>Config\<close>, \<open>Http\<close>, \<open>Flags\<close>, \<open>System\<close> (\<open>cmd/manager\<close>:
    \<open>namespaces.go\<close>; \<open>runtime_config.go\<close> with \<open>internal/config\<close>; \<open>http_handlers.go\<close>; command line and logger options of
    \<open>main.go\<close>; the rest of \<open>main.go\<close>). \<open>SystemRun\<close> puts controllers, pusher and configuration of a started program together.

  \<^bold>\<open>What lies outside.\<close> Code that is not in the repository is an argument of the definitions that use it:
  \<open>go-containerregistry\<close> (records \<open>remote\<close>, for parsing references and reading, and \<open>writer\<close>, for uploading), the
  interface \<open>registry.Target\<close> (record \<open>target\<close>), the Kubernetes client (record \<open>kube\<close>), the AWS client
  (record \<open>awsClient\<close>), package \<open>regexp\<close> (record \<open>regexpPkg\<close>), the file system and the YAML package (record
  \<open>files\<close>), the flags that libraries add to the command line (record \<open>extraFlag\<close>), the environment, and the iteration order of Go maps where it can be observed. They act on a
  world of any type that each call may change, so that nothing is assumed about what registries and
  cluster do between two calls. Where a property needs more, it is a hypothesis: \<open>honest\<close> says that a
  successful HEAD has a descriptor and that index manifests are not nil; \<open>ownersReadable\<close> that the owner
  lookups of a pod succeed; \<open>steady\<close> that all reads of the cluster succeed and do not depend on what was
  mirrored, and \<open>answersFrom\<close> says the same of the Kubernetes client; \<open>iterates\<close> that an iteration over a Go map visits its entries; \<open>healthy\<close>
  that authentication, repository creation, source and target succeed and that a push stores what it
  is given; \<open>mirrorable\<close> that the source offers an image with the digest wanted for its target; \<open>restful\<close> that no target is
  in flight or in a cooldown. The witnesses instantiate them with small concrete registries and clusters.

  \<^bold>\<open>Interfaces.\<close> \<open>processing_ledger\<close> is the contract the mirroring code has with the ledger, interpreted on the
  ledger for every cooldown and used by \<open>Workers\<close> and \<open>MirrorFacts\<close>; \<open>ledger_ops\<close> is the refinement of the
  specification. \<open>mirror_paths\<close> says what a condition on the state and the counters has to respect to hold at
  every exit of \<open>Mirror\<close>, interpreted on the counters; \<open>mirror_exits\<close>, for conditions that do not see the counters,
  gives it as a sublocale; its
  interpretations are the release of the marker, the cooldown after errors, the absence of
  panics, and the steps of a worker. \<open>lawful_pusher\<close> is the contract of the options that the pusher attaches to its
  calls, interpreted on every result of \<open>NewPusher\<close>. \<open>mirror_client\<close> says that what pusher and cluster client keep, all controllers keep; it is
  interpreted on the real pusher in \<open>System\<close>. \<open>normalizer\<close> is the contract of functions that bring values
  into a normal form.

  \<^bold>\<open>What is shown.\<close>

  \<^item> Pusher: a call gives its target back on every path, panics included, and does not panic with an honest
    client; errors carry a retry time that the ledger enforces; existing tags other than \<open>latest\<close> are protected
    when overwriting is not allowed; an image or index the target lacks is delivered, one that is there is
    not pushed again, an excluded one is not touched; a filtered index holds exactly the wanted platforms;
    a call counts exactly one error when it fails and none when it succeeds.

  \<^item> Ledger and workers: the ledger refines its specification; no marker outlives its worker; two workers
    can reach the same target because the deferred \<open>finishProcessing\<close> runs after the marker has been given back,
    and cannot when both happen at once; the machine of workers is the one the code of \<open>Mirror\<close> runs.

  \<^item> Names and platforms: target repositories are clean names of at most 256 bytes, made of the prefix template with
    its values and the outcome of the first path rule that applies; exclusions cover a registry or a path
    in it however the two are spelled; platform specifications print and parse; selection from an index and
    the wanted platforms meet their specifications. Templates (\<open>RepoPath\<close>), exclusions (\<open>Exclusion\<close>) and
    the entries of an index (\<open>Platforms\<close>) have meanings of their own that do not use the code.

  \<^item> Retries: the answer and the number of attempts for every behaviour of the operation and the context,
    cancellation during a pause included.

  \<^item> Controllers: skip lists, owners of pods, the images of an object, the reported error; a forced run makes
    exactly the calls that the selected objects of the cluster owe.

  \<^item> Configuration: every configuration that loads is well formed; namespace patterns mean what they say and
    the expansion is sound and complete; a request carries the credentials configured for its registry in every
    map order; token round trip.

  \<^item> The whole program: between events it holds no target; with a dry run, however asked for, it does not depend on
    the writer; with working registries one forced run brings every selected image to the target; the credentials
    of the target and the configured ones never travel over the wrong transport; every combination of
    flags can be given on the command line.

  \<^item> Divergences from documentation or intent are theorems as well: patterns that match no namespace open all
    namespaces, two documented keys of the configuration file have no effect, long cooldowns overflow,
    a lifecycle policy is not set again after a failure, \<open>latest\<close> is overwritten, dry pull contacts the
    source, digest pull waits for the image ID, a digest that is present keeps a new tag from being created, and a prefix
    rule of the README doubles a slash.

  \<^bold>\<open>Data and bounds.\<close> Strings are byte strings; \<open>ToLower\<close> and \<open>TrimSpace\<close> are those of ASCII, which all names in
  images, registries and Kubernetes objects are. Times and durations are integers in nanoseconds; where the
  sources multiply configured numbers into a duration, the result is reduced to 64 bits (\<open>int64\<close>). Integers
  read from text are checked for 64 bits. No definition uses fuel: the retry loop recurses over the
  number of attempts, \<open>path.Match\<close> and the other loops over their input, with termination proofs where the
  recursion is not structural.

  \<^bold>\<open>Not modelled.\<close> Log output, apart from the progress reports of a push and the entries on missing platforms and
  failed authentication; the rounding of the percentage in those reports (an argument); the registration of
  counters with Prometheus; the decoding of YAML itself; the usage text of \<open>flag.Parse\<close>; the logger behind its options; leader
  election, probes and event loop of controller-runtime (\<open>mgr.Start\<close>; what the program hands to it is modelled);
  the JSON text of the HTTP answers. Cancellation of contexts appears as an error of the call concerned.
\<close>

end
